(* ===== verification/Prelude.thy ===== *)
theory Prelude
  imports Main "HOL-Library.AList" "HOL-Library.Sublist"
begin

text \<open>
  Shared vocabulary of the development: Go strings as byte lists with the functions of the
  packages \<open>strings\<close> and \<open>strconv\<close> that the repository calls, Go maps as maps from
  strings, JSON-like values for the manifests, and the collection \<open>gostr\<close> of
  simplification rules about them. A Go string is a sequence of bytes, and so is an Isabelle
  \<open>string\<close>: indexing, slicing and \<open>len\<close> agree. Functions of the library that look at
  Unicode code points (\<open>TrimSpace\<close>, \<open>ToLower\<close>) are modelled on their ASCII range.
\<close>

named_theorems gostr \<open>facts about Go strings\<close>

type_synonym gostring = string

subsection \<open>Newlines, spaces and decimal numbers\<close>

abbreviation nl :: char where "nl \<equiv> CHR 0x0A"

definition is_space :: "char \<Rightarrow> bool" where
  "is_space c \<longleftrightarrow> c \<in> {CHR 0x09, CHR 0x0A, CHR 0x0B, CHR 0x0C, CHR 0x0D, CHR 0x20}"

definition digit :: "nat \<Rightarrow> char" where
  "digit d = char_of (48 + d)"

fun nat_str :: "nat \<Rightarrow> gostring" where
  "nat_str n = (if n < 10 then [digit n] else nat_str (n div 10) @ [digit (n mod 10)])"

declare nat_str.simps [simp del]

definition int_str :: "int \<Rightarrow> gostring" where
  "int_str i = (if i < 0 then ''-'' @ nat_str (nat (- i)) else nat_str (nat i))"

fun str_val :: "nat \<Rightarrow> gostring \<Rightarrow> nat" where
  "str_val acc [] = acc"
| "str_val acc (c # cs) = str_val (10 * acc + (of_char c - 48)) cs"

definition is_digit :: "char \<Rightarrow> bool" where
  "is_digit c \<longleftrightarrow> 48 \<le> (of_char c :: nat) \<and> (of_char c :: nat) \<le> 57"

lemma digits:
  "digit 0 = CHR ''0''" "digit (Suc 0) = CHR ''1''" "digit 1 = CHR ''1''" "digit 2 = CHR ''2''"
  "digit 3 = CHR ''3''" "digit 4 = CHR ''4''" "digit 5 = CHR ''5''" "digit 6 = CHR ''6''"
  "digit 7 = CHR ''7''" "digit 8 = CHR ''8''" "digit 9 = CHR ''9''"
  by code_simp+

lemma of_char_digit: "d < 10 \<Longrightarrow> (of_char (digit d) :: nat) = 48 + d"
  by (simp add: digit_def)

lemma is_digit_digit: "d < 10 \<Longrightarrow> is_digit (digit d)"
  by (simp add: is_digit_def of_char_digit)

lemma str_val_append: "str_val acc (xs @ ys) = str_val (str_val acc xs) ys"
  by (induction acc xs rule: str_val.induct) auto

lemma str_val_nat_str: "str_val 0 (nat_str n) = n"
proof (induction n rule: nat_str.induct)
  case (1 n)
  show ?case
  proof (cases "n < 10")
    case True
    then show ?thesis by (simp add: nat_str.simps [of n] of_char_digit)
  next
    case False
    then show ?thesis using 1
      by (simp add: nat_str.simps [of n] str_val_append of_char_digit)
  qed
qed

lemma nat_str_inj [gostr]: "nat_str m = nat_str n \<longleftrightarrow> m = n"
  by (metis str_val_nat_str)

lemma nat_str_nonempty [simp]: "nat_str n \<noteq> []"
  by (simp add: nat_str.simps [of n])

lemma nat_str_digits: "c \<in> set (nat_str n) \<Longrightarrow> is_digit c"
proof (induction n rule: nat_str.induct)
  case (1 n)
  then show ?case
    by (cases "n < 10") (auto simp: nat_str.simps [of n] is_digit_digit)
qed

text \<open>A number followed by something that is not a digit can be read back.\<close>

lemma nat_str_sep:
  assumes "\<not> is_digit c"
  shows "nat_str m @ c # s = nat_str n @ c # t \<longleftrightarrow> m = n \<and> s = t"
proof
  assume eq: "nat_str m @ c # s = nat_str n @ c # t"
  have tw: "takeWhile is_digit (nat_str k @ c # u) = nat_str k" for k u
    using assms by (simp add: takeWhile_append nat_str_digits)
  from arg_cong [OF eq, of "takeWhile is_digit"] have "nat_str m = nat_str n" by (simp only: tw)
  with eq show "m = n \<and> s = t" by (simp add: nat_str_inj)
qed simp

lemma is_digit_minus: "\<not> is_digit (CHR ''-'')"
  by (simp add: is_digit_def)

lemma int_str_inj [gostr]: "int_str i = int_str j \<longleftrightarrow> i = j"
proof -
  have neg: "nat_str m \<noteq> CHR ''-'' # s" for m s
    using nat_str_digits [of "CHR ''-''" m] is_digit_minus by auto
  then show ?thesis
    by (auto simp: int_str_def nat_str_inj) (metis neg)+
qed

subsection \<open>The package \<open>strings\<close>\<close>

definition HasPrefix :: "gostring \<Rightarrow> gostring \<Rightarrow> bool" where
  "HasPrefix s p \<longleftrightarrow> take (length p) s = p"

definition HasSuffix :: "gostring \<Rightarrow> gostring \<Rightarrow> bool" where
  "HasSuffix s p \<longleftrightarrow> length p \<le> length s \<and> drop (length s - length p) s = p"

fun Contains :: "gostring \<Rightarrow> gostring \<Rightarrow> bool" where
  "Contains [] sub = (sub = [])"
| "Contains (c # cs) sub = (HasPrefix (c # cs) sub \<or> Contains cs sub)"

definition TrimPrefix :: "gostring \<Rightarrow> gostring \<Rightarrow> gostring" where
  "TrimPrefix s p = (if HasPrefix s p then drop (length p) s else s)"

definition TrimSuffix :: "gostring \<Rightarrow> gostring \<Rightarrow> gostring" where
  "TrimSuffix s p = (if HasSuffix s p then take (length s - length p) s else s)"

definition CutPrefix :: "gostring \<Rightarrow> gostring \<Rightarrow> gostring option" where
  "CutPrefix s p = (if HasPrefix s p then Some (drop (length p) s) else None)"

definition trim_chars :: "(char \<Rightarrow> bool) \<Rightarrow> gostring \<Rightarrow> gostring" where
  "trim_chars p s = rev (dropWhile p (rev (dropWhile p s)))"

definition TrimSpace :: "gostring \<Rightarrow> gostring" where
  "TrimSpace s = trim_chars is_space s"

definition Trim :: "gostring \<Rightarrow> gostring \<Rightarrow> gostring" where
  "Trim s cutset = trim_chars (\<lambda>c. c \<in> set cutset) s"

text \<open>\<open>strings.Split\<close> for the one-byte separators the repository uses.\<close>

fun SplitC :: "char \<Rightarrow> gostring \<Rightarrow> gostring list" where
  "SplitC sep [] = [[]]"
| "SplitC sep (c # cs) =
     (if c = sep then [] # SplitC sep cs
      else (case SplitC sep cs of [] \<Rightarrow> [[c]] | w # ws \<Rightarrow> (c # w) # ws))"

fun Join :: "gostring \<Rightarrow> gostring list \<Rightarrow> gostring" where
  "Join sep [] = []"
| "Join sep [w] = w"
| "Join sep (w # v # ws) = w @ sep @ Join sep (v # ws)"

text \<open>\<open>strings.ReplaceAll\<close> for a one-byte pattern and for a non-empty pattern.\<close>

definition ReplaceC :: "char \<Rightarrow> gostring \<Rightarrow> gostring \<Rightarrow> gostring" where
  "ReplaceC old new s = concat (map (\<lambda>c. if c = old then new else [c]) s)"

function ReplaceAll :: "gostring \<Rightarrow> gostring \<Rightarrow> gostring \<Rightarrow> gostring" where
  "ReplaceAll s old new =
     (case s of [] \<Rightarrow> []
      | c # cs \<Rightarrow> if old \<noteq> [] \<and> HasPrefix s old then new @ ReplaceAll (drop (length old) s) old new
                 else c # ReplaceAll cs old new)"
  by pat_completeness auto
termination
  by (relation "measure (\<lambda>(s, old, new). length s)") (auto simp: neq_Nil_conv)

declare ReplaceAll.simps [simp del]

definition CountC :: "char \<Rightarrow> gostring \<Rightarrow> nat" where
  "CountC c s = length (filter (\<lambda>x. x = c) s)"

definition to_lower_char :: "char \<Rightarrow> char" where
  "to_lower_char c =
     (if 65 \<le> (of_char c :: nat) \<and> (of_char c :: nat) \<le> 90 then char_of ((of_char c :: nat) + 32) else c)"

definition ToLower :: "gostring \<Rightarrow> gostring" where
  "ToLower s = map to_lower_char s"

lemma HasPrefix_append [gostr, simp]: "HasPrefix (p @ s) p"
  by (simp add: HasPrefix_def)

lemma HasPrefix_iff: "HasPrefix s p \<longleftrightarrow> (\<exists>t. s = p @ t)"
  by (auto simp: HasPrefix_def) (metis append_take_drop_id)

lemma HasPrefix_Nil [simp]: "HasPrefix s []"
  by (simp add: HasPrefix_def)

lemma Contains_Nil [simp]: "Contains s []"
  by (cases s) (auto simp: HasPrefix_def)

lemma Contains_iff: "Contains s sub \<longleftrightarrow> (\<exists>a b. s = a @ sub @ b)"
proof (induction s)
  case Nil
  then show ?case by auto
next
  case (Cons c cs)
  show ?case
  proof
    assume "Contains (c # cs) sub"
    then consider "HasPrefix (c # cs) sub" | "Contains cs sub" by auto
    then show "\<exists>a b. c # cs = a @ sub @ b"
    proof cases
      case 1
      then show ?thesis by (auto simp: HasPrefix_iff intro: exI [of _ "[]"])
    next
      case 2
      then show ?thesis using Cons.IH by (metis append_Cons)
    qed
  next
    assume "\<exists>a b. c # cs = a @ sub @ b"
    then obtain a b where ab: "c # cs = a @ sub @ b" by blast
    show "Contains (c # cs) sub"
    proof (cases a)
      case Nil
      with ab have "HasPrefix (c # cs) sub" by (simp add: HasPrefix_iff)
      then show ?thesis by simp
    next
      case (Cons x xs)
      with ab have "cs = xs @ sub @ b" by simp
      then have "Contains cs sub" using Cons.IH by blast
      then show ?thesis by simp
    qed
  qed
qed

lemma ReplaceAll_absent: "c \<notin> set s \<Longrightarrow> ReplaceAll s (c # cs) new = s"
proof (induction s)
  case Nil
  show ?case by (simp add: ReplaceAll.simps)
next
  case (Cons x xs)
  then have "\<not> HasPrefix (x # xs) (c # cs)" by (auto simp: HasPrefix_def)
  with Cons show ?case by (simp add: ReplaceAll.simps [of "x # xs"])
qed

lemma SplitC_nonempty [simp]: "SplitC sep s \<noteq> []"
  by (cases s) (auto split: list.splits)

lemma Join_Cons: "ws \<noteq> [] \<Longrightarrow> Join sep (w # ws) = w @ sep @ Join sep ws"
  by (cases ws) auto

lemma Join_SplitC: "Join [sep] (SplitC sep s) = s"
proof (induction s)
  case Nil
  then show ?case by simp
next
  case (Cons c cs)
  show ?case
  proof (cases "c = sep")
    case True
    then show ?thesis using Cons by (simp add: Join_Cons)
  next
    case False
    obtain w ws where w: "SplitC sep cs = w # ws"
      by (meson SplitC_nonempty neq_Nil_conv)
    with False Cons show ?thesis by (cases ws) auto
  qed
qed

lemma SplitC_no_sep: "sep \<notin> set s \<Longrightarrow> SplitC sep s = [s]"
  by (induction s) auto

lemma SplitC_append_sep: "sep \<notin> set w \<Longrightarrow> SplitC sep (w @ sep # s) = w # SplitC sep s"
  by (induction w) auto

lemma SplitC_Join:
  "ws \<noteq> [] \<Longrightarrow> \<forall>w \<in> set ws. sep \<notin> set w \<Longrightarrow> SplitC sep (Join [sep] ws) = ws"
proof (induction ws)
  case Nil
  then show ?case by simp
next
  case (Cons w ws)
  then show ?case
    by (cases ws) (auto simp: SplitC_no_sep SplitC_append_sep)
qed

lemma SplitC_elems: "w \<in> set (SplitC sep s) \<Longrightarrow> sep \<notin> set w"
proof (induction s arbitrary: w)
  case Nil
  then show ?case by simp
next
  case (Cons c cs)
  obtain v vs where v: "SplitC sep cs = v # vs"
    by (meson SplitC_nonempty neq_Nil_conv)
  with Cons show ?case by (auto split: if_splits)
qed

lemma length_SplitC: "length (SplitC sep s) = Suc (CountC sep s)"
proof (induction s)
  case Nil
  then show ?case by (simp add: CountC_def)
next
  case (Cons c cs)
  then show ?case by (auto simp: CountC_def split: list.splits)
qed

subsection \<open>URL queries\<close>

definition query_safe :: "char \<Rightarrow> bool" where
  "query_safe c \<longleftrightarrow> is_digit c \<or> (65 \<le> (of_char c :: nat) \<and> (of_char c :: nat) \<le> 90) \<or>
     (97 \<le> (of_char c :: nat) \<and> (of_char c :: nat) \<le> 122) \<or> c \<in> set ''-_.~''"

definition hex_digit :: "nat \<Rightarrow> char" where
  "hex_digit d = (if d < 10 then char_of (48 + d) else char_of (55 + d))"

definition escape_char :: "char \<Rightarrow> gostring" where
  "escape_char c =
     (if query_safe c then [c] else if c = CHR '' '' then ''+''
      else [CHR ''%'', hex_digit (of_char c div 16), hex_digit (of_char c mod 16)])"

definition QueryEscape :: "gostring \<Rightarrow> gostring" where
  "QueryEscape s = concat (map escape_char s)"

text \<open>\<open>url.Values.Encode\<close>, given the values in the order of their keys.\<close>

definition Encode :: "(gostring \<times> gostring) list \<Rightarrow> gostring" where
  "Encode kvs = Join ''&'' (map (\<lambda>(k, v). QueryEscape k @ ''='' @ QueryEscape v) kvs)"

subsection \<open>Quoting\<close>

text \<open>
  \<open>strconv.Quote\<close>, the verb \<open>%q\<close>, on printable text and ASCII control characters; bytes above the
  ASCII range are taken to be printable text.
\<close>

definition lower_hex_digit :: "nat \<Rightarrow> char" where
  "lower_hex_digit d = (if d < 10 then char_of (48 + d) else char_of (87 + d))"

definition dquote :: char where "dquote = CHR 0x22"
definition bslash :: char where "bslash = CHR 0x5C"

definition quote_char :: "char \<Rightarrow> gostring" where
  "quote_char c =
     (if c = dquote \<or> c = bslash then [bslash, c]
      else if c = CHR 0x07 then [bslash, CHR ''a'']
      else if c = CHR 0x08 then [bslash, CHR ''b'']
      else if c = CHR 0x0C then [bslash, CHR ''f'']
      else if c = CHR 0x0A then [bslash, CHR ''n'']
      else if c = CHR 0x0D then [bslash, CHR ''r'']
      else if c = CHR 0x09 then [bslash, CHR ''t'']
      else if c = CHR 0x0B then [bslash, CHR ''v'']
      else if (of_char c :: nat) < 32 \<or> (of_char c :: nat) = 127
      then [bslash, CHR ''x'', lower_hex_digit (of_char c div 16), lower_hex_digit (of_char c mod 16)]
      else [c])"

definition Quote :: "gostring \<Rightarrow> gostring" where
  "Quote s = [dquote] @ concat (map quote_char s) @ [dquote]"

subsection \<open>Integer division\<close>

text \<open>Go's \<open>/\<close> on integers truncates towards zero.\<close>

definition go_div :: "int \<Rightarrow> int \<Rightarrow> int" where
  "go_div a b = sgn a * sgn b * (\<bar>a\<bar> div \<bar>b\<bar>)"

text \<open>Go's \<open>%\<close>: the remainder has the sign of the dividend.\<close>

definition go_rem :: "int \<Rightarrow> int \<Rightarrow> int" where
  "go_rem a b = a - go_div a b * b"

lemma go_div_nonneg: "0 \<le> a \<Longrightarrow> 0 < b \<Longrightarrow> go_div a b = a div b"
  by (cases "a = 0") (auto simp: go_div_def)

lemma go_div_neg: "a < 0 \<Longrightarrow> 0 < b \<Longrightarrow> go_div a b = - ((- a) div b)"
  by (simp add: go_div_def)

lemma go_div_mono: "a \<le> b \<Longrightarrow> 0 < c \<Longrightarrow> go_div a c \<le> go_div b c"
proof (cases "0 \<le> a")
  case True
  assume "a \<le> b" "0 < c"
  with True show ?thesis by (simp add: go_div_nonneg zdiv_mono1)
next
  case False
  assume ab: "a \<le> b" and c: "0 < c"
  show ?thesis
  proof (cases "0 \<le> b")
    case True
    with False c have "go_div a c \<le> 0" "0 \<le> go_div b c"
      by (auto simp: go_div_neg go_div_nonneg pos_imp_zdiv_nonneg_iff)
    then show ?thesis by simp
  next
    case nb: False
    then have "(- b) div c \<le> (- a) div c" using ab c by (simp add: zdiv_mono1)
    with nb False c show ?thesis by (simp add: go_div_neg)
  qed
qed

subsection \<open>Untyped values\<close>

text \<open>
  The nested \<open>map[string]interface{}\<close> values of which the manifests and chart values are made.
  An object is the list of its fields; the literals of the code never repeat a key.
\<close>

datatype json = JNull | JBool bool | JNum int | JStr gostring | JArr "json list"
  | JObj "(gostring \<times> json) list"

fun jfield :: "gostring \<Rightarrow> json \<Rightarrow> json" where
  "jfield k (JObj fs) = (case map_of fs k of None \<Rightarrow> JNull | Some v \<Rightarrow> v)"
| "jfield k _ = JNull"

fun jpath :: "gostring list \<Rightarrow> json \<Rightarrow> json" where
  "jpath [] v = v"
| "jpath (k # ks) v = jpath ks (jfield k v)"

fun jitems :: "json \<Rightarrow> json list" where
  "jitems (JArr vs) = vs"
| "jitems _ = []"

fun jstr :: "json \<Rightarrow> gostring" where
  "jstr (JStr s) = s"
| "jstr _ = []"

lemma map_of_update [simp]: "map_of (AList.update k v fs) = (map_of fs)(k \<mapsto> v)"
  by (rule update_conv')

subsection \<open>Sums as Go results\<close>

type_synonym 'a result = "gostring + 'a"

definition bind_result :: "'a result \<Rightarrow> ('a \<Rightarrow> 'b result) \<Rightarrow> 'b result" where
  "bind_result r f = (case r of Inl e \<Rightarrow> Inl e | Inr x \<Rightarrow> f x)"

lemma bind_result_simps [simp]:
  "bind_result (Inl e) f = Inl e" "bind_result (Inr x) f = f x"
  by (simp_all add: bind_result_def)

text \<open>A step that succeeded, followed by its continuation (inversion for chains of panics).\<close>

lemma case_triple_InrD:
  "(case r of Inl p \<Rightarrow> Inl p | Inr (a, b, c) \<Rightarrow> f a b c) = Inr y \<Longrightarrow>
     \<exists>a b c. r = Inr (a, b, c) \<and> f a b c = Inr y"
  by (cases r) auto

lemma case_pair_InrD:
  "(case r of Inl p \<Rightarrow> Inl p | Inr (a, b) \<Rightarrow> f a b) = Inr y \<Longrightarrow>
     \<exists>a b. r = Inr (a, b) \<and> f a b = Inr y"
  by (cases r) auto

lemma bind_result_Inr:
  "bind_result r f = Inr y \<longleftrightarrow> (\<exists>x. r = Inr x \<and> f x = Inr y)"
  by (cases r) auto

end
