(* ===== verification/Allure_Steps.thy ===== *)
theory Allure_Steps
  imports Prelude
begin

text \<open>
  The core of the Allure reporter (\<open>pkg/tests/allure\<close>): attachments, parameters and step
  objects, and \<open>createSteps\<close> of \<open>result.go\<close>, which turns the flat timeline of
  \<open>By\<close> events of a Ginkgo spec into a tree of steps and hands the attachments, log lines
  and parameters recorded during the run to the steps that own them.

  Panics are the left side of a sum. Writing a log attachment consumes a fresh UUID and writes a
  file: the state \<open>sink\<close> is threaded through. The JSON decoder of report entries, the source
  of UUIDs, the results directory and the errors of the file system are the fields of
  \<open>allure_env\<close>. Ginkgo's event and entry types are represented by the fields the code
  reads.
\<close>

subsection \<open>Data\<close>

type_synonym MimeType = gostring

definition MimeTypeGZIP :: MimeType where "MimeTypeGZIP = ''application/gzip''"
definition MimeTypeText :: MimeType where "MimeTypeText = ''text/plain''"
definition MimeTypeZIP :: MimeType where "MimeTypeZIP = ''application/zip''"

definition resolveExtension :: "MimeType \<Rightarrow> gostring" where
  "resolveExtension m =
     (if m = MimeTypeGZIP then ''tar.gz''
      else if m = MimeTypeZIP then ''zip''
      else if m = MimeTypeText then ''txt''
      else [])"

record attachment =
  att_uuid :: gostring
  att_Name :: gostring
  att_Source :: gostring
  att_Type :: MimeType
  att_content :: gostring

definition zero_attachment :: attachment where
  "zero_attachment =
     \<lparr>att_uuid = [], att_Name = [], att_Source = [], att_Type = [], att_content = []\<rparr>"

record parameter =
  par_Name :: gostring
  par_Value :: gostring

record statusDetails =
  Known :: bool
  Muted :: bool
  Flaky :: bool
  sd_Message :: gostring
  sd_Trace :: gostring

definition broken :: gostring where "broken = ''broken''"
definition passed :: gostring where "passed = ''passed''"
definition failed :: gostring where "failed = ''failed''"
definition skipped :: gostring where "skipped = ''skipped''"

datatype stepObject = StepObject
  (st_Name: gostring) (st_Status: gostring) (st_Description: gostring) (st_Details: "statusDetails option")
  (st_Stage: gostring) (st_Children: "stepObject list") (st_Parameters: "parameter list")
  (st_Attachments: "attachment list") (st_Start: int) (st_Stop: int)

datatype event_kind = ByStart | ByEnd | OtherEvent

record spec_event =
  ev_Type :: event_kind
  ev_Message :: gostring
  ev_Line :: int
  ev_Order :: int
  ev_Time :: int

record report_entry =
  en_Name :: gostring
  en_Value :: gostring
  en_File :: gostring
  en_Line :: int
  en_Order :: int
  en_Time :: int

record allure_env =
  uuid_of :: "nat \<Rightarrow> gostring"
  results_path :: gostring
  write_error :: "gostring \<Rightarrow> gostring option"
  dec_att :: "gostring \<Rightarrow> attachment option"
  dec_par :: "gostring \<Rightarrow> parameter option"

record sink =
  uuids_used :: nat
  files :: "(gostring \<times> gostring) list"

definition getTimestampMsFromTime :: "int \<Rightarrow> int" where
  "getTimestampMsFromTime t = go_div t 1000000"

subsection \<open>Attachments (\<open>attachment.go\<close>)\<close>

definition newAttachment ::
  "allure_env \<Rightarrow> gostring \<Rightarrow> MimeType \<Rightarrow> gostring \<Rightarrow> sink \<Rightarrow> attachment \<times> sink" where
  "newAttachment env name mimeType content k =
     (\<lparr>att_uuid = uuid_of env (uuids_used k), att_Name = name, att_Source = [],
       att_Type = mimeType, att_content = content\<rparr>, k\<lparr>uuids_used := Suc (uuids_used k)\<rparr>)"

definition writeAttachmentFile ::
  "allure_env \<Rightarrow> attachment \<Rightarrow> sink \<Rightarrow> gostring + (attachment \<times> sink)" where
  "writeAttachmentFile env a k =
     (let src = att_uuid a @ ''-attachment.'' @ resolveExtension (att_Type a);
          path = results_path env @ ''/'' @ src
      in case write_error env path of
           Some err \<Rightarrow> Inl (''failed to write in file: '' @ err)
         | None \<Rightarrow> Inr (a\<lparr>att_Source := src\<rparr>, k\<lparr>files := files k @ [(path, att_content a)]\<rparr>))"

definition addAttachment ::
  "allure_env \<Rightarrow> gostring \<Rightarrow> MimeType \<Rightarrow> gostring \<Rightarrow> sink \<Rightarrow> gostring + (attachment \<times> sink)" where
  "addAttachment env name mimeType content k =
     (let (a, k1) = newAttachment env name mimeType content k
      in case writeAttachmentFile env a k1 of
           Inl err \<Rightarrow> Inl (''failed to create an attachment file: '' @ err)
         | Inr r \<Rightarrow> Inr r)"

subsection \<open>Entries by kind\<close>

definition attachmentReportEntryName :: gostring where "attachmentReportEntryName = ''ATTACHMENT''"
definition parameterReportEntryName :: gostring where "parameterReportEntryName = ''PARAMETER''"

definition filterForAttachments :: "report_entry list \<Rightarrow> report_entry list" where
  "filterForAttachments es = filter (\<lambda>e. en_Name e = attachmentReportEntryName) es"

definition filterForLogs :: "report_entry list \<Rightarrow> report_entry list" where
  "filterForLogs es = filter (\<lambda>e. en_Name e = ''LOG'') es"

definition filterForParameters :: "report_entry list \<Rightarrow> report_entry list" where
  "filterForParameters es = filter (\<lambda>e. en_Name e = parameterReportEntryName) es"

definition entry_panic :: "gostring \<Rightarrow> report_entry \<Rightarrow> gostring" where
  "entry_panic what e = what @ '' for entry '' @ en_File e @ '' on line '' @ int_str (en_Line e)"

text \<open>Decoding one attachment entry: a malformed or an all-zero payload panics.\<close>

definition decode_attachment :: "allure_env \<Rightarrow> report_entry \<Rightarrow> gostring + attachment" where
  "decode_attachment env e =
     (case dec_att env (en_Value e) of
        None \<Rightarrow> Inl (entry_panic ''error processing attachment'' e)
      | Some a \<Rightarrow> if a = zero_attachment then Inl (entry_panic ''nil pointer attachment'' e) else Inr a)"

definition decode_parameter :: "allure_env \<Rightarrow> report_entry \<Rightarrow> gostring + parameter" where
  "decode_parameter env e =
     (case dec_par env (en_Value e) of
        None \<Rightarrow> Inl (entry_panic ''error processing parameter'' e)
      | Some p \<Rightarrow> Inr p)"

subsection \<open>Finding the end of a step and the range it owns\<close>

text \<open>First \<open>ByEnd\<close> event on the same source line recorded after the start event.\<close>

fun find_end_from :: "nat \<Rightarrow> spec_event list \<Rightarrow> spec_event \<Rightarrow> (spec_event \<times> nat) option" where
  "find_end_from i [] s = None"
| "find_end_from i (e # es) s =
     (if ev_Type e = ByEnd \<and> ev_Line s = ev_Line e \<and> ev_Order s < ev_Order e
      then Some (e, i) else find_end_from (Suc i) es s)"

definition findByEventEnd :: "spec_event list \<Rightarrow> spec_event \<Rightarrow> (spec_event \<times> nat) option" where
  "findByEventEnd events s = find_end_from 0 events s"

definition max_order :: int where "max_order = 2 ^ 31 - 1"

fun next_start_order :: "spec_event list \<Rightarrow> int" where
  "next_start_order [] = max_order"
| "next_start_order (e # es) = (if ev_Type e = ByStart then ev_Order e else next_start_order es)"

definition owns :: "int \<Rightarrow> int \<Rightarrow> int \<Rightarrow> bool" where
  "owns lo hi ord \<longleftrightarrow> lo < ord \<and> ord < hi"

subsection \<open>Filling one step\<close>

fun claim_attachments ::
  "allure_env \<Rightarrow> int \<Rightarrow> int \<Rightarrow> nat \<Rightarrow> report_entry list \<Rightarrow> nat set \<Rightarrow> int \<Rightarrow>
     gostring + (attachment list \<times> nat set \<times> int)" where
  "claim_attachments env lo hi i [] skip mt = Inr ([], skip, mt)"
| "claim_attachments env lo hi i (e # es) skip mt =
     (if i \<in> skip \<or> \<not> owns lo hi (en_Order e) then claim_attachments env lo hi (Suc i) es skip mt
      else case decode_attachment env e of
        Inl p \<Rightarrow> Inl p
      | Inr a \<Rightarrow>
          (case claim_attachments env lo hi (Suc i) es (insert i skip) (max mt (en_Time e)) of
             Inl p \<Rightarrow> Inl p
           | Inr (atts, skip', mt') \<Rightarrow> Inr (a # atts, skip', mt')))"

definition owned_logs :: "int \<Rightarrow> int \<Rightarrow> report_entry list \<Rightarrow> report_entry list" where
  "owned_logs lo hi logs = filter (\<lambda>e. owns lo hi (en_Order e)) logs"

definition max_time :: "int \<Rightarrow> report_entry list \<Rightarrow> int" where
  "max_time mt es = fold (\<lambda>e m. max m (en_Time e)) es mt"

fun decode_parameters :: "allure_env \<Rightarrow> report_entry list \<Rightarrow> gostring + parameter list" where
  "decode_parameters env [] = Inr []"
| "decode_parameters env (e # es) =
     (case decode_parameter env e of
        Inl p \<Rightarrow> Inl p
      | Inr v \<Rightarrow> (case decode_parameters env es of Inl p \<Rightarrow> Inl p | Inr vs \<Rightarrow> Inr (v # vs)))"

record steps_ctx =
  cx_env :: allure_env
  cx_entries :: "report_entry list"
  cx_logs :: "report_entry list"
  cx_params :: "report_entry list"
  cx_failureOrder :: int

definition log_attachment ::
  "allure_env \<Rightarrow> gostring \<Rightarrow> report_entry list \<Rightarrow> sink \<Rightarrow> gostring + (attachment list \<times> sink)" where
  "log_attachment env name owned k =
     (if owned = [] then Inr ([], k)
      else case addAttachment env ''log'' MimeTypeText (Join [nl] (map en_Value owned)) k of
        Inl err \<Rightarrow> Inl (''failed to create log attachment for step '' @ name @ '': '' @ err)
      | Inr (a, k') \<Rightarrow> Inr ([a], k'))"

text \<open>
  The body of the loop once the children are known: \<open>stop0\<close> and \<open>mt0\<close> are the stop
  time and the latest time seen so far, \<open>hi\<close> the order at which the next sibling starts.
\<close>

definition fill_step ::
  "steps_ctx \<Rightarrow> spec_event \<Rightarrow> int \<Rightarrow> stepObject list \<Rightarrow> int \<Rightarrow> int \<Rightarrow> nat set \<Rightarrow> sink \<Rightarrow>
     gostring + (stepObject \<times> nat set \<times> sink)" where
  "fill_step cx s hi children stop0 mt0 skip k =
     (let lo = ev_Order s; env = cx_env cx;
          status = (if 0 < cx_failureOrder cx \<and> owns lo hi (cx_failureOrder cx) then failed else passed)
      in case claim_attachments env lo hi 0 (cx_entries cx) skip mt0 of
           Inl p \<Rightarrow> Inl p
         | Inr (atts, skip', mt1) \<Rightarrow>
        (let logs = owned_logs lo hi (cx_logs cx); mt2 = max_time mt1 logs
         in case log_attachment env (ev_Message s) logs k of
           Inl p \<Rightarrow> Inl p
         | Inr (latts, k') \<Rightarrow>
        (let ps = owned_logs lo hi (cx_params cx); mt3 = max_time mt2 ps
         in case decode_parameters env ps of
           Inl p \<Rightarrow> Inl p
         | Inr params \<Rightarrow>
             Inr (StepObject (ev_Message s) status [] None ''finished'' children params (atts @ latts)
                    (getTimestampMsFromTime (ev_Time s))
                    (if ev_Time s < mt3 then getTimestampMsFromTime mt3 else stop0),
                  skip', k'))))"

subsection \<open>The loop\<close>

definition slice :: "'a list \<Rightarrow> nat \<Rightarrow> nat \<Rightarrow> 'a list" where
  "slice xs a b = take (b - a) (drop a xs)"

lemma length_slice: "length (slice xs a b) = min (length xs - a) (b - a)"
  by (simp add: slice_def)

lemma find_end_from_bound:
  "find_end_from i es s = Some (e, j) \<Longrightarrow>
     i \<le> j \<and> j < i + length es \<and> e = es ! (j - i) \<and> ev_Type e = ByEnd \<and>
     ev_Line s = ev_Line e \<and> ev_Order s < ev_Order e"
proof (induction i es s rule: find_end_from.induct)
  case (1 i s)
  then show ?case by simp
next
  case (2 i e' es s)
  show ?case
  proof (cases "ev_Type e' = ByEnd \<and> ev_Line s = ev_Line e' \<and> ev_Order s < ev_Order e'")
    case True
    with "2.prems" show ?thesis by simp
  next
    case False
    with "2.prems" have "find_end_from (Suc i) es s = Some (e, j)" by simp
    from "2.IH" [OF False this] show ?thesis by (auto simp: nth_Cons' Suc_diff_Suc)
  qed
qed

lemma findByEventEnd_bound:
  "findByEventEnd es s = Some (e, j) \<Longrightarrow>
     j < length es \<and> e = es ! j \<and> ev_Type e = ByEnd \<and> ev_Line s = ev_Line e \<and>
     ev_Order s < ev_Order e"
  unfolding findByEventEnd_def by (drule find_end_from_bound) auto

text \<open>
  \<open>steps_loop cx events i cur steps skip k\<close> is the loop of \<open>createSteps\<close> from index
  \<open>i\<close> on, with \<open>cur\<close> the Go variable \<open>currentEndIndex\<close>. The slice expression
  \<open>events[start+1:end]\<close> panics when its bounds are crossed.
\<close>

function (sequential) steps_loop ::
  "steps_ctx \<Rightarrow> spec_event list \<Rightarrow> nat \<Rightarrow> int \<Rightarrow> stepObject list \<Rightarrow> nat set \<Rightarrow> sink \<Rightarrow>
     gostring + (stepObject list \<times> nat set \<times> sink)" where
  "steps_loop cx events i cur steps skip k =
     (if length events \<le> i then Inr (steps, skip, k)
      else if int i \<le> cur \<or> ev_Type (events ! i) \<noteq> ByStart
      then steps_loop cx events (Suc i) cur steps skip k
      else (let s = events ! i; start = getTimestampMsFromTime (ev_Time s) in
        case findByEventEnd events s of
          None \<Rightarrow>
            (case fill_step cx s (next_start_order (drop (Suc i) events)) [] start (ev_Time s) skip k of
               Inl p \<Rightarrow> Inl p
             | Inr (st, skip', k') \<Rightarrow> steps_loop cx events (Suc i) cur (steps @ [st]) skip' k')
        | Some (e, j) \<Rightarrow>
            if j < Suc i then Inl ''runtime error: slice bounds out of range''
            else (case steps_loop cx (slice events (Suc i) j) 0 (- 1) [] {} k of
               Inl p \<Rightarrow> Inl p
             | Inr (children, toSkip, k1) \<Rightarrow>
                (case fill_step cx s (next_start_order (drop (Suc j) events)) children
                        (getTimestampMsFromTime (ev_Time e)) (ev_Time e) (skip \<union> toSkip) k1 of
                   Inl p \<Rightarrow> Inl p
                 | Inr (st, skip', k') \<Rightarrow>
                     steps_loop cx events (Suc i) (int j) (steps @ [st]) skip' k'))))"
  by pat_completeness auto
termination
  by (relation "measures [\<lambda>(cx, events, i, cur, steps, skip, k). length events,
                          \<lambda>(cx, events, i, cur, steps, skip, k). length events - i]")
     (auto simp: length_slice)

declare steps_loop.simps [simp del]

definition createSteps ::
  "allure_env \<Rightarrow> spec_event list \<Rightarrow> report_entry list \<Rightarrow> report_entry list \<Rightarrow> report_entry list \<Rightarrow> int \<Rightarrow>
     sink \<Rightarrow> gostring + (stepObject list \<times> nat set \<times> sink)" where
  "createSteps env events entries logs parameters failureOrder k =
     steps_loop \<lparr>cx_env = env, cx_entries = entries, cx_logs = logs, cx_params = parameters,
                 cx_failureOrder = failureOrder\<rparr> events 0 (- 1) [] {} k"

subsection \<open>A concrete report\<close>

text \<open>
  A timeline with a callback \<open>A\<close> that holds a nested callback \<open>N\<close>, followed by a step \<open>B\<close>
  without a callback; one attachment and a failure recorded during \<open>B\<close>.
\<close>

definition demo_env :: allure_env where
  "demo_env = \<lparr>uuid_of = (\<lambda>n. ''uuid'' @ nat_str n), results_path = ''/reports'', write_error = (\<lambda>_. None),
     dec_att = (\<lambda>s. Some \<lparr>att_uuid = [], att_Name = s, att_Source = s, att_Type = MimeTypeText,
                          att_content = []\<rparr>),
     dec_par = (\<lambda>s. Some \<lparr>par_Name = s, par_Value = s\<rparr>)\<rparr>"

definition demo_event :: "event_kind \<Rightarrow> gostring \<Rightarrow> int \<Rightarrow> int \<Rightarrow> spec_event" where
  "demo_event t m l ord =
     \<lparr>ev_Type = t, ev_Message = m, ev_Line = l, ev_Order = ord, ev_Time = 1000000 * ord\<rparr>"

definition demo_entry :: "gostring \<Rightarrow> gostring \<Rightarrow> int \<Rightarrow> report_entry" where
  "demo_entry n v ord =
     \<lparr>en_Name = n, en_Value = v, en_File = ''f'', en_Line = 1, en_Order = ord, en_Time = 1000000 * ord\<rparr>"

definition demo_events :: "spec_event list" where
  "demo_events = [demo_event ByStart ''A'' 1 1, demo_event ByStart ''N'' 2 2, demo_event ByEnd ''N'' 2 3,
     demo_event ByEnd ''A'' 1 4, demo_event ByStart ''B'' 5 5]"

definition demo_sink :: sink where "demo_sink = \<lparr>uuids_used = 0, files = []\<rparr>"

definition demo_attachment :: attachment where
  "demo_attachment =
     \<lparr>att_uuid = [], att_Name = ''a'', att_Source = ''a'', att_Type = MimeTypeText, att_content = []\<rparr>"

definition demo_steps :: "stepObject list" where
  "demo_steps =
     [StepObject ''A'' passed [] None ''finished''
        [StepObject ''N'' failed [] None ''finished'' [] [] [demo_attachment] 2 7] [] [] 1 4,
      StepObject ''B'' failed [] None ''finished'' [] [] [] 5 5]"

lemma demo_run:
  "createSteps demo_env demo_events [demo_entry ''ATTACHMENT'' ''a'' 7] [] [] 6 demo_sink =
     Inr (demo_steps, {0}, demo_sink)"
  by (simp add: createSteps_def demo_events_def demo_event_def demo_env_def demo_sink_def demo_steps_def
      demo_attachment_def steps_loop.simps findByEventEnd_def slice_def fill_step_def Let_def owns_def
      demo_entry_def decode_attachment_def zero_attachment_def owned_logs_def log_attachment_def
      max_order_def max_time_def getTimestampMsFromTime_def go_div_def)

end
