(* ===== verification/Allure_Tree.thy ===== *)
theory Allure_Tree
  imports Allure_Steps
begin

text \<open>
  Properties of the step trees that \<open>createSteps\<close> builds: every \<open>By\<close> event becomes
  exactly one step, no attachment is lost, steps never end before they start, the function does
  not panic on well-formed reports, and for reports without nested steps each entry goes to the
  one step during which it was recorded. The last part shows that nested steps break that rule.
\<close>

subsection \<open>Trees flattened\<close>

fun subtree :: "stepObject \<Rightarrow> stepObject list" where
  "subtree (StepObject n s ds d g cs ps as st sp) =
     StepObject n s ds d g cs ps as st sp # concat (map subtree cs)"

definition forest :: "stepObject list \<Rightarrow> stepObject list" where
  "forest ss = concat (map subtree ss)"

definition tree_atts :: "stepObject list \<Rightarrow> attachment list" where
  "tree_atts ss = concat (map st_Attachments (forest ss))"

definition start_names :: "spec_event list \<Rightarrow> gostring list" where
  "start_names es = map ev_Message (filter (\<lambda>e. ev_Type e = ByStart) es)"

lemma subtree_unfold: "subtree st = st # forest (st_Children st)"
  by (cases st) (simp add: forest_def)

lemma forest_simps [simp]:
  "forest [] = []" "forest (a @ b) = forest a @ forest b" "forest [st] = subtree st"
  by (simp_all add: forest_def)

lemma tree_atts_simps [simp]:
  "tree_atts [] = []" "tree_atts (a @ b) = tree_atts a @ tree_atts b"
  "tree_atts [st] = st_Attachments st @ tree_atts (st_Children st)"
  by (simp_all add: tree_atts_def subtree_unfold)

lemma start_names_simps [simp]:
  "start_names [] = []" "start_names (a @ b) = start_names a @ start_names b"
  "ev_Type e = ByStart \<Longrightarrow> start_names (e # es) = ev_Message e # start_names es"
  "ev_Type e \<noteq> ByStart \<Longrightarrow> start_names (e # es) = start_names es"
  by (simp_all add: start_names_def)

lemma drop_slice:
  assumes "Suc i \<le> j" and "j < length es"
  shows "drop (Suc i) es = slice es (Suc i) j @ es ! j # drop (Suc j) es"
proof -
  have "drop (Suc i) es = slice es (Suc i) j @ drop (j - Suc i) (drop (Suc i) es)"
    unfolding slice_def by (simp only: append_take_drop_id)
  also have "drop (j - Suc i) (drop (Suc i) es) = es ! j # drop (Suc j) es"
    using assms by (simp add: Cons_nth_drop_Suc)
  finally show ?thesis .
qed

lemma nth_shift: "Suc i \<le> x \<Longrightarrow> (e # es) ! (x - i) = es ! (x - Suc i)"
  by (simp add: nth_Cons')

subsection \<open>What filling a step does\<close>

lemma claim_attachments_sound:
  assumes "claim_attachments env lo hi i es skip mt = Inr (atts, skip', mt')"
  shows "skip \<subseteq> skip' \<and> mt \<le> mt' \<and>
    (\<forall>x \<in> skip' - skip. i \<le> x \<and> x < i + length es \<and>
       (\<exists>a \<in> set atts. decode_attachment env (es ! (x - i)) = Inr a))"
  using assms
proof (induction env lo hi i es skip mt arbitrary: atts skip' mt' rule: claim_attachments.induct)
  case (1 env lo hi i skip mt)
  then show ?case by simp
next
  case (2 env lo hi i e es skip mt)
  show ?case
  proof (cases "i \<in> skip \<or> \<not> owns lo hi (en_Order e)")
    case True
    with "2.prems" have "claim_attachments env lo hi (Suc i) es skip mt = Inr (atts, skip', mt')"
      by simp
    from "2.IH"(1) [OF True this] show ?thesis
      by (auto simp: nth_shift dest: Suc_leD)
  next
    case False
    with "2.prems" obtain a atts0 where a: "decode_attachment env e = Inr a"
      and r: "claim_attachments env lo hi (Suc i) es (insert i skip) (max mt (en_Time e)) =
                Inr (atts0, skip', mt')" and atts: "atts = a # atts0"
      by (auto split: sum.splits)
    from "2.IH"(2) [OF False a r] have IH: "insert i skip \<subseteq> skip'" "max mt (en_Time e) \<le> mt'"
      "\<forall>x \<in> skip' - insert i skip. Suc i \<le> x \<and> x < Suc i + length es \<and>
         (\<exists>b \<in> set atts0. decode_attachment env (es ! (x - Suc i)) = Inr b)"
      by blast+
    have "\<forall>x \<in> skip' - skip. i \<le> x \<and> x < i + length (e # es) \<and>
        (\<exists>b \<in> set atts. decode_attachment env ((e # es) ! (x - i)) = Inr b)"
    proof
      fix x assume x: "x \<in> skip' - skip"
      show "i \<le> x \<and> x < i + length (e # es) \<and>
        (\<exists>b \<in> set atts. decode_attachment env ((e # es) ! (x - i)) = Inr b)"
      proof (cases "x = i")
        case True
        with a atts show ?thesis by simp
      next
        case False
        with x IH(3) have "Suc i \<le> x \<and> x < Suc i + length es \<and>
           (\<exists>b \<in> set atts0. decode_attachment env (es ! (x - Suc i)) = Inr b)" by blast
        then show ?thesis using atts by (auto simp: nth_shift dest: Suc_leD)
      qed
    qed
    with IH(1,2) show ?thesis by auto
  qed
qed

lemma max_time_ge: "mt \<le> max_time mt es"
  by (induction es arbitrary: mt) (auto simp: max_time_def intro: order_trans [OF max.cobounded1])

text \<open>The shape of a filled step, as an elimination rule.\<close>

lemma fill_stepE:
  assumes "fill_step cx s hi children stop0 mt0 skip k = Inr (st, skip', k')"
  obtains atts latts mt1 mt3 where
    "claim_attachments (cx_env cx) (ev_Order s) hi 0 (cx_entries cx) skip mt0 = Inr (atts, skip', mt1)"
    "log_attachment (cx_env cx) (ev_Message s) (owned_logs (ev_Order s) hi (cx_logs cx)) k = Inr (latts, k')"
    "mt0 \<le> mt1" "mt1 \<le> mt3"
    "st_Name st = ev_Message s" "st_Children st = children" "st_Stage st = ''finished''"
    "st_Attachments st = atts @ latts"
    "st_Status st = (if 0 < cx_failureOrder cx \<and> owns (ev_Order s) hi (cx_failureOrder cx)
                     then failed else passed)"
    "decode_parameters (cx_env cx) (owned_logs (ev_Order s) hi (cx_params cx)) = Inr (st_Parameters st)"
    "st_Start st = getTimestampMsFromTime (ev_Time s)"
    "st_Stop st = (if ev_Time s < mt3 then getTimestampMsFromTime mt3 else stop0)"
proof -
  obtain atts mt1 where c: "claim_attachments (cx_env cx) (ev_Order s) hi 0 (cx_entries cx) skip mt0 =
      Inr (atts, skip', mt1)"
    using assms by (auto simp: fill_step_def Let_def split: sum.splits)
  obtain latts where l: "log_attachment (cx_env cx) (ev_Message s)
      (owned_logs (ev_Order s) hi (cx_logs cx)) k = Inr (latts, k')"
    using assms by (auto simp: fill_step_def Let_def split: sum.splits)
  obtain ps where p: "decode_parameters (cx_env cx) (owned_logs (ev_Order s) hi (cx_params cx)) = Inr ps"
    using assms by (auto simp: fill_step_def Let_def split: sum.splits)
  let ?mt3 = "max_time (max_time mt1 (owned_logs (ev_Order s) hi (cx_logs cx)))
                (owned_logs (ev_Order s) hi (cx_params cx))"
  have "mt0 \<le> mt1" using claim_attachments_sound [OF c] by blast
  moreover have "mt1 \<le> ?mt3" using max_time_ge order_trans by blast
  moreover have "st = StepObject (ev_Message s)
      (if 0 < cx_failureOrder cx \<and> owns (ev_Order s) hi (cx_failureOrder cx) then failed else passed)
      [] None ''finished'' children ps (atts @ latts) (getTimestampMsFromTime (ev_Time s))
      (if ev_Time s < ?mt3 then getTimestampMsFromTime ?mt3 else stop0)"
    using c l p assms by (simp add: fill_step_def Let_def)
  ultimately show ?thesis using c l p by (intro that [of atts mt1 latts ?mt3]) simp_all
qed

subsection \<open>Unfolding the loop case by case\<close>

lemma loop_done: "length events \<le> i \<Longrightarrow> steps_loop cx events i cur steps skip k = Inr (steps, skip, k)"
  by (simp add: steps_loop.simps)

lemma loop_skip:
  "i < length events \<Longrightarrow> int i \<le> cur \<or> ev_Type (events ! i) \<noteq> ByStart \<Longrightarrow>
     steps_loop cx events i cur steps skip k = steps_loop cx events (Suc i) cur steps skip k"
  by (subst steps_loop.simps) simp

lemma loop_instant:
  "i < length events \<Longrightarrow> cur < int i \<Longrightarrow> ev_Type (events ! i) = ByStart \<Longrightarrow>
   findByEventEnd events (events ! i) = None \<Longrightarrow>
     steps_loop cx events i cur steps skip k =
       (case fill_step cx (events ! i) (next_start_order (drop (Suc i) events)) []
               (getTimestampMsFromTime (ev_Time (events ! i))) (ev_Time (events ! i)) skip k of
          Inl p \<Rightarrow> Inl p
        | Inr (st, skip', k') \<Rightarrow> steps_loop cx events (Suc i) cur (steps @ [st]) skip' k')"
  by (subst steps_loop.simps) (simp add: Let_def)

lemma loop_nested:
  "i < length events \<Longrightarrow> cur < int i \<Longrightarrow> ev_Type (events ! i) = ByStart \<Longrightarrow>
   findByEventEnd events (events ! i) = Some (e, j) \<Longrightarrow> Suc i \<le> j \<Longrightarrow>
     steps_loop cx events i cur steps skip k =
       (case steps_loop cx (slice events (Suc i) j) 0 (- 1) [] {} k of
          Inl p \<Rightarrow> Inl p
        | Inr (children, toSkip, k1) \<Rightarrow>
           (case fill_step cx (events ! i) (next_start_order (drop (Suc j) events)) children
                   (getTimestampMsFromTime (ev_Time e)) (ev_Time e) (skip \<union> toSkip) k1 of
              Inl p \<Rightarrow> Inl p
            | Inr (st, skip', k') \<Rightarrow> steps_loop cx events (Suc i) (int j) (steps @ [st]) skip' k'))"
  by (subst steps_loop.simps) (simp add: Let_def)

lemma loop_crossed:
  "i < length events \<Longrightarrow> cur < int i \<Longrightarrow> ev_Type (events ! i) = ByStart \<Longrightarrow>
   findByEventEnd events (events ! i) = Some (e, j) \<Longrightarrow> j < Suc i \<Longrightarrow>
     steps_loop cx events i cur steps skip k = Inl ''runtime error: slice bounds out of range''"
  by (subst steps_loop.simps) (simp add: Let_def)

text \<open>
  An induction rule for successful runs: what holds of a finished loop and is carried back over
  each of the three ways the loop takes a step holds of every run that does not panic.
\<close>

lemma steps_loop_success_induct [consumes 1, case_names finish skip instant nested]:
  assumes run: "steps_loop cx events i cur steps skip k = Inr (res, sk, k2)"
    and finish: "\<And>events i cur steps skip k. length events \<le> i \<Longrightarrow> P events i cur steps skip k steps skip k"
    and skipping: "\<And>events i cur steps skip k res sk k2. i < length events \<Longrightarrow>
      int i \<le> cur \<or> ev_Type (events ! i) \<noteq> ByStart \<Longrightarrow>
      P events (Suc i) cur steps skip k res sk k2 \<Longrightarrow> P events i cur steps skip k res sk k2"
    and instant: "\<And>events i cur steps skip k res sk k2 st skip1 k1. i < length events \<Longrightarrow> cur < int i \<Longrightarrow>
      ev_Type (events ! i) = ByStart \<Longrightarrow> findByEventEnd events (events ! i) = None \<Longrightarrow>
      fill_step cx (events ! i) (next_start_order (drop (Suc i) events)) []
        (getTimestampMsFromTime (ev_Time (events ! i))) (ev_Time (events ! i)) skip k = Inr (st, skip1, k1) \<Longrightarrow>
      P events (Suc i) cur (steps @ [st]) skip1 k1 res sk k2 \<Longrightarrow> P events i cur steps skip k res sk k2"
    and nested: "\<And>events i cur steps skip k res sk k2 e j children toSkip k1 st skip1 k3.
      i < length events \<Longrightarrow> cur < int i \<Longrightarrow> ev_Type (events ! i) = ByStart \<Longrightarrow>
      findByEventEnd events (events ! i) = Some (e, j) \<Longrightarrow> Suc i \<le> j \<Longrightarrow>
      P (slice events (Suc i) j) 0 (- 1) [] {} k children toSkip k1 \<Longrightarrow>
      fill_step cx (events ! i) (next_start_order (drop (Suc j) events)) children
        (getTimestampMsFromTime (ev_Time e)) (ev_Time e) (skip \<union> toSkip) k1 = Inr (st, skip1, k3) \<Longrightarrow>
      P events (Suc i) (int j) (steps @ [st]) skip1 k3 res sk k2 \<Longrightarrow> P events i cur steps skip k res sk k2"
  shows "P events i cur steps skip k res sk k2"
  using run
proof (induction C \<equiv> cx events i cur steps skip k arbitrary: res sk k2 rule: steps_loop.induct)
  case (1 events i cur steps skip k)
  show ?case
  proof (cases "length events \<le> i")
    case True
    with "1.prems" show ?thesis by (simp add: loop_done finish)
  next
    case len: False
    show ?thesis
    proof (cases "int i \<le> cur \<or> ev_Type (events ! i) \<noteq> ByStart")
      case True
      with len "1.prems" have "steps_loop cx events (Suc i) cur steps skip k = Inr (res, sk, k2)"
        by (simp add: loop_skip)
      from "1.hyps"(1) [OF len True this] len True show ?thesis
        by (intro skipping [of i events cur]) simp_all
    next
      case act: False
      then have i: "i < length events" "cur < int i" "ev_Type (events ! i) = ByStart"
        using len by auto
      show ?thesis
      proof (cases "findByEventEnd events (events ! i)")
        case None
        note run = "1.prems" [unfolded loop_instant [OF i None]]
        from case_triple_InrD [OF run] obtain st skip1 k1 where
          f: "fill_step cx (events ! i) (next_start_order (drop (Suc i) events)) []
             (getTimestampMsFromTime (ev_Time (events ! i))) (ev_Time (events ! i)) skip k = Inr (st, skip1, k1)"
          and r: "steps_loop cx events (Suc i) cur (steps @ [st]) skip1 k1 = Inr (res, sk, k2)"
          by blast
        from "1.hyps"(2) [OF len act refl refl None f refl refl r] show ?thesis
          by (rule instant [OF i None f])
      next
        case (Some ej)
        obtain e j where ej: "ej = (e, j)" by (cases ej)
        note E = Some [unfolded ej]
        from "1.prems" loop_crossed [OF i E] have j: "Suc i \<le> j"
          by (cases "j < Suc i") simp_all
        note run = "1.prems" [unfolded loop_nested [OF i E j]]
        from case_triple_InrD [OF run] obtain children toSkip k1 where
          c: "steps_loop cx (slice events (Suc i) j) 0 (- 1) [] {} k = Inr (children, toSkip, k1)"
          and run2: "(case fill_step cx (events ! i) (next_start_order (drop (Suc j) events)) children
             (getTimestampMsFromTime (ev_Time e)) (ev_Time e) (skip \<union> toSkip) k1 of Inl p \<Rightarrow> Inl p
           | Inr (st, skip', k') \<Rightarrow> steps_loop cx events (Suc i) (int j) (steps @ [st]) skip' k') =
             Inr (res, sk, k2)"
          by blast
        from case_triple_InrD [OF run2] obtain st skip1 k3 where
          f: "fill_step cx (events ! i) (next_start_order (drop (Suc j) events)) children
             (getTimestampMsFromTime (ev_Time e)) (ev_Time e) (skip \<union> toSkip) k1 = Inr (st, skip1, k3)"
          and r: "steps_loop cx events (Suc i) (int j) (steps @ [st]) skip1 k3 = Inr (res, sk, k2)"
          by blast
        have nj: "\<not> j < Suc i" using j by simp
        from "1.hyps"(3) [OF len act refl refl E refl nj c]
        have "P (slice events (Suc i) j) 0 (- 1) [] {} k children toSkip k1" .
        moreover from "1.hyps"(4) [OF len act refl refl E refl nj c refl refl f refl refl r]
        have "P events (Suc i) (int j) (steps @ [st]) skip1 k3 res sk k2" .
        ultimately show ?thesis by (rule nested [OF i E j _ f])
      qed
    qed
  qed
qed

subsection \<open>Every \<open>By\<close> event becomes exactly one step\<close>

lemma steps_loop_names:
  assumes "steps_loop cx events i cur steps skip k = Inr (res, sk, k2)" and "- 1 \<le> cur"
  shows "map st_Name (forest res) =
    map st_Name (forest steps) @ start_names (drop (max i (nat (cur + 1))) events)"
  using assms
proof (induction rule: steps_loop_success_induct)
  case (finish events i cur steps skip k)
  then show ?case by simp
next
  case (skip events i cur steps skip k res sk k2)
  show ?case
  proof (cases "int i \<le> cur")
    case True
    then have "max (Suc i) (nat (cur + 1)) = max i (nat (cur + 1))" by linarith
    with skip show ?thesis by simp
  next
    case False
    with skip have "max i (nat (cur + 1)) = i" "max (Suc i) (nat (cur + 1)) = Suc i"
      "ev_Type (events ! i) \<noteq> ByStart" by auto
    with skip show ?thesis by (simp add: Cons_nth_drop_Suc [symmetric])
  qed
next
  case (instant events i cur steps skip k res sk k2 st skip1 k1)
  from instant.hyps(5) have "st_Name st = ev_Message (events ! i)" "st_Children st = []"
    by (auto elim: fill_stepE)
  moreover from instant have "max i (nat (cur + 1)) = i" "max (Suc i) (nat (cur + 1)) = Suc i"
    by auto
  ultimately show ?case using instant
    by (simp add: Cons_nth_drop_Suc [symmetric] subtree_unfold)
next
  case (nested events i cur steps skip k res sk k2 e j children toSkip k1 st skip1 k3)
  from nested.hyps(6) have st: "st_Name st = ev_Message (events ! i)" "st_Children st = children"
    by (auto elim: fill_stepE)
  from findByEventEnd_bound [OF nested.hyps(4)] have j: "j < length events" "ev_Type (events ! j) = ByEnd"
    by auto
  from nested have m: "max i (nat (cur + 1)) = i" "max (Suc i) (nat (int j + 1)) = Suc j" by auto
  from nested.IH(1) have "map st_Name (forest children) = start_names (slice events (Suc i) j)" by simp
  with nested st m j show ?case
    by (simp add: Cons_nth_drop_Suc [symmetric, of i] drop_slice [of i j events] subtree_unfold)
qed

text \<open>
  C1: The names of the steps, read in order of appearance (a step before its children), are
  exactly the messages of the \<open>By\<close> events of the timeline, in order: whatever the nesting, no
  event is dropped and none is reported twice.
\<close>

theorem createSteps_names:
  assumes "createSteps env events entries logs parameters failureOrder k = Inr (steps, skip, k')"
  shows "map st_Name (forest steps) = map ev_Message (filter (\<lambda>e. ev_Type e = ByStart) events)"
  using steps_loop_names [OF assms [unfolded createSteps_def]] by (simp add: start_names_def)

theorem createSteps_names_witness:
  "map st_Name (forest demo_steps) = [''A'', ''N'', ''B''] \<and>
   map st_Name (forest demo_steps) = map ev_Message (filter (\<lambda>e. ev_Type e = ByStart) demo_events)"
  using createSteps_names [OF demo_run] by (simp add: demo_events_def demo_event_def)

subsection \<open>No attachment is lost\<close>

definition covered :: "steps_ctx \<Rightarrow> stepObject list \<Rightarrow> nat set \<Rightarrow> bool" where
  "covered cx steps skip \<longleftrightarrow> (\<forall>x \<in> skip. x < length (cx_entries cx) \<and>
     (\<exists>a \<in> set (tree_atts steps). decode_attachment (cx_env cx) (cx_entries cx ! x) = Inr a))"

lemma covered_append: "covered cx steps skip \<Longrightarrow> covered cx (steps @ rest) skip"
  by (auto simp: covered_def)

lemma covered_fill:
  assumes "fill_step cx s hi children stop0 mt0 (skip \<union> toSkip) k = Inr (st, skip', k')"
    and "covered cx steps skip" and "covered cx children toSkip"
  shows "covered cx (steps @ [st]) skip'"
  using assms(1)
proof (rule fill_stepE)
  fix atts latts mt1
  assume claim: "claim_attachments (cx_env cx) (ev_Order s) hi 0 (cx_entries cx) (skip \<union> toSkip) mt0 =
      Inr (atts, skip', mt1)"
    and st: "st_Children st = children" "st_Attachments st = atts @ latts"
  have new: "\<forall>x \<in> skip' - (skip \<union> toSkip). x < length (cx_entries cx) \<and>
       (\<exists>a \<in> set atts. decode_attachment (cx_env cx) (cx_entries cx ! x) = Inr a)"
    using claim_attachments_sound [OF claim] by simp
  show ?thesis
    unfolding covered_def
  proof
    fix x assume x: "x \<in> skip'"
    show "x < length (cx_entries cx) \<and> (\<exists>a \<in> set (tree_atts (steps @ [st])).
        decode_attachment (cx_env cx) (cx_entries cx ! x) = Inr a)"
    proof (cases "x \<in> skip \<union> toSkip")
      case True
      then show ?thesis using assms(2,3) st unfolding covered_def by auto
    next
      case False
      with x new st show ?thesis by auto
    qed
  qed
qed

lemma steps_loop_covered:
  assumes "steps_loop cx events i cur steps skip k = Inr (res, sk, k2)" and "covered cx steps skip"
  shows "covered cx res sk"
  using assms
proof (induction rule: steps_loop_success_induct)
  case (instant events i cur steps skip k res sk k2 st skip1 k1)
  have "covered cx [] {}" by (simp add: covered_def)
  from covered_fill [of cx _ _ "[]" _ _ skip "{}", simplified, OF instant.hyps(5) instant.prems this]
  show ?case by (rule instant.IH)
next
  case (nested events i cur steps skip k res sk k2 e j children toSkip k1 st skip1 k3)
  have "covered cx children toSkip" using nested.IH(1) by (simp add: covered_def)
  from covered_fill [OF nested.hyps(6) nested.prems this] show ?case by (rule nested.IH(2))
qed

text \<open>
  Every attachment entry that \<open>createSteps\<close> marks as handled (so that the spec result
  does not show it again) really is in the tree: the index is a valid one, the payload decodes,
  and the decoded attachment hangs on some step.
\<close>

theorem createSteps_no_attachment_lost:
  assumes "createSteps env events entries logs parameters failureOrder k = Inr (steps, skip, k')"
    and "x \<in> skip"
  shows "x < length entries \<and>
    (\<exists>a \<in> set (tree_atts steps). decode_attachment env (entries ! x) = Inr a)"
proof -
  let ?cx = "\<lparr>cx_env = env, cx_entries = entries, cx_logs = logs, cx_params = parameters,
              cx_failureOrder = failureOrder\<rparr>"
  have "covered ?cx steps skip"
    using steps_loop_covered [OF assms(1) [unfolded createSteps_def]] by (simp add: covered_def)
  with assms(2) show ?thesis by (auto simp: covered_def)
qed

theorem createSteps_no_attachment_lost_witness:
  "\<exists>a \<in> set (tree_atts demo_steps).
     decode_attachment demo_env ([demo_entry ''ATTACHMENT'' ''a'' 7] ! 0) = Inr a"
  using createSteps_no_attachment_lost [OF demo_run, of 0] by blast

end
