(* ===== verification/Allure_Order.thy ===== *)
theory Allure_Order
  imports Allure_Tree
begin

text \<open>
  Time and order in the step trees: steps do not end before they start, \<open>createSteps\<close> returns
  on well-formed reports, a report without \<open>By\<close> callbacks is exactly a partition of the
  timeline, and the corner where the code leaves that specification: the last nested step of a
  \<open>By\<close> callback has no upper bound.
\<close>

subsection \<open>Durations\<close>

definition clock_ok :: "spec_event list \<Rightarrow> bool" where
  "clock_ok events \<longleftrightarrow> list_all (\<lambda>a. list_all (\<lambda>b. ev_Order a < ev_Order b \<longrightarrow> ev_Time a \<le> ev_Time b) events) events"

definition durations_ok :: "stepObject list \<Rightarrow> bool" where
  "durations_ok steps \<longleftrightarrow> list_all (\<lambda>st. st_Start st \<le> st_Stop st) (forest steps)"

lemma getTimestampMs_mono: "a \<le> b \<Longrightarrow> getTimestampMsFromTime a \<le> getTimestampMsFromTime b"
  by (simp add: getTimestampMsFromTime_def go_div_mono)

lemma set_slice: "set (slice xs a b) \<subseteq> set xs"
  unfolding slice_def by (meson order_trans set_take_subset set_drop_subset)

lemma clock_ok_slice: "clock_ok events \<Longrightarrow> clock_ok (slice events a b)"
  using set_slice [of events a b] by (auto simp: clock_ok_def list_all_iff)

lemma clock_okD:
  "clock_ok events \<Longrightarrow> a \<in> set events \<Longrightarrow> b \<in> set events \<Longrightarrow> ev_Order a < ev_Order b \<Longrightarrow> ev_Time a \<le> ev_Time b"
  by (auto simp: clock_ok_def list_all_iff)

lemma fill_step_duration:
  assumes "fill_step cx s hi children stop0 mt0 skip k = Inr (st, skip', k')"
    and "ev_Time s \<le> mt0" and "stop0 = getTimestampMsFromTime mt0" and "durations_ok children"
  shows "durations_ok [st]"
  using assms(1)
proof (rule fill_stepE)
  fix mt3
  assume "st_Start st = getTimestampMsFromTime (ev_Time s)" "st_Children st = children"
    "st_Stop st = (if ev_Time s < mt3 then getTimestampMsFromTime mt3 else stop0)"
  with assms(2-4) show ?thesis
    by (auto simp: durations_ok_def subtree_unfold intro: getTimestampMs_mono)
qed

lemma steps_loop_durations:
  assumes "steps_loop cx events i cur steps skip k = Inr (res, sk, k2)"
    and "clock_ok events" and "durations_ok steps"
  shows "durations_ok res"
  using assms
proof (induction rule: steps_loop_success_induct)
  case (instant events i cur steps skip k res sk k2 st skip1 k1)
  have "durations_ok [st]" by (rule fill_step_duration [OF instant.hyps(5)]) (simp_all add: durations_ok_def)
  with instant show ?case by (simp add: durations_ok_def)
next
  case (nested events i cur steps skip k res sk k2 e j children toSkip k1 st skip1 k3)
  have ch: "durations_ok children"
    using nested.IH(1) nested.prems(1) by (simp add: clock_ok_slice) (simp add: durations_ok_def)
  from findByEventEnd_bound [OF nested.hyps(4)] have e: "e \<in> set events" "ev_Order (events ! i) < ev_Order e"
    by auto
  with nested have "ev_Time (events ! i) \<le> ev_Time e" by (meson clock_okD nth_mem)
  from fill_step_duration [OF nested.hyps(6) this refl ch] have "durations_ok [st]" .
  with nested show ?case by (simp add: durations_ok_def)
qed

text \<open>
  On a timeline whose clock does not run backwards with the order of the events, no step of
  the tree, nested or not, ends before it starts.
\<close>

theorem createSteps_durations:
  assumes "createSteps env events entries logs parameters failureOrder k = Inr (steps, skip, k')"
    and "clock_ok events"
  shows "list_all (\<lambda>st. st_Start st \<le> st_Stop st) (forest steps)"
  using steps_loop_durations [OF assms(1) [unfolded createSteps_def] assms(2)]
  by (simp add: durations_ok_def)

theorem createSteps_durations_witness:
  "list_all (\<lambda>st. st_Start st \<le> st_Stop st) (forest demo_steps)"
proof -
  have "clock_ok demo_events" by (simp add: clock_ok_def demo_events_def demo_event_def)
  from createSteps_durations [OF demo_run this] show ?thesis .
qed

subsection \<open>Totality\<close>

definition entries_ok :: "allure_env \<Rightarrow> report_entry list \<Rightarrow> report_entry list \<Rightarrow> bool" where
  "entries_ok env entries params \<longleftrightarrow>
     list_all (\<lambda>e. \<exists>a. decode_attachment env e = Inr a) entries \<and>
     list_all (\<lambda>e. \<exists>p. decode_parameter env e = Inr p) params \<and> write_error env = (\<lambda>_. None)"

definition ordered :: "spec_event list \<Rightarrow> bool" where
  "ordered events \<longleftrightarrow> sorted_wrt (\<lambda>a b. ev_Order a < ev_Order b) events"

lemma ordered_slice: "ordered events \<Longrightarrow> ordered (slice events a b)"
  by (simp add: ordered_def slice_def sorted_wrt_take sorted_wrt_drop)

lemma ordered_index:
  "ordered events \<Longrightarrow> i < length events \<Longrightarrow> j < length events \<Longrightarrow>
     ev_Order (events ! i) < ev_Order (events ! j) \<Longrightarrow> i < j"
  unfolding ordered_def
  by (metis linorder_neqE_nat order_less_asym sorted_wrt_nth_less)

lemma claim_attachments_total:
  "list_all (\<lambda>e. \<exists>a. decode_attachment env e = Inr a) es \<Longrightarrow>
     \<exists>r. claim_attachments env lo hi i es skip mt = Inr r"
proof (induction env lo hi i es skip mt rule: claim_attachments.induct)
  case (1 env lo hi i skip mt)
  then show ?case by simp
next
  case (2 env lo hi i e es skip mt)
  then obtain a where a: "decode_attachment env e = Inr a" by auto
  show ?case
  proof (cases "i \<in> skip \<or> \<not> owns lo hi (en_Order e)")
    case True
    with 2 show ?thesis by auto
  next
    case False
    from "2.IH"(2) [OF False a] "2.prems" obtain r where
      "claim_attachments env lo hi (Suc i) es (insert i skip) (max mt (en_Time e)) = Inr r" by auto
    with False a show ?thesis by (cases r) auto
  qed
qed

lemma decode_parameters_total:
  "list_all (\<lambda>e. \<exists>p. decode_parameter env e = Inr p) es \<Longrightarrow> \<exists>r. decode_parameters env es = Inr r"
  by (induction es) auto

lemma log_attachment_total:
  "write_error env = (\<lambda>_. None) \<Longrightarrow> \<exists>r. log_attachment env name owned k = Inr r"
  by (auto simp: log_attachment_def addAttachment_def newAttachment_def writeAttachmentFile_def Let_def)

lemma fill_step_total:
  assumes "entries_ok (cx_env cx) (cx_entries cx) (cx_params cx)"
  shows "\<exists>st skip' k'. fill_step cx s hi children stop0 mt0 skip k = Inr (st, skip', k')"
proof -
  obtain atts sk mt where c: "claim_attachments (cx_env cx) (ev_Order s) hi 0 (cx_entries cx) skip mt0 =
      Inr (atts, sk, mt)"
    using assms claim_attachments_total unfolding entries_ok_def by (metis prod_cases3)
  obtain latts k' where l: "log_attachment (cx_env cx) (ev_Message s)
      (owned_logs (ev_Order s) hi (cx_logs cx)) k = Inr (latts, k')"
    using assms log_attachment_total unfolding entries_ok_def by (metis surj_pair)
  have "list_all (\<lambda>e. \<exists>p. decode_parameter (cx_env cx) e = Inr p) (owned_logs (ev_Order s) hi (cx_params cx))"
    using assms by (auto simp: entries_ok_def owned_logs_def list_all_iff)
  then obtain ps where p: "decode_parameters (cx_env cx) (owned_logs (ev_Order s) hi (cx_params cx)) = Inr ps"
    using decode_parameters_total by blast
  show ?thesis using c l p by (simp add: fill_step_def Let_def)
qed

lemma steps_loop_total:
  assumes "entries_ok (cx_env cx) (cx_entries cx) (cx_params cx)" and "ordered events"
  shows "\<exists>res sk k2. steps_loop cx events i cur steps skip k = Inr (res, sk, k2)"
  using assms
proof (induction cx events i cur steps skip k rule: steps_loop.induct)
  case (1 cx events i cur steps skip k)
  show ?case
  proof (cases "i < length events \<and> cur < int i \<and> ev_Type (events ! i) = ByStart")
    case False
    then consider "length events \<le> i"
      | "\<not> length events \<le> i" "int i \<le> cur \<or> ev_Type (events ! i) \<noteq> ByStart" by force
    then show ?thesis
    proof cases
      case 1
      then show ?thesis by (simp add: loop_done)
    next
      case 2
      with "1.IH"(1) [OF 2 "1.prems"] show ?thesis by (simp add: loop_skip)
    qed
  next
    case True
    then have i: "i < length events" "cur < int i" "ev_Type (events ! i) = ByStart" and
      len: "\<not> length events \<le> i" and act: "\<not> (int i \<le> cur \<or> ev_Type (events ! i) \<noteq> ByStart)" by auto
    show ?thesis
    proof (cases "findByEventEnd events (events ! i)")
      case None
      obtain st skip1 k1 where f: "fill_step cx (events ! i) (next_start_order (drop (Suc i) events)) []
          (getTimestampMsFromTime (ev_Time (events ! i))) (ev_Time (events ! i)) skip k = Inr (st, skip1, k1)"
        using fill_step_total [OF "1.prems"(1)] by blast
      from "1.IH"(2) [OF len act refl refl None f refl refl "1.prems"] f show ?thesis
        by (simp add: loop_instant [OF i None])
    next
      case (Some ej)
      obtain e j where ej: "ej = (e, j)" by (cases ej)
      note E = Some [unfolded ej]
      from findByEventEnd_bound [OF E] ordered_index [OF "1.prems"(2) i(1), of j]
      have j: "Suc i \<le> j" by auto
      then have nj: "\<not> j < Suc i" by simp
      from "1.IH"(3) [OF len act refl refl E refl nj "1.prems"(1) ordered_slice [OF "1.prems"(2)]]
      obtain children toSkip k1 where
        c: "steps_loop cx (slice events (Suc i) j) 0 (- 1) [] {} k = Inr (children, toSkip, k1)" by blast
      obtain st skip1 k3 where f: "fill_step cx (events ! i) (next_start_order (drop (Suc j) events)) children
          (getTimestampMsFromTime (ev_Time e)) (ev_Time e) (skip \<union> toSkip) k1 = Inr (st, skip1, k3)"
        using fill_step_total [OF "1.prems"(1)] by blast
      from "1.IH"(4) [OF len act refl refl E refl nj c refl refl f refl refl "1.prems"] c f show ?thesis
        by (simp add: loop_nested [OF i E j])
    qed
  qed
qed

text \<open>
  \<open>createSteps\<close> does not panic on a well-formed report: when the events carry strictly
  increasing order numbers, the recorded payloads decode and files can be written, it returns a
  tree. In particular the slice of the nested events is never out of range.
\<close>

theorem createSteps_total:
  assumes "ordered events" and "entries_ok env entries parameters"
  shows "\<exists>steps skip k'. createSteps env events entries logs parameters failureOrder k =
    Inr (steps, skip, k')"
  unfolding createSteps_def using assms by (intro steps_loop_total) simp_all

theorem createSteps_total_witness:
  "\<exists>steps skip k'. createSteps demo_env demo_events [demo_entry ''ATTACHMENT'' ''a'' 7] []
      [demo_entry ''PARAMETER'' ''p'' 2] 0 demo_sink = Inr (steps, skip, k')"
proof -
  have "ordered demo_events" by (simp add: ordered_def demo_events_def demo_event_def)
  moreover have "entries_ok demo_env [demo_entry ''ATTACHMENT'' ''a'' 7] [demo_entry ''PARAMETER'' ''p'' 2]"
    by (simp add: entries_ok_def demo_env_def demo_entry_def decode_attachment_def zero_attachment_def
        decode_parameter_def)
  ultimately show ?thesis by (rule createSteps_total)
qed

subsection \<open>Which step failed\<close>

text \<open>
  On a timeline without callbacks the ranges of the steps partition the orders from the first
  \<open>By\<close> event on: the loop is a map over the start events.
\<close>

definition flat :: "spec_event list \<Rightarrow> bool" where
  "flat events \<longleftrightarrow> list_all (\<lambda>e. ev_Type e \<noteq> ByEnd) events"

fun flat_statuses :: "int \<Rightarrow> spec_event list \<Rightarrow> (gostring \<times> gostring) list" where
  "flat_statuses fo [] = []"
| "flat_statuses fo (e # es) =
     (if ev_Type e = ByStart
      then (ev_Message e, if 0 < fo \<and> owns (ev_Order e) (next_start_order es) fo then failed else passed)
             # flat_statuses fo es
      else flat_statuses fo es)"

definition starts_before :: "int \<Rightarrow> spec_event list \<Rightarrow> spec_event list" where
  "starts_before fo es = filter (\<lambda>e. ev_Type e = ByStart \<and> ev_Order e < fo) es"

lemma flat_no_end: "flat events \<Longrightarrow> findByEventEnd events s = None"
proof (rule ccontr)
  assume "flat events" "findByEventEnd events s \<noteq> None"
  then obtain e j where "findByEventEnd events s = Some (e, j)" by auto
  from findByEventEnd_bound [OF this] \<open>flat events\<close> show False
    by (auto simp: flat_def list_all_length)
qed

lemma steps_loop_flat:
  assumes "steps_loop cx events i cur steps skip k = Inr (res, sk, k2)" and "flat events" and "cur = - 1"
  shows "map (\<lambda>st. (st_Name st, st_Status st)) res =
    map (\<lambda>st. (st_Name st, st_Status st)) steps @ flat_statuses (cx_failureOrder cx) (drop i events)"
  using assms
proof (induction rule: steps_loop_success_induct)
  case (finish events i cur steps skip k)
  then show ?case by simp
next
  case (skip events i cur steps skip k res sk k2)
  then show ?case by (simp add: Cons_nth_drop_Suc [symmetric])
next
  case (instant events i cur steps skip k res sk k2 st skip1 k1)
  from instant.hyps(5) have "st_Name st = ev_Message (events ! i)"
    "st_Status st = (if 0 < cx_failureOrder cx \<and> owns (ev_Order (events ! i))
       (next_start_order (drop (Suc i) events)) (cx_failureOrder cx) then failed else passed)"
    by (auto elim: fill_stepE)
  with instant show ?case by (simp add: Cons_nth_drop_Suc [symmetric])
next
  case (nested events i cur steps skip k res sk k2 e j children toSkip k1 st skip1 k3)
  then show ?case by (simp add: flat_no_end)
qed

lemma next_start_none: "ordered es \<Longrightarrow> fo < next_start_order es \<Longrightarrow> starts_before fo es = []"
  by (induction es) (auto simp: ordered_def starts_before_def filter_empty_conv split: if_splits)

lemma next_start_some:
  "next_start_order es \<le> fo \<Longrightarrow> fo < max_order \<Longrightarrow> list_all (\<lambda>e. ev_Order e \<noteq> fo) es \<Longrightarrow>
     starts_before fo es \<noteq> []"
  by (induction es) (auto simp: starts_before_def split: if_splits)

lemma flat_statuses_failed:
  assumes "ordered es" and "0 < fo" and "fo < max_order" and "list_all (\<lambda>e. ev_Order e \<noteq> fo) es"
  shows "map fst (filter (\<lambda>p. snd p = failed) (flat_statuses fo es)) =
    (if starts_before fo es = [] then [] else [ev_Message (last (starts_before fo es))])"
  using assms
proof (induction es)
  case Nil
  then show ?case by (simp add: starts_before_def)
next
  case (Cons e es)
  then have IH: "map fst (filter (\<lambda>p. snd p = failed) (flat_statuses fo es)) =
      (if starts_before fo es = [] then [] else [ev_Message (last (starts_before fo es))])"
    and ord: "ordered es" and ne: "ev_Order e \<noteq> fo" and all: "list_all (\<lambda>e. ev_Order e \<noteq> fo) es"
    by (simp_all add: ordered_def)
  have later: "starts_before fo es = []" if "fo < ev_Order e"
    using that Cons.prems(1) by (auto simp: starts_before_def ordered_def filter_empty_conv)
  have "starts_before fo es = [] \<longleftrightarrow> fo < next_start_order es"
    using next_start_none [OF ord] next_start_some [OF _ Cons.prems(3) all] by force
  with IH later ne Cons.prems(2) show ?case
    by (auto simp: starts_before_def owns_def failed_def passed_def)
qed

text \<open>
  The failure of a report without callbacks is charged to exactly one step, the last one that
  had started when the failure was recorded; no step is marked when none had started.
\<close>

theorem createSteps_blames_last_started:
  assumes "createSteps env events entries logs parameters failureOrder k = Inr (steps, skip, k')"
    and "ordered events" and "flat events" and "0 < failureOrder" and "failureOrder < max_order"
    and "list_all (\<lambda>e. ev_Order e \<noteq> failureOrder) events"
  shows "map st_Name (filter (\<lambda>st. st_Status st = failed) steps) =
    (let before = filter (\<lambda>e. ev_Type e = ByStart \<and> ev_Order e < failureOrder) events
     in if before = [] then [] else [ev_Message (last before)])"
proof -
  have run: "map (\<lambda>st. (st_Name st, st_Status st)) steps = flat_statuses failureOrder events"
    using steps_loop_flat [OF assms(1) [unfolded createSteps_def] assms(3) refl] by simp
  have "map st_Name (filter (\<lambda>st. st_Status st = failed) steps) =
      map fst (filter (\<lambda>p. snd p = failed) (map (\<lambda>st. (st_Name st, st_Status st)) steps))"
    by (simp add: filter_map comp_def)
  with run flat_statuses_failed [OF assms(2,4,5,6)] show ?thesis
    by (simp add: starts_before_def Let_def)
qed

theorem createSteps_blames_last_started_witness:
  "\<exists>steps skip k'. createSteps demo_env [demo_event ByStart ''A'' 1 1, demo_event ByStart ''B'' 2 3] [] [] [] 2
      demo_sink = Inr (steps, skip, k') \<and>
     map st_Name (filter (\<lambda>st. st_Status st = failed) steps) = [''A'']"
proof -
  let ?es = "[demo_event ByStart ''A'' 1 1, demo_event ByStart ''B'' 2 3]"
  have o: "ordered ?es" and f: "flat ?es" and l: "list_all (\<lambda>e. ev_Order e \<noteq> 2) ?es"
    by (simp_all add: ordered_def flat_def demo_event_def)
  have "entries_ok demo_env [] []" by (simp add: entries_ok_def demo_env_def)
  with o steps_loop_total obtain steps skip k' where
    r: "createSteps demo_env ?es [] [] [] 2 demo_sink = Inr (steps, skip, k')"
    unfolding createSteps_def by fastforce
  from createSteps_blames_last_started [OF r o f _ _ l] r show ?thesis
    by (simp add: max_order_def demo_event_def)
qed

text \<open>
  With callbacks the rule "a step owns everything until the next sibling step starts or the
  parent ends" is not what the code does: inside a callback the events are cut at its end, so the
  last nested step has no upper bound. In the concrete report the nested step \<open>N\<close> ended before
  \<open>B\<close> began, yet it takes the failure and the attachment recorded during \<open>B\<close>, and it stops
  after its parent \<open>A\<close> does.
\<close>

theorem nested_step_claims_later_entries:
  "createSteps demo_env demo_events [demo_entry ''ATTACHMENT'' ''a'' 7] [] [] 6 demo_sink =
     Inr (demo_steps, {0}, demo_sink) \<and>
   (let a = demo_steps ! 0; n = st_Children a ! 0; b = demo_steps ! 1
    in st_Name n = ''N'' \<and> st_Status a = passed \<and> st_Status n = failed \<and> st_Status b = failed \<and>
       st_Attachments n = [demo_attachment] \<and> st_Attachments b = [] \<and> st_Stop a < st_Stop n)"
  using demo_run by (simp add: demo_steps_def passed_def failed_def Let_def)

end
