(* ===== verification/Allure_Text.thy ===== *)
theory Allure_Text
  imports Prelude
begin

text \<open>
  The text the Allure reporter derives from a run (\<open>result.go\<close>): the command line, quoted so
  that it can be pasted into a shell, and the title and context taken out of a failure message of
  testify. \<open>sh_words\<close> is the specification of the quoting: the words a POSIX shell reads, with
  \<open>None\<close> for input in which some character would be interpreted.
\<close>

subsection \<open>Quoting a command line\<close>

definition shell_safe :: "char \<Rightarrow> bool" where
  "shell_safe c \<longleftrightarrow>
     (let n = (of_char c :: nat) in
        65 \<le> n \<and> n \<le> 90 \<or> 97 \<le> n \<and> n \<le> 122 \<or> 48 \<le> n \<and> n \<le> 57 \<or> c \<in> set ''_@%+=:,./-'')"

definition squote :: char where "squote = CHR 0x27"
definition backslash :: char where "backslash = CHR 0x5C"
definition space :: char where "space = CHR 0x20"

definition shellQuote :: "gostring \<Rightarrow> gostring" where
  "shellQuote s =
     (if s = [] then [squote, squote]
      else if list_all shell_safe s then s
      else [squote] @ ReplaceC squote [squote, backslash, squote, squote] s @ [squote])"

definition commandLineFromArgs :: "gostring list \<Rightarrow> gostring" where
  "commandLineFromArgs args = Join [space] (map shellQuote args)"

definition word_of :: "gostring option \<Rightarrow> gostring" where
  "word_of cur = (case cur of None \<Rightarrow> [] | Some w \<Rightarrow> w)"

text \<open>
  \<open>sh False cur s\<close> reads \<open>s\<close> outside quotes with \<open>cur\<close> the word under construction (\<open>None\<close>
  between words); \<open>sh True cur s\<close> reads inside single quotes.
\<close>

fun sh :: "bool \<Rightarrow> gostring option \<Rightarrow> gostring \<Rightarrow> gostring list option" where
  "sh False cur [] = Some (case cur of None \<Rightarrow> [] | Some w \<Rightarrow> [w])"
| "sh True cur [] = None"
| "sh True cur (c # cs) =
     (if c = squote then sh False (Some (word_of cur)) cs else sh True (Some (word_of cur @ [c])) cs)"
| "sh False cur (c # cs) =
     (if c = space then (case cur of None \<Rightarrow> sh False None cs
                         | Some w \<Rightarrow> map_option (Cons w) (sh False None cs))
      else if c = squote then sh True cur cs
      else if c = backslash then
        (case cs of [] \<Rightarrow> None
         | d # ds \<Rightarrow> if d = nl then sh False cur ds else sh False (Some (word_of cur @ [d])) ds)
      else if shell_safe c then sh False (Some (word_of cur @ [c])) cs
      else None)"

definition sh_words :: "gostring \<Rightarrow> gostring list option" where
  "sh_words s = sh False None s"

lemma safe_not_special:
  "\<not> shell_safe space" "\<not> shell_safe squote" "\<not> shell_safe backslash"
  by (simp_all add: shell_safe_def space_def squote_def backslash_def)

lemma quote_chars_distinct [simp]:
  "space \<noteq> squote" "squote \<noteq> space" "space \<noteq> backslash" "backslash \<noteq> space"
  "squote \<noteq> backslash" "backslash \<noteq> squote" "squote \<noteq> nl"
  by (simp_all add: space_def squote_def backslash_def)

lemma sh_safe:
  "list_all shell_safe s \<Longrightarrow> s \<noteq> [] \<Longrightarrow> sh False cur (s @ rest) = sh False (Some (word_of cur @ s)) rest"
proof (induction s arbitrary: cur)
  case Nil
  then show ?case by simp
next
  case (Cons c s)
  then have c: "c \<noteq> space" "c \<noteq> squote" "c \<noteq> backslash" "shell_safe c"
    using safe_not_special by auto
  show ?case
  proof (cases "s = []")
    case True
    with c show ?thesis by simp
  next
    case False
    with Cons.prems Cons.IH [of "Some (word_of cur @ [c])"] c show ?thesis by (simp add: word_of_def)
  qed
qed

lemma sh_quoted:
  "sh True cur (ReplaceC squote [squote, backslash, squote, squote] s @ squote # rest) =
     sh False (Some (word_of cur @ s)) rest"
proof (induction s arbitrary: cur)
  case Nil
  then show ?case by (simp add: ReplaceC_def)
next
  case (Cons c s)
  from Cons [of "Some (word_of cur @ [c])"] show ?case
    by (auto simp: ReplaceC_def word_of_def)
qed

lemma sh_shellQuote: "sh False None (shellQuote a @ rest) = sh False (Some a) rest"
proof -
  have w: "word_of None = []" by (simp add: word_of_def)
  consider "a = []" | "a \<noteq> []" "list_all shell_safe a" | "a \<noteq> []" "\<not> list_all shell_safe a" by blast
  then show ?thesis
  proof cases
    case 1
    then show ?thesis by (simp add: shellQuote_def w)
  next
    case 2
    then show ?thesis by (simp add: shellQuote_def w sh_safe)
  next
    case 3
    then show ?thesis by (simp add: shellQuote_def w sh_quoted)
  qed
qed


subsection \<open>Failure messages\<close>

datatype msg_section = NoSection | ErrorSection | MessagesSection

record details =
  d_section :: msg_section
  d_error :: "gostring list"
  d_context :: "gostring list"

definition add_clean :: "gostring \<Rightarrow> gostring list \<Rightarrow> gostring list" where
  "add_clean after parts = (if TrimSpace after = [] then parts else parts @ [TrimSpace after])"

definition details_line :: "gostring \<Rightarrow> details \<Rightarrow> details" where
  "details_line line d =
     (let trimmed = TrimSpace line in
      if trimmed = [] then d
      else case CutPrefix trimmed ''Error:'' of
        Some after \<Rightarrow> d\<lparr>d_section := ErrorSection, d_error := add_clean after (d_error d)\<rparr>
      | None \<Rightarrow>
       (case CutPrefix trimmed ''Messages:'' of
          Some after \<Rightarrow> d\<lparr>d_section := MessagesSection, d_context := add_clean after (d_context d)\<rparr>
        | None \<Rightarrow>
            if HasPrefix trimmed ''Error Trace:'' \<or> HasPrefix trimmed ''Test:''
            then d\<lparr>d_section := NoSection\<rparr>
            else (case d_section d of
                    ErrorSection \<Rightarrow> d\<lparr>d_error := d_error d @ [trimmed]\<rparr>
                  | MessagesSection \<Rightarrow> d\<lparr>d_context := d_context d @ [trimmed]\<rparr>
                  | NoSection \<Rightarrow> d)))"

definition extractFailureDetails :: "gostring \<Rightarrow> gostring \<times> gostring" where
  "extractFailureDetails msg =
     (let d = fold details_line (SplitC nl msg) \<lparr>d_section = NoSection, d_error = [], d_context = []\<rparr>;
          errorParts = (if d_error d = [] then [TrimSpace msg] else d_error d);
          contextParts = d_context d
      in (Join [nl] errorParts @ (case contextParts of [] \<Rightarrow> [] | c # _ \<Rightarrow> '' | '' @ c),
          Join [nl] contextParts))"

text \<open>
  The layout testify prints. A clean line is one that stands for itself: not empty, without
  surrounding space or line breaks, and not one of the section titles.
\<close>

definition section_titles :: "gostring list" where
  "section_titles = [''Error:'', ''Messages:'', ''Error Trace:'', ''Test:'']"

definition clean_line :: "gostring \<Rightarrow> bool" where
  "clean_line s \<longleftrightarrow> s \<noteq> [] \<and> TrimSpace s = s \<and> nl \<notin> set s \<and> \<not> list_ex (HasPrefix s) section_titles"

definition tab :: char where "tab = CHR 0x09"

definition labelled :: "gostring \<Rightarrow> nat \<Rightarrow> gostring \<Rightarrow> gostring" where
  "labelled title n txt = tab # title @ replicate n space @ tab # txt"

definition continued :: "gostring \<Rightarrow> gostring" where
  "continued txt = tab # replicate 12 space @ tab # txt"

definition testify_lines ::
  "gostring list \<Rightarrow> gostring \<Rightarrow> gostring list \<Rightarrow> gostring \<Rightarrow> gostring \<Rightarrow> gostring list \<Rightarrow> gostring list" where
  "testify_lines trace e es test m ms =
     [[], labelled ''Error Trace:'' 0 []] @ map continued trace @ [labelled ''Error:'' 6 e] @
     map continued es @ [labelled ''Test:'' 7 test, labelled ''Messages:'' 3 m] @ map continued ms @ [[]]"

definition testify_message ::
  "gostring list \<Rightarrow> gostring \<Rightarrow> gostring list \<Rightarrow> gostring \<Rightarrow> gostring \<Rightarrow> gostring list \<Rightarrow> gostring" where
  "testify_message trace e es test m ms = Join [nl] (testify_lines trace e es test m ms)"

lemma is_space_tab [simp]: "is_space tab"
  by (simp add: is_space_def tab_def)

lemma TrimSpace_Cons_space: "is_space c \<Longrightarrow> TrimSpace (c # s) = TrimSpace s"
  by (simp add: TrimSpace_def trim_chars_def)

lemma TrimSpace_fixD:
  assumes "TrimSpace s = s" and "s \<noteq> []"
  shows "\<not> is_space (hd s)" and "\<not> is_space (last s)"
proof -
  have w: "rev (dropWhile is_space (rev (dropWhile is_space s))) = s"
    using assms(1) by (simp add: TrimSpace_def trim_chars_def)
  have "length s \<le> length (dropWhile is_space s)"
    by (metis w length_dropWhile_le length_rev)
  then have d: "dropWhile is_space s = s"
    using length_dropWhile_le [of is_space s] by (metis dropWhile_eq_drop drop_all le_antisym length_drop
        diff_le_self dropWhile_eq_self_iff suffix_dropWhile suffix_length_suffix suffix_order.eq_iff)
  then show "\<not> is_space (hd s)" using assms(2) by (simp add: dropWhile_eq_self_iff)
  from w d have "dropWhile is_space (rev s) = rev s" by (metis rev_rev_ident)
  with assms(2) show "\<not> is_space (last s)" by (simp add: dropWhile_eq_self_iff hd_rev)
qed

lemma TrimSpace_fixI:
  assumes "s \<noteq> []" and "\<not> is_space (hd s)" and "\<not> is_space (last s)"
  shows "TrimSpace s = s"
proof -
  have "dropWhile is_space s = s" using assms by (simp add: dropWhile_eq_self_iff)
  moreover have "dropWhile is_space (rev s) = rev s" using assms by (simp add: dropWhile_eq_self_iff hd_rev)
  ultimately show ?thesis by (simp add: TrimSpace_def trim_chars_def)
qed

lemma is_space_space [simp]: "is_space space"
  by (simp add: is_space_def space_def)

lemma TrimSpace_skip: "list_all is_space w \<Longrightarrow> TrimSpace (w @ s) = TrimSpace s"
  by (induction w) (simp_all add: TrimSpace_Cons_space)

lemma TrimSpace_clean: "clean_line s \<Longrightarrow> TrimSpace s = s"
  by (simp add: clean_line_def)

lemma TrimSpace_title:
  assumes "p \<noteq> []" and "\<not> is_space (hd p)" and "clean_line e"
  shows "TrimSpace (p @ replicate n space @ tab # e) = p @ replicate n space @ tab # e"
  using assms TrimSpace_fixD [of e] by (intro TrimSpace_fixI) (auto simp: clean_line_def)

lemma TrimSpace_after: "clean_line e \<Longrightarrow> TrimSpace (replicate n space @ tab # e) = e"
  using TrimSpace_skip [of "replicate n space @ [tab]" e]
  by (simp add: TrimSpace_clean list_all_iff)

lemma clean_line_titles:
  assumes "clean_line s"
  shows "CutPrefix s ''Error:'' = None" "CutPrefix s ''Messages:'' = None"
    "\<not> HasPrefix s ''Error Trace:''" "\<not> HasPrefix s ''Test:''" "s \<noteq> []"
  using assms by (simp_all add: clean_line_def CutPrefix_def section_titles_def)

lemma details_line_continued:
  "clean_line s \<Longrightarrow> details_line (continued s) d =
     (case d_section d of
        ErrorSection \<Rightarrow> d\<lparr>d_error := d_error d @ [s]\<rparr>
      | MessagesSection \<Rightarrow> d\<lparr>d_context := d_context d @ [s]\<rparr>
      | NoSection \<Rightarrow> d)"
  using TrimSpace_skip [of "tab # replicate 12 space @ [tab]" s]
  by (simp add: details_line_def continued_def clean_line_titles TrimSpace_clean list_all_iff)

lemma fold_continued:
  "list_all clean_line es \<Longrightarrow> fold details_line (map continued es) d =
     (case d_section d of
        ErrorSection \<Rightarrow> d\<lparr>d_error := d_error d @ es\<rparr>
      | MessagesSection \<Rightarrow> d\<lparr>d_context := d_context d @ es\<rparr>
      | NoSection \<Rightarrow> d)"
  by (induction es arbitrary: d) (auto simp: details_line_continued split: msg_section.splits)

lemma trim_labelled:
  "p \<noteq> [] \<Longrightarrow> \<not> is_space (hd p) \<Longrightarrow> clean_line e \<Longrightarrow>
     TrimSpace (labelled p n e) = p @ replicate n space @ tab # e"
  unfolding labelled_def by (simp add: TrimSpace_Cons_space TrimSpace_title)

lemma CutPrefix_append [gostr]: "CutPrefix (p @ s) p = Some s"
  by (simp add: CutPrefix_def)

lemma details_line_Error:
  assumes "clean_line e"
  shows "details_line (labelled ''Error:'' n e) d = d\<lparr>d_section := ErrorSection, d_error := d_error d @ [e]\<rparr>"
proof -
  have "TrimSpace (labelled ''Error:'' n e) = ''Error:'' @ replicate n space @ tab # e"
    using assms by (intro trim_labelled) (simp_all add: is_space_def)
  then show ?thesis
    unfolding details_line_def Let_def
    by (simp only: CutPrefix_append option.case) (simp add: add_clean_def TrimSpace_after assms clean_line_titles)
qed

lemma details_line_Messages:
  assumes "clean_line e"
  shows "details_line (labelled ''Messages:'' n e) d =
    d\<lparr>d_section := MessagesSection, d_context := d_context d @ [e]\<rparr>"
proof -
  have "TrimSpace (labelled ''Messages:'' n e) = ''Messages:'' @ replicate n space @ tab # e"
    using assms by (intro trim_labelled) (simp_all add: is_space_def)
  moreover have "CutPrefix (''Messages:'' @ r) ''Error:'' = None" for r
    by (simp add: CutPrefix_def HasPrefix_def)
  ultimately show ?thesis
    unfolding details_line_def Let_def
    by (simp only: CutPrefix_append option.case) (simp add: add_clean_def TrimSpace_after assms clean_line_titles)
qed

lemma details_line_Test:
  assumes "clean_line e"
  shows "details_line (labelled ''Test:'' n e) d = d\<lparr>d_section := NoSection\<rparr>"
proof -
  have t: "TrimSpace (labelled ''Test:'' n e) = ''Test:'' @ replicate n space @ tab # e"
    using assms by (intro trim_labelled) (simp_all add: is_space_def)
  have "CutPrefix (''Test:'' @ r) ''Error:'' = None" "CutPrefix (''Test:'' @ r) ''Messages:'' = None" for r
    by (simp_all add: CutPrefix_def HasPrefix_def)
  then show ?thesis
    unfolding details_line_def Let_def t by (simp only: option.case HasPrefix_append) simp
qed

lemma details_line_Trace: "details_line (labelled ''Error Trace:'' 0 []) d = d\<lparr>d_section := NoSection\<rparr>"
  by (simp add: details_line_def labelled_def CutPrefix_def HasPrefix_def TrimSpace_def trim_chars_def
      is_space_def tab_def Let_def)

lemma details_line_Nil: "details_line [] d = d"
  by (simp add: details_line_def TrimSpace_def trim_chars_def)

lemmas details_line_titles =
  details_line_Error details_line_Messages details_line_Test details_line_Trace details_line_Nil

lemma SplitC_testify:
  assumes "list_all clean_line (e # test # m # trace @ es @ ms)"
  shows "SplitC nl (testify_message trace e es test m ms) = testify_lines trace e es test m ms"
proof -
  have nls: "nl \<noteq> tab" "nl \<noteq> space" by (simp_all add: tab_def space_def)
  have "nl \<notin> set w" if "w \<in> set (testify_lines trace e es test m ms)" for w
    using that assms nls
    by (auto simp: testify_lines_def labelled_def continued_def clean_line_def list_all_iff)
  then show ?thesis
    unfolding testify_message_def by (intro SplitC_Join) (auto simp: testify_lines_def)
qed

text \<open>
  From a failure in testify's layout the report takes exactly the lines of the \<open>Error:\<close>
  section as the title, followed by the first line of the messages, and exactly the lines of the
  \<open>Messages:\<close> section as the context; the error trace and the name of the test are left out.
\<close>

theorem extractFailureDetails_testify:
  assumes "list_all clean_line (e # test # m # trace @ es @ ms)"
  shows "extractFailureDetails (testify_message trace e es test m ms) =
    (Join [nl] (e # es) @ '' | '' @ m, Join [nl] (m # ms))"
proof -
  have c: "clean_line e" "clean_line test" "clean_line m" "list_all clean_line trace"
    "list_all clean_line es" "list_all clean_line ms"
    using assms by simp_all
  have "fold details_line (testify_lines trace e es test m ms)
      \<lparr>d_section = NoSection, d_error = [], d_context = []\<rparr> =
      \<lparr>d_section = MessagesSection, d_error = e # es, d_context = m # ms\<rparr>"
    by (simp add: testify_lines_def details_line_titles fold_continued c)
  then show ?thesis
    by (simp add: extractFailureDetails_def SplitC_testify [OF assms] Let_def)
qed

theorem extractFailureDetails_testify_witness:
  "extractFailureDetails (testify_message [''a.go:1''] ''Not equal:'' [''expected: 1''] ''TestX'' ''series'' []) =
     (Join [nl] [''Not equal:'', ''expected: 1''] @ '' | '' @ ''series'', ''series'')"
proof -
  have "list_all clean_line (''Not equal:'' # ''TestX'' # ''series'' # [''a.go:1''] @ [''expected: 1''] @ [])"
    by (simp add: clean_line_def section_titles_def HasPrefix_def TrimSpace_def trim_chars_def is_space_def)
  from extractFailureDetails_testify [OF this] show ?thesis by simp
qed

text \<open>
  A message without an \<open>Error:\<close> section keeps its whole text, trimmed, as the title; the
  context is never lost: what is shown after the title is its first line.
\<close>

definition has_error_text :: "gostring \<Rightarrow> bool" where
  "has_error_text msg \<longleftrightarrow> list_ex (\<lambda>l. HasPrefix (TrimSpace l) ''Error:'') (SplitC nl msg)"

lemma details_no_error:
  "\<not> list_ex (\<lambda>l. HasPrefix (TrimSpace l) ''Error:'') ls \<Longrightarrow> d_section d \<noteq> ErrorSection \<Longrightarrow>
     d_error (fold details_line ls d) = d_error d"
proof (induction ls arbitrary: d)
  case Nil
  then show ?case by simp
next
  case (Cons l ls)
  then have l: "CutPrefix (TrimSpace l) ''Error:'' = None" by (simp add: CutPrefix_def)
  then have "d_section (details_line l d) \<noteq> ErrorSection" "d_error (details_line l d) = d_error d"
    using Cons.prems(2)
    by (auto simp: details_line_def Let_def split: option.splits msg_section.splits)
  with Cons show ?case by simp
qed

theorem extractFailureDetails_plain:
  assumes "\<not> has_error_text msg"
  shows "\<exists>ctx. extractFailureDetails msg =
    (TrimSpace msg @ (case ctx of [] \<Rightarrow> [] | c # _ \<Rightarrow> '' | '' @ c), Join [nl] ctx)"
  using details_no_error [of "SplitC nl msg" "\<lparr>d_section = NoSection, d_error = [], d_context = []\<rparr>"] assms
  by (auto simp: extractFailureDetails_def has_error_text_def Let_def)

end
