(* ===== verification/Allure_Result.thy ===== *)
theory Allure_Result
  imports Allure_Order Allure_Text
begin

text \<open>
  The reports of Allure (\<open>result.go\<close>, \<open>container.go\<close>, \<open>status.go\<close>, \<open>misc.go\<close>,
  \<open>api.go\<close>): one result per spec and one container per suite, built from Ginkgo's report.
  Ginkgo's types are records of the fields the code reads; the UUID and SHA-1 functions, the JSON
  encoder, the environment, \<open>git\<close>, the host name and the call stack are the fields of
  \<open>report_env\<close>.
\<close>

subsection \<open>Ginkgo's report\<close>

datatype spec_state = SpecStateInvalid | SpecStatePending | SpecStateSkipped | SpecStatePassed
  | SpecStateFailed | SpecStateAborted | SpecStatePanicked | SpecStateInterrupted | SpecStateTimedout

datatype node_type = NodeTypeIt | NodeTypeBeforeSuite | NodeTypeSynchronizedBeforeSuite
  | NodeTypeAfterSuite | NodeTypeSynchronizedAfterSuite | NodeTypeCleanupAfterSuite | NodeTypeOther

record failure =
  fa_Message :: gostring
  fa_ForwardedPanic :: gostring
  fa_FullStackTrace :: gostring
  fa_Order :: int

record spec_report =
  sr_StartTime :: int
  sr_EndTime :: int
  sr_LeafNodeType :: node_type
  sr_LeafNodeText :: gostring
  sr_ContainerHierarchyTexts :: "gostring list"
  sr_State :: spec_state
  sr_Failed :: bool
  sr_Failure :: failure
  sr_ReportEntries :: "report_entry list"
  sr_SpecEvents :: "spec_event list"
  sr_IsSerial :: bool
  sr_ParallelProcess :: int
  sr_FileName :: gostring

record suite_report =
  su_StartTime :: int
  su_EndTime :: int
  su_SuitePath :: gostring
  su_SuiteDescription :: gostring
  su_SpecReports :: "spec_report list"

subsection \<open>Allure's objects\<close>

record label =
  la_Name :: gostring
  la_Value :: gostring

record spec_result =
  rs_UUID :: gostring
  rs_TestCaseID :: gostring
  rs_HistoryID :: gostring
  rs_Name :: gostring
  rs_Description :: gostring
  rs_Status :: gostring
  rs_StatusDetails :: "statusDetails option"
  rs_Stage :: gostring
  rs_Steps :: "stepObject list"
  rs_Attachments :: "attachment list"
  rs_Start :: int
  rs_Stop :: int
  rs_Children :: "gostring list"
  rs_FullName :: gostring
  rs_Labels :: "label list"
  rs_Parameters :: "parameter list"
  rs_Suite :: gostring
  rs_ParentSuite :: gostring

record container =
  co_UUID :: gostring
  co_Name :: gostring
  co_Children :: "gostring list"
  co_Description :: gostring
  co_Befores :: "stepObject list"
  co_Afters :: "stepObject list"
  co_Start :: int
  co_Stop :: int

record report_env =
  re_steps :: allure_env
  re_sha1 :: "gostring \<Rightarrow> gostring"
  re_Getenv :: "gostring \<Rightarrow> gostring"
  re_git :: "gostring option"
  re_args :: "gostring list"
  re_callers :: "gostring list"
  re_hostname :: "gostring option"
  re_now :: int
  re_marshal :: "spec_result \<Rightarrow> gostring result"
  re_marshal_container :: "container \<Rightarrow> gostring result"
  re_path_base :: "gostring \<Rightarrow> gostring"

subsection \<open>Status and description\<close>

fun getTestStatus :: "spec_state \<Rightarrow> gostring" where
  "getTestStatus SpecStatePanicked = broken"
| "getTestStatus SpecStateAborted = skipped"
| "getTestStatus SpecStateInterrupted = skipped"
| "getTestStatus SpecStateSkipped = skipped"
| "getTestStatus SpecStatePending = skipped"
| "getTestStatus SpecStateFailed = failed"
| "getTestStatus SpecStateTimedout = failed"
| "getTestStatus SpecStatePassed = passed"
| "getTestStatus SpecStateInvalid = []"

definition failureStatusDetails :: "spec_report \<Rightarrow> statusDetails" where
  "failureStatusDetails sr =
     (let f = sr_Failure sr;
          message = (if fa_Message f = [] then fa_ForwardedPanic f else fa_Message f);
          (errorMessage, failureContext) = extractFailureDetails message;
          trace = fa_FullStackTrace f
      in \<lparr>Known = False, Muted = False, Flaky = False, sd_Message = errorMessage,
          sd_Trace = (if failureContext = [] then trace
                      else if trace = [] then failureContext
                      else failureContext @ [nl, nl] @ trace)\<rparr>)"

definition descriptionReportEntryName :: gostring where
  "descriptionReportEntryName = ''DESCRIPTION''"

definition buildDescription :: "spec_report \<Rightarrow> gostring" where
  "buildDescription sr =
     (let containerDescs = (if 1 < length (sr_ContainerHierarchyTexts sr)
                            then tl (sr_ContainerHierarchyTexts sr) else []);
          nodeDesc = fold (\<lambda>e d. if en_Name e = descriptionReportEntryName then en_Value e else d)
                       (sr_ReportEntries sr) []
      in Join [nl] (containerDescs @ [nodeDesc]))"

definition sourceGitHash :: "report_env \<Rightarrow> gostring" where
  "sourceGitHash env =
     (let envHash = re_Getenv env ''BUILDKITE_COMMIT''
      in if envHash \<noteq> [] then envHash
         else case re_git env of None \<Rightarrow> ''unknown'' | Some out \<Rightarrow> TrimSpace out)"

subsection \<open>Building a result\<close>

definition labelSuite :: gostring where "labelSuite = ''suite''"
definition labelParentSuite :: gostring where "labelParentSuite = ''parentSuite''"
definition wsPathEnvKey :: gostring where "wsPathEnvKey = ''ALLURE_WORKSPACE_PATH''"

definition addLabel :: "gostring \<Rightarrow> gostring \<Rightarrow> spec_result \<Rightarrow> spec_result" where
  "addLabel name value r = r\<lparr>rs_Labels := rs_Labels r @ [\<lparr>la_Name = name, la_Value = value\<rparr>]\<rparr>"

definition addSuite :: "gostring \<Rightarrow> spec_result \<Rightarrow> spec_result" where
  "addSuite suite r = addLabel labelSuite suite (r\<lparr>rs_Suite := suite\<rparr>)"

definition addParentSuite :: "gostring \<Rightarrow> spec_result \<Rightarrow> spec_result" where
  "addParentSuite suite r = addLabel labelParentSuite suite (r\<lparr>rs_ParentSuite := suite\<rparr>)"

definition addReportParameters :: "gostring \<Rightarrow> gostring \<Rightarrow> spec_result \<Rightarrow> spec_result" where
  "addReportParameters gitHash commandLine r =
     r\<lparr>rs_Parameters := rs_Parameters r @
         [\<lparr>par_Name = ''git_hash'', par_Value = gitHash\<rparr>,
          \<lparr>par_Name = ''command_line'', par_Value = commandLine\<rparr>]\<rparr>"

text \<open>The caller files are searched for a test file; without one the last one stays.\<close>

fun find_test_file :: "gostring \<Rightarrow> gostring list \<Rightarrow> gostring" where
  "find_test_file cur [] = cur"
| "find_test_file cur (f # fs) = (if Contains f ''_test.go'' then f else find_test_file f fs)"

definition setDefaultLabels :: "report_env \<Rightarrow> spec_report \<Rightarrow> spec_result \<Rightarrow> spec_result" where
  "setDefaultLabels env sr r0 =
     (let wsd = re_Getenv env wsPathEnvKey;
          testFile = find_test_file [] (take 10 (re_callers env));
          testPackage = TrimSuffix (ReplaceC (CHR ''/'') ''.'' (TrimPrefix testFile (wsd @ ''/''))) ''.go'';
          r1 = addLabel ''thread'' (if sr_IsSerial sr then ''0'' else int_str (sr_ParallelProcess sr)) r0;
          r2 = addLabel ''testMethod'' (sr_LeafNodeText sr)
                 (addLabel ''testClass'' testPackage (addLabel ''package'' testPackage r1));
          r3 = r2\<lparr>rs_FullName := (if wsd = [] then sr_FileName sr else TrimPrefix (sr_FileName sr) (wsd @ ''/''))
                                 @ '':'' @ sr_LeafNodeText sr\<rparr>;
          r4 = (case re_hostname env of None \<Rightarrow> r3 | Some h \<Rightarrow> addLabel ''host'' h r3)
      in addLabel ''language'' ''golang'' r4)"

definition newResult :: "report_env \<Rightarrow> sink \<Rightarrow> spec_result \<times> sink" where
  "newResult env k =
     (\<lparr>rs_UUID = uuid_of (re_steps env) (uuids_used k), rs_TestCaseID = [], rs_HistoryID = [], rs_Name = [],
       rs_Description = [], rs_Status = [], rs_StatusDetails = None, rs_Stage = [], rs_Steps = [],
       rs_Attachments = [], rs_Start = getTimestampMsFromTime (re_now env), rs_Stop = 0, rs_Children = [],
       rs_FullName = [], rs_Labels = [], rs_Parameters = [], rs_Suite = [], rs_ParentSuite = []\<rparr>,
      k\<lparr>uuids_used := Suc (uuids_used k)\<rparr>)"

text \<open>The attachments no step claimed, decoded in order.\<close>

fun remaining_attachments ::
  "allure_env \<Rightarrow> nat \<Rightarrow> report_entry list \<Rightarrow> nat set \<Rightarrow> gostring + attachment list" where
  "remaining_attachments env i [] skip = Inr []"
| "remaining_attachments env i (e # es) skip =
     (if i \<in> skip then remaining_attachments env (Suc i) es skip
      else case decode_attachment env e of
        Inl p \<Rightarrow> Inl p
      | Inr a \<Rightarrow> (case remaining_attachments env (Suc i) es skip of
                   Inl p \<Rightarrow> Inl p | Inr as \<Rightarrow> Inr (a # as)))"

definition suite_of :: "spec_report \<Rightarrow> gostring" where
  "suite_of sr = (if 0 < length (sr_ContainerHierarchyTexts sr)
                  then last (sr_ContainerHierarchyTexts sr) else sr_LeafNodeText sr)"

text \<open>Everything of the result but its steps and attachments.\<close>

definition is_bad :: "spec_report \<Rightarrow> bool" where
  "is_bad sr \<longleftrightarrow> getTestStatus (sr_State sr) = failed \<or> getTestStatus (sr_State sr) = broken"

definition describe_spec :: "report_env \<Rightarrow> spec_report \<Rightarrow> spec_result \<Rightarrow> spec_result" where
  "describe_spec env sr r0 =
     (let start = getTimestampMsFromTime (sr_StartTime sr);
          stop = getTimestampMsFromTime (sr_EndTime sr);
          r1 = r0\<lparr>rs_Start := start, rs_Stop := (if stop < start then start else stop),
                  rs_Name := sr_LeafNodeText sr, rs_Description := buildDescription sr\<rparr>;
          r2 = addReportParameters (sourceGitHash env) (commandLineFromArgs (re_args env)) r1;
          r3 = addSuite (suite_of sr) (setDefaultLabels env sr r2);
          hash = re_sha1 env (Join [] [rs_Name r3, rs_Suite r3, rs_ParentSuite r3]);
          r4 = r3\<lparr>rs_TestCaseID := hash, rs_HistoryID := hash, rs_Stage := ''finished'',
                  rs_Status := getTestStatus (sr_State sr)\<rparr>
      in if is_bad sr then r4\<lparr>rs_StatusDetails := Some (failureStatusDetails sr)\<rparr> else r4)"

definition createFromSpecReport ::
  "report_env \<Rightarrow> spec_report \<Rightarrow> spec_result \<Rightarrow> sink \<Rightarrow> gostring + (spec_result \<times> sink)" where
  "createFromSpecReport env sr r0 k =
     (let r = describe_spec env sr r0;
          failureOrder = (if is_bad sr then fa_Order (sr_Failure sr) else 0);
          entries = filterForAttachments (sr_ReportEntries sr);
          logs = filterForLogs (sr_ReportEntries sr);
          params = filterForParameters (sr_ReportEntries sr)
      in case createSteps (re_steps env) (sr_SpecEvents sr) entries logs params failureOrder k of
           Inl p \<Rightarrow> Inl p
         | Inr (steps, skip, k') \<Rightarrow>
        (case remaining_attachments (re_steps env) 0 entries skip of
           Inl p \<Rightarrow> Inl p
         | Inr atts \<Rightarrow> Inr (r\<lparr>rs_Steps := steps, rs_Attachments := rs_Attachments r @ atts\<rparr>, k')))"

subsection \<open>Writing files\<close>

definition writeFile :: "report_env \<Rightarrow> gostring \<Rightarrow> gostring \<Rightarrow> sink \<Rightarrow> gostring + sink" where
  "writeFile env filename content k =
     (let path = results_path (re_steps env) @ ''/'' @ filename
      in case write_error (re_steps env) path of
           Some err \<Rightarrow> Inl (''failed to write in file: '' @ err)
         | None \<Rightarrow> Inr (k\<lparr>files := files k @ [(path, content)]\<rparr>))"

definition result_file :: "spec_result \<Rightarrow> gostring" where
  "result_file r = rs_TestCaseID r @ ''-result.json''"

definition write_result :: "report_env \<Rightarrow> spec_result \<Rightarrow> sink \<Rightarrow> gostring + sink" where
  "write_result env r k =
     (case re_marshal env r of
        Inl err \<Rightarrow> Inl (''failed to marshall result into MimeTypeJSON: '' @ err)
      | Inr content \<Rightarrow>
          (case writeFile env (result_file r) content k of
             Inl err \<Rightarrow> Inl (''failed to write content of result to json file: '' @ err)
           | Inr k' \<Rightarrow> Inr k'))"

definition write_container :: "report_env \<Rightarrow> container \<Rightarrow> sink \<Rightarrow> gostring + sink" where
  "write_container env c k =
     bind_result (re_marshal_container env c) (\<lambda>content. writeFile env (co_UUID c @ ''-container.json'') content k)"

text \<open>
  Where reports go: \<open>ALLURE_RESULTS_PATH\<close> when set, else the directory \<open>allure-results\<close> of
  \<open>REPORTS_DIR\<close>, which defaults to the working directory and is then exported.
\<close>

definition resultsPathEnvKey :: gostring where "resultsPathEnvKey = ''REPORTS_DIR''"
definition allureResultsPathEnvKey :: gostring where "allureResultsPathEnvKey = ''ALLURE_RESULTS_PATH''"

record os_env =
  os_Getenv :: "gostring \<Rightarrow> gostring"
  os_Getwd :: "gostring result"
  os_Setenv_error :: "gostring option"
  os_MkdirAll_error :: "gostring \<Rightarrow> gostring option"

definition createFolderIfNotExists :: "os_env \<Rightarrow> gostring + (gostring \<times> (gostring \<Rightarrow> gostring))" where
  "createFolderIfNotExists os =
     (let allure = os_Getenv os allureResultsPathEnvKey in
      if allure \<noteq> [] then
        (case os_MkdirAll_error os allure of
           Some err \<Rightarrow> Inl (''failed to create allure-results folder at '' @ allure @ '': '' @ err)
         | None \<Rightarrow> Inr (allure, os_Getenv os))
      else bind_result
        (if os_Getenv os resultsPathEnvKey \<noteq> [] then Inr (os_Getenv os resultsPathEnvKey, os_Getenv os)
         else case os_Getwd os of
            Inl err \<Rightarrow> Inl (''cannot get current workdir: '' @ err)
          | Inr cwd \<Rightarrow>
              (case os_Setenv_error os of
                 Some err \<Rightarrow> Inl (''cannot set resultsPathEnv: '' @ err)
               | None \<Rightarrow> Inr (cwd, (os_Getenv os)(resultsPathEnvKey := cwd))))
        (\<lambda>(dir, getenv).
          let path = dir @ ''/allure-results'' in
          case os_MkdirAll_error os path of
            Some err \<Rightarrow> Inl (''failed to create allure-results folder: '' @ err)
          | None \<Rightarrow> Inr (path, getenv)))"

subsection \<open>The container of a suite\<close>

definition newTestContainer :: "report_env \<Rightarrow> sink \<Rightarrow> container \<times> sink" where
  "newTestContainer env k =
     (\<lparr>co_UUID = uuid_of (re_steps env) (uuids_used k), co_Name = [], co_Children = [], co_Description = [],
       co_Befores = [], co_Afters = [], co_Start = 0, co_Stop = 0\<rparr>,
      k\<lparr>uuids_used := Suc (uuids_used k)\<rparr>)"

definition fixtureFailureStep :: "spec_report \<Rightarrow> gostring \<Rightarrow> stepObject" where
  "fixtureFailureStep sr name =
     StepObject name (getTestStatus (sr_State sr)) [] (Some (failureStatusDetails sr)) ''finished'' [] [] []
       (getTimestampMsFromTime (sr_StartTime sr)) (getTimestampMsFromTime (sr_EndTime sr))"

text \<open>The steps of a suite fixture, followed by a step for its failure.\<close>

definition fixture_steps ::
  "report_env \<Rightarrow> spec_report \<Rightarrow> report_entry list \<Rightarrow> gostring \<Rightarrow> sink \<Rightarrow> gostring + (stepObject list \<times> sink)" where
  "fixture_steps env sr logs name k =
     (case createSteps (re_steps env) (sr_SpecEvents sr) (filterForAttachments (sr_ReportEntries sr)) logs
             (filterForParameters (sr_ReportEntries sr)) 0 k of
        Inl p \<Rightarrow> Inl p
      | Inr (steps, _, k') \<Rightarrow> Inr (steps @ (if sr_Failed sr then [fixtureFailureStep sr name] else []), k'))"

definition is_before :: "node_type \<Rightarrow> bool" where
  "is_before t \<longleftrightarrow> t = NodeTypeBeforeSuite \<or> t = NodeTypeSynchronizedBeforeSuite"

definition is_after :: "node_type \<Rightarrow> bool" where
  "is_after t \<longleftrightarrow> t = NodeTypeAfterSuite \<or> t = NodeTypeSynchronizedAfterSuite \<or> t = NodeTypeCleanupAfterSuite"

definition add_spec ::
  "report_env \<Rightarrow> gostring \<Rightarrow> spec_report \<Rightarrow> container \<Rightarrow> sink \<Rightarrow> gostring + (container \<times> sink)" where
  "add_spec env desc sr c k =
     (if is_before (sr_LeafNodeType sr) then
        (case fixture_steps env sr (filterForLogs (sr_ReportEntries sr)) ''BeforeSuite'' k of
           Inl p \<Rightarrow> Inl p
         | Inr (steps, k') \<Rightarrow> Inr (c\<lparr>co_Befores := co_Befores c @ steps\<rparr>, k'))
      else if sr_LeafNodeType sr = NodeTypeIt then
        (let (r0, k0) = newResult env k in
         case createFromSpecReport env sr (addParentSuite desc r0) k0 of
           Inl p \<Rightarrow> Inl p
         | Inr (r, k1) \<Rightarrow>
             (case write_result env r k1 of
                Inl p \<Rightarrow> Inl p
              | Inr k2 \<Rightarrow> Inr (c\<lparr>co_Children := co_Children c @ [rs_UUID r]\<rparr>, k2)))
      else if is_after (sr_LeafNodeType sr) then
        (case fixture_steps env sr [] ''AfterSuite'' k of
           Inl p \<Rightarrow> Inl p
         | Inr (steps, k') \<Rightarrow> Inr (c\<lparr>co_Afters := co_Afters c @ steps\<rparr>, k'))
      else Inr (c, k))"

fun add_specs ::
  "report_env \<Rightarrow> gostring \<Rightarrow> spec_report list \<Rightarrow> container \<Rightarrow> sink \<Rightarrow> gostring + (container \<times> sink)" where
  "add_specs env desc [] c k = Inr (c, k)"
| "add_specs env desc (sr # srs) c k =
     (case add_spec env desc sr c k of
        Inl p \<Rightarrow> Inl p
      | Inr (c', k') \<Rightarrow> add_specs env desc srs c' k')"

definition createFromReport ::
  "report_env \<Rightarrow> suite_report \<Rightarrow> container \<Rightarrow> sink \<Rightarrow> gostring + (container \<times> sink)" where
  "createFromReport env rep c k =
     add_specs env (su_SuiteDescription rep) (su_SpecReports rep)
       (c\<lparr>co_Start := getTimestampMsFromTime (su_StartTime rep),
          co_Stop := getTimestampMsFromTime (su_EndTime rep),
          co_Name := re_path_base env (su_SuitePath rep),
          co_Description := su_SuiteDescription rep\<rparr>) k"

definition FromGinkgoReport :: "report_env \<Rightarrow> suite_report \<Rightarrow> sink \<Rightarrow> gostring + sink" where
  "FromGinkgoReport env rep k =
     (let (c0, k0) = newTestContainer env k in
      case createFromReport env rep c0 k0 of
        Inl p \<Rightarrow> Inl p
      | Inr (c, k1) \<Rightarrow> write_container env c k1)"

subsection \<open>No attachment of a spec is lost\<close>

lemma remaining_attachments_sound:
  assumes "remaining_attachments env i es skip = Inr as"
  shows "x < length es \<Longrightarrow> i + x \<notin> skip \<Longrightarrow> \<exists>a \<in> set as. decode_attachment env (es ! x) = Inr a"
  using assms
proof (induction env i es skip arbitrary: as x rule: remaining_attachments.induct)
  case (1 env i skip)
  then show ?case by simp
next
  case (2 env i e es skip)
  show ?case
  proof (cases "i \<in> skip")
    case True
    with 2 have "x \<noteq> 0" by (cases x) auto
    then obtain y where x: "x = Suc y" by (cases x) auto
    with 2 True show ?thesis by auto
  next
    case False
    with "2.prems" obtain a as' where a: "decode_attachment env e = Inr a"
      and r: "remaining_attachments env (Suc i) es skip = Inr as'" and as: "as = a # as'"
      by (auto split: sum.splits)
    show ?thesis
    proof (cases x)
      case 0
      with a as show ?thesis by simp
    next
      case (Suc y)
      with 2 False a r have "\<exists>b \<in> set as'. decode_attachment env (es ! y) = Inr b" by auto
      with Suc as show ?thesis by auto
    qed
  qed
qed

lemma addLabel_fields [simp]:
  "rs_Attachments (addLabel n v r) = rs_Attachments r" "rs_UUID (addLabel n v r) = rs_UUID r"
  "rs_Name (addLabel n v r) = rs_Name r" "rs_ParentSuite (addLabel n v r) = rs_ParentSuite r"
  "rs_Suite (addLabel n v r) = rs_Suite r" "rs_StatusDetails (addLabel n v r) = rs_StatusDetails r"
  "rs_Start (addLabel n v r) = rs_Start r" "rs_Stop (addLabel n v r) = rs_Stop r"
  by (simp_all add: addLabel_def)

lemma setDefaultLabels_fields [simp]:
  "rs_Attachments (setDefaultLabels env sr r) = rs_Attachments r"
  "rs_UUID (setDefaultLabels env sr r) = rs_UUID r"
  "rs_Name (setDefaultLabels env sr r) = rs_Name r"
  "rs_ParentSuite (setDefaultLabels env sr r) = rs_ParentSuite r"
  "rs_StatusDetails (setDefaultLabels env sr r) = rs_StatusDetails r"
  "rs_Start (setDefaultLabels env sr r) = rs_Start r" "rs_Stop (setDefaultLabels env sr r) = rs_Stop r"
  by (simp_all add: setDefaultLabels_def Let_def split: option.splits)

lemma describe_spec_fields:
  "rs_Attachments (describe_spec env sr r0) = rs_Attachments r0"
  "rs_UUID (describe_spec env sr r0) = rs_UUID r0"
  "rs_TestCaseID (describe_spec env sr r0) = re_sha1 env (sr_LeafNodeText sr @ suite_of sr @ rs_ParentSuite r0)"
  "rs_Status (describe_spec env sr r0) = getTestStatus (sr_State sr)"
  "rs_StatusDetails (describe_spec env sr r0) =
     (if is_bad sr then Some (failureStatusDetails sr) else rs_StatusDetails r0)"
  "rs_Start (describe_spec env sr r0) = getTimestampMsFromTime (sr_StartTime sr)"
  "rs_Stop (describe_spec env sr r0) =
     max (getTimestampMsFromTime (sr_StartTime sr)) (getTimestampMsFromTime (sr_EndTime sr))"
  by (simp_all add: describe_spec_def addSuite_def addReportParameters_def Let_def)

lemma createFromSpecReportE:
  assumes "createFromSpecReport env sr r0 k = Inr (r, k')"
  obtains steps skip atts where
    "createSteps (re_steps env) (sr_SpecEvents sr) (filterForAttachments (sr_ReportEntries sr))
       (filterForLogs (sr_ReportEntries sr)) (filterForParameters (sr_ReportEntries sr))
       (if is_bad sr then fa_Order (sr_Failure sr) else 0) k = Inr (steps, skip, k')"
    "remaining_attachments (re_steps env) 0 (filterForAttachments (sr_ReportEntries sr)) skip = Inr atts"
    "r = (describe_spec env sr r0)\<lparr>rs_Steps := steps, rs_Attachments := rs_Attachments r0 @ atts\<rparr>"
proof -
  from case_triple_InrD [OF assms [unfolded createFromSpecReport_def Let_def]]
  obtain steps skip k1 where
    c: "createSteps (re_steps env) (sr_SpecEvents sr) (filterForAttachments (sr_ReportEntries sr))
       (filterForLogs (sr_ReportEntries sr)) (filterForParameters (sr_ReportEntries sr))
       (if is_bad sr then fa_Order (sr_Failure sr) else 0) k = Inr (steps, skip, k1)"
    and m: "(case remaining_attachments (re_steps env) 0 (filterForAttachments (sr_ReportEntries sr)) skip of
       Inl p \<Rightarrow> Inl p
     | Inr atts \<Rightarrow> Inr ((describe_spec env sr r0)\<lparr>rs_Steps := steps,
         rs_Attachments := rs_Attachments (describe_spec env sr r0) @ atts\<rparr>, k1)) = Inr (r, k')"
    by blast
  from m obtain atts where
    "remaining_attachments (re_steps env) 0 (filterForAttachments (sr_ReportEntries sr)) skip = Inr atts"
    by (cases "remaining_attachments (re_steps env) 0 (filterForAttachments (sr_ReportEntries sr)) skip") auto
  with m c show ?thesis by (intro that [of steps skip atts]) (auto simp: describe_spec_fields(1))
qed

subsection \<open>A concrete suite\<close>

definition demo_report_env :: report_env where
  "demo_report_env = \<lparr>re_steps = demo_env, re_sha1 = (\<lambda>s. s), re_Getenv = (\<lambda>_. []), re_git = Some ''abc'',
     re_args = [], re_callers = [''suite_test.go''], re_hostname = None, re_now = 0,
     re_marshal = (\<lambda>r. Inr (rs_UUID r)), re_marshal_container = (\<lambda>c. Inr (co_UUID c)),
     re_path_base = (\<lambda>p. p)\<rparr>"

definition demo_spec :: "node_type \<Rightarrow> gostring \<Rightarrow> spec_state \<Rightarrow> report_entry list \<Rightarrow> spec_report" where
  "demo_spec ty name st es =
     \<lparr>sr_StartTime = 0, sr_EndTime = 5000000, sr_LeafNodeType = ty, sr_LeafNodeText = name,
      sr_ContainerHierarchyTexts = [''suite''], sr_State = st, sr_Failed = (st = SpecStateFailed),
      sr_Failure = \<lparr>fa_Message = ''boom'', fa_ForwardedPanic = [], fa_FullStackTrace = [], fa_Order = 2\<rparr>,
      sr_ReportEntries = es, sr_SpecEvents = [], sr_IsSerial = True, sr_ParallelProcess = 1,
      sr_FileName = ''suite_test.go''\<rparr>"

definition demo_suite :: suite_report where
  "demo_suite = \<lparr>su_StartTime = 0, su_EndTime = 9000000, su_SuitePath = ''p'', su_SuiteDescription = ''d'',
     su_SpecReports = [demo_spec NodeTypeBeforeSuite [] SpecStateFailed [],
                       demo_spec NodeTypeIt ''works'' SpecStatePassed []]\<rparr>"

lemma no_events: "createSteps env [] es ls ps fo k = Inr ([], {}, k)"
  by (simp add: createSteps_def loop_done)

definition demo_container :: container where
  "demo_container = fst (newTestContainer demo_report_env demo_sink)"

lemma demo_suite_run:
  "\<exists>c k'. createFromReport demo_report_env demo_suite demo_container demo_sink = Inr (c, k')"
  by (simp add: createFromReport_def demo_suite_def demo_spec_def add_spec_def fixture_steps_def no_events
      is_before_def createFromSpecReport_def filterForAttachments_def write_result_def writeFile_def
      demo_report_env_def demo_env_def newResult_def Let_def)

lemma spec_report_attachment:
  assumes "createFromSpecReport env sr r0 k = Inr (r, k')"
    and "x < length (filterForAttachments (sr_ReportEntries sr))"
  shows "\<exists>a \<in> set (tree_atts (rs_Steps r) @ rs_Attachments r).
    decode_attachment (re_steps env) (filterForAttachments (sr_ReportEntries sr) ! x) = Inr a"
  using assms(1)
proof (rule createFromSpecReportE)
  fix steps skip atts
  let ?es = "filterForAttachments (sr_ReportEntries sr)"
  assume c: "createSteps (re_steps env) (sr_SpecEvents sr) ?es
       (filterForLogs (sr_ReportEntries sr)) (filterForParameters (sr_ReportEntries sr))
       (if is_bad sr then fa_Order (sr_Failure sr) else 0) k = Inr (steps, skip, k')"
    and m: "remaining_attachments (re_steps env) 0 ?es skip = Inr atts"
    and r: "r = (describe_spec env sr r0)\<lparr>rs_Steps := steps, rs_Attachments := rs_Attachments r0 @ atts\<rparr>"
  show ?thesis
  proof (cases "x \<in> skip")
    case True
    from steps_loop_covered [OF c [unfolded createSteps_def]] True r show ?thesis
      by (auto simp: covered_def)
  next
    case False
    from remaining_attachments_sound [OF m assms(2)] False r show ?thesis by auto
  qed
qed

text \<open>
  The report of a spec shows every attachment that was recorded during the spec: each one
  hangs on some step of the tree or on the result itself.
\<close>

theorem spec_report_shows_every_attachment:
  assumes "createFromSpecReport env sr r0 k = Inr (r, k')"
    and "x < length (filterForAttachments (sr_ReportEntries sr))"
  shows "\<exists>a \<in> set (tree_atts (rs_Steps r) @ rs_Attachments r).
    decode_attachment (re_steps env) (filterForAttachments (sr_ReportEntries sr) ! x) = Inr a"
  by (rule spec_report_attachment [OF assms])

theorem spec_report_shows_every_attachment_witness:
  "\<exists>r k'. createFromSpecReport demo_report_env
      (demo_spec NodeTypeIt ''works'' SpecStatePassed [demo_entry ''ATTACHMENT'' ''a'' 7])
      (fst (newResult demo_report_env demo_sink)) demo_sink = Inr (r, k') \<and>
    (\<exists>a \<in> set (tree_atts (rs_Steps r) @ rs_Attachments r).
      decode_attachment demo_env (demo_entry ''ATTACHMENT'' ''a'' 7) = Inr a)"
proof -
  let ?sr = "demo_spec NodeTypeIt ''works'' SpecStatePassed [demo_entry ''ATTACHMENT'' ''a'' 7]"
  have es: "filterForAttachments (sr_ReportEntries ?sr) = [demo_entry ''ATTACHMENT'' ''a'' 7]"
    by (simp add: filterForAttachments_def demo_spec_def demo_entry_def attachmentReportEntryName_def)
  have d: "decode_attachment demo_env (demo_entry ''ATTACHMENT'' ''a'' 7) = Inr demo_attachment"
    by (simp add: decode_attachment_def demo_env_def demo_entry_def zero_attachment_def demo_attachment_def)
  have ev: "sr_SpecEvents ?sr = []" "re_steps demo_report_env = demo_env"
    by (simp_all add: demo_spec_def demo_report_env_def)
  then obtain r k' where run: "createFromSpecReport demo_report_env ?sr
      (fst (newResult demo_report_env demo_sink)) demo_sink = Inr (r, k')"
    by (simp add: createFromSpecReport_def no_events es d Let_def)
  from spec_report_shows_every_attachment [OF run, of 0] show ?thesis
    using run by (simp add: es ev)
qed

subsection \<open>What a suite report holds\<close>

definition sink_le :: "sink \<Rightarrow> sink \<Rightarrow> bool" where
  "sink_le k k' \<longleftrightarrow> uuids_used k \<le> uuids_used k' \<and> prefix (files k) (files k')"

lemma sink_le_refl [simp]: "sink_le k k"
  by (simp add: sink_le_def)

lemma sink_le_trans: "sink_le a b \<Longrightarrow> sink_le b c \<Longrightarrow> sink_le a c"
  by (auto simp: sink_le_def)

lemma sink_le_uuid [simp]: "sink_le k (k\<lparr>uuids_used := Suc (uuids_used k)\<rparr>)"
  by (simp add: sink_le_def)

lemma log_attachment_sink: "log_attachment env name owned k = Inr (atts, k') \<Longrightarrow> sink_le k k'"
  by (auto simp: log_attachment_def addAttachment_def newAttachment_def writeAttachmentFile_def Let_def
      sink_le_def split: if_splits option.splits)

lemma fill_step_sink: "fill_step cx s hi cs stop0 mt0 skip k = Inr (st, skip', k') \<Longrightarrow> sink_le k k'"
  by (erule fill_stepE) (rule log_attachment_sink)

lemma steps_loop_sink: "steps_loop cx events i cur steps skip k = Inr (res, sk, k2) \<Longrightarrow> sink_le k k2"
proof (induction rule: steps_loop_success_induct)
  case (instant events i cur steps skip k res sk k2 st skip1 k1)
  from fill_step_sink [OF instant.hyps(5)] instant.IH show ?case by (rule sink_le_trans)
next
  case (nested events i cur steps skip k res sk k2 e j children toSkip k1 st skip1 k3)
  from nested.IH(1) fill_step_sink [OF nested.hyps(6)] have "sink_le k k3" by (rule sink_le_trans)
  then show ?case using nested.IH(2) by (rule sink_le_trans)
qed simp_all

lemma createSteps_sink: "createSteps env evs es ls ps fo k = Inr (steps, skip, k') \<Longrightarrow> sink_le k k'"
  unfolding createSteps_def by (rule steps_loop_sink)

definition spec_file :: "report_env \<Rightarrow> gostring \<Rightarrow> spec_report \<Rightarrow> gostring" where
  "spec_file env desc sr =
     results_path (re_steps env) @ ''/'' @ re_sha1 env (sr_LeafNodeText sr @ suite_of sr @ desc) @ ''-result.json''"

text \<open>A spec is reported when its result was written under a UUID of its own.\<close>

definition it_reported :: "report_env \<Rightarrow> gostring \<Rightarrow> spec_report \<Rightarrow> gostring \<Rightarrow> sink \<Rightarrow> bool" where
  "it_reported env desc sr u k \<longleftrightarrow>
     (\<exists>r content. rs_UUID r = u \<and> rs_Name r = sr_LeafNodeText sr \<and> rs_Status r = getTestStatus (sr_State sr) \<and>
        rs_StatusDetails r = (if is_bad sr then Some (failureStatusDetails sr) else None) \<and>
        re_marshal env r = Inr content \<and> (spec_file env desc sr, content) \<in> set (files k))"

lemma it_reported_mono: "it_reported env desc sr u k \<Longrightarrow> sink_le k k' \<Longrightarrow> it_reported env desc sr u k'"
  unfolding it_reported_def sink_le_def using set_mono_prefix by fast

lemma rs_Name_describe: "rs_Name (describe_spec env sr r0) = sr_LeafNodeText sr"
  by (simp add: describe_spec_def addSuite_def addReportParameters_def Let_def)

lemma write_result_Inr:
  assumes "write_result env r k = Inr k'"
  obtains content where "re_marshal env r = Inr content"
    "k' = k\<lparr>files := files k @ [(results_path (re_steps env) @ ''/'' @ result_file r, content)]\<rparr>"
  using assms by (auto simp: write_result_def writeFile_def Let_def split: sum.splits option.splits)

lemma add_spec_it:
  assumes "add_spec env desc sr c k = Inr (c', k')" and "sr_LeafNodeType sr = NodeTypeIt"
  shows "co_Children c' = co_Children c @ [uuid_of (re_steps env) (uuids_used k)] \<and>
    co_Befores c' = co_Befores c \<and> co_Afters c' = co_Afters c \<and> uuids_used k < uuids_used k' \<and>
    it_reported env desc sr (uuid_of (re_steps env) (uuids_used k)) k' \<and> sink_le k k'"
proof -
  define r0 where "r0 = addParentSuite desc (fst (newResult env k))"
  define k0 where "k0 = snd (newResult env k)"
  have init: "rs_UUID r0 = uuid_of (re_steps env) (uuids_used k)" "rs_StatusDetails r0 = None"
    "rs_ParentSuite r0 = desc" "k0 = k\<lparr>uuids_used := Suc (uuids_used k)\<rparr>"
    by (simp_all add: r0_def k0_def newResult_def addParentSuite_def addLabel_def)
  have ty: "\<not> is_before (sr_LeafNodeType sr)" using assms(2) by (simp add: is_before_def)
  have run: "(case createFromSpecReport env sr r0 k0 of
         Inl p \<Rightarrow> Inl p
       | Inr (r, k1) \<Rightarrow>
           (case write_result env r k1 of
              Inl p \<Rightarrow> Inl p
            | Inr k2 \<Rightarrow> Inr (c\<lparr>co_Children := co_Children c @ [rs_UUID r]\<rparr>, k2))) = Inr (c', k')"
    using assms ty by (simp add: add_spec_def r0_def k0_def split_beta Let_def)
  from case_pair_InrD [OF run] obtain r k1 where
    cr: "createFromSpecReport env sr r0 k0 = Inr (r, k1)"
    and wr: "(case write_result env r k1 of
              Inl p \<Rightarrow> Inl p
            | Inr k2 \<Rightarrow> Inr (c\<lparr>co_Children := co_Children c @ [rs_UUID r]\<rparr>, k2)) = Inr (c', k')"
    by blast
  from wr have w: "write_result env r k1 = Inr k'" and c': "c' = c\<lparr>co_Children := co_Children c @ [rs_UUID r]\<rparr>"
    by (auto split: sum.splits)
  from cr obtain steps skip atts where
    "createSteps (re_steps env) (sr_SpecEvents sr) (filterForAttachments (sr_ReportEntries sr))
       (filterForLogs (sr_ReportEntries sr)) (filterForParameters (sr_ReportEntries sr))
       (if is_bad sr then fa_Order (sr_Failure sr) else 0) k0 = Inr (steps, skip, k1)"
    and r: "r = (describe_spec env sr r0)\<lparr>rs_Steps := steps, rs_Attachments := rs_Attachments r0 @ atts\<rparr>"
    by (rule createFromSpecReportE)
  then have k01: "sink_le k0 k1" by (blast intro: createSteps_sink)
  from w obtain content where m: "re_marshal env r = Inr content"
    and k': "k' = k1\<lparr>files := files k1 @ [(results_path (re_steps env) @ ''/'' @ result_file r, content)]\<rparr>"
    by (rule write_result_Inr)
  have "result_file r = re_sha1 env (sr_LeafNodeText sr @ suite_of sr @ desc) @ ''-result.json''"
    by (simp add: result_file_def r describe_spec_fields init)
  with m k' r have "it_reported env desc sr (rs_UUID r0) k'"
    unfolding it_reported_def
    by (intro exI [of _ r] exI [of _ content])
      (simp add: describe_spec_fields rs_Name_describe init spec_file_def)
  with k01 k' c' r init show ?thesis
    by (auto simp: sink_le_def describe_spec_fields)
qed

lemma fixture_steps_sink: "fixture_steps env sr logs name k = Inr (steps, k') \<Longrightarrow> sink_le k k'"
  by (auto simp: fixture_steps_def dest!: case_triple_InrD createSteps_sink)

lemma fixture_steps_failed:
  "fixture_steps env sr logs name k = Inr (steps, k') \<Longrightarrow> sr_Failed sr \<Longrightarrow> fixtureFailureStep sr name \<in> set steps"
  by (auto simp: fixture_steps_def dest!: case_triple_InrD)

lemma add_spec_other:
  assumes "add_spec env desc sr c k = Inr (c', k')" and "sr_LeafNodeType sr \<noteq> NodeTypeIt"
  shows "co_Children c' = co_Children c \<and> set (co_Befores c) \<subseteq> set (co_Befores c') \<and>
    set (co_Afters c) \<subseteq> set (co_Afters c') \<and> sink_le k k' \<and>
    (is_before (sr_LeafNodeType sr) \<and> sr_Failed sr \<longrightarrow> fixtureFailureStep sr ''BeforeSuite'' \<in> set (co_Befores c')) \<and>
    (is_after (sr_LeafNodeType sr) \<and> sr_Failed sr \<longrightarrow> fixtureFailureStep sr ''AfterSuite'' \<in> set (co_Afters c'))"
proof -
  have excl: "\<not> (is_before t \<and> is_after t)" for t by (auto simp: is_before_def is_after_def)
  consider (b) "is_before (sr_LeafNodeType sr)" | (a) "\<not> is_before (sr_LeafNodeType sr)" "is_after (sr_LeafNodeType sr)"
    | (o) "\<not> is_before (sr_LeafNodeType sr)" "\<not> is_after (sr_LeafNodeType sr)" by blast
  then show ?thesis
  proof cases
    case b
    with assms obtain steps where
      s: "fixture_steps env sr (filterForLogs (sr_ReportEntries sr)) ''BeforeSuite'' k = Inr (steps, k')"
      and "c' = c\<lparr>co_Befores := co_Befores c @ steps\<rparr>"
      by (auto simp: add_spec_def dest!: case_pair_InrD)
    with b excl fixture_steps_sink [OF s] fixture_steps_failed [OF s] show ?thesis by auto
  next
    case a
    with assms obtain steps where
      s: "fixture_steps env sr [] ''AfterSuite'' k = Inr (steps, k')"
      and "c' = c\<lparr>co_Afters := co_Afters c @ steps\<rparr>"
      by (auto simp: add_spec_def dest!: case_pair_InrD)
    with a fixture_steps_sink [OF s] fixture_steps_failed [OF s] show ?thesis by auto
  next
    case o
    with assms have "c' = c" "k' = k" by (simp_all add: add_spec_def)
    with o show ?thesis by simp
  qed
qed

lemma add_specs_report:
  assumes "add_specs env desc srs c k = Inr (c', k')"
  shows "sink_le k k' \<and> set (co_Befores c) \<subseteq> set (co_Befores c') \<and> set (co_Afters c) \<subseteq> set (co_Afters c') \<and>
    (\<exists>us. co_Children c' = co_Children c @ map (uuid_of (re_steps env)) us \<and> distinct us \<and>
       (\<forall>u \<in> set us. uuids_used k \<le> u \<and> u < uuids_used k') \<and>
       list_all2 (\<lambda>sr u. it_reported env desc sr (uuid_of (re_steps env) u) k')
         (filter (\<lambda>sr. sr_LeafNodeType sr = NodeTypeIt) srs) us)"
  using assms
proof (induction srs arbitrary: c k)
  case Nil
  then show ?case by simp
next
  case (Cons sr srs)
  from Cons.prems obtain c1 k1 where a: "add_spec env desc sr c k = Inr (c1, k1)"
    and r: "add_specs env desc srs c1 k1 = Inr (c', k')"
    by (auto dest!: case_pair_InrD)
  from Cons.IH [OF r] obtain us where le: "sink_le k1 k'"
    and fx: "set (co_Befores c1) \<subseteq> set (co_Befores c')" "set (co_Afters c1) \<subseteq> set (co_Afters c')"
    and us: "co_Children c' = co_Children c1 @ map (uuid_of (re_steps env)) us" "distinct us"
      "\<forall>u \<in> set us. uuids_used k1 \<le> u \<and> u < uuids_used k'"
      "list_all2 (\<lambda>sr u. it_reported env desc sr (uuid_of (re_steps env) u) k')
         (filter (\<lambda>sr. sr_LeafNodeType sr = NodeTypeIt) srs) us"
    by blast
  show ?case
  proof (cases "sr_LeafNodeType sr = NodeTypeIt")
    case True
    from add_spec_it [OF a True] have c1: "co_Children c1 = co_Children c @ [uuid_of (re_steps env) (uuids_used k)]"
      "co_Befores c1 = co_Befores c" "co_Afters c1 = co_Afters c" "uuids_used k < uuids_used k1" "sink_le k k1"
      "it_reported env desc sr (uuid_of (re_steps env) (uuids_used k)) k'"
      using it_reported_mono [OF _ le] by blast+
    from le have k1: "uuids_used k1 \<le> uuids_used k'" by (simp add: sink_le_def)
    have new: "uuids_used k \<notin> set us" "\<forall>u \<in> set us. uuids_used k \<le> u \<and> u < uuids_used k'"
      using us(3) c1(4) by fastforce+
    show ?thesis
    proof (intro conjI)
      show "sink_le k k'" using c1(5) le by (rule sink_le_trans)
      show "set (co_Befores c) \<subseteq> set (co_Befores c')" "set (co_Afters c) \<subseteq> set (co_Afters c')"
        using fx c1 by simp_all
      show "\<exists>vs. co_Children c' = co_Children c @ map (uuid_of (re_steps env)) vs \<and> distinct vs \<and>
        (\<forall>u \<in> set vs. uuids_used k \<le> u \<and> u < uuids_used k') \<and>
        list_all2 (\<lambda>sr u. it_reported env desc sr (uuid_of (re_steps env) u) k')
          (filter (\<lambda>sr. sr_LeafNodeType sr = NodeTypeIt) (sr # srs)) vs"
        using us c1 new k1 True by (intro exI [of _ "uuids_used k # us"]) simp
    qed
  next
    case False
    from add_spec_other [OF a False] have c1: "co_Children c1 = co_Children c" "sink_le k k1"
      "set (co_Befores c) \<subseteq> set (co_Befores c1)" "set (co_Afters c) \<subseteq> set (co_Afters c1)" by blast+
    then have kk: "uuids_used k \<le> uuids_used k1" by (simp add: sink_le_def)
    have "\<forall>u \<in> set us. uuids_used k \<le> u \<and> u < uuids_used k'" using us(3) kk by fastforce
    then show ?thesis using us(1,2,4) c1 fx False sink_le_trans [OF c1(2) le] by auto
  qed
qed

subsection \<open>The properties of a suite\<close>

text \<open>
  C9: The report of a suite lists every spec once: the children of the container are pairwise
  different UUIDs, one per spec in the order they ran, and for each of them a result file was
  written that carries that UUID, the name and the status of its spec, with failure details
  exactly when it failed or panicked.
\<close>

theorem suite_reports_every_spec:
  assumes "createFromReport env rep c0 k = Inr (c, k')" and "co_Children c0 = []"
    and "inj (uuid_of (re_steps env))"
  shows "distinct (co_Children c) \<and>
    list_all2 (\<lambda>sr u. it_reported env (su_SuiteDescription rep) sr u k')
      (filter (\<lambda>sr. sr_LeafNodeType sr = NodeTypeIt) (su_SpecReports rep)) (co_Children c)"
  using add_specs_report [OF assms(1) [unfolded createFromReport_def]] assms(2,3)
  by (auto simp: distinct_map list_all2_map2 intro: inj_on_subset [OF _ subset_UNIV])

theorem suite_reports_every_spec_witness:
  "\<exists>c k'. createFromReport demo_report_env demo_suite demo_container demo_sink = Inr (c, k') \<and>
     length (co_Children c) = 1"
proof -
  obtain c k' where run: "createFromReport demo_report_env demo_suite demo_container demo_sink = Inr (c, k')"
    using demo_suite_run by blast
  have "inj (uuid_of (re_steps demo_report_env))"
    by (auto simp: inj_def demo_report_env_def demo_env_def gostr)
  from suite_reports_every_spec [OF run _ this] run show ?thesis
    by (auto simp: demo_container_def newTestContainer_def demo_suite_def demo_spec_def dest!: list_all2_lengthD)
qed

lemma add_specs_failed_fixture:
  assumes "add_specs env desc srs c k = Inr (c', k')" and "sr \<in> set srs" and "sr_Failed sr"
  shows "(is_before (sr_LeafNodeType sr) \<longrightarrow> fixtureFailureStep sr ''BeforeSuite'' \<in> set (co_Befores c')) \<and>
    (is_after (sr_LeafNodeType sr) \<longrightarrow> fixtureFailureStep sr ''AfterSuite'' \<in> set (co_Afters c'))"
  using assms
proof (induction srs arbitrary: c k)
  case Nil
  then show ?case by simp
next
  case (Cons s srs)
  from Cons.prems obtain c1 k1 where a: "add_spec env desc s c k = Inr (c1, k1)"
    and r: "add_specs env desc srs c1 k1 = Inr (c', k')"
    by (auto dest!: case_pair_InrD)
  show ?case
  proof (cases "s = sr")
    case True
    show ?thesis
    proof (cases "sr_LeafNodeType sr = NodeTypeIt")
      case False
      from add_spec_other [OF a [unfolded True] False] add_specs_report [OF r] Cons.prems(3)
      show ?thesis by auto
    qed (simp add: is_before_def is_after_def)
  next
    case False
    with Cons.prems Cons.IH [OF r] show ?thesis by simp
  qed
qed

text \<open>
  A suite fixture that failed is visible in the container: its steps end with one that
  carries the fixture's own status and failure details.
\<close>

theorem suite_reports_failed_fixtures:
  assumes "createFromReport env rep c0 k = Inr (c, k')" and "sr \<in> set (su_SpecReports rep)"
    and "sr_Failed sr"
  shows "(if is_before (sr_LeafNodeType sr) then fixtureFailureStep sr ''BeforeSuite'' \<in> set (co_Befores c)
          else if is_after (sr_LeafNodeType sr) then fixtureFailureStep sr ''AfterSuite'' \<in> set (co_Afters c)
          else True) \<and>
    st_Details (fixtureFailureStep sr name) = Some (failureStatusDetails sr) \<and>
    st_Status (fixtureFailureStep sr name) = getTestStatus (sr_State sr)"
  using add_specs_failed_fixture [OF assms(1) [unfolded createFromReport_def] assms(2,3)]
  by (simp add: fixtureFailureStep_def)

theorem suite_reports_failed_fixtures_witness:
  "\<exists>c k'. createFromReport demo_report_env demo_suite demo_container demo_sink = Inr (c, k') \<and>
     fixtureFailureStep (demo_spec NodeTypeBeforeSuite [] SpecStateFailed []) ''BeforeSuite'' \<in> set (co_Befores c)"
proof -
  obtain c k' where run: "createFromReport demo_report_env demo_suite demo_container demo_sink = Inr (c, k')"
    using demo_suite_run by blast
  from suite_reports_failed_fixtures [OF run, of "demo_spec NodeTypeBeforeSuite [] SpecStateFailed []"] run
  show ?thesis by (simp add: demo_suite_def demo_spec_def is_before_def)
qed

text \<open>
  Result files are named after the hash of the leaf text, the innermost container and the suite:
  two specs that agree on these share one file whatever their outer containers are, so the later
  one replaces the earlier one although the container lists both.
\<close>

lemma equal_texts_share_result_file:
  assumes "sr_LeafNodeText a = sr_LeafNodeText b"
    and "sr_ContainerHierarchyTexts a = outer1 @ [inner]" and "sr_ContainerHierarchyTexts b = outer2 @ [inner]"
  shows "spec_file env desc a = spec_file env desc b"
  using assms by (simp add: spec_file_def suite_of_def)

subsection \<open>The results directory\<close>

text \<open>
  The directory is stable: when the choice is made again with the environment it left behind
  (as the parallel processes of a run do), it is the same directory.
\<close>

lemma createFolder_stable:
  assumes "createFolderIfNotExists os = Inr (path, getenv)" and "os_Getwd os \<noteq> Inr []"
  shows "createFolderIfNotExists (os\<lparr>os_Getenv := getenv, os_Getwd := other\<rparr>) = Inr (path, getenv)"
  using assms
  by (auto simp: createFolderIfNotExists_def Let_def bind_result_Inr allureResultsPathEnvKey_def
      resultsPathEnvKey_def split: if_splits option.splits sum.splits)

end
