(* ===== verification/Allure_Api.thy ===== *)
theory Allure_Api
  imports Allure_Result
begin

text \<open>
  Recording attachments and parameters during a spec (\<open>pkg/tests/allure/api.go\<close> with the helpers of
  \<open>attachment.go\<close>, \<open>step.go\<close> and \<open>result.go\<close>), and what becomes of them in the report, which may be written
  by another process: only the JSON payload of the report entry passes from one to the other.
\<close>

subsection \<open>Payloads\<close>

text \<open>
  The encoder is a parameter; \<open>None\<close> is the nil pointer, encoded as \<open>null\<close>. The file's identifier and
  content are unexported fields, which JSON does not carry.
\<close>

record entry_codec =
  enc_att :: "attachment option \<Rightarrow> gostring"
  enc_par :: "parameter \<Rightarrow> gostring"

definition exported :: "attachment \<Rightarrow> attachment" where
  "exported a = a\<lparr>att_uuid := [], att_content := []\<rparr>"

definition ascii :: "gostring \<Rightarrow> bool" where
  "ascii s \<longleftrightarrow> list_all (\<lambda>c. of_char c < (128 :: nat)) s"

text \<open>
  What is relied on: UUIDs are ASCII texts, ASCII texts survive encoding and decoding, and decoding \<open>null\<close> into a
  structure leaves its zero value.
\<close>

definition codec_contract :: "allure_env \<Rightarrow> entry_codec \<Rightarrow> bool" where
  "codec_contract env cd \<longleftrightarrow> (\<forall>n. ascii (uuid_of env n)) \<and>
     (\<forall>a. ascii (att_Name a) \<and> ascii (att_Source a) \<and> ascii (att_Type a) \<longrightarrow>
        dec_att env (enc_att cd (Some a)) = Some (exported a)) \<and>
     dec_att env (enc_att cd None) = Some zero_attachment \<and>
     (\<forall>p. ascii (par_Name p) \<and> ascii (par_Value p) \<longrightarrow> dec_par env (enc_par cd p) = Some p)"

subsection \<open>Recording\<close>

text \<open>
  \<open>at\<close> is the entry as far as Ginkgo fills it in: location, order and time. The error of writing the
  file is discarded; the pointer is then nil.
\<close>

definition AddAttachment ::
  "allure_env \<Rightarrow> entry_codec \<Rightarrow> report_entry \<Rightarrow> gostring \<Rightarrow> MimeType \<Rightarrow> gostring \<Rightarrow> sink \<Rightarrow> report_entry \<times> sink" where
  "AddAttachment env cd at name mimeType content k =
     (case addAttachment env name mimeType content k of
        Inl err \<Rightarrow> (at\<lparr>en_Name := attachmentReportEntryName, en_Value := enc_att cd None\<rparr>,
                    k\<lparr>uuids_used := Suc (uuids_used k)\<rparr>)
      | Inr (a, k') \<Rightarrow> (at\<lparr>en_Name := attachmentReportEntryName, en_Value := enc_att cd (Some a)\<rparr>, k'))"

definition AddParameter :: "entry_codec \<Rightarrow> report_entry \<Rightarrow> gostring \<Rightarrow> gostring \<Rightarrow> report_entry" where
  "AddParameter cd at name val =
     at\<lparr>en_Name := parameterReportEntryName, en_Value := enc_par cd \<lparr>par_Name = name, par_Value = val\<rparr>\<rparr>"

subsection \<open>Helpers of steps and results\<close>

definition newStep :: stepObject where
  "newStep = StepObject [] [] [] None [] [] [] [] 0 0"

fun step_addName :: "gostring \<Rightarrow> stepObject \<Rightarrow> stepObject" where
  "step_addName name (StepObject n st d sd sg ch ps as t0 t1) = StepObject name st d sd sg ch ps as t0 t1"

fun step_addParameter :: "gostring \<Rightarrow> gostring \<Rightarrow> stepObject \<Rightarrow> stepObject" where
  "step_addParameter name val (StepObject n st d sd sg ch ps as t0 t1) =
     StepObject n st d sd sg ch (ps @ [\<lparr>par_Name = name, par_Value = val\<rparr>]) as t0 t1"

text \<open>A nil attachment panics.\<close>

fun step_addAttachment :: "attachment option \<Rightarrow> stepObject \<Rightarrow> stepObject result" where
  "step_addAttachment None s = Inl ''nil attachment pointer''"
| "step_addAttachment (Some a) (StepObject n st d sd sg ch ps as t0 t1) =
     Inr (StepObject n st d sd sg ch ps (as @ [a]) t0 t1)"

definition result_addAttachment :: "attachment option \<Rightarrow> spec_result \<Rightarrow> spec_result result" where
  "result_addAttachment a r =
     (case a of None \<Rightarrow> Inl ''nil attachment pointer'' | Some x \<Rightarrow> Inr (r\<lparr>rs_Attachments := rs_Attachments r @ [x]\<rparr>))"

definition setStatusDetails :: "statusDetails \<Rightarrow> spec_result \<Rightarrow> spec_result" where
  "setStatusDetails details r = r\<lparr>rs_StatusDetails := Some details\<rparr>"

text \<open>The attachments no step claimed are put on the result by \<open>result_addAttachment\<close>, one by one.\<close>

lemma remaining_attachments_added:
  "foldl (\<lambda>r a. bind_result r (result_addAttachment (Some a))) (Inr r) as = Inr (r\<lparr>rs_Attachments := rs_Attachments r @ as\<rparr>)"
  by (induction as arbitrary: r) (simp_all add: result_addAttachment_def)

subsection \<open>From recording to the report\<close>

lemma codec_contractD:
  assumes "codec_contract env cd"
  shows "ascii (uuid_of env n)"
    and "ascii (att_Name a) \<Longrightarrow> ascii (att_Source a) \<Longrightarrow> ascii (att_Type a) \<Longrightarrow>
      dec_att env (enc_att cd (Some a)) = Some (exported a)"
    and "dec_att env (enc_att cd None) = Some zero_attachment"
    and "ascii (par_Name p) \<Longrightarrow> ascii (par_Value p) \<Longrightarrow> dec_par env (enc_par cd p) = Some p"
  using assms unfolding codec_contract_def by blast+

lemma ascii_append [simp]: "ascii (xs @ ys) \<longleftrightarrow> ascii xs \<and> ascii ys"
  by (simp add: ascii_def)

lemma ascii_source: "ascii u \<Longrightarrow> ascii (u @ ''-attachment.'' @ resolveExtension m)"
  by (auto simp: resolveExtension_def) (simp_all add: ascii_def)

lemma addAttachment_result:
  "addAttachment env name mimeType content k = Inr (a, k') \<Longrightarrow>
     att_Name a = name \<and> att_Type a = mimeType \<and>
     att_Source a = uuid_of env (uuids_used k) @ ''-attachment.'' @ resolveExtension mimeType \<and>
     (results_path env @ ''/'' @ att_Source a, content) \<in> set (files k')"
  by (auto simp: addAttachment_def newAttachment_def writeAttachmentFile_def Let_def split: option.splits)

lemma in_attachment_entries:
  "e \<in> set es \<Longrightarrow> en_Name e = attachmentReportEntryName \<Longrightarrow>
     \<exists>x < length (filterForAttachments es). filterForAttachments es ! x = e"
  by (auto simp: filterForAttachments_def in_set_conv_nth [symmetric])

lemma exported_nonzero: "att_Name a \<noteq> [] \<Longrightarrow> exported a \<noteq> zero_attachment"
  by (auto simp: exported_def zero_attachment_def dest: arg_cong [where f = att_Name])

lemma recorded_decodes:
  assumes "codec_contract env cd" and "ascii name" and "ascii mimeType" and "name \<noteq> []"
    and "addAttachment env name mimeType content k = Inr (a, k1)"
  shows "decode_attachment env (fst (AddAttachment env cd at name mimeType content k)) = Inr (exported a)"
proof -
  note a = addAttachment_result [OF assms(5)]
  then have src: "att_Source a = uuid_of env (uuids_used k) @ ''-attachment.'' @ resolveExtension mimeType"
    by (elim conjE)
  have "ascii (att_Source a)"
    unfolding src by (intro ascii_source codec_contractD(1) [OF assms(1)])
  then have "dec_att env (enc_att cd (Some a)) = Some (exported a)"
    using a assms(2,3) by (intro codec_contractD(2) [OF assms(1)]) simp_all
  then show ?thesis
    using assms(4,5) a exported_nonzero [of a] by (simp add: decode_attachment_def AddAttachment_def)
qed

text \<open>A codec that meets the contract: fields separated by a byte that is not ASCII.\<close>

abbreviation sep :: char where "sep \<equiv> CHR 0xFF"

definition plain_codec :: entry_codec where
  "plain_codec = \<lparr>enc_att = (\<lambda>a. case a of None \<Rightarrow> ''null'' | Some x \<Rightarrow> Join [sep] [att_Name x, att_Source x, att_Type x]),
     enc_par = (\<lambda>p. Join [sep] [par_Name p, par_Value p])\<rparr>"

definition codec_env :: "(gostring \<Rightarrow> gostring option) \<Rightarrow> allure_env" where
  "codec_env werr = \<lparr>uuid_of = (\<lambda>n. replicate n (CHR ''u'')), results_path = ''/reports'', write_error = werr,
     dec_att = (\<lambda>s. case SplitC sep s of
        [n, src, t] \<Rightarrow> Some \<lparr>att_uuid = [], att_Name = n, att_Source = src, att_Type = t, att_content = []\<rparr>
      | _ \<Rightarrow> Some zero_attachment),
     dec_par = (\<lambda>s. case SplitC sep s of [n, v] \<Rightarrow> Some \<lparr>par_Name = n, par_Value = v\<rparr> | _ \<Rightarrow> None)\<rparr>"

lemma ascii_sep: "ascii s \<Longrightarrow> sep \<notin> set s"
  by (auto simp: ascii_def list_all_iff)

lemma plain_codec_contract: "codec_contract (codec_env werr) plain_codec"
proof -
  have "ascii (replicate n (CHR ''u''))" for n by (simp add: ascii_def list_all_iff)
  moreover have "SplitC sep ''null'' = [''null'']"
    using SplitC_Join [of "[''null'']" sep] by simp
  moreover have "SplitC sep (Join [sep] [x, y, z]) = [x, y, z]" if "ascii x" "ascii y" "ascii z" for x y z
    using that by (intro SplitC_Join) (auto dest: ascii_sep)
  moreover have "SplitC sep (Join [sep] [x, y]) = [x, y]" if "ascii x" "ascii y" for x y
    using that by (intro SplitC_Join) (auto dest: ascii_sep)
  ultimately show ?thesis
    unfolding codec_contract_def by (simp add: codec_env_def plain_codec_def exported_def del: Join.simps)
qed

text \<open>
  An attachment recorded during a spec reaches its result: when its file could be written, the result
  of the spec, or a step of its tree, carries an attachment with its name and type, and the file that it
  refers to was written with exactly the recorded content.
\<close>

theorem recorded_attachment_reported:
  assumes "codec_contract (re_steps env) cd" and "ascii name" and "ascii mimeType" and "name \<noteq> []"
    and "addAttachment (re_steps env) name mimeType content k0 = Inr (a, k1)"
    and "fst (AddAttachment (re_steps env) cd at name mimeType content k0) \<in> set (sr_ReportEntries sr)"
    and "createFromSpecReport env sr r0 k = Inr (r, k')"
  shows "\<exists>b \<in> set (tree_atts (rs_Steps r) @ rs_Attachments r). att_Name b = name \<and> att_Type b = mimeType \<and>
    (results_path (re_steps env) @ ''/'' @ att_Source b, content) \<in> set (files k1)"
proof -
  note a = addAttachment_result [OF assms(5)]
  let ?e = "fst (AddAttachment (re_steps env) cd at name mimeType content k0)"
  have e: "en_Name ?e = attachmentReportEntryName" using assms(5) by (simp add: AddAttachment_def)
  note dec = recorded_decodes [OF assms(1-5)]
  from in_attachment_entries [OF assms(6) e] obtain x where
    x: "x < length (filterForAttachments (sr_ReportEntries sr))" "filterForAttachments (sr_ReportEntries sr) ! x = ?e"
    by blast
  from spec_report_attachment [OF assms(7) x(1)] dec have
    "exported a \<in> set (tree_atts (rs_Steps r) @ rs_Attachments r)" unfolding x(2) by auto
  moreover have "att_Name (exported a) = name" "att_Type (exported a) = mimeType" "att_Source (exported a) = att_Source a"
    using a by (simp_all add: exported_def)
  ultimately show ?thesis using a by metis
qed

definition codec_report_env :: "(gostring \<Rightarrow> gostring option) \<Rightarrow> report_env" where
  "codec_report_env werr = demo_report_env\<lparr>re_steps := codec_env werr\<rparr>"

definition demo_at :: report_entry where "demo_at = demo_entry [] [] 7"

lemma codec_report_env_steps [simp]: "re_steps (codec_report_env werr) = codec_env werr"
  by (simp add: codec_report_env_def)

theorem recorded_attachment_reported_witness:
  "\<exists>r k' b. createFromSpecReport (codec_report_env (\<lambda>_. None))
      (demo_spec NodeTypeIt ''works'' SpecStatePassed
        [fst (AddAttachment (codec_env (\<lambda>_. None)) plain_codec demo_at ''log'' MimeTypeText ''hello'' demo_sink)])
      (fst (newResult demo_report_env demo_sink)) demo_sink = Inr (r, k') \<and>
    b \<in> set (tree_atts (rs_Steps r) @ rs_Attachments r) \<and> att_Name b = ''log''"
proof -
  let ?env = "codec_env (\<lambda>_. None)" and ?renv = "codec_report_env (\<lambda>_. None)"
  let ?e = "fst (AddAttachment ?env plain_codec demo_at ''log'' MimeTypeText ''hello'' demo_sink)"
  let ?sr = "demo_spec NodeTypeIt ''works'' SpecStatePassed [?e]"
  obtain a k1 where add: "addAttachment ?env ''log'' MimeTypeText ''hello'' demo_sink = Inr (a, k1)"
    by (simp add: addAttachment_def newAttachment_def writeAttachmentFile_def codec_env_def Let_def)
  have e: "en_Name ?e = attachmentReportEntryName" using add by (simp add: AddAttachment_def)
  have es: "filterForAttachments [?e] = [?e]" "sr_SpecEvents ?sr = []" "sr_ReportEntries ?sr = [?e]"
    using e by (simp_all add: filterForAttachments_def demo_spec_def)
  have ascii: "ascii ''log''" "ascii MimeTypeText" by (simp_all add: ascii_def MimeTypeText_def)
  have d: "decode_attachment ?env ?e = Inr (exported a)"
    by (rule recorded_decodes [OF plain_codec_contract ascii _ add]) simp
  then obtain r k' where run: "createFromSpecReport ?renv ?sr (fst (newResult demo_report_env demo_sink)) demo_sink = Inr (r, k')"
    by (simp add: createFromSpecReport_def no_events es Let_def)
  have c: "codec_contract (re_steps ?renv) plain_codec" by (simp add: plain_codec_contract)
  have "\<exists>b \<in> set (tree_atts (rs_Steps r) @ rs_Attachments r). att_Name b = ''log'' \<and> att_Type b = MimeTypeText \<and>
      (results_path (re_steps ?renv) @ ''/'' @ att_Source b, ''hello'') \<in> set (files k1)"
    by (rule recorded_attachment_reported [where at = demo_at and cd = plain_codec and ?k0.0 = demo_sink and a = a, OF c ascii _ _ _ run])
      (use add in \<open>simp_all add: es\<close>)
  with run show ?thesis by blast
qed

subsection \<open>Attachments in the report of a suite\<close>

lemma add_spec_it_result:
  assumes "add_spec env desc sr c k = Inr (c', k')" and "sr_LeafNodeType sr = NodeTypeIt"
  shows "\<exists>r0 k0 r k1 f. createFromSpecReport env sr r0 k0 = Inr (r, k1) \<and> re_marshal env r = Inr f \<and>
    rs_Name r = sr_LeafNodeText sr \<and> (results_path (re_steps env) @ ''/'' @ result_file r, f) \<in> set (files k')"
proof -
  obtain r0 k0 where new: "newResult env k = (r0, k0)" by fastforce
  have "\<not> is_before (sr_LeafNodeType sr)" using assms(2) by (simp add: is_before_def)
  with assms new have "(case createFromSpecReport env sr (addParentSuite desc r0) k0 of
      Inl p \<Rightarrow> Inl p
    | Inr (r, k1) \<Rightarrow>
        (case write_result env r k1 of
           Inl p \<Rightarrow> Inl p
         | Inr k2 \<Rightarrow> Inr (c\<lparr>co_Children := co_Children c @ [rs_UUID r]\<rparr>, k2))) = Inr (c', k')"
    by (simp add: add_spec_def)
  from case_pair_InrD [OF this] obtain r k1 where
    cr: "createFromSpecReport env sr (addParentSuite desc r0) k0 = Inr (r, k1)" and
    "(case write_result env r k1 of
        Inl p \<Rightarrow> Inl p
      | Inr k2 \<Rightarrow> Inr (c\<lparr>co_Children := co_Children c @ [rs_UUID r]\<rparr>, k2)) = Inr (c', k')"
    by blast
  from this(2) have "write_result env r k1 = Inr k'" by (auto split: sum.splits)
  then obtain f where "re_marshal env r = Inr f"
    "(results_path (re_steps env) @ ''/'' @ result_file r, f) \<in> set (files k')"
    by (rule write_result_Inr) simp
  moreover note cr
  moreover have "rs_Name r = sr_LeafNodeText sr"
    using cr by (rule createFromSpecReportE) (simp add: rs_Name_describe)
  ultimately show ?thesis by blast
qed

lemma add_spec_sink: "add_spec env desc sr c k = Inr (c', k') \<Longrightarrow> sink_le k k'"
  by (cases "sr_LeafNodeType sr = NodeTypeIt") (blast dest: add_spec_it add_spec_other)+

lemma add_specs_it_result:
  assumes "add_specs env desc srs c k = Inr (c', k')" and "sr \<in> set srs" and "sr_LeafNodeType sr = NodeTypeIt"
  shows "\<exists>r0 k0 r k1 f. createFromSpecReport env sr r0 k0 = Inr (r, k1) \<and> re_marshal env r = Inr f \<and>
    rs_Name r = sr_LeafNodeText sr \<and> (results_path (re_steps env) @ ''/'' @ result_file r, f) \<in> set (files k')"
  using assms(1,2)
proof (induction srs arbitrary: c k)
  case (Cons s srs)
  from Cons.prems(1) obtain c1 k1 where a: "add_spec env desc s c k = Inr (c1, k1)"
    and r: "add_specs env desc srs c1 k1 = Inr (c', k')"
    by (auto dest!: case_pair_InrD)
  from add_specs_report [OF r] have "set (files k1) \<subseteq> set (files k')"
    by (simp add: sink_le_def set_mono_prefix)
  then show ?case
    using Cons.IH [OF r] Cons.prems(2) add_spec_it_result [OF a] assms(3) by (cases "sr = s") (blast, simp)
qed simp

lemma write_container_sink: "write_container env c k = Inr k' \<Longrightarrow> sink_le k k'"
  by (auto simp: write_container_def writeFile_def Let_def sink_le_def bind_result_Inr split: option.splits)

lemma suite_report_it_result:
  assumes "FromGinkgoReport env rep k = Inr k'" and "sr \<in> set (su_SpecReports rep)" and "sr_LeafNodeType sr = NodeTypeIt"
  shows "set (files k) \<subseteq> set (files k') \<and>
    (\<exists>r0 k0 r k1 f. createFromSpecReport env sr r0 k0 = Inr (r, k1) \<and> re_marshal env r = Inr f \<and>
       rs_Name r = sr_LeafNodeText sr \<and> (results_path (re_steps env) @ ''/'' @ result_file r, f) \<in> set (files k'))"
proof -
  obtain c0 k0 where new: "newTestContainer env k = (c0, k0)" by fastforce
  then have le0: "sink_le k k0" by (auto simp: newTestContainer_def)
  from assms(1) new obtain c k1 where cr: "createFromReport env rep c0 k0 = Inr (c, k1)" and "write_container env c k1 = Inr k'"
    by (auto simp: FromGinkgoReport_def dest!: case_pair_InrD)
  note le1 = write_container_sink [OF this(2)]
  note run = cr [unfolded createFromReport_def]
  from add_specs_report [OF run] have "sink_le k0 k1" by blast
  with le0 le1 have "sink_le k k'" by (blast intro: sink_le_trans)
  moreover from le1 have "set (files k1) \<subseteq> set (files k')" by (simp add: sink_le_def set_mono_prefix)
  ultimately show ?thesis using add_specs_it_result [OF run assms(2,3)] set_mono_prefix
    unfolding sink_le_def by blast
qed



lemma nil_entry_undecodable:
  assumes "codec_contract env cd" and "addAttachment env name mimeType content k0 = Inl err"
  shows "\<exists>p. decode_attachment env (fst (AddAttachment env cd at name mimeType content k0)) = Inl p"
  using codec_contractD(3) [OF assms(1)] assms(2) by (simp add: AddAttachment_def decode_attachment_def)

lemma undecodable_entry_panics:
  assumes "e \<in> set (sr_ReportEntries sr)" "en_Name e = attachmentReportEntryName"
    and "decode_attachment (re_steps env) e = Inl p"
  shows "\<exists>q. createFromSpecReport env sr r0 k = Inl q"
proof (rule ccontr)
  assume "\<nexists>q. createFromSpecReport env sr r0 k = Inl q"
  then obtain r k' where run: "createFromSpecReport env sr r0 k = Inr (r, k')"
    by (cases "createFromSpecReport env sr r0 k") auto
  obtain x where x: "x < length (filterForAttachments (sr_ReportEntries sr))"
    "filterForAttachments (sr_ReportEntries sr) ! x = e"
    using in_attachment_entries [OF assms(1,2)] by blast
  from spec_report_attachment [OF run x(1)] assms(3) show False
    unfolding x(2) by auto
qed

lemma add_specs_panics:
  assumes "sr \<in> set srs" and "\<And>c k. \<exists>p. add_spec env desc sr c k = Inl p"
  shows "\<exists>p. add_specs env desc srs c k = Inl p"
  using assms(1)
proof (induction srs arbitrary: c k)
  case (Cons s srs)
  show ?case
  proof (cases "add_spec env desc s c k")
    case (Inr ck)
    then have "sr \<in> set srs" using Cons.prems assms(2) [of c k] by auto
    then obtain p where "add_specs env desc srs (fst ck) (snd ck) = Inl p" using Cons.IH by blast
    with Inr show ?thesis by (cases ck) simp
  qed simp
qed simp

text \<open>
  C24: An attachment whose file cannot be written costs the whole report: recording it passes silently, but
  the report of a suite with that spec panics, whatever else it holds.
\<close>

theorem lost_attachment_loses_report:
  assumes "codec_contract (re_steps env) cd"
    and "addAttachment (re_steps env) name mimeType content k0 = Inl err"
    and "fst (AddAttachment (re_steps env) cd at name mimeType content k0) \<in> set (sr_ReportEntries sr)"
    and "sr \<in> set (su_SpecReports rep)" and "sr_LeafNodeType sr = NodeTypeIt"
  shows "\<exists>p. FromGinkgoReport env rep k = Inl p"
proof -
  let ?e = "fst (AddAttachment (re_steps env) cd at name mimeType content k0)"
  have name: "en_Name ?e = attachmentReportEntryName" using assms(2) by (simp add: AddAttachment_def)
  obtain p where "decode_attachment (re_steps env) ?e = Inl p" using nil_entry_undecodable [OF assms(1,2)] by blast
  from undecodable_entry_panics [OF assms(3) name this] have
    panics: "\<exists>q. createFromSpecReport env sr r0 k = Inl q" for r0 k by blast
  have "\<exists>q. add_spec env desc sr c k = Inl q" for desc c k
  proof -
    obtain r1 k1 where new: "newResult env k = (r1, k1)" by fastforce
    obtain q where "createFromSpecReport env sr (addParentSuite desc r1) k1 = Inl q" using panics by blast
    then show ?thesis using new assms(5) by (simp add: add_spec_def is_before_def)
  qed
  note specs = add_specs_panics [OF assms(4) this]
  obtain c0 k1 where new: "newTestContainer env k = (c0, k1)" by fastforce
  define c where "c = c0\<lparr>co_Start := getTimestampMsFromTime (su_StartTime rep),
    co_Stop := getTimestampMsFromTime (su_EndTime rep), co_Name := re_path_base env (su_SuitePath rep),
    co_Description := su_SuiteDescription rep\<rparr>"
  obtain p where "add_specs env (su_SuiteDescription rep) (su_SpecReports rep) c k1 = Inl p" using specs by blast
  then show ?thesis by (simp add: FromGinkgoReport_def new createFromReport_def c_def)
qed

theorem lost_attachment_loses_report_witness:
  "\<exists>p. FromGinkgoReport (codec_report_env (\<lambda>_. Some ''disk full''))
     (demo_suite\<lparr>su_SpecReports := [demo_spec NodeTypeIt ''works'' SpecStatePassed
        [fst (AddAttachment (codec_env (\<lambda>_. Some ''disk full'')) plain_codec demo_at ''log'' MimeTypeText ''hello'' demo_sink)]]\<rparr>)
     demo_sink = Inl p"
proof -
  let ?renv = "codec_report_env (\<lambda>_. Some ''disk full'')"
  let ?sr = "demo_spec NodeTypeIt ''works'' SpecStatePassed
    [fst (AddAttachment (codec_env (\<lambda>_. Some ''disk full'')) plain_codec demo_at ''log'' MimeTypeText ''hello'' demo_sink)]"
  have "addAttachment (re_steps ?renv) ''log'' MimeTypeText ''hello'' demo_sink =
      Inl ''failed to create an attachment file: failed to write in file: disk full''"
    by (simp add: addAttachment_def newAttachment_def writeAttachmentFile_def codec_env_def Let_def)
  note lost = lost_attachment_loses_report [OF _ this, where cd = plain_codec and at = demo_at
    and rep = "demo_suite\<lparr>su_SpecReports := [?sr]\<rparr>" and sr = ?sr and k = demo_sink]
  show ?thesis using lost by (simp add: plain_codec_contract demo_spec_def)
qed

end
