(* ===== verification/Allure_Calls.thy ===== *)
theory Allure_Calls
  imports Allure_Order
begin

text \<open>
  The flat timeline of a spec against the calls of \<open>By\<close> that produced it (\<open>createSteps\<close> and
  \<open>findByEventEnd\<close> of \<open>pkg/tests/allure/result.go\<close>): on the events of a tree of calls whose
  source lines can be told apart, the loop over indices is the structural recursion over the tree;
  where two calls share a line, the loop reads another tree from the same events.
\<close>

subsection \<open>Calls and their events\<close>

text \<open>
  What happens in a spec, in the order of time: another event, a \<open>By\<close> without a callback, or a \<open>By\<close>
  with the events of its callback between its start and its end; each followed by the rest.
\<close>

datatype timeline =
    Quiet
  | Note spec_event timeline
  | Marker spec_event timeline
  | Block spec_event timeline spec_event timeline

fun events_of :: "timeline \<Rightarrow> spec_event list" where
  "events_of Quiet = []"
| "events_of (Note e r) = e # events_of r"
| "events_of (Marker s r) = s # events_of r"
| "events_of (Block s b e r) = s # events_of b @ e # events_of r"

fun block_lines :: "timeline \<Rightarrow> int set" where
  "block_lines Quiet = {}"
| "block_lines (Note e r) = block_lines r"
| "block_lines (Marker s r) = block_lines r"
| "block_lines (Block s b e r) = insert (ev_Line s) (block_lines b \<union> block_lines r)"

text \<open>
  The lines tell the calls apart: a callback does not call \<open>By\<close> with a callback on its own line, and
  after a \<open>By\<close> without a callback the enclosing callback makes no such call on that line.
\<close>

fun well_matched :: "timeline \<Rightarrow> bool" where
  "well_matched Quiet \<longleftrightarrow> True"
| "well_matched (Note e r) \<longleftrightarrow> ev_Type e = OtherEvent \<and> well_matched r"
| "well_matched (Marker s r) \<longleftrightarrow> ev_Type s = ByStart \<and> ev_Line s \<notin> block_lines r \<and> well_matched r"
| "well_matched (Block s b e r) \<longleftrightarrow> ev_Type s = ByStart \<and> ev_Type e = ByEnd \<and> ev_Line e = ev_Line s \<and>
     ev_Line s \<notin> block_lines b \<and> well_matched b \<and> well_matched r"

fun next_order :: "timeline \<Rightarrow> int" where
  "next_order Quiet = max_order"
| "next_order (Note e r) = next_order r"
| "next_order (Marker s r) = ev_Order s"
| "next_order (Block s b e r) = ev_Order s"

subsection \<open>The reference: one step per call\<close>

definition then_steps ::
  "gostring + (stepObject \<times> nat set \<times> sink) \<Rightarrow>
     (nat set \<Rightarrow> sink \<Rightarrow> gostring + (stepObject list \<times> nat set \<times> sink)) \<Rightarrow>
     gostring + (stepObject list \<times> nat set \<times> sink)" where
  "then_steps r f =
     (case r of
        Inl p \<Rightarrow> Inl p
      | Inr (st, skip, k) \<Rightarrow>
          (case f skip k of Inl p \<Rightarrow> Inl p | Inr (sts, skip', k') \<Rightarrow> Inr (st # sts, skip', k')))"

text \<open>
  A call owns the entries from its start to the next call of the same callback; what the calls
  inside its callback claimed is not claimed again.
\<close>

fun report_of ::
  "steps_ctx \<Rightarrow> timeline \<Rightarrow> nat set \<Rightarrow> sink \<Rightarrow> gostring + (stepObject list \<times> nat set \<times> sink)" where
  "report_of cx Quiet skip k = Inr ([], skip, k)"
| "report_of cx (Note e r) skip k = report_of cx r skip k"
| "report_of cx (Marker s r) skip k =
     then_steps (fill_step cx s (next_order r) [] (getTimestampMsFromTime (ev_Time s)) (ev_Time s) skip k)
       (report_of cx r)"
| "report_of cx (Block s b e r) skip k =
     (case report_of cx b {} k of
        Inl p \<Rightarrow> Inl p
      | Inr (children, claimed, k1) \<Rightarrow>
          then_steps (fill_step cx s (next_order r) children (getTimestampMsFromTime (ev_Time e)) (ev_Time e)
              (skip \<union> claimed) k1) (report_of cx r))"

text \<open>The tree of names that the report shows, and the tree of names of the calls.\<close>

datatype names = Names gostring "names list"

fun shown :: "stepObject \<Rightarrow> names" where
  "shown (StepObject n s d de sg cs ps as t0 t1) = Names n (map shown cs)"

fun called :: "timeline \<Rightarrow> names list" where
  "called Quiet = []"
| "called (Note e r) = called r"
| "called (Marker s r) = Names (ev_Message s) [] # called r"
| "called (Block s b e r) = Names (ev_Message s) (called b) # called r"

lemma shown_unfold: "shown st = Names (st_Name st) (map shown (st_Children st))"
  by (cases st) simp

lemma report_of_shown: "report_of cx tline skip k = Inr (sts, skip', k') \<Longrightarrow> map shown sts = called tline"
proof (induction tline arbitrary: skip k sts skip' k')
  case (Marker s r)
  from Marker.prems obtain st skip1 k1 sts1 where
    f: "fill_step cx s (next_order r) [] (getTimestampMsFromTime (ev_Time s)) (ev_Time s) skip k = Inr (st, skip1, k1)"
    and r: "report_of cx r skip1 k1 = Inr (sts1, skip', k')" and sts: "sts = st # sts1"
    by (auto simp: then_steps_def dest!: case_triple_InrD)
  from f have "st_Name st = ev_Message s \<and> st_Children st = []" by (rule fill_stepE) simp
  with Marker.IH [OF r] sts show ?case by (simp add: shown_unfold [of st])
next
  case (Block s b e r)
  from case_triple_InrD [OF Block.prems [unfolded report_of.simps]] obtain cs claimed k1 where
    b: "report_of cx b {} k = Inr (cs, claimed, k1)"
    and run: "then_steps (fill_step cx s (next_order r) cs (getTimestampMsFromTime (ev_Time e)) (ev_Time e)
      (skip \<union> claimed) k1) (report_of cx r) = Inr (sts, skip', k')" by blast
  from run obtain st skip1 k2 sts1 where
    f: "fill_step cx s (next_order r) cs (getTimestampMsFromTime (ev_Time e)) (ev_Time e) (skip \<union> claimed) k1 =
      Inr (st, skip1, k2)"
    and r: "report_of cx r skip1 k2 = Inr (sts1, skip', k')" and sts: "sts = st # sts1"
    by (auto simp: then_steps_def dest!: case_triple_InrD)
  from f have "st_Name st = ev_Message s \<and> st_Children st = cs" by (rule fill_stepE) simp
  with Block.IH(1) [OF b] Block.IH(2) [OF r] sts show ?case by (simp add: shown_unfold [of st])
qed simp_all

subsection \<open>Searching for the end of a call\<close>

lemma next_start_order_events: "well_matched tline \<Longrightarrow> next_start_order (events_of tline) = next_order tline"
  by (induction tline) simp_all

lemma end_lines:
  "well_matched tline \<Longrightarrow> x \<in> set (events_of tline) \<Longrightarrow> ev_Type x = ByEnd \<Longrightarrow> ev_Line x \<in> block_lines tline"
  by (induction tline) auto

lemma find_end_from_append:
  "\<forall>x \<in> set xs. \<not> (ev_Type x = ByEnd \<and> ev_Line s = ev_Line x \<and> ev_Order s < ev_Order x) \<Longrightarrow>
     find_end_from n (xs @ ys) s = find_end_from (n + length xs) ys s"
  by (induction xs arbitrary: n) auto

lemma ordered_prefix: "ordered (pre @ s # rest) \<Longrightarrow> x \<in> set pre \<Longrightarrow> \<not> ev_Order s < ev_Order x"
  by (fastforce simp: ordered_def sorted_wrt_append)

lemma find_marker_end:
  assumes "ordered (pre @ s # events_of r)" and "ev_Type s = ByStart" and "ev_Line s \<notin> block_lines r" and "well_matched r"
  shows "findByEventEnd (pre @ s # events_of r) s = None"
proof -
  have "\<forall>x \<in> set (pre @ s # events_of r). \<not> (ev_Type x = ByEnd \<and> ev_Line s = ev_Line x \<and> ev_Order s < ev_Order x)"
    using ordered_prefix [OF assms(1)] assms(2,3) end_lines [OF assms(4)] by force
  from find_end_from_append [OF this, of 0 "[]"] show ?thesis by (simp add: findByEventEnd_def)
qed

lemma find_block_end:
  assumes "ordered (pre @ s # events_of b @ e # rest)" and "ev_Type s = ByStart" and "ev_Type e = ByEnd"
    and "ev_Line e = ev_Line s" and "ev_Line s \<notin> block_lines b" and "well_matched b"
  shows "findByEventEnd (pre @ s # events_of b @ e # rest) s = Some (e, Suc (length pre) + length (events_of b))"
proof -
  have "\<forall>x \<in> set (pre @ s # events_of b). \<not> (ev_Type x = ByEnd \<and> ev_Line s = ev_Line x \<and> ev_Order s < ev_Order x)"
    using ordered_prefix [OF assms(1)] assms(2,5) end_lines [OF assms(6)] by force
  from find_end_from_append [OF this, of 0 "e # rest"] show ?thesis
    using assms(1,3,4) by (simp add: findByEventEnd_def ordered_def sorted_wrt_append)
qed

subsection \<open>The loop is the recursion\<close>

lemma loop_skip_to:
  "i \<le> n \<Longrightarrow> n \<le> length events \<Longrightarrow> int n \<le> cur + 1 \<Longrightarrow>
     steps_loop cx events i cur steps skip k = steps_loop cx events n cur steps skip k"
proof (induction "n - i" arbitrary: i)
  case (Suc d)
  then have "steps_loop cx events i cur steps skip k = steps_loop cx events (Suc i) cur steps skip k"
    by (intro loop_skip) auto
  with Suc show ?case by simp
qed simp

definition append_steps ::
  "stepObject list \<Rightarrow> gostring + (stepObject list \<times> nat set \<times> sink) \<Rightarrow> gostring + (stepObject list \<times> nat set \<times> sink)" where
  "append_steps steps r = (case r of Inl p \<Rightarrow> Inl p | Inr (sts, skip, k) \<Rightarrow> Inr (steps @ sts, skip, k))"

lemma append_steps_then:
  "append_steps steps (then_steps r f) =
     (case r of Inl p \<Rightarrow> Inl p | Inr (st, skip, k) \<Rightarrow> append_steps (steps @ [st]) (f skip k))"
  by (simp add: append_steps_def then_steps_def split: sum.split)

lemma steps_loop_calls:
  assumes "well_matched tline" and "ordered (pre @ events_of tline)" and "cur < int (length pre)"
  shows "steps_loop cx (pre @ events_of tline) (length pre) cur steps skip k = append_steps steps (report_of cx tline skip k)"
  using assms
proof (induction tline arbitrary: pre cur steps skip k)
  case Quiet
  then show ?case by (simp add: loop_done append_steps_def)
next
  case (Note e r)
  have "steps_loop cx (pre @ e # events_of r) (length pre) cur steps skip k =
      steps_loop cx (pre @ e # events_of r) (Suc (length pre)) cur steps skip k"
    using Note.prems by (intro loop_skip) simp_all
  with Note.IH [of "pre @ [e]" cur] Note.prems show ?case by simp
next
  case (Marker s r)
  let ?ev = "pre @ s # events_of r"
  have "findByEventEnd ?ev (?ev ! length pre) = None"
    using find_marker_end [of pre s r] Marker.prems by simp
  note step = loop_instant [OF _ _ _ this, of cur cx steps skip k]
  have rest: "steps_loop cx ?ev (Suc (length pre)) cur sts sk k' = append_steps sts (report_of cx r sk k')" for sts sk k'
    using Marker.IH [of "pre @ [s]" cur] Marker.prems by simp
  from step Marker.prems show ?case
    by (simp add: append_steps_then rest next_start_order_events split: sum.split)
next
  case (Block s b e r)
  let ?ev = "pre @ s # events_of b @ e # events_of r"
  define j where "j = Suc (length pre) + length (events_of b)"
  have "findByEventEnd ?ev (?ev ! length pre) = Some (e, j)"
    using find_block_end [of pre s b e "events_of r"] Block.prems by (simp add: j_def)
  note step = loop_nested [OF _ _ _ this, of cur cx steps skip k]
  have cut: "slice ?ev (Suc (length pre)) j = events_of b" "drop (Suc j) ?ev = events_of r" "Suc (length pre) \<le> j"
    by (simp_all add: slice_def j_def)
  have "ordered (events_of b)" using Block.prems(2) by (simp add: ordered_def sorted_wrt_append)
  then have inner: "steps_loop cx (events_of b) 0 (- 1) [] {} k = report_of cx b {} k"
    using Block.IH(1) [of "[]" "- 1" "[]" "{}" k] Block.prems(1) by (simp add: append_steps_def split: sum.splits)
  have rest: "steps_loop cx ?ev (Suc (length pre)) (int j) sts sk k' = append_steps sts (report_of cx r sk k')" for sts sk k'
    using Block.IH(2) [of "pre @ s # events_of b @ [e]" "int j" sts sk k'] Block.prems
      loop_skip_to [of "Suc (length pre)" "Suc j" ?ev "int j" cx sts sk k'] by (simp add: j_def)
  from step Block.prems(1,3) cut have "steps_loop cx ?ev (length pre) cur steps skip k =
      (case report_of cx b {} k of
         Inl p \<Rightarrow> Inl p
       | Inr (children, claimed, k1) \<Rightarrow> append_steps steps
           (then_steps (fill_step cx s (next_order r) children (getTimestampMsFromTime (ev_Time e)) (ev_Time e)
              (skip \<union> claimed) k1) (report_of cx r)))"
    by (simp add: append_steps_then rest inner next_start_order_events cong: sum.case_cong prod.case_cong)
  then show ?case by (simp add: append_steps_def [of steps] split: sum.split)
qed

subsection \<open>Properties\<close>

lemma createSteps_calls:
  assumes "well_matched tline" and "ordered (events_of tline)"
  shows "createSteps env (events_of tline) entries logs parameters failureOrder k =
    report_of \<lparr>cx_env = env, cx_entries = entries, cx_logs = logs, cx_params = parameters,
      cx_failureOrder = failureOrder\<rparr> tline {} k"
  using steps_loop_calls [of tline "[]" "- 1"] assms
  by (simp add: createSteps_def append_steps_def split: sum.splits)

text \<open>
  C2: On the timeline of calls whose lines can be told apart, whatever their nesting, \<open>createSteps\<close> gives
  exactly what the recursion over the calls gives, panics and written files included; and when it returns,
  the tree of steps is the tree of calls.
\<close>

theorem createSteps_follows_calls:
  assumes "well_matched tline" and "ordered (events_of tline)"
  shows "createSteps env (events_of tline) entries logs parameters failureOrder k =
      report_of \<lparr>cx_env = env, cx_entries = entries, cx_logs = logs, cx_params = parameters,
        cx_failureOrder = failureOrder\<rparr> tline {} k \<and>
    (\<forall>steps skip k'. createSteps env (events_of tline) entries logs parameters failureOrder k = Inr (steps, skip, k') \<longrightarrow>
       map shown steps = called tline)"
  using createSteps_calls [OF assms] report_of_shown by simp

definition demo_calls :: timeline where
  "demo_calls = Block (demo_event ByStart ''A'' 1 1)
     (Block (demo_event ByStart ''N'' 2 2) Quiet (demo_event ByEnd ''N'' 2 3) Quiet) (demo_event ByEnd ''A'' 1 4)
     (Marker (demo_event ByStart ''B'' 5 5) Quiet)"

lemma demo_calls_events: "events_of demo_calls = demo_events"
  by (simp add: demo_calls_def demo_events_def)

lemma demo_calls_ok: "well_matched demo_calls" "ordered (events_of demo_calls)"
  by (simp_all add: demo_calls_def demo_event_def ordered_def)

theorem createSteps_follows_calls_witness:
  "map shown demo_steps = [Names ''A'' [Names ''N'' []], Names ''B'' []]"
  using createSteps_follows_calls [OF demo_calls_ok, of demo_env "[demo_entry ''ATTACHMENT'' ''a'' 7]" "[]" "[]" 6 demo_sink]
    demo_run by (simp add: demo_calls_events) (simp add: demo_calls_def demo_event_def)

text \<open>
  The end of a call is searched by the line number alone. When a \<open>By\<close> without a callback is followed by one
  with a callback on the same line, of another file perhaps, the first is taken for the call whose callback
  it precedes, and the second is shown as an empty step inside it.
\<close>

theorem same_line_calls_misnested:
  assumes "well_matched (Block s2 b e r)" and "ordered (events_of (Marker s (Block s2 b e r)))"
    and "ev_Type s = ByStart" and "ev_Line s = ev_Line s2"
    and "createSteps env (events_of (Marker s (Block s2 b e r))) entries logs parameters failureOrder k = Inr (steps, skip, k')"
  shows "map shown steps = Names (ev_Message s) (Names (ev_Message s2) [] # called b) # called r"
proof -
  have same: "events_of (Marker s (Block s2 b e r)) = events_of (Block s (Marker s2 b) e r)" by simp
  have "well_matched (Block s (Marker s2 b) e r)" using assms(1,3,4) by simp
  note steps = createSteps_calls [OF this assms(2) [unfolded same], of env entries logs parameters failureOrder k]
  from report_of_shown [OF steps [symmetric, folded same, unfolded assms(5)]] show ?thesis by simp
qed

end
