(* ===== verification/Allure_Folder.thy ===== *)
theory Allure_Folder
  imports Allure_Result
begin

text \<open>
  Where the reporter writes (\<open>ensureFolderCreated\<close>, \<open>writeFile\<close> and \<open>createFolderIfNotExists\<close> of
  \<open>pkg/tests/allure/misc.go\<close>, \<open>writeAttachmentFile\<close> of \<open>attachment.go\<close>) as a state machine over the
  variable \<open>resultsPath\<close>, the \<open>sync.Once\<close> beside it and the environment of the process, which the
  rest of the program changes: why the other theories may take the results path as a constant, and
  what happens when the folder cannot be created.
\<close>

subsection \<open>The state and the creation of the folder\<close>

record folder_state =
  createFolderOnce :: bool
  resultsPath :: gostring
  process_env :: "gostring \<Rightarrow> gostring"

text \<open>
  \<open>create_folder\<close> is \<open>createFolderIfNotExists\<close> with its effects on the state also when it panics:
  the panic, if any, and the state left behind.
\<close>

definition create_in :: "os_env \<Rightarrow> gostring \<Rightarrow> gostring \<Rightarrow> folder_state \<Rightarrow> gostring option \<times> folder_state" where
  "create_in os path msg fs =
     (map_option (\<lambda>err. msg @ err) (os_MkdirAll_error os path), fs\<lparr>resultsPath := path\<rparr>)"

definition create_folder :: "os_env \<Rightarrow> folder_state \<Rightarrow> gostring option \<times> folder_state" where
  "create_folder os fs =
     (let allure = process_env fs allureResultsPathEnvKey; dir = process_env fs resultsPathEnvKey;
          msg = ''failed to create allure-results folder: ''
      in if allure \<noteq> [] then
           create_in os allure (''failed to create allure-results folder at '' @ allure @ '': '') fs
         else if dir \<noteq> [] then create_in os (dir @ ''/allure-results'') msg fs
         else case os_Getwd os of
           Inl err \<Rightarrow> (Some (''cannot get current workdir: '' @ err), fs)
         | Inr cwd \<Rightarrow>
             (case os_Setenv_error os of
                Some err \<Rightarrow> (Some (''cannot set resultsPathEnv: '' @ err), fs)
              | None \<Rightarrow> create_in os (cwd @ ''/allure-results'') msg
                  (fs\<lparr>process_env := (process_env fs)(resultsPathEnvKey := cwd)\<rparr>)))"

text \<open>\<open>sync.Once\<close> counts a call that panicked as done, as its documentation says.\<close>

definition ensureFolderCreated :: "os_env \<Rightarrow> folder_state \<Rightarrow> gostring option \<times> folder_state" where
  "ensureFolderCreated os fs =
     (if createFolderOnce fs then (None, fs)
      else case create_folder os fs of (panic, fs') \<Rightarrow> (panic, fs'\<lparr>createFolderOnce := True\<rparr>))"

text \<open>The path that a call writes to, unless creating the folder panics.\<close>

definition file_path :: "os_env \<Rightarrow> gostring \<Rightarrow> folder_state \<Rightarrow> gostring result \<times> folder_state" where
  "file_path os name fs =
     (case ensureFolderCreated os fs of
        (Some p, fs') \<Rightarrow> (Inl p, fs')
      | (None, fs') \<Rightarrow> (Inr (resultsPath fs' @ ''/'' @ name), fs'))"

definition attachment_path :: "os_env \<Rightarrow> gostring \<Rightarrow> folder_state \<Rightarrow> gostring result \<times> folder_state" where
  "attachment_path os source fs =
     (let resultsPathEnv = process_env fs resultsPathEnvKey in
      case ensureFolderCreated os fs of
        (Some p, fs') \<Rightarrow> (Inl p, fs')
      | (None, fs') \<Rightarrow>
          let fs'' = (if resultsPath fs' = [] then fs'\<lparr>resultsPath := resultsPathEnv @ ''/allure-results''\<rparr> else fs')
          in (Inr (resultsPath fs'' @ ''/'' @ source), fs''))"

text \<open>What a process does in the course of a run; the rest of the program sets environment variables.\<close>

datatype folder_op = WriteFile gostring | WriteAttachment gostring | ChangeEnv gostring gostring

fun folder_step :: "os_env \<Rightarrow> folder_op \<Rightarrow> folder_state \<Rightarrow> gostring result option \<times> folder_state" where
  "folder_step os (WriteFile n) fs = map_prod Some id (file_path os n fs)"
| "folder_step os (WriteAttachment n) fs = map_prod Some id (attachment_path os n fs)"
| "folder_step os (ChangeEnv key v) fs = (None, fs\<lparr>process_env := (process_env fs)(key := v)\<rparr>)"

fun folder_run :: "os_env \<Rightarrow> folder_op list \<Rightarrow> folder_state \<Rightarrow> gostring result list \<times> folder_state" where
  "folder_run os [] fs = ([], fs)"
| "folder_run os (x # xs) fs =
     (case folder_step os x fs of
        (r, fs') \<Rightarrow>
          (case folder_run os xs fs' of
             (rs, fs'') \<Rightarrow> ((case r of None \<Rightarrow> rs | Some p \<Rightarrow> p # rs), fs'')))"

fun op_name :: "folder_op \<Rightarrow> gostring option" where
  "op_name (WriteFile n) = Some n"
| "op_name (WriteAttachment n) = Some n"
| "op_name (ChangeEnv key v) = None"

definition fresh_process :: "(gostring \<Rightarrow> gostring) \<Rightarrow> folder_state" where
  "fresh_process getenv = \<lparr>createFolderOnce = False, resultsPath = [], process_env = getenv\<rparr>"

subsection \<open>The first creation decides\<close>

text \<open>On the way without a panic \<open>create_folder\<close> is the function that the results are written with.\<close>

lemma create_folder_refines:
  "createFolderIfNotExists (os\<lparr>os_Getenv := process_env fs\<rparr>) =
     (case create_folder os fs of
        (Some p, fs') \<Rightarrow> Inl p
      | (None, fs') \<Rightarrow> Inr (resultsPath fs', process_env fs'))"
  by (simp add: createFolderIfNotExists_def create_folder_def create_in_def Let_def
      split: option.split sum.split prod.split)

lemma create_folder_keeps_once: "createFolderOnce (snd (create_folder os fs)) = createFolderOnce fs"
  by (simp add: create_folder_def create_in_def Let_def split: option.split sum.split)

lemma created_path_nonempty:
  "createFolderIfNotExists os = Inr (path, getenv) \<Longrightarrow> path \<noteq> []"
  by (auto simp: createFolderIfNotExists_def Let_def bind_result_Inr split: if_splits option.splits sum.splits)

text \<open>Once the folder is settled, every write goes there, whatever happens to the environment.\<close>

definition settled :: "gostring \<Rightarrow> folder_state \<Rightarrow> bool" where
  "settled path fs \<longleftrightarrow> createFolderOnce fs \<and> resultsPath fs = path"

lemma settled_step:
  assumes "settled path fs" and "path \<noteq> []"
  shows "settled path (snd (folder_step os x fs)) \<and>
    fst (folder_step os x fs) = map_option (\<lambda>n. Inr (path @ ''/'' @ n)) (op_name x)"
  using assms by (cases x) (simp_all add: settled_def file_path_def attachment_path_def ensureFolderCreated_def Let_def)

lemma settled_run:
  "settled path fs \<Longrightarrow> path \<noteq> [] \<Longrightarrow>
     settled path (snd (folder_run os xs fs)) \<and>
     fst (folder_run os xs fs) = map (\<lambda>n. Inr (path @ ''/'' @ n)) (List.map_filter op_name xs)"
proof (induction xs arbitrary: fs)
  case (Cons x xs)
  obtain r fs' where step: "folder_step os x fs = (r, fs')" by fastforce
  from settled_step [OF Cons.prems, of os x] have s: "settled path fs'" "r = map_option (\<lambda>n. Inr (path @ ''/'' @ n)) (op_name x)"
    by (simp_all add: step)
  from Cons.IH [OF s(1) Cons.prems(2)] show ?case
    by (cases "folder_run os xs fs'"; cases "op_name x") (simp_all add: step s(2) List.map_filter_simps)
qed (simp add: List.map_filter_simps)

lemma first_write_settles:
  assumes "create_folder os fs = (None, fs')" and "\<not> createFolderOnce fs" and "resultsPath fs' \<noteq> []"
    and "op_name x = Some n"
  shows "folder_step os x fs = (Some (Inr (resultsPath fs' @ ''/'' @ n)), fs'\<lparr>createFolderOnce := True\<rparr>)"
  using assms by (cases x) (simp_all add: file_path_def attachment_path_def ensureFolderCreated_def Let_def)

text \<open>
  C37: All files of a process go to one folder: the first write settles it from the environment of that moment,
  creates it, and every later result, container or attachment is written below it, whatever the rest of the
  program does to the environment.
\<close>

theorem one_results_folder:
  assumes "createFolderIfNotExists (os\<lparr>os_Getenv := getenv\<rparr>) = Inr (path, getenv')" and "op_name x = Some n"
  shows "fst (folder_run os (x # xs) (fresh_process getenv)) =
      map (\<lambda>m. Inr (path @ ''/'' @ m)) (n # List.map_filter op_name xs) \<and>
    settled path (snd (folder_run os (x # xs) (fresh_process getenv)))"
proof -
  let ?fs = "fresh_process getenv"
  note ne = created_path_nonempty [OF assms(1)]
  have env: "process_env ?fs = getenv" "\<not> createFolderOnce ?fs" by (simp_all add: fresh_process_def)
  obtain fs' where cf: "create_folder os ?fs = (None, fs')" and path: "resultsPath fs' = path"
    using assms(1) create_folder_refines [where os = os and fs = ?fs] by (auto simp: env split: prod.splits option.splits)
  from first_write_settles [OF cf env(2), of x n] assms(2) path ne
  have "folder_step os x ?fs = (Some (Inr (path @ ''/'' @ n)), fs'\<lparr>createFolderOnce := True\<rparr>)" by simp
  moreover have "settled path (fs'\<lparr>createFolderOnce := True\<rparr>)" using path by (simp add: settled_def)
  note settled_run [OF this ne, of os xs]
  ultimately show ?thesis by (cases "folder_run os xs (fs'\<lparr>createFolderOnce := True\<rparr>)") simp
qed

definition demo_os :: "os_env" where
  "demo_os = \<lparr>os_Getenv = (\<lambda>_. []), os_Getwd = Inr ''/work'', os_Setenv_error = None, os_MkdirAll_error = (\<lambda>_. None)\<rparr>"

theorem one_results_folder_witness:
  "fst (folder_run demo_os [WriteAttachment ''a.txt'', ChangeEnv allureResultsPathEnvKey ''/reports'', WriteFile ''r.json'']
      (fresh_process (\<lambda>_. []))) = [Inr ''/work/allure-results/a.txt'', Inr ''/work/allure-results/r.json'']"
proof -
  have "createFolderIfNotExists (demo_os\<lparr>os_Getenv := \<lambda>_. []\<rparr>) =
      Inr (''/work/allure-results'', (\<lambda>_. [])(resultsPathEnvKey := ''/work''))"
    by (simp add: createFolderIfNotExists_def demo_os_def Let_def)
  from one_results_folder [OF this, of "WriteAttachment ''a.txt''" "''a.txt''"
      "[ChangeEnv allureResultsPathEnvKey ''/reports'', WriteFile ''r.json'']"]
  show ?thesis by (simp add: List.map_filter_simps del: folder_run.simps)
qed

subsection \<open>A failed creation is not repeated\<close>

lemma spent_step:
  assumes "createFolderOnce fs"
  shows "createFolderOnce (snd (folder_step os x fs)) \<and> (\<forall>p. fst (folder_step os x fs) \<noteq> Some (Inl p))"
  using assms by (cases x) (simp_all add: file_path_def attachment_path_def ensureFolderCreated_def Let_def)

lemma spent_run: "createFolderOnce fs \<Longrightarrow> Inl p \<notin> set (fst (folder_run os xs fs))"
proof (induction xs arbitrary: fs)
  case (Cons x xs)
  obtain r fs' where step: "folder_step os x fs = (r, fs')" by fastforce
  from spent_step [OF Cons.prems, of os x] have "createFolderOnce fs'" "r \<noteq> Some (Inl p)" by (simp_all add: step)
  with Cons.IH [of fs'] show ?case by (auto simp: step split: prod.split option.split)
qed simp

text \<open>
  When the folder cannot be created, only the first write panics: the call is spent, the creation is never
  tried again, and the later files are written to whatever the variable was left at.
\<close>

theorem failed_folder_not_retried:
  assumes "create_folder os (fresh_process getenv) = (Some p, fs)" and "op_name x = Some n"
  shows "\<exists>rs. fst (folder_run os (x # xs) (fresh_process getenv)) = Inl p # rs \<and> Inl q \<notin> set rs"
proof -
  have "folder_step os x (fresh_process getenv) = (Some (Inl p), fs\<lparr>createFolderOnce := True\<rparr>)"
    using assms by (cases x) (simp_all add: fresh_process_def file_path_def attachment_path_def ensureFolderCreated_def Let_def)
  then show ?thesis using spent_run [of "fs\<lparr>createFolderOnce := True\<rparr>" q os xs]
    by (cases "folder_run os xs (fs\<lparr>createFolderOnce := True\<rparr>)") simp
qed

text \<open>
  After a lost working directory the results go to the root of the file system, until an attachment moves them
  to \<open>/allure-results\<close>, which nobody created.
\<close>

lemma lost_cwd_writes_to_root:
  "fst (folder_run (demo_os\<lparr>os_Getwd := Inl ''gone''\<rparr>) [WriteFile ''a'', WriteFile ''b'', WriteAttachment ''c'', WriteFile ''d'']
      (fresh_process (\<lambda>_. []))) =
    [Inl ''cannot get current workdir: gone'', Inr ''/b'', Inr ''/allure-results/c'', Inr ''/allure-results/d'']"
  by (simp add: fresh_process_def file_path_def attachment_path_def ensureFolderCreated_def create_folder_def demo_os_def Let_def)

end
