(* ===== verification/Config.thy ===== *)
theory Config
  imports Complex_Main Prelude
begin

text \<open>
  The process-wide configuration of \<open>pkg/consts/main.go\<close>: the lock-free string cells
  behind every \<open>Set\<dots>\<close>/getter pair, the getters with built-in defaults, the manifest
  paths, the timeouts and retry counts, and the license secret. The package variables are the
  component \<open>cells\<close> of the state \<open>config\<close>, the process environment is its component
  \<open>environ\<close> (the empty string where a variable is unset, as \<open>os.Getenv\<close> reports).
\<close>

subsection \<open>Cells\<close>

text \<open>A cell is an \<open>atomic.Pointer[string]\<close>: nil until the first \<open>Set\<close>.\<close>

datatype cell_id =
    ManifestsDirCell
  | ReportLocationCell
  | CrustGatherLocationCell
  | EnvK8SDistroCell
  | IngressHostCell
  | HelmChartVersionCell
  | OperatorVersionCell
  | VmVersionCell
  | VmK8sStackChartCell
  | VmK8sStackChartVersionCell
  | VmDistributedChartVersionCell
  | VlSingleChartVersionCell
  | VlCollectorChartVersionCell
  | VlVersionCell
  | VlEnterpriseVersionCell
  | OperatorImageRegistryCell
  | OperatorImageRepositoryCell
  | OperatorImageTagCell
  | OperatorChartVersionCell
  | ArgocdVersionCell
  | ConfigReloaderRegistryCell
  | ConfigReloaderRepositoryCell
  | ConfigReloaderTagCell
  | VmSingleDefaultImageCell
  | VmSingleDefaultVersionCell
  | VmClusterVMSelectDefaultImageCell
  | VmClusterVMSelectDefaultVersionCell
  | VmClusterVMStorageDefaultImageCell
  | VmClusterVMStorageDefaultVersionCell
  | VmClusterVMInsertDefaultImageCell
  | VmClusterVMInsertDefaultVersionCell
  | VmAgentDefaultImageCell
  | VmAgentDefaultVersionCell
  | VmAlertDefaultImageCell
  | VmAlertDefaultVersionCell
  | VmAuthDefaultImageCell
  | VmAuthDefaultVersionCell
  | VmBackupDefaultImageCell
  | VmBackupDefaultVersionCell
  | VmRestoreDefaultImageCell
  | VmRestoreDefaultVersionCell
  | LicenseFileCell
  | DistributedRegionCell
  | DistributedZonesCell
  | ScrambleNamesCell

record config =
  cells :: "cell_id \<Rightarrow> gostring option"
  environ :: "gostring \<Rightarrow> gostring"

definition cell_Set :: "cell_id \<Rightarrow> gostring \<Rightarrow> config \<Rightarrow> config" where
  "cell_Set c val s = s\<lparr>cells := (cells s)(c := Some val)\<rparr>"

definition cell_Get :: "cell_id \<Rightarrow> config \<Rightarrow> gostring" where
  "cell_Get c s = (case cells s c of Some p \<Rightarrow> p | None \<Rightarrow> [])"

definition Getenv :: "gostring \<Rightarrow> config \<Rightarrow> gostring" where
  "Getenv k s = environ s k"

definition Setenv :: "gostring \<Rightarrow> gostring \<Rightarrow> config \<Rightarrow> config" where
  "Setenv k v s = s\<lparr>environ := (environ s)(k := v)\<rparr>"

definition init_config :: "(gostring \<Rightarrow> gostring) \<Rightarrow> config" where
  "init_config env = \<lparr>cells = (\<lambda>_. None), environ = env\<rparr>"

text \<open>
  What the rest of the program relies on: a read returns the last value written to the same
  key, and a write to one key leaves the others alone. A block of writes with distinct keys
  can then be read back entry by entry.
\<close>

locale keyed_store =
  fixes get :: "'k \<Rightarrow> 's \<Rightarrow> 'v"
    and put :: "'k \<Rightarrow> 'v \<Rightarrow> 's \<Rightarrow> 's"
  assumes get_put: "get k (put k v s) = v"
    and get_put_other: "k \<noteq> k' \<Longrightarrow> get k' (put k v s) = get k' s"
begin

fun put_all :: "('k \<times> 'v) list \<Rightarrow> 's \<Rightarrow> 's" where
  "put_all [] s = s"
| "put_all ((k, v) # kvs) s = put_all kvs (put k v s)"

lemma get_put_all_notin: "k \<notin> fst ` set kvs \<Longrightarrow> get k (put_all kvs s) = get k s"
  by (induction kvs s rule: put_all.induct) (auto simp: get_put_other)

lemma get_put_all:
  "distinct (map fst kvs) \<Longrightarrow>
     get k (put_all kvs s) = (case map_of kvs k of Some v \<Rightarrow> v | None \<Rightarrow> get k s)"
proof (induction kvs s rule: put_all.induct)
  case (1 s)
  then show ?case by simp
next
  case (2 k' v kvs s)
  then have fresh: "k' \<notin> fst ` set kvs" and IH: "get k (put_all kvs (put k' v s)) =
      (case map_of kvs k of Some w \<Rightarrow> w | None \<Rightarrow> get k (put k' v s))"
    by simp_all
  show ?case
  proof (cases "k = k'")
    case True
    with fresh show ?thesis by (simp add: get_put_all_notin get_put)
  next
    case False
    with IH show ?thesis by (simp add: get_put_other split: option.split)
  qed
qed

end

interpretation cfg: keyed_store cell_Get cell_Set
  by unfold_locales (auto simp: cell_Get_def cell_Set_def)

interpretation env: keyed_store Getenv Setenv
  by unfold_locales (auto simp: Getenv_def Setenv_def)

lemma cell_Get_init [simp]: "cell_Get c (init_config e) = []"
  by (simp add: cell_Get_def init_config_def)

lemma cell_env_frame [simp]:
  "cell_Get c (Setenv k v s) = cell_Get c s" "Getenv k (cell_Set c v s) = Getenv k s"
  by (simp_all add: cell_Get_def Setenv_def Getenv_def cell_Set_def)

lemma cell_Get_Set: "cell_Get c' (cell_Set c v s) = (if c' = c then v else cell_Get c' s)"
  by (simp add: cell_Get_def cell_Set_def)

subsection \<open>Setters\<close>

definition SetManifestsDir :: "gostring \<Rightarrow> config \<Rightarrow> config" where
  "SetManifestsDir v s = cell_Set ManifestsDirCell v s"

definition SetCrustGatherLocation :: "gostring \<Rightarrow> config \<Rightarrow> config" where
  "SetCrustGatherLocation v s = cell_Set CrustGatherLocationCell v s"

definition SetReportLocation :: "gostring \<Rightarrow> config \<Rightarrow> config" where
  "SetReportLocation v s = cell_Set ReportLocationCell v s"

definition SetEnvK8SDistro :: "gostring \<Rightarrow> config \<Rightarrow> config" where
  "SetEnvK8SDistro v s = cell_Set EnvK8SDistroCell v s"

definition SetIngressHost :: "gostring \<Rightarrow> config \<Rightarrow> config" where
  "SetIngressHost v s = cell_Set IngressHostCell v s"

definition SetHelmChartVersion :: "gostring \<Rightarrow> config \<Rightarrow> config" where
  "SetHelmChartVersion v s = cell_Set HelmChartVersionCell v s"

definition SetVMK8sStackChart :: "gostring \<Rightarrow> config \<Rightarrow> config" where
  "SetVMK8sStackChart v s = cell_Set VmK8sStackChartCell v s"

definition SetVMK8sStackChartVersion :: "gostring \<Rightarrow> config \<Rightarrow> config" where
  "SetVMK8sStackChartVersion v s = cell_Set VmK8sStackChartVersionCell v s"

definition SetVMDistributedChartVersion :: "gostring \<Rightarrow> config \<Rightarrow> config" where
  "SetVMDistributedChartVersion v s = cell_Set VmDistributedChartVersionCell v s"

definition SetVLSingleChartVersion :: "gostring \<Rightarrow> config \<Rightarrow> config" where
  "SetVLSingleChartVersion v s = cell_Set VlSingleChartVersionCell v s"

definition SetVLCollectorChartVersion :: "gostring \<Rightarrow> config \<Rightarrow> config" where
  "SetVLCollectorChartVersion v s = cell_Set VlCollectorChartVersionCell v s"

definition SetVLVersion :: "gostring \<Rightarrow> config \<Rightarrow> config" where
  "SetVLVersion v s = cell_Set VlVersionCell v s"

definition SetVLEnterpriseVersion :: "gostring \<Rightarrow> config \<Rightarrow> config" where
  "SetVLEnterpriseVersion v s = cell_Set VlEnterpriseVersionCell v s"

definition SetOperatorVersion :: "gostring \<Rightarrow> config \<Rightarrow> config" where
  "SetOperatorVersion v s = cell_Set OperatorVersionCell v s"

definition SetVMVersion :: "gostring \<Rightarrow> config \<Rightarrow> config" where
  "SetVMVersion v s = cell_Set VmVersionCell v s"

definition SetOperatorImageRegistry :: "gostring \<Rightarrow> config \<Rightarrow> config" where
  "SetOperatorImageRegistry v s = cell_Set OperatorImageRegistryCell v s"

definition SetOperatorImageRepository :: "gostring \<Rightarrow> config \<Rightarrow> config" where
  "SetOperatorImageRepository v s = cell_Set OperatorImageRepositoryCell v s"

definition SetOperatorImageTag :: "gostring \<Rightarrow> config \<Rightarrow> config" where
  "SetOperatorImageTag v s = cell_Set OperatorImageTagCell v s"

definition SetOperatorChartVersion :: "gostring \<Rightarrow> config \<Rightarrow> config" where
  "SetOperatorChartVersion v s = cell_Set OperatorChartVersionCell v s"

definition SetArgoCDVersion :: "gostring \<Rightarrow> config \<Rightarrow> config" where
  "SetArgoCDVersion v s = cell_Set ArgocdVersionCell v s"

definition SetConfigReloaderRegistry :: "gostring \<Rightarrow> config \<Rightarrow> config" where
  "SetConfigReloaderRegistry v s = cell_Set ConfigReloaderRegistryCell v s"

definition SetConfigReloaderRepository :: "gostring \<Rightarrow> config \<Rightarrow> config" where
  "SetConfigReloaderRepository v s = cell_Set ConfigReloaderRepositoryCell v s"

definition SetConfigReloaderTag :: "gostring \<Rightarrow> config \<Rightarrow> config" where
  "SetConfigReloaderTag v s = cell_Set ConfigReloaderTagCell v s"

definition SetVMSingleDefaultImage :: "gostring \<Rightarrow> config \<Rightarrow> config" where
  "SetVMSingleDefaultImage v s = cell_Set VmSingleDefaultImageCell v s"

definition SetVMSingleDefaultVersion :: "gostring \<Rightarrow> config \<Rightarrow> config" where
  "SetVMSingleDefaultVersion v s = cell_Set VmSingleDefaultVersionCell v s"

definition SetVMClusterVMSelectDefaultImage :: "gostring \<Rightarrow> config \<Rightarrow> config" where
  "SetVMClusterVMSelectDefaultImage v s = cell_Set VmClusterVMSelectDefaultImageCell v s"

definition SetVMClusterVMSelectDefaultVersion :: "gostring \<Rightarrow> config \<Rightarrow> config" where
  "SetVMClusterVMSelectDefaultVersion v s = cell_Set VmClusterVMSelectDefaultVersionCell v s"

definition SetVMClusterVMStorageDefaultImage :: "gostring \<Rightarrow> config \<Rightarrow> config" where
  "SetVMClusterVMStorageDefaultImage v s = cell_Set VmClusterVMStorageDefaultImageCell v s"

definition SetVMClusterVMInsertDefaultImage :: "gostring \<Rightarrow> config \<Rightarrow> config" where
  "SetVMClusterVMInsertDefaultImage v s = cell_Set VmClusterVMInsertDefaultImageCell v s"

definition SetVMClusterVMInsertDefaultVersion :: "gostring \<Rightarrow> config \<Rightarrow> config" where
  "SetVMClusterVMInsertDefaultVersion v s = cell_Set VmClusterVMInsertDefaultVersionCell v s"

definition SetVMAgentDefaultImage :: "gostring \<Rightarrow> config \<Rightarrow> config" where
  "SetVMAgentDefaultImage v s = cell_Set VmAgentDefaultImageCell v s"

definition SetVMAgentDefaultVersion :: "gostring \<Rightarrow> config \<Rightarrow> config" where
  "SetVMAgentDefaultVersion v s = cell_Set VmAgentDefaultVersionCell v s"

definition SetVMAlertDefaultImage :: "gostring \<Rightarrow> config \<Rightarrow> config" where
  "SetVMAlertDefaultImage v s = cell_Set VmAlertDefaultImageCell v s"

definition SetVMAlertDefaultVersion :: "gostring \<Rightarrow> config \<Rightarrow> config" where
  "SetVMAlertDefaultVersion v s = cell_Set VmAlertDefaultVersionCell v s"

definition SetVMAuthDefaultImage :: "gostring \<Rightarrow> config \<Rightarrow> config" where
  "SetVMAuthDefaultImage v s = cell_Set VmAuthDefaultImageCell v s"

definition SetVMAuthDefaultVersion :: "gostring \<Rightarrow> config \<Rightarrow> config" where
  "SetVMAuthDefaultVersion v s = cell_Set VmAuthDefaultVersionCell v s"

definition SetVMBackupDefaultImage :: "gostring \<Rightarrow> config \<Rightarrow> config" where
  "SetVMBackupDefaultImage v s = cell_Set VmBackupDefaultImageCell v s"

definition SetVMBackupDefaultVersion :: "gostring \<Rightarrow> config \<Rightarrow> config" where
  "SetVMBackupDefaultVersion v s = cell_Set VmBackupDefaultVersionCell v s"

definition SetVMRestoreDefaultImage :: "gostring \<Rightarrow> config \<Rightarrow> config" where
  "SetVMRestoreDefaultImage v s = cell_Set VmRestoreDefaultImageCell v s"

definition SetVMRestoreDefaultVersion :: "gostring \<Rightarrow> config \<Rightarrow> config" where
  "SetVMRestoreDefaultVersion v s = cell_Set VmRestoreDefaultVersionCell v s"

definition SetLicenseFile :: "gostring \<Rightarrow> config \<Rightarrow> config" where
  "SetLicenseFile v s = cell_Set LicenseFileCell v s"

definition SetDistributedRegion :: "gostring \<Rightarrow> config \<Rightarrow> config" where
  "SetDistributedRegion v s = cell_Set DistributedRegionCell v s"

definition SetDistributedZones :: "gostring \<Rightarrow> config \<Rightarrow> config" where
  "SetDistributedZones v s = cell_Set DistributedZonesCell v s"

definition SetScrambleNames :: "gostring \<Rightarrow> config \<Rightarrow> config" where
  "SetScrambleNames v s = cell_Set ScrambleNamesCell v s"

definition SetVMClusterVMStorageDefaultVersion :: "gostring \<Rightarrow> config \<Rightarrow> config" where
  "SetVMClusterVMStorageDefaultVersion v s = cell_Set VmClusterVMStorageDefaultVersionCell v s"

subsection \<open>Getters\<close>

definition ReportLocation :: "config \<Rightarrow> gostring" where
  "ReportLocation s = cell_Get ReportLocationCell s"

definition EnvK8SDistro :: "config \<Rightarrow> gostring" where
  "EnvK8SDistro s = cell_Get EnvK8SDistroCell s"

definition IngressHost :: "config \<Rightarrow> gostring" where
  "IngressHost s = cell_Get IngressHostCell s"

definition VMK8sStackChartVersion :: "config \<Rightarrow> gostring" where
  "VMK8sStackChartVersion s = cell_Get VmK8sStackChartVersionCell s"

definition VMDistributedChartVersion :: "config \<Rightarrow> gostring" where
  "VMDistributedChartVersion s = cell_Get VmDistributedChartVersionCell s"

definition VLSingleChartVersion :: "config \<Rightarrow> gostring" where
  "VLSingleChartVersion s = cell_Get VlSingleChartVersionCell s"

definition VLCollectorChartVersion :: "config \<Rightarrow> gostring" where
  "VLCollectorChartVersion s = cell_Get VlCollectorChartVersionCell s"

definition VLVersion :: "config \<Rightarrow> gostring" where
  "VLVersion s = cell_Get VlVersionCell s"

definition VLEnterpriseVersion :: "config \<Rightarrow> gostring" where
  "VLEnterpriseVersion s = cell_Get VlEnterpriseVersionCell s"

definition HelmChartVersion :: "config \<Rightarrow> gostring" where
  "HelmChartVersion s = cell_Get HelmChartVersionCell s"

definition OperatorVersion :: "config \<Rightarrow> gostring" where
  "OperatorVersion s = cell_Get OperatorVersionCell s"

definition VMVersion :: "config \<Rightarrow> gostring" where
  "VMVersion s = cell_Get VmVersionCell s"

definition OperatorImageRegistry :: "config \<Rightarrow> gostring" where
  "OperatorImageRegistry s = cell_Get OperatorImageRegistryCell s"

definition OperatorImageRepository :: "config \<Rightarrow> gostring" where
  "OperatorImageRepository s = cell_Get OperatorImageRepositoryCell s"

definition OperatorImageTag :: "config \<Rightarrow> gostring" where
  "OperatorImageTag s = cell_Get OperatorImageTagCell s"

definition OperatorChartVersion :: "config \<Rightarrow> gostring" where
  "OperatorChartVersion s = cell_Get OperatorChartVersionCell s"

definition ArgoCDVersion :: "config \<Rightarrow> gostring" where
  "ArgoCDVersion s = cell_Get ArgocdVersionCell s"

definition ConfigReloaderRegistry :: "config \<Rightarrow> gostring" where
  "ConfigReloaderRegistry s = cell_Get ConfigReloaderRegistryCell s"

definition ConfigReloaderRepository :: "config \<Rightarrow> gostring" where
  "ConfigReloaderRepository s = cell_Get ConfigReloaderRepositoryCell s"

definition ConfigReloaderTag :: "config \<Rightarrow> gostring" where
  "ConfigReloaderTag s = cell_Get ConfigReloaderTagCell s"

definition VMSingleDefaultImage :: "config \<Rightarrow> gostring" where
  "VMSingleDefaultImage s = cell_Get VmSingleDefaultImageCell s"

definition VMSingleDefaultVersion :: "config \<Rightarrow> gostring" where
  "VMSingleDefaultVersion s = cell_Get VmSingleDefaultVersionCell s"

definition VMClusterVMSelectDefaultImage :: "config \<Rightarrow> gostring" where
  "VMClusterVMSelectDefaultImage s = cell_Get VmClusterVMSelectDefaultImageCell s"

definition VMClusterVMSelectDefaultVersion :: "config \<Rightarrow> gostring" where
  "VMClusterVMSelectDefaultVersion s = cell_Get VmClusterVMSelectDefaultVersionCell s"

definition VMClusterVMStorageDefaultImage :: "config \<Rightarrow> gostring" where
  "VMClusterVMStorageDefaultImage s = cell_Get VmClusterVMStorageDefaultImageCell s"

definition VMClusterVMStorageDefaultVersion :: "config \<Rightarrow> gostring" where
  "VMClusterVMStorageDefaultVersion s = cell_Get VmClusterVMStorageDefaultVersionCell s"

definition VMClusterVMInsertDefaultImage :: "config \<Rightarrow> gostring" where
  "VMClusterVMInsertDefaultImage s = cell_Get VmClusterVMInsertDefaultImageCell s"

definition VMClusterVMInsertDefaultVersion :: "config \<Rightarrow> gostring" where
  "VMClusterVMInsertDefaultVersion s = cell_Get VmClusterVMInsertDefaultVersionCell s"

definition VMAgentDefaultImage :: "config \<Rightarrow> gostring" where
  "VMAgentDefaultImage s = cell_Get VmAgentDefaultImageCell s"

definition VMAgentDefaultVersion :: "config \<Rightarrow> gostring" where
  "VMAgentDefaultVersion s = cell_Get VmAgentDefaultVersionCell s"

definition VMAlertDefaultImage :: "config \<Rightarrow> gostring" where
  "VMAlertDefaultImage s = cell_Get VmAlertDefaultImageCell s"

definition VMAlertDefaultVersion :: "config \<Rightarrow> gostring" where
  "VMAlertDefaultVersion s = cell_Get VmAlertDefaultVersionCell s"

definition VMAuthDefaultImage :: "config \<Rightarrow> gostring" where
  "VMAuthDefaultImage s = cell_Get VmAuthDefaultImageCell s"

definition VMAuthDefaultVersion :: "config \<Rightarrow> gostring" where
  "VMAuthDefaultVersion s = cell_Get VmAuthDefaultVersionCell s"

definition VMBackupDefaultImage :: "config \<Rightarrow> gostring" where
  "VMBackupDefaultImage s = cell_Get VmBackupDefaultImageCell s"

definition VMBackupDefaultVersion :: "config \<Rightarrow> gostring" where
  "VMBackupDefaultVersion s = cell_Get VmBackupDefaultVersionCell s"

definition VMRestoreDefaultImage :: "config \<Rightarrow> gostring" where
  "VMRestoreDefaultImage s = cell_Get VmRestoreDefaultImageCell s"

definition VMRestoreDefaultVersion :: "config \<Rightarrow> gostring" where
  "VMRestoreDefaultVersion s = cell_Get VmRestoreDefaultVersionCell s"

definition LicenseFile :: "config \<Rightarrow> gostring" where
  "LicenseFile s = cell_Get LicenseFileCell s"

definition DistributedRegion :: "config \<Rightarrow> gostring" where
  "DistributedRegion s = cell_Get DistributedRegionCell s"

definition DistributedZones :: "config \<Rightarrow> gostring" where
  "DistributedZones s = cell_Get DistributedZonesCell s"

definition ScrambleNames :: "config \<Rightarrow> bool" where
  "ScrambleNames s \<longleftrightarrow> cell_Get ScrambleNamesCell s \<noteq> []"

definition MDXPasswordFile :: "config \<Rightarrow> gostring" where
  "MDXPasswordFile s = Getenv ''MDX_PASSWORD'' s"

definition ManifestsRoot :: "config \<Rightarrow> gostring" where
  "ManifestsRoot s =
     (let v = cell_Get ManifestsDirCell s in if v \<noteq> [] then v else ''../../manifests'')"

definition CrustGatherLocation :: "config \<Rightarrow> gostring" where
  "CrustGatherLocation s =
     (let v = cell_Get CrustGatherLocationCell s in if v \<noteq> [] then v else ''/tmp/crust-gather'')"

definition defaultVMK8sStackChart :: gostring where
  "defaultVMK8sStackChart = ''vm/victoria-metrics-k8s-stack''"

definition VMK8sStackChart :: "config \<Rightarrow> gostring" where
  "VMK8sStackChart s =
     (let v = cell_Get VmK8sStackChartCell s in if v \<noteq> [] then v else defaultVMK8sStackChart)"

definition gatewayAPIStandardVersion :: gostring where
  "gatewayAPIStandardVersion = ''v1.4.1''"

definition GatewayAPIStandardInstallURL :: "config \<Rightarrow> gostring" where
  "GatewayAPIStandardInstallURL s =
     (let v = Getenv ''GATEWAY_API_VERSION'' s;
          version = (if v \<noteq> [] then v else gatewayAPIStandardVersion)
      in ''https://github.com/kubernetes-sigs/gateway-api/releases/download/'' @ version @
         ''/standard-install.yaml'')"

subsection \<open>Manifest paths\<close>

definition OverwatchVMAgentYaml :: "config \<Rightarrow> gostring" where
  "OverwatchVMAgentYaml s = ManifestsRoot s @ ''/overwatch/vmagent.yaml''"

definition OverwatchVMSingleIngress :: "config \<Rightarrow> gostring" where
  "OverwatchVMSingleIngress s = ManifestsRoot s @ ''/overwatch/vmsingle-ingress.yaml''"

definition SmokeValuesFile :: "config \<Rightarrow> gostring" where
  "SmokeValuesFile s = ManifestsRoot s @ ''/helm-values/smoke.yaml''"

definition DistributedValuesFile :: "config \<Rightarrow> gostring" where
  "DistributedValuesFile s = ManifestsRoot s @ ''/helm-values/distributed.yaml''"

definition ChaosMeshValuesFile :: "config \<Rightarrow> gostring" where
  "ChaosMeshValuesFile s = ManifestsRoot s @ ''/chaos-mesh-operator/values.yaml''"

definition KEDAValuesFile :: "config \<Rightarrow> gostring" where
  "KEDAValuesFile s = ManifestsRoot s @ ''/keda/values.yaml''"

definition VictoriaLogsSingleValuesFile :: "config \<Rightarrow> gostring" where
  "VictoriaLogsSingleValuesFile s = ManifestsRoot s @ ''/helm-values/victoria-logs.yaml''"

definition VictoriaLogsCollectorValuesFile :: "config \<Rightarrow> gostring" where
  "VictoriaLogsCollectorValuesFile s =
     ManifestsRoot s @ ''/helm-values/victoria-logs-collector.yaml''"

definition VPACRDsYaml :: "config \<Rightarrow> gostring" where
  "VPACRDsYaml s = ManifestsRoot s @ ''/vpa/crds.yaml''"

definition LogEmitterYaml :: "config \<Rightarrow> gostring" where
  "LogEmitterYaml s = ManifestsRoot s @ ''/components/log-emitter.yaml''"

subsection \<open>Durations and retry counts\<close>

text \<open>
  A \<open>time.Duration\<close> is a signed 64-bit count of nanoseconds; every constant below is far
  from the bound, so \<open>int\<close> carries it exactly. The quotients of the retry counts are
  quotients of \<open>Seconds()\<close>, floating-point numbers that are exact for whole seconds, truncated
  by the conversion to \<open>int\<close>.
\<close>

type_synonym duration = int

definition Second :: duration where "Second = 1000000000"
definition Minute :: duration where "Minute = 60 * Second"

definition Seconds :: "duration \<Rightarrow> rat" where
  "Seconds d = rat_of_int d / rat_of_int Second"

definition PollingInterval :: duration where "PollingInterval = 5 * Second"
definition PollingTimeout :: duration where "PollingTimeout = 15 * Minute"
definition ResourceWaitTimeout :: duration where "ResourceWaitTimeout = 3 * Minute"
definition ArgoAppWaitTimeout :: duration where "ArgoAppWaitTimeout = 5 * Minute"
definition ArgoCDWaitTimeout :: duration where "ArgoCDWaitTimeout = PollingTimeout"
definition VMClusterWaitTimeout :: duration where "VMClusterWaitTimeout = 5 * Minute"
definition VLClusterWaitTimeout :: duration where "VLClusterWaitTimeout = 5 * Minute"
definition VMDistributedWaitTimeout :: duration where "VMDistributedWaitTimeout = 10 * Minute"
definition GatherCleanupTimeout :: duration where
  "GatherCleanupTimeout =
     3 * ResourceWaitTimeout + 3 * VMClusterWaitTimeout + VMDistributedWaitTimeout +
     PollingTimeout + 5 * Minute"
definition K6JobPollingInterval :: duration where "K6JobPollingInterval = 1 * Minute"
definition K6JobMaxDuration :: duration where "K6JobMaxDuration = 20 * Minute"
definition ChaosTestMaxDuration :: duration where "ChaosTestMaxDuration = 30 * Minute"
definition ChaosSpecTimeout :: duration where
  "ChaosSpecTimeout = PollingTimeout + ChaosTestMaxDuration"
definition HTTPClientTimeout :: duration where "HTTPClientTimeout = 10 * Second"
definition DataPropagationDelay :: duration where "DataPropagationDelay = 30 * Second"
definition AggregationWaitTime :: duration where "AggregationWaitTime = 1 * Minute"

definition OperatorResourceDeletionTimeout :: duration where "OperatorResourceDeletionTimeout = 1 * Minute"
definition VMFunctionalSpecTimeout :: duration where "VMFunctionalSpecTimeout = 30 * Minute"
definition VLFunctionalSpecTimeout :: duration where "VLFunctionalSpecTimeout = 30 * Minute"
definition VMEnterpriseSpecTimeout :: duration where "VMEnterpriseSpecTimeout = 30 * Minute"
definition VLEnterpriseSpecTimeout :: duration where "VLEnterpriseSpecTimeout = 10 * Minute"
definition VMStorageCycleInterval :: duration where "VMStorageCycleInterval = 90 * Second"

definition go_trunc :: "rat \<Rightarrow> int" where
  "go_trunc q = (if q < 0 then - \<lfloor>- q\<rfloor> else \<lfloor>q\<rfloor>)"

definition Retries :: int where
  "Retries = go_trunc (Seconds ResourceWaitTimeout / Seconds PollingInterval)"
definition K6Retries :: int where
  "K6Retries = go_trunc (Seconds K6JobMaxDuration / Seconds K6JobPollingInterval)"
definition KafkaRetries :: int where
  "KafkaRetries = go_trunc (Seconds (15 * Minute) / Seconds DataPropagationDelay)"

lemmas duration_defs =
  Second_def Minute_def PollingInterval_def PollingTimeout_def ResourceWaitTimeout_def
  ArgoAppWaitTimeout_def ArgoCDWaitTimeout_def VMClusterWaitTimeout_def VLClusterWaitTimeout_def
  VMDistributedWaitTimeout_def GatherCleanupTimeout_def K6JobPollingInterval_def
  K6JobMaxDuration_def ChaosTestMaxDuration_def ChaosSpecTimeout_def HTTPClientTimeout_def
  DataPropagationDelay_def AggregationWaitTime_def OperatorResourceDeletionTimeout_def VMFunctionalSpecTimeout_def
  VLFunctionalSpecTimeout_def VMEnterpriseSpecTimeout_def VLEnterpriseSpecTimeout_def VMStorageCycleInterval_def

text \<open>
  The specs leave room for what they are sized to cover: an installation of three instances, of a stack
  with its collector, of a cluster; only the budget of a chaos spec is used up by its set-up and its
  scenario, so that nothing of it is left for the teardown.
\<close>

lemma spec_budgets:
  "3 * ResourceWaitTimeout < VMFunctionalSpecTimeout" "2 * ResourceWaitTimeout < VLFunctionalSpecTimeout"
  "PollingTimeout + 2 * ResourceWaitTimeout < VMEnterpriseSpecTimeout" "VLClusterWaitTimeout < VLEnterpriseSpecTimeout"
  "ChaosSpecTimeout - PollingTimeout - ChaosTestMaxDuration = 0"
  by (simp_all add: duration_defs)

subsection \<open>The license secret\<close>

definition LicenseSecretName :: gostring where "LicenseSecretName = ''vm-license''"
definition LicenseSecretKey :: gostring where "LicenseSecretKey = ''key''"

record secret =
  secret_kind :: gostring
  secret_apiVersion :: gostring
  secret_name :: gostring
  secret_namespace :: gostring
  secret_stringData :: "(gostring \<times> gostring) list"

text \<open>
  \<open>read_file\<close> is the file system (\<open>os.ReadFile\<close>), \<open>marshal\<close> the YAML encoder of
  \<open>sigs.k8s.io/yaml\<close>; both may fail.
\<close>

definition PrepareLicenseSecret ::
  "(gostring \<Rightarrow> gostring result) \<Rightarrow> (secret \<Rightarrow> gostring result) \<Rightarrow> config \<Rightarrow> gostring \<Rightarrow> gostring result" where
  "PrepareLicenseSecret read_file marshal s namespace =
     (if LicenseFile s = [] then Inr []
      else case read_file (LicenseFile s) of
        Inl err \<Rightarrow> Inl (''failed to read license file: '' @ err)
      | Inr licenseKey \<Rightarrow>
          (let sec = \<lparr>secret_kind = ''Secret'', secret_apiVersion = ''v1'',
                      secret_name = LicenseSecretName, secret_namespace = namespace,
                      secret_stringData = [(LicenseSecretKey, TrimSpace licenseKey)]\<rparr>
           in case marshal sec of
                Inl err \<Rightarrow> Inl (''failed to marshal license secret: '' @ err)
              | Inr y \<Rightarrow> Inr y))"

subsection \<open>Properties\<close>

text \<open>The accessor pairs of the package, each with the cell it must use.\<close>

definition accessors ::
  "(cell_id \<times> (gostring \<Rightarrow> config \<Rightarrow> config) \<times> (config \<Rightarrow> gostring)) list" where
  "accessors =
    [(ReportLocationCell, SetReportLocation, ReportLocation),
     (EnvK8SDistroCell, SetEnvK8SDistro, EnvK8SDistro),
     (IngressHostCell, SetIngressHost, IngressHost),
     (VmK8sStackChartVersionCell, SetVMK8sStackChartVersion, VMK8sStackChartVersion),
     (VmDistributedChartVersionCell, SetVMDistributedChartVersion, VMDistributedChartVersion),
     (VlSingleChartVersionCell, SetVLSingleChartVersion, VLSingleChartVersion),
     (VlCollectorChartVersionCell, SetVLCollectorChartVersion, VLCollectorChartVersion),
     (VlVersionCell, SetVLVersion, VLVersion),
     (VlEnterpriseVersionCell, SetVLEnterpriseVersion, VLEnterpriseVersion),
     (HelmChartVersionCell, SetHelmChartVersion, HelmChartVersion),
     (OperatorVersionCell, SetOperatorVersion, OperatorVersion),
     (VmVersionCell, SetVMVersion, VMVersion),
     (OperatorImageRegistryCell, SetOperatorImageRegistry, OperatorImageRegistry),
     (OperatorImageRepositoryCell, SetOperatorImageRepository, OperatorImageRepository),
     (OperatorImageTagCell, SetOperatorImageTag, OperatorImageTag),
     (OperatorChartVersionCell, SetOperatorChartVersion, OperatorChartVersion),
     (ArgocdVersionCell, SetArgoCDVersion, ArgoCDVersion),
     (ConfigReloaderRegistryCell, SetConfigReloaderRegistry, ConfigReloaderRegistry),
     (ConfigReloaderRepositoryCell, SetConfigReloaderRepository, ConfigReloaderRepository),
     (ConfigReloaderTagCell, SetConfigReloaderTag, ConfigReloaderTag),
     (VmSingleDefaultImageCell, SetVMSingleDefaultImage, VMSingleDefaultImage),
     (VmSingleDefaultVersionCell, SetVMSingleDefaultVersion, VMSingleDefaultVersion),
     (VmClusterVMSelectDefaultImageCell, SetVMClusterVMSelectDefaultImage, VMClusterVMSelectDefaultImage),
     (VmClusterVMSelectDefaultVersionCell, SetVMClusterVMSelectDefaultVersion, VMClusterVMSelectDefaultVersion),
     (VmClusterVMStorageDefaultImageCell, SetVMClusterVMStorageDefaultImage, VMClusterVMStorageDefaultImage),
     (VmClusterVMStorageDefaultVersionCell, SetVMClusterVMStorageDefaultVersion, VMClusterVMStorageDefaultVersion),
     (VmClusterVMInsertDefaultImageCell, SetVMClusterVMInsertDefaultImage, VMClusterVMInsertDefaultImage),
     (VmClusterVMInsertDefaultVersionCell, SetVMClusterVMInsertDefaultVersion, VMClusterVMInsertDefaultVersion),
     (VmAgentDefaultImageCell, SetVMAgentDefaultImage, VMAgentDefaultImage),
     (VmAgentDefaultVersionCell, SetVMAgentDefaultVersion, VMAgentDefaultVersion),
     (VmAlertDefaultImageCell, SetVMAlertDefaultImage, VMAlertDefaultImage),
     (VmAlertDefaultVersionCell, SetVMAlertDefaultVersion, VMAlertDefaultVersion),
     (VmAuthDefaultImageCell, SetVMAuthDefaultImage, VMAuthDefaultImage),
     (VmAuthDefaultVersionCell, SetVMAuthDefaultVersion, VMAuthDefaultVersion),
     (VmBackupDefaultImageCell, SetVMBackupDefaultImage, VMBackupDefaultImage),
     (VmBackupDefaultVersionCell, SetVMBackupDefaultVersion, VMBackupDefaultVersion),
     (VmRestoreDefaultImageCell, SetVMRestoreDefaultImage, VMRestoreDefaultImage),
     (VmRestoreDefaultVersionCell, SetVMRestoreDefaultVersion, VMRestoreDefaultVersion),
     (LicenseFileCell, SetLicenseFile, LicenseFile),
     (DistributedRegionCell, SetDistributedRegion, DistributedRegion),
     (DistributedZonesCell, SetDistributedZones, DistributedZones)]"

lemmas setter_defs = 
  SetManifestsDir_def SetCrustGatherLocation_def SetReportLocation_def SetEnvK8SDistro_def
  SetIngressHost_def SetHelmChartVersion_def SetVMK8sStackChart_def
  SetVMK8sStackChartVersion_def SetVMDistributedChartVersion_def SetVLSingleChartVersion_def
  SetVLCollectorChartVersion_def SetVLVersion_def SetVLEnterpriseVersion_def
  SetOperatorVersion_def SetVMVersion_def SetOperatorImageRegistry_def
  SetOperatorImageRepository_def SetOperatorImageTag_def SetOperatorChartVersion_def
  SetArgoCDVersion_def SetConfigReloaderRegistry_def SetConfigReloaderRepository_def
  SetConfigReloaderTag_def SetVMSingleDefaultImage_def SetVMSingleDefaultVersion_def
  SetVMClusterVMSelectDefaultImage_def SetVMClusterVMSelectDefaultVersion_def
  SetVMClusterVMStorageDefaultImage_def SetVMClusterVMInsertDefaultImage_def
  SetVMClusterVMInsertDefaultVersion_def SetVMAgentDefaultImage_def SetVMAgentDefaultVersion_def
  SetVMAlertDefaultImage_def SetVMAlertDefaultVersion_def SetVMAuthDefaultImage_def
  SetVMAuthDefaultVersion_def SetVMBackupDefaultImage_def SetVMBackupDefaultVersion_def
  SetVMRestoreDefaultImage_def SetVMRestoreDefaultVersion_def SetLicenseFile_def
  SetDistributedRegion_def SetDistributedZones_def SetScrambleNames_def
  SetVMClusterVMStorageDefaultVersion_def

lemmas getter_defs = 
  ReportLocation_def EnvK8SDistro_def IngressHost_def VMK8sStackChartVersion_def
  VMDistributedChartVersion_def VLSingleChartVersion_def VLCollectorChartVersion_def
  VLVersion_def VLEnterpriseVersion_def HelmChartVersion_def OperatorVersion_def VMVersion_def
  OperatorImageRegistry_def OperatorImageRepository_def OperatorImageTag_def
  OperatorChartVersion_def ArgoCDVersion_def ConfigReloaderRegistry_def
  ConfigReloaderRepository_def ConfigReloaderTag_def VMSingleDefaultImage_def
  VMSingleDefaultVersion_def VMClusterVMSelectDefaultImage_def
  VMClusterVMSelectDefaultVersion_def VMClusterVMStorageDefaultImage_def
  VMClusterVMStorageDefaultVersion_def VMClusterVMInsertDefaultImage_def
  VMClusterVMInsertDefaultVersion_def VMAgentDefaultImage_def VMAgentDefaultVersion_def
  VMAlertDefaultImage_def VMAlertDefaultVersion_def VMAuthDefaultImage_def
  VMAuthDefaultVersion_def VMBackupDefaultImage_def VMBackupDefaultVersion_def
  VMRestoreDefaultImage_def VMRestoreDefaultVersion_def LicenseFile_def DistributedRegion_def
  DistributedZones_def

text \<open>
  Every setter and getter of the configuration form a read-your-writes pair on a cell of
  their own: the getter returns what the setter stored, the setter writes exactly that cell and
  leaves the environment alone, and no two pairs share a cell.
\<close>

theorem accessors_read_your_writes:
  "list_all (\<lambda>(k, st, gt). \<forall>v s. gt (st v s) = v \<and>
       cells (st v s) = (cells s)(k := Some v) \<and> environ (st v s) = environ s) accessors \<and>
   distinct (map fst accessors)"
  unfolding accessors_def setter_defs [abs_def] getter_defs [abs_def] list.pred_inject list.map prod.case fst_conv
  by (simp add: cell_Get_def cell_Set_def)

text \<open>
  The overridable settings fall back to their built-in default exactly when the configured
  value is empty, whatever was stored before, and all manifest paths follow the manifests root.
\<close>

theorem overridable_defaults:
  "ManifestsRoot (SetManifestsDir v s) = (if v = [] then ''../../manifests'' else v) \<and>
   CrustGatherLocation (SetCrustGatherLocation v s) = (if v = [] then ''/tmp/crust-gather'' else v) \<and>
   VMK8sStackChart (SetVMK8sStackChart v s) = (if v = [] then defaultVMK8sStackChart else v) \<and>
   (ScrambleNames (SetScrambleNames v s) \<longleftrightarrow> v \<noteq> []) \<and>
   ManifestsRoot (init_config e) = ''../../manifests'' \<and>
   HasPrefix (SmokeValuesFile s) (ManifestsRoot s) \<and>
   HasPrefix (VPACRDsYaml s) (ManifestsRoot s)"
  by (simp add: ManifestsRoot_def CrustGatherLocation_def VMK8sStackChart_def ScrambleNames_def
      setter_defs cfg.get_put Let_def SmokeValuesFile_def VPACRDsYaml_def)

text \<open>
  Each retry count times its polling interval is exactly the wait it was derived from
  (nothing is lost by the truncation), the cleanup budget strictly exceeds the sum of the caps
  it has to cover, and every duration fits a signed 64-bit counter.
\<close>

theorem retry_budgets:
  "Retries * PollingInterval = ResourceWaitTimeout \<and>
   K6Retries * K6JobPollingInterval = K6JobMaxDuration \<and>
   KafkaRetries * DataPropagationDelay = 15 * Minute \<and>
   3 * ResourceWaitTimeout + 3 * VMClusterWaitTimeout + VMDistributedWaitTimeout + PollingTimeout
     < GatherCleanupTimeout \<and>
   list_all (\<lambda>d. 0 < d \<and> d < 2 ^ 63)
     [PollingInterval, PollingTimeout, ResourceWaitTimeout, ArgoAppWaitTimeout, ArgoCDWaitTimeout,
      VMClusterWaitTimeout, VLClusterWaitTimeout, VMDistributedWaitTimeout, GatherCleanupTimeout,
      K6JobPollingInterval, K6JobMaxDuration, ChaosTestMaxDuration, ChaosSpecTimeout,
      HTTPClientTimeout, DataPropagationDelay, AggregationWaitTime]"
  by (simp add: Retries_def K6Retries_def KafkaRetries_def Seconds_def go_trunc_def duration_defs)

text \<open>
  The license secret is empty exactly when no license is configured; otherwise the YAML is
  that of a secret in the requested namespace holding the license with surrounding white space
  removed, and a failing read or a failing encoder is reported with its cause, never as an empty
  secret.
\<close>

theorem license_secret_cases:
  "PrepareLicenseSecret read_file marshal s ns =
     (if LicenseFile s = [] then Inr []
      else bind_result
        (map_sum ((@) ''failed to read license file: '') id (read_file (LicenseFile s)))
        (\<lambda>key. map_sum ((@) ''failed to marshal license secret: '') id
           (marshal \<lparr>secret_kind = ''Secret'', secret_apiVersion = ''v1'',
              secret_name = ''vm-license'', secret_namespace = ns,
              secret_stringData = [(''key'', TrimSpace key)]\<rparr>)))"
  by (simp add: PrepareLicenseSecret_def LicenseSecretName_def LicenseSecretKey_def Let_def
      split: sum.splits)

end
