(* ===== verification/Endpoints.thy ===== *)
theory Endpoints
  imports Config
begin

text \<open>
  Where the components of the system under test are reached: the ingress hosts and in-cluster
  service addresses of \<open>pkg/consts/main.go\<close> and the URLs that \<open>pkg/helpers/common.go\<close> builds
  from them. Every function reads the configured ingress host, so the configuration is an
  argument. The theorems: no two components or namespaces share a host, an unknown ingress host
  gives the empty string, and service addresses determine the service.
\<close>

definition DefaultReleaseName :: gostring where "DefaultReleaseName = ''vmks''"
definition DefaultVMNamespace :: gostring where "DefaultVMNamespace = ''monitoring''"

text \<open>Namespaces, names, releases and charts that only the specs use.\<close>

definition LoadTestVMNamespace :: gostring where "LoadTestVMNamespace = ''vm-load-test''"
definition KafkaNamespace :: gostring where "KafkaNamespace = ''kafka''"
definition KEDANamespace :: gostring where "KEDANamespace = ''keda''"
definition DefaultVMClusterName :: gostring where "DefaultVMClusterName = ''vm''"
definition DefaultVLClusterName :: gostring where "DefaultVLClusterName = ''vl''"
definition KEDAReleaseName :: gostring where "KEDAReleaseName = ''keda''"
definition VMDistributedChart :: gostring where "VMDistributedChart = ''vm/victoria-metrics-distributed''"
definition KEDAChart :: gostring where "KEDAChart = ''kedacore/keda''"

subsection \<open>Ingress hosts\<close>

definition nip :: "gostring \<Rightarrow> gostring \<Rightarrow> gostring" where
  "nip label host = label @ ''.'' @ host @ ''.nip.io''"

text \<open>Every host is empty while the ingress host is unknown.\<close>

definition on_ingress :: "config \<Rightarrow> gostring \<Rightarrow> gostring" where
  "on_ingress c label = (if IngressHost c = [] then [] else nip label (IngressHost c))"

definition VMSingleHost :: "config \<Rightarrow> gostring" where
  "VMSingleHost c = on_ingress c ''vmsingle''"

definition VMSingleNamespacedHost :: "gostring \<Rightarrow> config \<Rightarrow> gostring" where
  "VMSingleNamespacedHost namespace c = on_ingress c (''vmsingle-'' @ namespace)"

definition VMAgentNamespacedHost :: "gostring \<Rightarrow> config \<Rightarrow> gostring" where
  "VMAgentNamespacedHost namespace c = on_ingress c (''vmagent-'' @ namespace)"

definition VMAgentNamedHost :: "gostring \<Rightarrow> gostring \<Rightarrow> config \<Rightarrow> gostring" where
  "VMAgentNamedHost name namespace c = on_ingress c (name @ ''-'' @ namespace)"

definition VMSelectHost :: "gostring \<Rightarrow> config \<Rightarrow> gostring" where
  "VMSelectHost namespace c =
     on_ingress c (if namespace = [] then ''vmselect'' else ''vmselect-'' @ namespace)"

definition VMInsertHost :: "gostring \<Rightarrow> config \<Rightarrow> gostring" where
  "VMInsertHost namespace c =
     on_ingress c (if namespace = [] then ''vminsert'' else ''vminsert-'' @ namespace)"

definition VMAuthHost :: "gostring \<Rightarrow> config \<Rightarrow> gostring" where
  "VMAuthHost namespace c = on_ingress c (''vmauth-'' @ namespace)"

definition AlertManagerHost :: "gostring \<Rightarrow> config \<Rightarrow> gostring" where
  "AlertManagerHost namespace c =
     on_ingress c (if namespace = [] then ''alert'' else ''alert-'' @ namespace)"

definition VLNamespacedHost :: "gostring \<Rightarrow> config \<Rightarrow> gostring" where
  "VLNamespacedHost namespace c =
     on_ingress c (if namespace \<noteq> [] then ''vl-'' @ namespace else ''vl'')"

definition VLHost :: "config \<Rightarrow> gostring" where
  "VLHost c = VLNamespacedHost [] c"

definition VLSelectHost :: "gostring \<Rightarrow> config \<Rightarrow> gostring" where
  "VLSelectHost namespace c =
     on_ingress c (if namespace = [] then ''vlselect'' else ''vlselect-'' @ namespace)"

definition VLInsertHost :: "gostring \<Rightarrow> config \<Rightarrow> gostring" where
  "VLInsertHost namespace c =
     on_ingress c (if namespace = [] then ''vlinsert'' else ''vlinsert-'' @ namespace)"

definition VMGatherHost :: "config \<Rightarrow> gostring" where
  "VMGatherHost c = on_ingress c ''vmgather''"

subsection \<open>URLs\<close>

definition http :: "gostring \<Rightarrow> gostring" where "http s = ''http://'' @ s"

definition VMSingleUrl :: "config \<Rightarrow> gostring" where
  "VMSingleUrl c = http (VMSingleHost c)"

definition VMSelectUrl :: "gostring \<Rightarrow> config \<Rightarrow> gostring" where
  "VMSelectUrl namespace c = http (VMSelectHost namespace c)"

definition VLUrl :: "gostring \<Rightarrow> config \<Rightarrow> gostring" where
  "VLUrl namespace c = http (VLNamespacedHost namespace c)"

definition VLSelectUrl :: "gostring \<Rightarrow> config \<Rightarrow> gostring" where
  "VLSelectUrl namespace c = http (VLSelectHost namespace c)"

definition VLInsertUrl :: "gostring \<Rightarrow> config \<Rightarrow> gostring" where
  "VLInsertUrl namespace c = http (VLInsertHost namespace c)"

definition PrometheusPathSuffix :: gostring where "PrometheusPathSuffix = ''/prometheus''"
definition TenantInsertPath :: "int \<Rightarrow> gostring" where
  "TenantInsertPath tenant = ''/insert/'' @ int_str tenant @ ''/prometheus/api/v1/write''"
definition TenantImportPath :: "int \<Rightarrow> gostring" where
  "TenantImportPath tenant = ''/insert/'' @ int_str tenant @ ''/prometheus/api/v1/import/prometheus''"
definition TenantSelectPath :: "int \<Rightarrow> gostring" where
  "TenantSelectPath tenant = ''/select/'' @ int_str tenant @ ''/prometheus''"
definition MultitenantInsertPath :: gostring where
  "MultitenantInsertPath = ''/insert/multitenant/prometheus/api/v1/write''"
definition MultitenantSelectPath :: gostring where
  "MultitenantSelectPath = ''/select/multitenant/prometheus''"
definition RemoteWritePath :: gostring where "RemoteWritePath = ''/api/v1/write''"
definition ImportPrometheusPath :: gostring where "ImportPrometheusPath = ''/api/v1/import/prometheus''"

definition OverwatchURL :: "config \<Rightarrow> gostring" where
  "OverwatchURL c = VMSingleUrl c @ PrometheusPathSuffix"

definition TenantInsertURL :: "gostring \<Rightarrow> int \<Rightarrow> config \<Rightarrow> gostring" where
  "TenantInsertURL namespace tenant c = http (VMInsertHost namespace c @ TenantInsertPath tenant)"

definition TenantSelectURL :: "gostring \<Rightarrow> int \<Rightarrow> config \<Rightarrow> gostring" where
  "TenantSelectURL namespace tenant c = VMSelectUrl namespace c @ TenantSelectPath tenant"

definition MultitenantInsertURL :: "gostring \<Rightarrow> config \<Rightarrow> gostring" where
  "MultitenantInsertURL namespace c = http (VMInsertHost namespace c @ MultitenantInsertPath)"

definition MultitenantSelectURL :: "gostring \<Rightarrow> config \<Rightarrow> gostring" where
  "MultitenantSelectURL namespace c = VMSelectUrl namespace c @ MultitenantSelectPath"

definition VMSingleRemoteWriteURL :: "gostring \<Rightarrow> config \<Rightarrow> gostring" where
  "VMSingleRemoteWriteURL namespace c =
     http (VMSingleNamespacedHost namespace c @ PrometheusPathSuffix @ RemoteWritePath)"

definition VMSinglePrometheusURL :: "gostring \<Rightarrow> config \<Rightarrow> gostring" where
  "VMSinglePrometheusURL namespace c = http (VMSingleNamespacedHost namespace c @ PrometheusPathSuffix)"

definition VMAgentRemoteWriteURL :: "gostring \<Rightarrow> config \<Rightarrow> gostring" where
  "VMAgentRemoteWriteURL namespace c = http (VMAgentNamespacedHost namespace c @ RemoteWritePath)"

definition VMAgentNamedRemoteWriteURL :: "gostring \<Rightarrow> gostring \<Rightarrow> config \<Rightarrow> gostring" where
  "VMAgentNamedRemoteWriteURL name namespace c = http (VMAgentNamedHost name namespace c @ RemoteWritePath)"

definition VMAgentNamedImportURL :: "gostring \<Rightarrow> gostring \<Rightarrow> config \<Rightarrow> gostring" where
  "VMAgentNamedImportURL name namespace c = http (VMAgentNamedHost name namespace c @ ImportPrometheusPath)"

definition GlobalInsertURL :: "gostring \<Rightarrow> config \<Rightarrow> gostring" where
  "GlobalInsertURL namespace c = http (VMInsertHost namespace c @ RemoteWritePath)"

definition GlobalSelectURL :: "gostring \<Rightarrow> config \<Rightarrow> gostring" where
  "GlobalSelectURL namespace c = VMSelectUrl namespace c @ ''/select/0/prometheus''"

definition ZoneSelectURL :: "gostring \<Rightarrow> config \<Rightarrow> gostring" where
  "ZoneSelectURL zone c =
     http (''vmselect-'' @ zone @ ''.'' @ IngressHost c @ ''.nip.io/select/0/prometheus'')"

subsection \<open>Service addresses\<close>

definition svc :: "gostring \<Rightarrow> gostring \<Rightarrow> gostring \<Rightarrow> gostring" where
  "svc service namespace port = service @ ''.'' @ namespace @ ''.svc.cluster.local:'' @ port"

definition GetVMSelectSvc :: "gostring \<Rightarrow> gostring \<Rightarrow> gostring" where
  "GetVMSelectSvc releaseName namespace = svc (''vmselect-'' @ releaseName) namespace ''8481''"

definition GetVMSingleSvc :: "gostring \<Rightarrow> gostring \<Rightarrow> gostring" where
  "GetVMSingleSvc releaseName namespace = svc (''vmsingle-'' @ releaseName) namespace ''8428''"

definition GetVMInsertSvc :: "gostring \<Rightarrow> gostring \<Rightarrow> gostring" where
  "GetVMInsertSvc releaseName namespace = svc (''vminsert-'' @ releaseName) namespace ''8480''"

definition GetVLSingleSvc :: "gostring \<Rightarrow> gostring \<Rightarrow> gostring" where
  "GetVLSingleSvc releaseName namespace =
     svc (releaseName @ ''-victoria-logs-single-server'') namespace ''9428''"

definition GetVLInsertSvc :: "gostring \<Rightarrow> gostring \<Rightarrow> gostring" where
  "GetVLInsertSvc clusterName namespace = svc (''vlinsert-'' @ clusterName) namespace ''9481''"

definition GetVLSelectSvc :: "gostring \<Rightarrow> gostring \<Rightarrow> gostring" where
  "GetVLSelectSvc clusterName namespace = svc (''vlselect-'' @ clusterName) namespace ''9471''"

definition GetVLClusterInsertSvc :: "gostring \<Rightarrow> gostring \<Rightarrow> gostring" where
  "GetVLClusterInsertSvc clusterName namespace = svc (''vlinsert-'' @ clusterName) namespace ''9481''"

definition GetVLClusterSelectSvc :: "gostring \<Rightarrow> gostring \<Rightarrow> gostring" where
  "GetVLClusterSelectSvc clusterName namespace = svc (''vlselect-'' @ clusterName) namespace ''9471''"

definition GetVLAgentSvc :: "gostring \<Rightarrow> gostring \<Rightarrow> gostring" where
  "GetVLAgentSvc agentName namespace = svc (''vlagent-'' @ agentName) namespace ''9429''"

definition KafkaBrokerSvc :: "gostring \<Rightarrow> gostring" where
  "KafkaBrokerSvc namespace = svc ''kafka-kafka-bootstrap'' namespace ''9092''"

lemmas host_defs =
  VMSingleHost_def VMSingleNamespacedHost_def VMAgentNamespacedHost_def VMSelectHost_def
  VMInsertHost_def VMAuthHost_def AlertManagerHost_def VLNamespacedHost_def VLSelectHost_def
  VLInsertHost_def VMGatherHost_def on_ingress_def nip_def

lemmas svc_defs =
  GetVMSelectSvc_def GetVMSingleSvc_def GetVMInsertSvc_def GetVLSingleSvc_def GetVLInsertSvc_def
  GetVLSelectSvc_def GetVLAgentSvc_def KafkaBrokerSvc_def

subsection \<open>No two components share a host\<close>

datatype host_kind = SingleH | NsSingleH | AgentH | SelectH | InsertH | AuthH | AlertH | LogsH
  | LogsSelectH | LogsInsertH | GatherH

fun host_of :: "host_kind \<Rightarrow> gostring \<Rightarrow> config \<Rightarrow> gostring" where
  "host_of SingleH ns c = VMSingleHost c"
| "host_of NsSingleH ns c = VMSingleNamespacedHost ns c"
| "host_of AgentH ns c = VMAgentNamespacedHost ns c"
| "host_of SelectH ns c = VMSelectHost ns c"
| "host_of InsertH ns c = VMInsertHost ns c"
| "host_of AuthH ns c = VMAuthHost ns c"
| "host_of AlertH ns c = AlertManagerHost ns c"
| "host_of LogsH ns c = VLNamespacedHost ns c"
| "host_of LogsSelectH ns c = VLSelectHost ns c"
| "host_of LogsInsertH ns c = VLInsertHost ns c"
| "host_of GatherH ns c = VMGatherHost c"

definition shared_host :: "host_kind \<Rightarrow> bool" where
  "shared_host k \<longleftrightarrow> k = SingleH \<or> k = GatherH"

lemma host_of_empty: "IngressHost c = [] \<Longrightarrow> host_of k ns c = []"
  by (cases k) (simp_all add: host_defs)

lemma host_of_same:
  "IngressHost c \<noteq> [] \<Longrightarrow> host_of k ns c = host_of k ns' c \<longleftrightarrow> shared_host k \<or> ns = ns'"
  by (cases k) (auto simp: host_defs shared_host_def)

lemma host_of_kind:
  "IngressHost c \<noteq> [] \<Longrightarrow> host_of k ns c = host_of k' ns' c \<Longrightarrow> k = k'"
  by (cases k; cases k') (simp_all add: host_defs split: if_splits)

text \<open>
  Once the ingress host is known, the hosts of the components never clash: two of them agree
  only for the same component and, unless the component is shared by the whole run, the same
  namespace. While it is unknown every host is the empty string.
\<close>

theorem hosts_do_not_clash:
  "host_of k ns c = host_of k' ns' c \<longleftrightarrow>
     IngressHost c = [] \<or> k = k' \<and> (shared_host k \<or> ns = ns')"
  using host_of_empty host_of_kind host_of_same by metis

subsection \<open>Service addresses name their service\<close>

definition dot_free :: "gostring \<Rightarrow> bool" where
  "dot_free s \<longleftrightarrow> CHR ''.'' \<notin> set s"

lemma dot_free_append: "dot_free (a @ b) \<longleftrightarrow> dot_free a \<and> dot_free b"
  by (auto simp: dot_free_def)

lemma cancel_dot:
  "dot_free a \<Longrightarrow> dot_free b \<Longrightarrow> a @ ''.'' @ s = b @ ''.'' @ t \<Longrightarrow> a = b \<and> s = t"
proof -
  assume df: "dot_free a" "dot_free b" and eq: "a @ ''.'' @ s = b @ ''.'' @ t"
  from arg_cong [OF eq, of "SplitC (CHR ''.'')"] df
  have "a = b" by (simp add: dot_free_def SplitC_append_sep)
  with eq show ?thesis by simp
qed

lemma svc_inject:
  assumes "dot_free a" "dot_free b" "dot_free n" "dot_free m"
  shows "svc a n p = svc b m q \<longleftrightarrow> a = b \<and> n = m \<and> p = q"
proof
  assume eq: "svc a n p = svc b m q"
  with assms cancel_dot [of a b "n @ ''.svc.cluster.local:'' @ p" "m @ ''.svc.cluster.local:'' @ q"]
  have ab: "a = b" and r: "n @ ''.'' @ ''svc.cluster.local:'' @ p = m @ ''.'' @ ''svc.cluster.local:'' @ q"
    by (simp_all add: svc_def)
  from cancel_dot [OF assms(3,4) r] ab show "a = b \<and> n = m \<and> p = q" by simp
qed simp

datatype svc_kind = SelectS | SingleS | InsertS | LogsSingleS | LogsInsertS | LogsSelectS | LogsAgentS | KafkaS

fun svc_of :: "svc_kind \<Rightarrow> gostring \<Rightarrow> gostring \<Rightarrow> gostring" where
  "svc_of SelectS r n = GetVMSelectSvc r n"
| "svc_of SingleS r n = GetVMSingleSvc r n"
| "svc_of InsertS r n = GetVMInsertSvc r n"
| "svc_of LogsSingleS r n = GetVLSingleSvc r n"
| "svc_of LogsInsertS r n = GetVLInsertSvc r n"
| "svc_of LogsSelectS r n = GetVLSelectSvc r n"
| "svc_of LogsAgentS r n = GetVLAgentSvc r n"
| "svc_of KafkaS r n = KafkaBrokerSvc n"

lemma dot_free_lits:
  "dot_free ''vmselect-''" "dot_free ''vmsingle-''" "dot_free ''vminsert-''" "dot_free ''vlinsert-''"
  "dot_free ''vlselect-''" "dot_free ''vlagent-''" "dot_free ''-victoria-logs-single-server''"
  "dot_free ''kafka-kafka-bootstrap''"
  by (simp_all add: dot_free_def)

text \<open>
  The in-cluster address determines the service: for names and namespaces without dots (as
  Kubernetes demands of labels) two addresses agree only for the same component, namespace and
  release.
\<close>

theorem services_do_not_clash:
  assumes "dot_free r" and "dot_free r'" and "dot_free n" and "dot_free n'"
  shows "svc_of k r n = svc_of k' r' n' \<longleftrightarrow> k = k' \<and> n = n' \<and> (k = KafkaS \<or> r = r')"
  using assms dot_free_lits
  by (cases k; cases k') (auto simp: svc_defs svc_inject dot_free_append simp del: append_Cons)

theorem services_do_not_clash_witness:
  "svc_of SelectS ''rel'' ''vm'' \<noteq> svc_of SelectS ''rel'' ''vm2'' \<and>
   svc_of SelectS ''rel'' ''vm'' \<noteq> svc_of InsertS ''rel'' ''vm''"
proof -
  have "dot_free ''rel''" "dot_free ''vm''" "dot_free ''vm2''" "''vm'' \<noteq> ''vm2''"
    by (simp_all add: dot_free_def)
  then show ?thesis
    using services_do_not_clash [of "''rel''" "''rel''" "''vm''" "''vm2''" SelectS SelectS]
      services_do_not_clash [of "''rel''" "''rel''" "''vm''" "''vm''" SelectS InsertS] by blast
qed

text \<open>The two names the code has for the services of a VLCluster are the same functions.\<close>

lemma cluster_svc_aliases:
  "GetVLClusterInsertSvc = GetVLInsertSvc" "GetVLClusterSelectSvc = GetVLSelectSvc"
  by (simp_all add: GetVLClusterInsertSvc_def GetVLInsertSvc_def GetVLClusterSelectSvc_def
      GetVLSelectSvc_def fun_eq_iff)

subsection \<open>Tenants\<close>

text \<open>
  Tenants are kept apart: within a namespace the insert and select URLs of two tenants differ,
  and none of them is the multitenant endpoint.
\<close>

theorem tenant_urls_apart:
  "(TenantInsertURL ns t c = TenantInsertURL ns t' c) = (t = t') \<and>
   (TenantSelectURL ns t c = TenantSelectURL ns t' c) = (t = t') \<and>
   TenantInsertURL ns t c \<noteq> MultitenantInsertURL ns c \<and>
   TenantSelectURL ns t c \<noteq> MultitenantSelectURL ns c"
proof -
  have m: "int_str t @ s \<noteq> CHR ''m'' # r" for s r
  proof
    assume eq: "int_str t @ s = CHR ''m'' # r"
    show False
    proof (cases "t < 0")
      case True
      with eq show False by (simp add: int_str_def)
    next
      case False
      then obtain d ds where d: "nat_str (nat t) = d # ds" by (meson nat_str_nonempty neq_Nil_conv)
      with False eq have "d = CHR ''m''" by (simp add: int_str_def)
      with d nat_str_digits [of d "nat t"] show False by (simp add: is_digit_def)
    qed
  qed
  have ins: "(TenantInsertURL ns t c = TenantInsertURL ns t' c) = (t = t')"
    by (simp add: TenantInsertURL_def TenantInsertPath_def http_def gostr)
  have sel: "(TenantSelectURL ns t c = TenantSelectURL ns t' c) = (t = t')"
    by (simp add: TenantSelectURL_def TenantSelectPath_def gostr)
  have "TenantInsertURL ns t c \<noteq> MultitenantInsertURL ns c"
    by (simp add: TenantInsertURL_def TenantInsertPath_def MultitenantInsertURL_def MultitenantInsertPath_def
        http_def m)
  moreover have "TenantSelectURL ns t c \<noteq> MultitenantSelectURL ns c"
    by (simp add: TenantSelectURL_def TenantSelectPath_def MultitenantSelectURL_def MultitenantSelectPath_def m)
  ultimately show ?thesis using ins sel by blast
qed

end
