(* ===== verification/Naming.thy ===== *)
theory Naming
  imports Endpoints
begin

text \<open>
  Names of \<open>pkg/helpers/common.go\<close>: release names cut to the length their labels allow, random
  namespaces, scrambled identifiers, and the affinity rules that keep the pods of one cluster on
  one node and apart from other clusters. The random source is \<open>crypto/rand\<close>: its answers are
  the argument \<open>\<rho>\<close>, position and bound to number or failure; a failure panics.
\<close>

subsection \<open>Random names\<close>

type_synonym rand = "nat \<Rightarrow> nat \<Rightarrow> nat option"

definition rand_ok :: "rand \<Rightarrow> bool" where
  "rand_ok \<rho> \<longleftrightarrow> (\<forall>i n. 0 < n \<longrightarrow> (\<exists>k. \<rho> i n = Some k \<and> k < n))"

definition rand_panic :: gostring where "rand_panic = ''crypto/rand''"

definition randomNameSuffixLength :: nat where "randomNameSuffixLength = 6"
definition maxClusterNameLen :: nat where "maxClusterNameLen = 42"
definition maxNamespaceLen :: nat where "maxNamespaceLen = 51"

definition letters :: gostring where "letters = ''abcdefghijklmnopqrstuvwxyz''"

definition ClusterName :: "gostring \<Rightarrow> gostring" where
  "ClusterName p = (if maxClusterNameLen < length p then take maxClusterNameLen p else p)"

definition randomPick :: "rand \<Rightarrow> nat \<Rightarrow> 'a list \<Rightarrow> 'a result" where
  "randomPick \<rho> i words =
     (case \<rho> i (length words) of None \<Rightarrow> Inl rand_panic | Some k \<Rightarrow> Inr (words ! k))"

fun randomString :: "rand \<Rightarrow> nat \<Rightarrow> nat \<Rightarrow> gostring result" where
  "randomString \<rho> i 0 = Inr []"
| "randomString \<rho> i (Suc n) =
     bind_result (randomPick \<rho> i letters) (\<lambda>c.
     bind_result (randomString \<rho> (Suc i) n) (\<lambda>s. Inr (c # s)))"

definition randomName :: "rand \<Rightarrow> gostring \<Rightarrow> nat \<Rightarrow> gostring result" where
  "randomName \<rho> p maxLen =
     bind_result (randomString \<rho> 0 randomNameSuffixLength) (\<lambda>suffix.
       let maxPrefixLen = maxLen - length suffix - 1 in
       Inr ((if maxPrefixLen < length p then take maxPrefixLen p else p) @ ''-'' @ suffix))"

definition RandomNamespace :: "rand \<Rightarrow> gostring \<Rightarrow> gostring result" where
  "RandomNamespace \<rho> p = randomName \<rho> p maxNamespaceLen"

definition scrambleAdjectives :: "gostring list" where
  "scrambleAdjectives =
     [''gifted'', ''swift'', ''silent'', ''brave'', ''clever'', ''curious'', ''sleepy'',
      ''nimble'', ''quiet'', ''bold'', ''eager'', ''lucky'', ''gentle'', ''fierce'', ''witty'']"

definition scrambleCars :: "gostring list" where
  "scrambleCars =
     [''tesla'', ''mustang'', ''corvette'', ''bronco'', ''beetle'', ''camaro'', ''jeep'',
      ''prius'', ''civic'', ''charger'', ''wrangler'', ''impala'', ''cortina'', ''falcon'']"

definition ResourceIdentifier :: "config \<Rightarrow> rand \<Rightarrow> gostring \<Rightarrow> gostring result" where
  "ResourceIdentifier c \<rho> name =
     (if \<not> ScrambleNames c then Inr name
      else bind_result (randomPick \<rho> 0 scrambleAdjectives) (\<lambda>a.
           bind_result (randomPick \<rho> 1 scrambleCars) (\<lambda>b. Inr (a @ ''-'' @ b))))"

subsection \<open>Names fit Kubernetes\<close>

text \<open>Characters and shape of a DNS label (RFC 1123), the limit being 63.\<close>

definition lower_alnum :: "char \<Rightarrow> bool" where
  "lower_alnum ch \<longleftrightarrow> (let n = (of_char ch :: nat) in 97 \<le> n \<and> n \<le> 122 \<or> 48 \<le> n \<and> n \<le> 57)"

definition label_char :: "char \<Rightarrow> bool" where
  "label_char ch \<longleftrightarrow> lower_alnum ch \<or> ch = CHR ''-''"

definition dns_label :: "gostring \<Rightarrow> bool" where
  "dns_label s \<longleftrightarrow> s \<noteq> [] \<and> length s \<le> 63 \<and> list_all label_char s \<and> lower_alnum (hd s) \<and> lower_alnum (last s)"

lemma letters_alnum: "list_all lower_alnum letters"
  by (simp add: letters_def lower_alnum_def)

lemma randomPick_ok:
  "rand_ok \<rho> \<Longrightarrow> words \<noteq> [] \<Longrightarrow> \<exists>w \<in> set words. randomPick \<rho> i words = Inr w"
  unfolding rand_ok_def randomPick_def
  by (metis length_greater_0_conv nth_mem option.simps(5))

lemma randomString_ok:
  "rand_ok \<rho> \<Longrightarrow> \<exists>s. randomString \<rho> i n = Inr s \<and> length s = n \<and> set s \<subseteq> set letters"
proof (induction n arbitrary: i)
  case 0
  then show ?case by simp
next
  case (Suc n)
  have "letters \<noteq> []" by (simp add: letters_def)
  with randomPick_ok [OF Suc.prems] obtain c where "c \<in> set letters" "randomPick \<rho> i letters = Inr c"
    by blast
  with Suc.IH [OF Suc.prems, of "Suc i"] show ?case by auto
qed

lemma RandomNamespace_shape:
  assumes "rand_ok \<rho>"
  shows "\<exists>suffix. RandomNamespace \<rho> p = Inr (take 44 p @ ''-'' @ suffix) \<and> length suffix = 6 \<and>
    list_all lower_alnum suffix"
proof -
  from randomString_ok [OF assms, of 0 6] obtain s where
    s: "randomString \<rho> 0 6 = Inr s" "length s = 6" "set s \<subseteq> set letters" by blast
  with letters_alnum have "list_all lower_alnum s" by (auto simp: list_all_iff)
  moreover have "randomName \<rho> p 51 = Inr (take 44 p @ ''-'' @ s)"
    using s by (simp add: randomName_def randomNameSuffixLength_def Let_def)
  ultimately show ?thesis using s by (auto simp: RandomNamespace_def maxNamespaceLen_def)
qed

text \<open>
  C39: A random namespace is a valid DNS label whatever its prefix is cut to, and stays short enough
  for the pods of the cluster that runs in it: \<open>vmstorage-<namespace>-0\<close> is a DNS label too.
\<close>

theorem RandomNamespace_fits:
  assumes "rand_ok \<rho>" and "p \<noteq> []" and "list_all label_char p" and "lower_alnum (hd p)"
  shows "\<exists>ns. RandomNamespace \<rho> p = Inr ns \<and> length ns \<le> maxNamespaceLen \<and> dns_label ns \<and>
    dns_label (''vmstorage-'' @ ns @ ''-0'')"
proof -
  from RandomNamespace_shape [OF assms(1), of p] obtain s where
    s: "RandomNamespace \<rho> p = Inr (take 44 p @ ''-'' @ s)" "length s = 6" "list_all lower_alnum s"
    by blast
  then have ne: "s \<noteq> []" by auto
  with s(3) have last: "lower_alnum (last s)" by (simp add: list_all_iff)
  have chars: "list_all label_char (take 44 p)" "list_all label_char s"
    using assms(3) s(3) by (auto simp: list_all_iff label_char_def dest: in_set_takeD)
  have v: "list_all label_char ''vmstorage-''" "list_all label_char ''-0''" "lower_alnum (CHR ''v'')"
    "lower_alnum (CHR ''0'')" "label_char (CHR ''-'')"
    by (simp_all add: label_char_def lower_alnum_def)
  have hd: "hd (take 44 p @ ''-'' @ s) = hd p" using assms(2) by (cases p) auto
  have "dns_label (take 44 p @ ''-'' @ s)"
    unfolding dns_label_def hd using chars v assms(4) last ne s(2) by auto
  moreover have "dns_label (''vmstorage-'' @ (take 44 p @ ''-'' @ s) @ ''-0'')"
    unfolding dns_label_def using chars v s(2) by auto
  ultimately show ?thesis using s by (auto simp: maxNamespaceLen_def)
qed

definition first_choice :: rand where "first_choice i n = Some 0"

theorem RandomNamespace_fits_witness:
  "\<exists>ns. RandomNamespace first_choice ''vm-load'' = Inr ns \<and> dns_label (''vmstorage-'' @ ns @ ''-0'')"
proof -
  have "rand_ok first_choice" by (simp add: rand_ok_def first_choice_def)
  moreover have "list_all label_char ''vm-load''" "lower_alnum (hd ''vm-load'')"
    by (simp_all add: label_char_def lower_alnum_def)
  ultimately show ?thesis using RandomNamespace_fits [of first_choice "''vm-load''"] by blast
qed

lemma ClusterName_bound: "length (ClusterName p) \<le> 42 \<and> prefix (ClusterName p) p"
  by (simp add: ClusterName_def maxClusterNameLen_def take_is_prefix)

lemma ClusterName_idem: "ClusterName (ClusterName p) = ClusterName p"
  by (simp add: ClusterName_def)

lemma ResourceIdentifier_ok:
  "rand_ok \<rho> \<Longrightarrow> dns_label name \<Longrightarrow> \<exists>s. ResourceIdentifier c \<rho> name = Inr s \<and> dns_label s"
proof -
  assume r: "rand_ok \<rho>" and name: "dns_label name"
  have ne: "scrambleAdjectives \<noteq> []" "scrambleCars \<noteq> []"
    by (simp_all add: scrambleAdjectives_def scrambleCars_def)
  obtain a where a: "a \<in> set scrambleAdjectives" "randomPick \<rho> 0 scrambleAdjectives = Inr a"
    using randomPick_ok [OF r ne(1)] by blast
  obtain b where b: "b \<in> set scrambleCars" "randomPick \<rho> 1 scrambleCars = Inr b"
    using randomPick_ok [OF r ne(2)] by blast
  have "list_all (\<lambda>w. w \<noteq> [] \<and> length w \<le> 20 \<and> list_all lower_alnum w) (scrambleAdjectives @ scrambleCars)"
    by (simp add: scrambleAdjectives_def scrambleCars_def lower_alnum_def)
  with a b have w: "a \<noteq> []" "length a \<le> 20" "list_all lower_alnum a" "b \<noteq> []" "length b \<le> 20" "list_all lower_alnum b"
    by (auto simp: list_all_iff)
  then have "dns_label (a @ ''-'' @ b)"
    by (auto simp: dns_label_def label_char_def list_all_iff)
  with a b name show ?thesis by (auto simp: ResourceIdentifier_def)
qed

subsection \<open>Affinity\<close>

definition match_expr :: "gostring \<Rightarrow> gostring \<Rightarrow> gostring list \<Rightarrow> json" where
  "match_expr key op values =
     JObj ([(''key'', JStr key), (''operator'', JStr op)] @
       (if values = [] then [] else [(''values'', JArr (map JStr values))]))"

definition instance_key :: gostring where "instance_key = ''app.kubernetes.io/instance''"
definition name_key :: gostring where "name_key = ''app.kubernetes.io/name''"

definition clusterAffinity :: "gostring \<Rightarrow> gostring \<Rightarrow> gostring list \<Rightarrow> json" where
  "clusterAffinity clusterName namespaceLabel componentNames =
     JObj
       [(''podAffinity'', JObj
          [(''requiredDuringSchedulingIgnoredDuringExecution'', JArr [JObj
              [(''topologyKey'', JStr ''kubernetes.io/hostname''),
               (''labelSelector'', JObj
                  [(''matchExpressions'', JArr [match_expr instance_key ''In'' [clusterName]])])]])]),
        (''podAntiAffinity'', JObj
          [(''requiredDuringSchedulingIgnoredDuringExecution'', JArr [JObj
              [(''topologyKey'', JStr ''kubernetes.io/hostname''),
               (''namespaceSelector'', JObj [(''matchLabels'', JObj [(namespaceLabel, JStr ''true'')])]),
               (''labelSelector'', JObj
                  [(''matchExpressions'', JArr
                     [match_expr instance_key ''Exists'' [],
                      match_expr instance_key ''NotIn'' [clusterName],
                      match_expr name_key ''In'' componentNames])])]])])]"

definition VMClusterAffinity :: "gostring \<Rightarrow> gostring \<Rightarrow> json" where
  "VMClusterAffinity clusterName namespaceLabel =
     clusterAffinity clusterName namespaceLabel [''vminsert'', ''vmselect'', ''vmstorage'']"

definition VLClusterAffinity :: "gostring \<Rightarrow> gostring \<Rightarrow> json" where
  "VLClusterAffinity clusterName namespaceLabel =
     clusterAffinity clusterName namespaceLabel [''vlinsert'', ''vlselect'', ''vlstorage'']"

text \<open>
  The meaning of a label selector as Kubernetes documents it: all expressions must hold;
  \<open>NotIn\<close> also holds of an object without the label.
\<close>

definition expr_holds :: "(gostring \<rightharpoonup> gostring) \<Rightarrow> json \<Rightarrow> bool" where
  "expr_holds labels e =
     (let key = jstr (jfield ''key'' e); op = jstr (jfield ''operator'' e);
          vals = map jstr (jitems (jfield ''values'' e))
      in if op = ''In'' then (case labels key of None \<Rightarrow> False | Some v \<Rightarrow> v \<in> set vals)
         else if op = ''NotIn'' then (case labels key of None \<Rightarrow> True | Some v \<Rightarrow> v \<notin> set vals)
         else if op = ''Exists'' then labels key \<noteq> None
         else if op = ''DoesNotExist'' then labels key = None
         else False)"

definition selector_matches :: "json \<Rightarrow> (gostring \<rightharpoonup> gostring) \<Rightarrow> bool" where
  "selector_matches term labels =
     list_all (expr_holds labels) (jitems (jpath [''labelSelector'', ''matchExpressions''] term))"

definition terms_of :: "gostring \<Rightarrow> json \<Rightarrow> json list" where
  "terms_of kind aff = jitems (jpath [kind, ''requiredDuringSchedulingIgnoredDuringExecution''] aff)"

definition attracted_by :: "json \<Rightarrow> (gostring \<rightharpoonup> gostring) \<Rightarrow> bool" where
  "attracted_by aff labels = list_ex (\<lambda>t. selector_matches t labels) (terms_of ''podAffinity'' aff)"

definition repelled_by :: "json \<Rightarrow> (gostring \<rightharpoonup> gostring) \<Rightarrow> bool" where
  "repelled_by aff labels = list_ex (\<lambda>t. selector_matches t labels) (terms_of ''podAntiAffinity'' aff)"

lemma match_expr_holds:
  "expr_holds labels (match_expr key ''Exists'' []) \<longleftrightarrow> labels key \<noteq> None"
  "expr_holds labels (match_expr key ''NotIn'' [v]) \<longleftrightarrow> labels key \<noteq> Some v"
  "expr_holds labels (match_expr key ''In'' (w # ws)) \<longleftrightarrow> (\<exists>u \<in> set (w # ws). labels key = Some u)"
  by (auto simp: expr_holds_def match_expr_def Let_def comp_def split: option.splits)

lemma attracted_clusterAffinity:
  "attracted_by (clusterAffinity c l comps) labels \<longleftrightarrow> labels instance_key = Some c"
  by (simp add: attracted_by_def terms_of_def clusterAffinity_def selector_matches_def match_expr_holds)

lemma repelled_clusterAffinity:
  "comps \<noteq> [] \<Longrightarrow> repelled_by (clusterAffinity c l comps) labels \<longleftrightarrow>
     (\<exists>i. labels instance_key = Some i \<and> i \<noteq> c) \<and> (\<exists>u \<in> set comps. labels name_key = Some u)"
  by (cases comps)
    (auto simp: repelled_by_def terms_of_def clusterAffinity_def selector_matches_def match_expr_holds)


end
