(* ===== verification/Retry.thy ===== *)
theory Retry
  imports Prelude
begin

text \<open>
  The interfaces of the bounded retry loops of the repository. An attempt is numbered from 0 and
  \<open>call i\<close> is the outcome of attempt \<open>i\<close>; \<open>prev\<close> is the outcome of the attempt before. A loop
  maps these and the current position to its result and the number of calls it made. The laws
  are the ways an iteration ends; the lemmas proved once from them are the contract every caller
  relies on. In a \<open>cancellable_loop\<close> the context can end during the pause before attempt \<open>i\<close>
  (\<open>ended i\<close>); with a context that never ends it is a \<open>bounded_loop\<close>.
\<close>

locale bounded_loop =
  fixes loop :: "(nat \<Rightarrow> 'r) \<Rightarrow> nat \<Rightarrow> 'r option \<Rightarrow> 'o \<times> nat"
    and limit :: nat
    and final :: "'r \<Rightarrow> bool"
    and finish :: "'r \<Rightarrow> 'o"
    and exhausted :: "'r option \<Rightarrow> 'o"
  assumes at_end: "limit \<le> i \<Longrightarrow> loop call i prev = (exhausted prev, i)"
    and on_final: "i < limit \<Longrightarrow> final (call i) \<Longrightarrow> loop call i prev = (finish (call i), Suc i)"
    and on_retry: "i < limit \<Longrightarrow> \<not> final (call i) \<Longrightarrow> loop call i prev = loop call (Suc i) (Some (call i))"
begin

lemma first_final_from:
  assumes "k < limit" and "final (call k)" and "i \<le> k" and "\<forall>j. i \<le> j \<and> j < k \<longrightarrow> \<not> final (call j)"
  shows "loop call i prev = (finish (call k), Suc k)"
  using assms(3,4)
proof (induction "k - i" arbitrary: i prev)
  case 0
  with assms show ?case by (simp add: on_final)
next
  case (Suc d)
  then have "i < k" by simp
  with Suc assms(1) show ?case by (simp add: on_retry)
qed

lemma none_final_from:
  assumes "i \<le> limit" and "\<forall>j. i \<le> j \<and> j < limit \<longrightarrow> \<not> final (call j)"
  shows "loop call i prev = (exhausted (if i = limit then prev else Some (call (limit - 1))), limit)"
  using assms
proof (induction "limit - i" arbitrary: i prev)
  case 0
  then show ?case by (simp add: at_end)
next
  case (Suc d)
  then have i: "i < limit" by simp
  with Suc have "loop call (Suc i) (Some (call i)) =
      (exhausted (if Suc i = limit then Some (call i) else Some (call (limit - 1))), limit)" by simp
  moreover have "limit - 1 = i" if "Suc i = limit" using that by simp
  ultimately show ?case using i Suc.prems by (simp add: on_retry)
qed

lemma first_final:
  "k < limit \<Longrightarrow> final (call k) \<Longrightarrow> \<forall>j < k. \<not> final (call j) \<Longrightarrow> loop call 0 None = (finish (call k), Suc k)"
  by (rule first_final_from) simp_all

lemma none_final:
  "0 < limit \<Longrightarrow> \<forall>j < limit. \<not> final (call j) \<Longrightarrow> loop call 0 None = (exhausted (Some (call (limit - 1))), limit)"
  using none_final_from [of 0 call None] by simp

end

locale cancellable_loop =
  fixes loop :: "(nat \<Rightarrow> 'r) \<Rightarrow> (nat \<Rightarrow> bool) \<Rightarrow> nat \<Rightarrow> 'r option \<Rightarrow> 'o \<times> nat"
    and limit :: nat
    and final :: "'r \<Rightarrow> bool"
    and finish :: "'r \<Rightarrow> 'o"
    and exhausted :: "'r option \<Rightarrow> 'o"
    and cancelled :: 'o
  assumes at_end: "limit \<le> i \<Longrightarrow> loop call ended i prev = (exhausted prev, i)"
    and on_done: "i < limit \<Longrightarrow> 0 < i \<Longrightarrow> ended i \<Longrightarrow> loop call ended i prev = (cancelled, i)"
    and on_final: "i < limit \<Longrightarrow> i = 0 \<or> \<not> ended i \<Longrightarrow> final (call i) \<Longrightarrow>
      loop call ended i prev = (finish (call i), Suc i)"
    and on_retry: "i < limit \<Longrightarrow> i = 0 \<or> \<not> ended i \<Longrightarrow> \<not> final (call i) \<Longrightarrow>
      loop call ended i prev = loop call ended (Suc i) (Some (call i))"

sublocale cancellable_loop \<subseteq> steady: bounded_loop "\<lambda>call. loop call (\<lambda>_. False)" limit final finish exhausted
  by unfold_locales (simp_all add: at_end on_final on_retry)

context cancellable_loop
begin

definition last_of :: "(nat \<Rightarrow> 'r) \<Rightarrow> nat \<Rightarrow> 'r option" where
  "last_of call n = (if n = 0 then None else Some (call (n - 1)))"

definition meets :: "(nat \<Rightarrow> 'r) \<Rightarrow> (nat \<Rightarrow> bool) \<Rightarrow> 'o \<Rightarrow> nat \<Rightarrow> bool" where
  "meets call ended r n \<longleftrightarrow> n \<le> limit \<and> (\<forall>i < n - 1. \<not> final (call i)) \<and>
     (0 < n \<and> final (call (n - 1)) \<and> r = finish (call (n - 1)) \<or>
      n = limit \<and> (\<forall>i < n. \<not> final (call i)) \<and> r = exhausted (last_of call n) \<or>
      0 < n \<and> n < limit \<and> ended n \<and> (\<forall>i < n. \<not> final (call i)) \<and> r = cancelled)"

lemma loop_meets:
  assumes "i \<le> limit" and "\<forall>j < i. \<not> final (call j)"
  shows "\<exists>r n. loop call ended i (last_of call i) = (r, n) \<and> i \<le> n \<and> meets call ended r n"
  using assms
proof (induction "limit - i" arbitrary: i)
  case 0
  then have i: "i = limit" by simp
  with 0 show ?case unfolding meets_def by (simp add: at_end)
next
  case (Suc d)
  then have i: "i < limit" by simp
  show ?case
  proof (cases "0 < i \<and> ended i")
    case True
    with Suc i show ?thesis unfolding meets_def by (simp add: on_done)
  next
    case False
    then have go: "i = 0 \<or> \<not> ended i" by simp
    show ?thesis
    proof (cases "final (call i)")
      case True
      with Suc i go show ?thesis unfolding meets_def by (simp add: on_final)
    next
      case again: False
      have l: "last_of call (Suc i) = Some (call i)" by (simp add: last_of_def)
      have "\<forall>j < Suc i. \<not> final (call j)" using Suc.prems(2) again by (simp add: less_Suc_eq)
      moreover have "d = limit - Suc i" using Suc.hyps(2) i by linarith
      ultimately obtain r n where
        "loop call ended (Suc i) (last_of call (Suc i)) = (r, n)" "Suc i \<le> n" "meets call ended r n"
        using Suc.hyps(1) [of "Suc i"] i by auto
      with i go again l show ?thesis by (auto simp: on_retry)
    qed
  qed
qed

lemma contract: "\<exists>r n. loop call ended 0 None = (r, n) \<and> meets call ended r n"
  using loop_meets [of 0 call ended] by (auto simp: last_of_def)

end

text \<open>
  The retrying functions of third-party libraries are parameters of the model: \<open>retry call\<close> gives the
  error it returned and how many attempts it made. They are relied on for repeating an attempt
  exactly while its error is retriable and attempts are left, and for returning what the last
  attempt returned.
\<close>

type_synonym 'e retrier = "(nat \<Rightarrow> 'e option) \<Rightarrow> 'e option \<times> nat"

definition retries_while :: "('e option \<Rightarrow> bool) \<Rightarrow> nat \<Rightarrow> 'e retrier \<Rightarrow> bool" where
  "retries_while retriable steps retry \<longleftrightarrow> (\<forall>call r n. retry call = (r, n) \<longrightarrow>
     0 < n \<and> n \<le> steps \<and> r = call (n - 1) \<and> (\<forall>i < n - 1. retriable (call i)) \<and>
     (retriable r \<longrightarrow> n = steps))"

lemma retries_whileD:
  assumes "retries_while retriable steps retry" and "retry call = (r, n)"
  shows "0 < n" "n \<le> steps" "r = call (n - 1)" "\<forall>i < n - 1. retriable (call i)" "retriable r \<Longrightarrow> n = steps"
  using assms unfolding retries_while_def by blast+

definition plain_retrier :: "('e option \<Rightarrow> bool) \<Rightarrow> nat \<Rightarrow> 'e retrier" where
  "plain_retrier retriable steps call =
     (case find (\<lambda>i. \<not> retriable (call i)) [0..<steps] of
        None \<Rightarrow> (call (steps - 1), steps) | Some k \<Rightarrow> (call k, Suc k))"

lemma plain_retrier_retries: "0 < steps \<Longrightarrow> retries_while retriable steps (plain_retrier retriable steps)"
  unfolding retries_while_def
proof (intro allI impI)
  fix call r n assume "0 < steps" and run: "plain_retrier retriable steps call = (r, n)"
  then show "0 < n \<and> n \<le> steps \<and> r = call (n - 1) \<and> (\<forall>i < n - 1. retriable (call i)) \<and>
     (retriable r \<longrightarrow> n = steps)"
    by (cases "find (\<lambda>i. \<not> retriable (call i)) [0..<steps]")
      (auto simp: plain_retrier_def find_None_iff find_Some_iff)
qed

end
