(* ===== verification/PromQuery.thy ===== *)
theory PromQuery
  imports Retry Endpoints
begin

text \<open>
  The Prometheus client (\<open>pkg/promquery/main.go\<close>) and \<open>RetryVectorScan\<close> of
  \<open>pkg/helpers/common.go\<close>. The HTTP API is the argument \<open>call\<close>: the reply to attempt \<open>i\<close>. An
  error is the list of its links in \<open>Unwrap\<close> order, each with what the type assertions of the code
  can see of it; \<open>None\<close> is the nil error.
\<close>

subsection \<open>Errors\<close>

datatype prom_error_type = ErrServer | ErrOther

record link =
  net_error :: bool
  net_timeout :: bool
  dns_error :: bool
  op_error :: "gostring option"
  econnrefused :: bool
  econnreset :: bool
  prom_error :: "prom_error_type option"
  message :: gostring

type_synonym go_error = "link list option"

definition isLookupError :: "go_error \<Rightarrow> bool" where
  "isLookupError err =
     (case err of None \<Rightarrow> False
      | Some chain \<Rightarrow>
          (case find net_error chain of None \<Rightarrow> False | Some l \<Rightarrow> net_timeout l) \<or>
          list_ex dns_error chain \<or>
          (case dropWhile (\<lambda>l. op_error l = None) chain of
             [] \<Rightarrow> False
           | l # inner \<Rightarrow> (op_error l = Some ''dial'' \<or> op_error l = Some ''read'') \<and>
               list_ex (\<lambda>x. econnrefused x \<or> econnreset x) inner) \<or>
          (case find (\<lambda>l. prom_error l \<noteq> None) chain of None \<Rightarrow> False
           | Some l \<Rightarrow> prom_error l = Some ErrServer))"

subsection \<open>Queries with retries\<close>

definition retryAttempts :: nat where "retryAttempts = 3"
definition queryTimeout :: duration where "queryTimeout = 10 * Second"
definition retryDelay :: duration where "retryDelay = 2 * Second"

record 'v reply =
  rp_value :: 'v
  rp_warnings :: "gostring list"
  rp_err :: go_error

definition transient :: "('v, 'z) reply_scheme \<Rightarrow> bool" where
  "transient r \<longleftrightarrow> rp_err r \<noteq> None \<and> isLookupError (rp_err r)"

definition ctx_reply :: "'v \<Rightarrow> go_error \<Rightarrow> 'v reply" where
  "ctx_reply zero e = \<lparr>rp_value = zero, rp_warnings = [], rp_err = e\<rparr>"

function withRetry_loop ::
  "'v \<Rightarrow> go_error \<Rightarrow> (nat \<Rightarrow> 'v reply) \<Rightarrow> (nat \<Rightarrow> bool) \<Rightarrow> nat \<Rightarrow> 'v reply option \<Rightarrow> 'v reply \<times> nat" where
  "withRetry_loop zero ctx_err call ended attempt prev =
     (if retryAttempts \<le> attempt
      then ((case prev of None \<Rightarrow> ctx_reply zero None | Some r \<Rightarrow> r), attempt)
      else if 0 < attempt \<and> ended attempt then (ctx_reply zero ctx_err, attempt)
      else if \<not> transient (call attempt) then (call attempt, Suc attempt)
      else withRetry_loop zero ctx_err call ended (Suc attempt) (Some (call attempt)))"
  by pat_completeness auto
termination
  by (relation "measure (\<lambda>(z, e, call, ended, i, prev). retryAttempts - i)") auto

declare withRetry_loop.simps [simp del]

definition withRetry ::
  "'v \<Rightarrow> go_error \<Rightarrow> (nat \<Rightarrow> 'v reply) \<Rightarrow> (nat \<Rightarrow> bool) \<Rightarrow> 'v reply \<times> nat" where
  "withRetry zero ctx_err call ended = withRetry_loop zero ctx_err call ended 0 None"

lemma withRetry_laws:
  "retryAttempts \<le> i \<Longrightarrow> withRetry_loop z e call ended i prev =
     ((case prev of None \<Rightarrow> ctx_reply z None | Some r \<Rightarrow> r), i)"
  "i < retryAttempts \<Longrightarrow> 0 < i \<Longrightarrow> ended i \<Longrightarrow> withRetry_loop z e call ended i prev = (ctx_reply z e, i)"
  "i < retryAttempts \<Longrightarrow> i = 0 \<or> \<not> ended i \<Longrightarrow> \<not> transient (call i) \<Longrightarrow>
     withRetry_loop z e call ended i prev = (call i, Suc i)"
  "i < retryAttempts \<Longrightarrow> i = 0 \<or> \<not> ended i \<Longrightarrow> transient (call i) \<Longrightarrow>
     withRetry_loop z e call ended i prev = withRetry_loop z e call ended (Suc i) (Some (call i))"
  by (subst withRetry_loop.simps, force)+

interpretation prom: cancellable_loop "withRetry_loop zero ctx_err" retryAttempts "\<lambda>r. \<not> transient r" "\<lambda>r. r"
  "\<lambda>prev. case prev of None \<Rightarrow> ctx_reply zero None | Some r \<Rightarrow> r" "ctx_reply zero ctx_err"
  for zero :: 'v and ctx_err :: go_error
  by unfold_locales (simp_all add: withRetry_laws)

text \<open>
  C17: A query is attempted at least once and at most three times. Every attempt before the last one
  failed transiently; the caller sees exactly the reply of the last attempt, which is the third or
  was not a transient failure, unless the context ended in a pause, and then its error.
\<close>

theorem withRetry_contract:
  "let (r, n) = withRetry zero ctx_err call ended in
     1 \<le> n \<and> n \<le> 3 \<and> list_all (\<lambda>i. transient (call i)) [0..<n - 1] \<and>
     (r = call (n - 1) \<and> (n = 3 \<or> \<not> transient (call (n - 1))) \<or>
      n < 3 \<and> transient (call (n - 1)) \<and> ended n \<and> r = ctx_reply zero ctx_err)"
proof -
  from prom.contract [of zero ctx_err call ended] obtain r n where
    run: "withRetry zero ctx_err call ended = (r, n)" and m: "prom.meets zero ctx_err call ended r n"
    by (auto simp: withRetry_def)
  from m have early: "list_all (\<lambda>i. transient (call i)) [0..<n - 1]" and le: "n \<le> 3"
    unfolding prom.meets_def by (auto simp: list_all_iff retryAttempts_def)
  from m have n: "1 \<le> n" unfolding prom.meets_def by (auto simp: retryAttempts_def)
  then have l: "prom.last_of call n = Some (call (n - 1))" unfolding prom.last_of_def by simp
  from m n have "r = call (n - 1) \<and> (n = 3 \<or> \<not> transient (call (n - 1))) \<or>
      n < 3 \<and> transient (call (n - 1)) \<and> ended n \<and> r = ctx_reply zero ctx_err"
    unfolding prom.meets_def l by (auto simp: retryAttempts_def)
  with early le n run show ?thesis by simp
qed

theorem withRetry_contract_witness:
  "fst (withRetry [] None (\<lambda>_. ctx_reply ''v'' None) (\<lambda>_. False)) = ctx_reply ''v'' None"
  using withRetry_contract [of "[] :: gostring" None "\<lambda>_. ctx_reply ''v'' None" "\<lambda>_. False"]
  by (auto simp: Let_def split: prod.splits)

text \<open>
  The time of a query: each call ends by its timeout, and there is a delay before each call but the
  first. Whatever the replies, a query takes at most 34 seconds.
\<close>

definition query_time :: "(nat \<Rightarrow> duration) \<Rightarrow> nat \<Rightarrow> duration" where
  "query_time took n = (\<Sum>i < n. took i) + int (n - 1) * retryDelay"

theorem query_time_bounded:
  assumes "\<forall>i. took i \<le> queryTimeout"
  shows "query_time took (snd (withRetry zero ctx_err call ended)) \<le> 34 * Second"
proof -
  obtain r n where run: "withRetry zero ctx_err call ended = (r, n)" by fastforce
  have "n \<le> 3"
    using prom.contract [of zero ctx_err call ended] run
    unfolding withRetry_def prom.meets_def by (auto simp: retryAttempts_def)
  have "(\<Sum>i < n. took i) \<le> int n * queryTimeout"
    using sum_bounded_above [of "{..<n}" took queryTimeout] assms by simp
  also have "\<dots> \<le> 3 * queryTimeout" using \<open>n \<le> 3\<close> by (simp add: queryTimeout_def Second_def)
  finally have "(\<Sum>i < n. took i) \<le> 3 * queryTimeout" .
  moreover have "int (n - 1) * retryDelay \<le> 2 * retryDelay"
    using \<open>n \<le> 3\<close> by (intro mult_right_mono) (auto simp: retryDelay_def Second_def)
  ultimately show ?thesis using run by (simp add: query_time_def queryTimeout_def retryDelay_def Second_def)
qed

theorem query_time_bounded_witness:
  "query_time (\<lambda>_. queryTimeout) (snd (withRetry [] None (\<lambda>_. ctx_reply ''v'' None) (\<lambda>_. False))) \<le> 34 * Second"
  by (rule query_time_bounded) simp

subsection \<open>Instant vectors\<close>

datatype ('m, 'f) prom_value = ValNone | ValScalar 'f | ValVector "('m \<times> 'f) list"
  | ValMatrix "('m \<times> 'f list) list" | ValString gostring

fun value_type :: "('m, 'f) prom_value \<Rightarrow> gostring" where
  "value_type ValNone = ''none''"
| "value_type (ValScalar _) = ''scalar''"
| "value_type (ValVector _) = ''vector''"
| "value_type (ValMatrix _) = ''matrix''"
| "value_type (ValString _) = ''string''"

definition plain_error :: "gostring \<Rightarrow> go_error" where
  "plain_error msg = Some [\<lparr>net_error = False, net_timeout = False, dns_error = False, op_error = None,
     econnrefused = False, econnreset = False, prom_error = None, message = msg\<rparr>]"

definition ErrNoDataReturned :: gostring where "ErrNoDataReturned = ''no data returned''"

definition VectorScan :: "'m \<Rightarrow> 'f \<Rightarrow> ('m, 'f) prom_value reply \<Rightarrow> 'm \<times> 'f \<times> go_error" where
  "VectorScan nil zero r =
     (if rp_err r \<noteq> None then (nil, zero, rp_err r)
      else case rp_value r of
        ValVector vec \<Rightarrow>
          (case vec of [] \<Rightarrow> (nil, zero, plain_error ErrNoDataReturned) | (m, v) # _ \<Rightarrow> (m, v, None))
      | other \<Rightarrow> (nil, zero, plain_error (''unexpected result type: '' @ value_type other)))"

text \<open>
  A vector scan succeeds exactly when the query returned a vector with a sample, and then gives
  the first sample; in every other case it reports an error, so a zero value is never mistaken for
  a measurement.
\<close>

theorem VectorScan_succeeds_iff:
  "(VectorScan nil zero r = (m, v, None)) \<longleftrightarrow>
     (rp_err r = None \<and> (\<exists>rest. rp_value r = ValVector ((m, v) # rest)))"
  by (auto simp: VectorScan_def plain_error_def split: prom_value.splits list.splits)

subsection \<open>Retried scans\<close>

text \<open>
  \<open>RetryVectorScan\<close> waits for data propagation after every failure and does not look at the
  context. The result of attempt \<open>i\<close> is \<open>scan i\<close>.
\<close>

function RetryVectorScan_loop ::
  "nat \<Rightarrow> (nat \<Rightarrow> 'm \<times> 'f \<times> go_error) \<Rightarrow> nat \<Rightarrow> ('m \<times> 'f \<times> go_error) option \<Rightarrow>
     ('m \<times> 'f \<times> go_error) option \<times> nat" where
  "RetryVectorScan_loop maxRetries scan i prev =
     (if maxRetries \<le> i then (prev, i)
      else if snd (snd (scan i)) = None then (Some (scan i), Suc i)
      else RetryVectorScan_loop maxRetries scan (Suc i) (Some (scan i)))"
  by pat_completeness auto
termination
  by (relation "measure (\<lambda>(k, scan, i, prev). k - i)") auto

declare RetryVectorScan_loop.simps [simp del]

definition RetryVectorScan ::
  "'m \<Rightarrow> 'f \<Rightarrow> int \<Rightarrow> (nat \<Rightarrow> 'm \<times> 'f \<times> go_error) \<Rightarrow> ('m \<times> 'f \<times> go_error) \<times> nat" where
  "RetryVectorScan nil zero maxRetries scan =
     (let (r, n) = RetryVectorScan_loop (nat maxRetries) scan 0 None
      in (case r of None \<Rightarrow> (nil, zero, None) | Some x \<Rightarrow> x, n))"

lemma RetryVectorScan_laws:
  "k \<le> i \<Longrightarrow> RetryVectorScan_loop k scan i prev = (prev, i)"
  "i < k \<Longrightarrow> snd (snd (scan i)) = None \<Longrightarrow> RetryVectorScan_loop k scan i prev = (Some (scan i), Suc i)"
  "i < k \<Longrightarrow> snd (snd (scan i)) \<noteq> None \<Longrightarrow>
     RetryVectorScan_loop k scan i prev = RetryVectorScan_loop k scan (Suc i) (Some (scan i))"
  by (subst RetryVectorScan_loop.simps, force)+

interpretation rescan: bounded_loop "RetryVectorScan_loop k" k "\<lambda>r. snd (snd r) = None" "\<lambda>r. Some r" "\<lambda>prev. prev"
  for k :: nat
  by unfold_locales (simp_all add: RetryVectorScan_laws)

text \<open>
  A retried scan gives the first success among its attempts and stops there; when all of them
  fail, it has made exactly the attempts it was given and reports the last failure.
\<close>

theorem RetryVectorScan_first_success:
  assumes "0 < maxRetries"
  shows "RetryVectorScan nil zero maxRetries scan =
    (case find (\<lambda>i. snd (snd (scan i)) = None) [0..<nat maxRetries] of
       Some i \<Rightarrow> (scan i, Suc i)
     | None \<Rightarrow> (scan (nat maxRetries - 1), nat maxRetries))"
proof (cases "find (\<lambda>i. snd (snd (scan i)) = None) [0..<nat maxRetries]")
  case None
  then have "\<forall>i < nat maxRetries. snd (snd (scan i)) \<noteq> None" by (auto simp: find_None_iff)
  with rescan.none_final [of "nat maxRetries" scan] assms None show ?thesis
    by (simp add: RetryVectorScan_def)
next
  case (Some k)
  then obtain n where n: "n < nat maxRetries" "k = n" "snd (snd (scan n)) = None"
    "\<forall>j < n. snd (snd (scan j)) \<noteq> None"
    by (auto simp: find_Some_iff)
  with rescan.first_final [of n "nat maxRetries" scan] Some show ?thesis
    by (simp add: RetryVectorScan_def)
qed

theorem RetryVectorScan_first_success_witness:
  "RetryVectorScan (0::nat) (0::int) 3 (\<lambda>i. if i = 1 then (7, 42, None) else (0, 0, plain_error ''down'')) =
     ((7, 42, None), 2)"
  using RetryVectorScan_first_success
    [of 3 "0::nat" "0::int" "\<lambda>i. if i = 1 then (7, 42, None) else (0, 0, plain_error ''down'')"]
  by (simp add: plain_error_def upt_rec numeral_eq_Suc)

end
