(* ===== verification/Alerts.thy ===== *)
theory Alerts
  imports PromQuery
begin

text \<open>
  The alert checks of \<open>pkg/promquery/checks.go\<close>. The Alertmanager API is the argument \<open>am\<close>
  (URL and filters to the alerts or an error); the regular expression compiler is the argument
  \<open>compile\<close>, \<open>None\<close> for a pattern that does not compile.
\<close>

record alert =
  al_Labels :: "gostring \<rightharpoonup> gostring"
  al_Printed :: gostring

type_synonym alert_manager = "gostring \<Rightarrow> gostring list \<Rightarrow> alert list result"
type_synonym regexps = "gostring \<Rightarrow> (gostring \<Rightarrow> bool) option"

record prom_client =
  AlertManagerURL :: gostring


definition DefaultExceptions :: "gostring list" where
  "DefaultExceptions = [''InfoInhibitor'', ''Watchdog'', ''NodeMemoryMajorPagesFaults'', ''TooManyErrorLogs'']"

definition alert_name :: "alert \<Rightarrow> gostring" where
  "alert_name a = (case al_Labels a ''alertname'' of None \<Rightarrow> [] | Some n \<Rightarrow> n)"

definition amURL :: "config \<Rightarrow> prom_client \<Rightarrow> gostring" where
  "amURL c p =
     (if AlertManagerURL p \<noteq> [] then AlertManagerURL p
      else http (AlertManagerHost DefaultVMNamespace c))"

definition alert_filters :: "gostring \<Rightarrow> gostring \<Rightarrow> gostring list" where
  "alert_filters namespace selector =
     (''namespace='' @ namespace) #
     (if selector = [] then []
      else if Contains selector ''=''
      then map (\<lambda>part. Trim (TrimSpace part) ''{}'') (SplitC (CHR '','') selector)
      else [''alertname='' @ selector])"

definition getAlertsFromAM ::
  "config \<Rightarrow> (gostring \<Rightarrow> gostring option) \<Rightarrow> alert_manager \<Rightarrow> prom_client \<Rightarrow> gostring \<Rightarrow> gostring \<Rightarrow> alert list result" where
  "getAlertsFromAM c url_error am p namespace selector =
     (case url_error (amURL c p) of
        Some err \<Rightarrow> Inl err
      | None \<Rightarrow> am (amURL c p) (alert_filters namespace selector))"

definition excepted :: "(gostring \<Rightarrow> bool) list \<Rightarrow> gostring \<Rightarrow> bool" where
  "excepted res name = list_ex (\<lambda>re. re name) res"

definition compiled :: "regexps \<Rightarrow> gostring list \<Rightarrow> (gostring \<Rightarrow> bool) list" where
  "compiled compile exceptions =
     concat (map (\<lambda>ex. case compile ex of None \<Rightarrow> [] | Some re \<Rightarrow> [re]) (DefaultExceptions @ exceptions))"

definition describe_alert :: "alert \<Rightarrow> gostring" where
  "describe_alert a = alert_name a @ '' (labels: '' @ al_Printed a @ '')''"

definition getFiringAlerts ::
  "config \<Rightarrow> (gostring \<Rightarrow> gostring option) \<Rightarrow> alert_manager \<Rightarrow> regexps \<Rightarrow> prom_client \<Rightarrow> gostring \<Rightarrow>
     gostring list \<Rightarrow> gostring list result" where
  "getFiringAlerts c url_error am compile p namespace exceptions =
     bind_result (getAlertsFromAM c url_error am p namespace []) (\<lambda>alerts.
       Inr (map describe_alert
             (filter (\<lambda>a. \<not> excepted (compiled compile exceptions) (alert_name a)) alerts)))"

text \<open>The checks fail the test (left) or pass.\<close>

definition CheckNoAlertsFiring ::
  "config \<Rightarrow> (gostring \<Rightarrow> gostring option) \<Rightarrow> alert_manager \<Rightarrow> regexps \<Rightarrow> prom_client \<Rightarrow> gostring \<Rightarrow>
     gostring list \<Rightarrow> unit result" where
  "CheckNoAlertsFiring c url_error am compile p namespace exceptions =
     (case getFiringAlerts c url_error am compile p namespace exceptions of
        Inl err \<Rightarrow> Inl (''Failed to query alerts from Alertmanager for namespace '' @ namespace)
      | Inr [] \<Rightarrow> Inr ()
      | Inr (f # fs) \<Rightarrow> Inl (''Unexpected alert firing for namespace '' @ namespace @ '': '' @ f))"

definition CheckAlertIsFiring ::
  "config \<Rightarrow> (gostring \<Rightarrow> gostring option) \<Rightarrow> alert_manager \<Rightarrow> prom_client \<Rightarrow> gostring \<Rightarrow> gostring \<Rightarrow> unit result" where
  "CheckAlertIsFiring c url_error am p namespace selector =
     (case getAlertsFromAM c url_error am p namespace selector of
        Inl err \<Rightarrow> Inl ''Failed to get alerts from Alertmanager''
      | Inr [] \<Rightarrow> Inl (''Alert '' @ selector @ '' should be firing in namespace '' @ namespace)
      | Inr _ \<Rightarrow> Inr ())"

text \<open>The conditions polled by \<open>WaitUntilNoAlertsFiring\<close> and \<open>WaitUntilAlertFiring\<close>.\<close>

definition no_alerts_now ::
  "config \<Rightarrow> (gostring \<Rightarrow> gostring option) \<Rightarrow> alert_manager \<Rightarrow> regexps \<Rightarrow> prom_client \<Rightarrow> gostring \<Rightarrow>
     gostring list \<Rightarrow> bool" where
  "no_alerts_now c url_error am compile p namespace exceptions =
     (case getFiringAlerts c url_error am compile p namespace exceptions of
        Inl _ \<Rightarrow> False | Inr firing \<Rightarrow> \<not> 0 < length firing)"

definition alert_firing_now ::
  "config \<Rightarrow> (gostring \<Rightarrow> gostring option) \<Rightarrow> alert_manager \<Rightarrow> prom_client \<Rightarrow> gostring \<Rightarrow> gostring \<Rightarrow> bool" where
  "alert_firing_now c url_error am p namespace selector =
     (case getAlertsFromAM c url_error am p namespace selector of
        Inl _ \<Rightarrow> False | Inr alerts \<Rightarrow> length alerts \<noteq> 0)"

subsection \<open>Properties\<close>

lemma in_compiled:
  "re \<in> set (compiled compile exs) \<longleftrightarrow> (\<exists>ex \<in> set (DefaultExceptions @ exs). compile ex = Some re)"
proof -
  have "re \<in> set (case compile ex of None \<Rightarrow> [] | Some r \<Rightarrow> [r]) \<longleftrightarrow> compile ex = Some re" for ex
    by (cases "compile ex") auto
  then show ?thesis by (simp only: compiled_def set_concat set_map UN_iff bex_simps)
qed

lemma excepted_compiled:
  "excepted (compiled compile exs) name =
     list_ex (\<lambda>ex. case compile ex of None \<Rightarrow> False | Some re \<Rightarrow> re name) (DefaultExceptions @ exs)"
proof -
  have c: "(case compile ex of None \<Rightarrow> False | Some re \<Rightarrow> re name) \<longleftrightarrow> (\<exists>re. compile ex = Some re \<and> re name)" for ex
    by (cases "compile ex") auto
  show ?thesis unfolding excepted_def list_ex_iff in_compiled Bex_def c by blast
qed

lemma getFiringAlerts_cases:
  "getFiringAlerts c url_error am compile p ns exs =
     (case getAlertsFromAM c url_error am p ns [] of Inl e \<Rightarrow> Inl e
      | Inr alerts \<Rightarrow> Inr (map describe_alert
          (filter (\<lambda>a. \<not> excepted (compiled compile exs) (alert_name a)) alerts)))"
  by (simp add: getFiringAlerts_def bind_result_def)

text \<open>
  C40: The check that nothing fires passes exactly when Alertmanager answered and every alert of the
  namespace is excepted by a pattern that compiles; an unreachable Alertmanager never passes as
  \<open>no alerts\<close>. The polled condition is the same predicate.
\<close>

theorem CheckNoAlertsFiring_passes_iff:
  "((CheckNoAlertsFiring c url_error am compile p ns exs = Inr ()) =
      (\<exists>alerts. getAlertsFromAM c url_error am p ns [] = Inr alerts \<and>
         list_all (\<lambda>a. list_ex (\<lambda>ex. case compile ex of None \<Rightarrow> False | Some re \<Rightarrow> re (alert_name a))
           (DefaultExceptions @ exs)) alerts)) \<and>
   (no_alerts_now c url_error am compile p ns exs =
      (CheckNoAlertsFiring c url_error am compile p ns exs = Inr ()))"
proof (cases "getAlertsFromAM c url_error am p ns []")
  case (Inl e)
  then show ?thesis by (simp add: CheckNoAlertsFiring_def no_alerts_now_def getFiringAlerts_cases)
next
  case (Inr alerts)
  let ?firing = "filter (\<lambda>a. \<not> excepted (compiled compile exs) (alert_name a)) alerts"
  have "?firing = [] \<longleftrightarrow> list_all (\<lambda>a. excepted (compiled compile exs) (alert_name a)) alerts"
    by (simp add: filter_empty_conv list_all_iff)
  then show ?thesis unfolding excepted_compiled [symmetric]
    by (cases ?firing) (simp_all add: CheckNoAlertsFiring_def no_alerts_now_def getFiringAlerts_cases Inr)
qed

text \<open>A selector is clean when it stands for itself between commas and braces.\<close>

definition clean_matcher :: "gostring \<Rightarrow> bool" where
  "clean_matcher m \<longleftrightarrow> m \<noteq> [] \<and> CHR '','' \<notin> set m \<and>
     \<not> is_space (hd m) \<and> \<not> is_space (last m) \<and> hd m \<notin> set ''{}'' \<and> last m \<notin> set ''{}''"

lemma trim_chars_id:
  assumes "m \<noteq> []" and "\<not> P (hd m)" and "\<not> P (last m)"
  shows "trim_chars P m = m"
proof -
  have "dropWhile P m = m" using assms by (simp add: dropWhile_eq_self_iff)
  moreover have "dropWhile P (rev m) = rev m" using assms by (simp add: dropWhile_eq_self_iff hd_rev)
  ultimately show ?thesis by (simp add: trim_chars_def)
qed

text \<open>
  Label matchers written as a comma-separated list reach Alertmanager one by one, unchanged and
  in order, after the namespace filter; a selector without \<open>=\<close> is an alert name.
\<close>

theorem alert_filters_matchers:
  assumes "ms \<noteq> []" and "list_all clean_matcher ms" and "list_ex (\<lambda>m. Contains m ''='') ms"
  shows "alert_filters ns (Join '','' ms) = (''namespace='' @ ns) # ms"
proof -
  have split: "SplitC (CHR '','') (Join '','' ms) = ms"
    using assms(1,2) by (intro SplitC_Join) (auto simp: clean_matcher_def list_all_iff)
  have each: "Trim (TrimSpace m) ''{}'' = m" if "m \<in> set ms" for m
    using assms(2) that by (simp add: list_all_iff clean_matcher_def Trim_def TrimSpace_def trim_chars_id)
  have "map (\<lambda>part. Trim (TrimSpace part) ''{}'') ms = ms"
    using each by (simp add: map_idI)
  moreover have "CHR ''='' \<in> set (Join '','' ws)" if "list_ex (\<lambda>m. Contains m ''='') ws" for ws
    using that
  proof (induction ws)
    case (Cons w ws)
    then show ?case by (cases ws) (auto simp: Contains_iff)
  qed simp
  then have eq: "CHR ''='' \<in> set (Join '','' ms)" using assms(3) by blast
  then have "Join '','' ms \<noteq> []" by auto
  moreover from eq have "Contains (Join '','' ms) ''=''" by (auto simp: Contains_iff in_set_conv_decomp)
  ultimately show ?thesis by (simp add: alert_filters_def split)
qed

theorem alert_filters_matchers_witness:
  "alert_filters ''vm'' (Join '','' [''alertname=Down'', ''job=api'']) =
     [''namespace=vm'', ''alertname=Down'', ''job=api'']"
proof -
  have "list_all clean_matcher [''alertname=Down'', ''job=api'']"
    by (simp add: clean_matcher_def is_space_def)
  moreover have "list_ex (\<lambda>m. Contains m ''='') [''alertname=Down'', ''job=api'']"
    by (simp add: HasPrefix_def)
  ultimately show ?thesis using alert_filters_matchers [of "[''alertname=Down'', ''job=api'']" "''vm''"] by simp
qed

text \<open>The default URL does not depend on the namespace that is checked.\<close>

lemma amURL_ignores_namespace:
  "AlertManagerURL p = [] \<Longrightarrow> amURL c p = http (AlertManagerHost DefaultVMNamespace c)"
  by (simp add: amURL_def)

end
