(* ===== verification/K6_Bundle.thy ===== *)
theory K6_Bundle
  imports Endpoints
begin

text \<open>
  The per-namespace k6 operator (\<open>pkg/install/k6.go\<close>): environment variables of the runners
  (\<open>MergeEnvVars\<close> of \<open>pkg/helpers/kubernetes.go\<close>), health URLs, and the rewriting of the operator's
  bundle for one namespace. The accessors of \<open>unstructured\<close> objects are those its documentation
  describes: a read reports a missing field, a write creates missing maps and leaves an object
  whose intermediate value is no map as it is.
\<close>

subsection \<open>Environment variables\<close>

text \<open>\<open>extra\<close> is a Go map, ranged over in any order: the list of its entries in that order.\<close>

type_synonym env = "(gostring \<times> gostring) list"

definition MergeEnvVars :: "env \<Rightarrow> env \<Rightarrow> env" where
  "MergeEnvVars base extra = fold (\<lambda>(name, v) b. AList.update name v b) extra base"

definition k6EnvValue :: "env \<Rightarrow> gostring \<Rightarrow> gostring" where
  "k6EnvValue envVars name = (case map_of envVars name of Some v \<Rightarrow> v | None \<Rightarrow> [])"

lemma map_of_merge:
  "distinct (map fst extra) \<Longrightarrow> map_of (MergeEnvVars base extra) = map_of base ++ map_of extra"
proof (induction extra arbitrary: base)
  case Nil
  then show ?case by (simp add: MergeEnvVars_def)
next
  case (Cons e extra)
  obtain n v where e: "e = (n, v)" by (cases e)
  have "map_of (MergeEnvVars base (e # extra)) = map_of (AList.update n v base) ++ map_of extra"
    using Cons by (simp add: MergeEnvVars_def e)
  also have "\<dots> = map_of base ++ map_of (e # extra)"
    using Cons.prems by (auto simp: update_conv' e fun_eq_iff map_add_def split: option.splits)
      (metis fst_conv image_eqI map_of_SomeD option.distinct(1) weak_map_of_SomeI)
  finally show ?case .
qed

text \<open>
  Merging environment variables gives every extra variable its extra value and every other one
  its base value, in whatever order Go ranges over the map, and keeps the base variables in place.
\<close>

theorem MergeEnvVars_overrides:
  assumes "distinct (map fst extra)"
  shows "k6EnvValue (MergeEnvVars base extra) name =
      (case map_of extra name of Some v \<Rightarrow> v | None \<Rightarrow> k6EnvValue base name) \<and>
    (\<exists>added. map fst (MergeEnvVars base extra) = map fst base @ added)"
proof
  show "k6EnvValue (MergeEnvVars base extra) name =
      (case map_of extra name of Some v \<Rightarrow> v | None \<Rightarrow> k6EnvValue base name)"
    using assms by (simp add: k6EnvValue_def map_of_merge map_add_def split: option.split)
  show "\<exists>added. map fst (MergeEnvVars base extra) = map fst base @ added"
  proof (induction extra arbitrary: base)
    case Nil
    then show ?case by (simp add: MergeEnvVars_def)
  next
    case (Cons e extra)
    obtain n v where e: "e = (n, v)" by (cases e)
    from Cons [of "AList.update n v base"] show ?case
      by (auto simp: MergeEnvVars_def e update_keys split: if_splits)
  qed
qed

theorem MergeEnvVars_overrides_witness:
  "k6EnvValue (MergeEnvVars [(''A'', ''1''), (''B'', ''2'')] [(''B'', ''3''), (''C'', ''4'')]) ''B'' = ''3''"
  using MergeEnvVars_overrides [of "[(''B'', ''3''), (''C'', ''4'')]" "[(''A'', ''1''), (''B'', ''2'')]" "''B''"] by simp

subsection \<open>Health URLs\<close>

text \<open>
  The scheme and the authority of an absolute URL without user information, as the framework
  builds them (\<open>url.Parse\<close> gives empty ones for other texts).
\<close>

fun split_scheme :: "gostring \<Rightarrow> gostring \<times> gostring" where
  "split_scheme [] = ([], [])"
| "split_scheme (c # cs) =
     (if HasPrefix (c # cs) ''://'' then ([], drop 3 (c # cs))
      else (case split_scheme cs of (s, r) \<Rightarrow> (c # s, r)))"

definition url_host :: "gostring \<Rightarrow> gostring" where
  "url_host rest = takeWhile (\<lambda>c. c \<notin> set ''/?#'') rest"

definition k6BackendHealthURL :: "gostring \<Rightarrow> gostring" where
  "k6BackendHealthURL rawURL =
     (case split_scheme rawURL of (scheme, rest) \<Rightarrow>
        if scheme = [] \<or> url_host rest = [] then []
        else scheme @ ''://'' @ url_host rest @ ''/health'')"

lemma k6BackendHealthURL_http:
  assumes "host \<noteq> []" and "set host \<inter> set ''/?#'' = {}"
  shows "k6BackendHealthURL (''http://'' @ host @ ''/'' @ path) = ''http://'' @ host @ ''/health''"
proof -
  have "takeWhile (\<lambda>c. c \<notin> set ''/?#'') (host @ CHR ''/'' # path) = host"
    using assms(2) by (induction host) auto
  then have "url_host (host @ ''/'' @ path) = host" by (simp add: url_host_def)
  with assms(1) show ?thesis by (simp add: k6BackendHealthURL_def HasPrefix_def)
qed

subsection \<open>Unstructured objects\<close>

fun nested_field :: "gostring list \<Rightarrow> json \<Rightarrow> json option result" where
  "nested_field [] v = Inr (Some v)"
| "nested_field (k # ks) (JObj fs) =
     (case map_of fs k of None \<Rightarrow> Inr None | Some v \<Rightarrow> nested_field ks v)"
| "nested_field (k # ks) JNull = Inr None"
| "nested_field (k # ks) v = Inl ''accessor error: expected map[string]interface{}''"

definition nested_slice :: "gostring list \<Rightarrow> json \<Rightarrow> json list option result" where
  "nested_slice path obj = bind_result (nested_field path obj) (\<lambda>f. case f of
     None \<Rightarrow> Inr None
   | Some (JArr vs) \<Rightarrow> Inr (Some vs)
   | Some v \<Rightarrow> Inl ''accessor error: expected []interface{}'')"

fun set_nested :: "gostring list \<Rightarrow> json \<Rightarrow> json \<Rightarrow> json result" where
  "set_nested [] v obj = Inr v"
| "set_nested (k # ks) v (JObj fs) =
     bind_result (set_nested ks v (case map_of fs k of None \<Rightarrow> JObj [] | Some w \<Rightarrow> w))
       (\<lambda>w. Inr (JObj (AList.update k w fs)))"
| "set_nested (k # ks) v obj = Inl ''value cannot be set because it is not a map[string]interface{}''"

definition set_ignoring :: "gostring list \<Rightarrow> json \<Rightarrow> json \<Rightarrow> json" where
  "set_ignoring path v obj = (case set_nested path v obj of Inr obj' \<Rightarrow> obj' | Inl err \<Rightarrow> obj)"

definition GetKind :: "json \<Rightarrow> gostring" where "GetKind obj = jstr (jfield ''kind'' obj)"
definition GetName :: "json \<Rightarrow> gostring" where "GetName obj = jstr (jpath [''metadata'', ''name''] obj)"
definition GetNamespaceOf :: "json \<Rightarrow> gostring" where
  "GetNamespaceOf obj = jstr (jpath [''metadata'', ''namespace''] obj)"
definition SetName :: "gostring \<Rightarrow> json \<Rightarrow> json" where
  "SetName name obj = set_ignoring [''metadata'', ''name''] (JStr name) obj"
definition SetNamespace :: "gostring \<Rightarrow> json \<Rightarrow> json" where
  "SetNamespace namespace obj = set_ignoring [''metadata'', ''namespace''] (JStr namespace) obj"

subsection \<open>The bundle\<close>

definition k6PerNamespaceName :: "gostring \<Rightarrow> gostring \<Rightarrow> gostring" where
  "k6PerNamespaceName base namespace = base @ ''-'' @ namespace"

definition k6ManagerContainerName :: gostring where "k6ManagerContainerName = ''manager''"

fun retarget_subject :: "gostring \<Rightarrow> json \<Rightarrow> json" where
  "retarget_subject namespace (JObj fs) = JObj (AList.update ''namespace'' (JStr namespace) fs)"
| "retarget_subject namespace v = v"

definition retargetSubjectsNamespace :: "gostring \<Rightarrow> json \<Rightarrow> json" where
  "retargetSubjectsNamespace namespace obj =
     (case nested_slice [''subjects''] obj of
        Inr (Some subjects) \<Rightarrow> set_ignoring [''subjects''] (JArr (map (retarget_subject namespace) subjects)) obj
      | _ \<Rightarrow> obj)"

definition watch_var :: "gostring \<Rightarrow> json" where
  "watch_var namespace = JObj [(''name'', JStr ''WATCH_NAMESPACE''), (''value'', JStr namespace)]"

definition env_of :: "json \<Rightarrow> json list" where
  "env_of container = (case nested_slice [''env''] container of Inr (Some env) \<Rightarrow> env | _ \<Rightarrow> [])"

fun inject_container :: "gostring \<Rightarrow> json \<Rightarrow> json" where
  "inject_container namespace (JObj fs) =
     (if map_of fs ''name'' \<noteq> Some (JStr k6ManagerContainerName) then JObj fs
      else JObj (AList.update ''env'' (JArr (env_of (JObj fs) @ [watch_var namespace])) fs))"
| "inject_container namespace v = v"

definition containers_path :: "gostring list" where
  "containers_path = [''spec'', ''template'', ''spec'', ''containers'']"

definition injectWatchNamespaceEnv :: "gostring \<Rightarrow> json \<Rightarrow> json result" where
  "injectWatchNamespaceEnv namespace obj =
     (case nested_slice containers_path obj of
        Inl err \<Rightarrow> Inl (''reading containers: '' @ err)
      | Inr None \<Rightarrow> Inl ''no containers found in Deployment''
      | Inr (Some containers) \<Rightarrow> set_nested containers_path (JArr (map (inject_container namespace) containers)) obj)"

definition retarget_doc :: "gostring \<Rightarrow> json \<Rightarrow> json result" where
  "retarget_doc namespace obj =
     (let kind = GetKind obj in
      if kind = ''ClusterRoleBinding'' then
        Inr (retargetSubjectsNamespace namespace (SetName (k6PerNamespaceName (GetName obj) namespace) obj))
      else if kind \<in> {''ServiceAccount'', ''Role'', ''Service''} then Inr (SetNamespace namespace obj)
      else if kind = ''RoleBinding'' then Inr (retargetSubjectsNamespace namespace (SetNamespace namespace obj))
      else if kind = ''Deployment'' then injectWatchNamespaceEnv namespace (SetNamespace namespace obj)
      else Inr obj)"

text \<open>
  \<open>raws\<close> are the documents the YAML reader yields, the last one possibly a read error; \<open>unmarshal\<close>
  and \<open>marshal\<close> are the YAML codec.
\<close>

fun retarget_docs ::
  "(gostring \<Rightarrow> json result) \<Rightarrow> (json \<Rightarrow> gostring result) \<Rightarrow> gostring result list \<Rightarrow> gostring \<Rightarrow> gostring list result" where
  "retarget_docs unmarshal marshal [] namespace = Inr []"
| "retarget_docs unmarshal marshal (Inl err # raws) namespace = Inl (''failed to read YAML document: '' @ err)"
| "retarget_docs unmarshal marshal (Inr raw # raws) namespace =
     (if length (TrimSpace raw) = 0 then retarget_docs unmarshal marshal raws namespace
      else case unmarshal raw of
        Inl err \<Rightarrow> Inl (''failed to unmarshal document: '' @ err)
      | Inr obj \<Rightarrow>
          bind_result (retarget_doc namespace obj) (\<lambda>obj'.
          case marshal obj' of
            Inl err \<Rightarrow> Inl (''failed to marshal document: '' @ err)
          | Inr out \<Rightarrow> bind_result (retarget_docs unmarshal marshal raws namespace) (\<lambda>docs. Inr (out # docs))))"

definition retargetK6Bundle ::
  "(gostring \<Rightarrow> json result) \<Rightarrow> (json \<Rightarrow> gostring result) \<Rightarrow> gostring result list \<Rightarrow> gostring \<Rightarrow> gostring result" where
  "retargetK6Bundle unmarshal marshal raws namespace =
     bind_result (retarget_docs unmarshal marshal raws namespace) (\<lambda>docs. Inr (Join (''---'' @ [nl]) docs))"

subsection \<open>Independent operators\<close>

lemma set_nested_frame: "set_nested (k # ks) v obj = Inr obj' \<Longrightarrow> k' \<noteq> k \<Longrightarrow> jfield k' obj' = jfield k' obj"
  by (cases obj) (auto simp: bind_result_Inr)

lemma set_ignoring_frame: "k' \<noteq> k \<Longrightarrow> jfield k' (set_ignoring (k # ks) v obj) = jfield k' obj"
  by (auto simp: set_ignoring_def set_nested_frame split: sum.split)

definition has_metadata :: "json \<Rightarrow> bool" where
  "has_metadata obj \<longleftrightarrow> (case obj of JObj fs \<Rightarrow> (case map_of fs ''metadata'' of Some (JObj m) \<Rightarrow> True | _ \<Rightarrow> False)
     | _ \<Rightarrow> False)"

lemma has_metadataE:
  assumes "has_metadata obj"
  obtains fs m where "obj = JObj fs" "map_of fs ''metadata'' = Some (JObj m)"
proof (cases obj)
  case (JObj fs)
  with assms obtain v where v: "map_of fs ''metadata'' = Some v"
    by (auto simp: has_metadata_def split: option.splits)
  with assms JObj obtain m where "v = JObj m" by (cases v) (simp_all add: has_metadata_def)
  with v JObj that show thesis by blast
qed (use assms in \<open>simp_all add: has_metadata_def\<close>)

lemma SetNamespace_identity:
  assumes "has_metadata obj"
  shows "GetNamespaceOf (SetNamespace ns obj) = ns" "GetName (SetNamespace ns obj) = GetName obj"
    "GetKind (SetNamespace ns obj) = GetKind obj" "has_metadata (SetNamespace ns obj)"
proof -
  obtain fs m where o: "obj = JObj fs" "map_of fs ''metadata'' = Some (JObj m)"
    using assms by (rule has_metadataE)
  then have s: "SetNamespace ns obj =
      JObj (AList.update ''metadata'' (JObj (AList.update ''namespace'' (JStr ns) m)) fs)"
    by (simp add: SetNamespace_def set_ignoring_def)
  show "GetNamespaceOf (SetNamespace ns obj) = ns" "GetName (SetNamespace ns obj) = GetName obj"
    "GetKind (SetNamespace ns obj) = GetKind obj" "has_metadata (SetNamespace ns obj)"
    unfolding s using o by (simp_all add: GetNamespaceOf_def GetName_def GetKind_def has_metadata_def update_conv')
qed

lemma SetName_identity:
  assumes "has_metadata obj"
  shows "GetName (SetName name obj) = name" "GetKind (SetName name obj) = GetKind obj"
proof -
  obtain fs m where o: "obj = JObj fs" "map_of fs ''metadata'' = Some (JObj m)"
    using assms by (rule has_metadataE)
  then have s: "SetName name obj =
      JObj (AList.update ''metadata'' (JObj (AList.update ''name'' (JStr name) m)) fs)"
    by (simp add: SetName_def set_ignoring_def)
  show "GetName (SetName name obj) = name" "GetKind (SetName name obj) = GetKind obj"
    unfolding s using o by (simp_all add: GetName_def GetKind_def)
qed

lemma retargetSubjects_frame: "k \<noteq> ''subjects'' \<Longrightarrow> jfield k (retargetSubjectsNamespace ns obj) = jfield k obj"
  by (simp add: retargetSubjectsNamespace_def set_ignoring_frame split: sum.split option.split)

lemma retargetSubjects_identity [simp]:
  "GetName (retargetSubjectsNamespace ns obj) = GetName obj" "GetKind (retargetSubjectsNamespace ns obj) = GetKind obj"
  "GetNamespaceOf (retargetSubjectsNamespace ns obj) = GetNamespaceOf obj"
  by (simp_all add: GetName_def GetKind_def GetNamespaceOf_def retargetSubjects_frame)

lemma inject_frame: "injectWatchNamespaceEnv ns obj = Inr obj' \<Longrightarrow> k \<noteq> ''spec'' \<Longrightarrow> jfield k obj' = jfield k obj"
  by (auto simp: injectWatchNamespaceEnv_def containers_path_def dest: set_nested_frame
      simp del: set_nested.simps split: sum.splits option.splits)

lemma inject_identity:
  assumes "injectWatchNamespaceEnv ns obj = Inr obj'"
  shows "GetName obj' = GetName obj" "GetKind obj' = GetKind obj" "GetNamespaceOf obj' = GetNamespaceOf obj"
  using inject_frame [OF assms, of "''metadata''"] inject_frame [OF assms, of "''kind''"]
  by (simp_all add: GetName_def GetKind_def GetNamespaceOf_def)

definition namespaced_kinds :: "gostring set" where
  "namespaced_kinds = {''ServiceAccount'', ''Role'', ''Service'', ''RoleBinding'', ''Deployment''}"

definition identity :: "json \<Rightarrow> gostring \<times> gostring \<times> gostring" where
  "identity obj = (GetKind obj, GetNamespaceOf obj, GetName obj)"

lemma retarget_namespaced:
  assumes "has_metadata obj" and "GetKind obj \<in> namespaced_kinds" and "retarget_doc ns obj = Inr obj'"
  shows "identity obj' = (GetKind obj, ns, GetName obj)"
  using assms SetNamespace_identity [OF assms(1), of ns]
  by (auto simp: retarget_doc_def namespaced_kinds_def identity_def Let_def inject_identity)

lemma retarget_clusterrolebinding:
  assumes "has_metadata obj" and "GetKind obj = ''ClusterRoleBinding''" and "retarget_doc ns obj = Inr obj'"
  shows "GetKind obj' = GetKind obj" "GetName obj' = k6PerNamespaceName (GetName obj) ns"
  using assms SetName_identity [OF assms(1)] by (auto simp: retarget_doc_def Let_def)

lemma retarget_shared:
  "GetKind obj \<notin> insert ''ClusterRoleBinding'' namespaced_kinds \<Longrightarrow> retarget_doc ns obj = Inr obj"
  by (simp add: retarget_doc_def namespaced_kinds_def Let_def)

text \<open>
  C28: The k6 operators of two namespaces never fight over a resource: the document of the bundle
  installed for one namespace and for another is either the same shared document, unchanged, or
  yields two resources with different identities (kind, namespace and name).
\<close>

theorem k6_operators_do_not_collide:
  assumes "has_metadata obj" and "ns \<noteq> ns'"
    and "retarget_doc ns obj = Inr a" and "retarget_doc ns' obj = Inr b"
  shows "if GetKind obj \<in> insert ''ClusterRoleBinding'' namespaced_kinds then identity a \<noteq> identity b
    else a = obj \<and> b = obj"
proof -
  consider "GetKind obj \<in> namespaced_kinds" | "GetKind obj = ''ClusterRoleBinding''"
    | "GetKind obj \<notin> insert ''ClusterRoleBinding'' namespaced_kinds" by blast
  then show ?thesis
  proof cases
    case 1
    with assms show ?thesis
      using retarget_namespaced [OF assms(1) 1 assms(3)] retarget_namespaced [OF assms(1) 1 assms(4)] by simp
  next
    case 2
    have "GetName a \<noteq> GetName b"
      using retarget_clusterrolebinding(2) [OF assms(1) 2 assms(3)]
        retarget_clusterrolebinding(2) [OF assms(1) 2 assms(4)] assms(2)
      by (simp add: k6PerNamespaceName_def)
    with 2 show ?thesis by (simp add: identity_def)
  next
    case 3
    with assms(3,4) show ?thesis by (simp add: retarget_shared)
  qed
qed

definition demo_binding :: json where
  "demo_binding = JObj [(''kind'', JStr ''ClusterRoleBinding''),
     (''metadata'', JObj [(''name'', JStr ''k6-operator-manager-rolebinding'')]),
     (''subjects'', JArr [JObj [(''kind'', JStr ''ServiceAccount''), (''namespace'', JStr ''k6-operator-system'')]])]"

theorem k6_operators_do_not_collide_witness:
  "\<exists>a b. retarget_doc ''x'' demo_binding = Inr a \<and> retarget_doc ''y'' demo_binding = Inr b \<and> identity a \<noteq> identity b"
proof -
  have k: "GetKind demo_binding = ''ClusterRoleBinding''" by (simp add: GetKind_def demo_binding_def)
  then obtain a b where ab: "retarget_doc ''x'' demo_binding = Inr a" "retarget_doc ''y'' demo_binding = Inr b"
    by (simp add: retarget_doc_def Let_def)
  have "if GetKind demo_binding \<in> insert ''ClusterRoleBinding'' namespaced_kinds then identity a \<noteq> identity b
    else a = demo_binding \<and> b = demo_binding"
    by (rule k6_operators_do_not_collide [OF _ _ ab]) (simp_all add: has_metadata_def demo_binding_def)
  with k ab show ?thesis by simp
qed

text \<open>The manager container gets the variable at the end of its environment, the others keep theirs.\<close>

lemma injected_env:
  assumes "map_of fs ''name'' = Some (JStr k6ManagerContainerName)"
  shows "env_of (inject_container ns (JObj fs)) = env_of (JObj fs) @ [watch_var ns]"
  using assms by (simp add: env_of_def nested_slice_def update_conv')

end
