(* ===== verification/GoTime.thy ===== *)
theory GoTime
  imports Config
begin

text \<open>
  The printed form of a \<open>time.Duration\<close> (\<open>Duration.String\<close>) and its rounding to a multiple, as the
  command lines and manifests of the repository use them. The unit of microseconds is printed by
  Go with the two bytes of the Greek letter mu.
\<close>

definition strip_zeros :: "gostring \<Rightarrow> gostring" where
  "strip_zeros s = rev (dropWhile (\<lambda>c. c = CHR ''0'') (rev s))"

definition pad_zeros :: "nat \<Rightarrow> gostring \<Rightarrow> gostring" where
  "pad_zeros n s = replicate (n - length s) (CHR ''0'') @ s"

text \<open>\<open>fmtFrac\<close>: the fraction of \<open>v\<close> over \<open>10 ^ prec\<close> without trailing zeros.\<close>

definition fmtFrac :: "nat \<Rightarrow> nat \<Rightarrow> gostring" where
  "fmtFrac v prec =
     (let r = v mod 10 ^ prec
      in if r = 0 then [] else ''.'' @ strip_zeros (pad_zeros prec (nat_str r)))"

definition with_unit :: "nat \<Rightarrow> nat \<Rightarrow> gostring \<Rightarrow> gostring" where
  "with_unit u prec unit = nat_str (u div 10 ^ prec) @ fmtFrac u prec @ unit"

definition abs_duration_String :: "nat \<Rightarrow> gostring" where
  "abs_duration_String u =
     (if u = 0 then ''0s''
      else if u < 10 ^ 9 then
        (if u < 10 ^ 3 then nat_str u @ ''ns''
         else if u < 10 ^ 6 then with_unit u 3 [CHR 0xC2, CHR 0xB5, CHR ''s'']
         else with_unit u 6 ''ms'')
      else
        (let s = u div 10 ^ 9; m = s div 60; h = m div 60;
             secs = nat_str (s mod 60) @ fmtFrac u 9 @ ''s''
         in if m = 0 then secs
            else if h = 0 then nat_str (m mod 60) @ ''m'' @ secs
            else nat_str h @ ''h'' @ nat_str (m mod 60) @ ''m'' @ secs))"

definition duration_String :: "duration \<Rightarrow> gostring" where
  "duration_String d = (if d < 0 then ''-'' @ abs_duration_String (nat (- d)) else abs_duration_String (nat d))"

text \<open>\<open>Duration.Round\<close>: the nearest multiple of \<open>m\<close>, halves away from zero.\<close>

definition Round :: "duration \<Rightarrow> duration \<Rightarrow> duration" where
  "Round d m =
     (if m \<le> 0 then d
      else if d < 0 then - (((- d) div m) * m + (if (- d) mod m + (- d) mod m < m then 0 else m))
      else (d div m) * m + (if d mod m + d mod m < m then 0 else m))"

lemma duration_String_minutes:
  assumes "0 < m" and "m < 60"
  shows "duration_String (m * Minute) = nat_str (nat m) @ ''m0s''"
proof -
  have n: "nat (m * Minute) = nat m * (60 * 10 ^ 9)"
    using assms(1) by (simp add: Minute_def Second_def nat_mult_distrib)
  have d: "(nat m * (60 * 10 ^ 9)) div (10 ^ 9 :: nat) = nat m * 60"
    using div_mult_self_is_m [of "10 ^ 9" "nat m * 60"] by (simp add: mult.assoc)
  have "\<not> nat m * (60 * 10 ^ 9) < (10 ^ 9 :: nat)" "nat m * (60 * 10 ^ 9) \<noteq> (0 :: nat)" using assms(1) by simp_all
  moreover have "nat m * 60 div 60 = nat m" by simp
  moreover have "nat m div 60 = 0" "nat m \<noteq> 0" "nat m mod 60 = nat m" using assms by simp_all
  moreover have "fmtFrac (nat m * (60 * 10 ^ 9)) 9 = []"
    unfolding fmtFrac_def by (simp add: mod_mult_right_eq)
  moreover have "nat_str 0 = ''0''" by (simp add: nat_str.simps digits)
  moreover have "\<not> m * Minute < 0" using assms(1) by (simp add: Minute_def Second_def)
  ultimately show ?thesis
    unfolding duration_String_def abs_duration_String_def n d Let_def by simp
qed

lemma Round_multiple: "0 < m \<Longrightarrow> m dvd Round d m"
  by (auto simp: Round_def)

lemma round_quotient:
  fixes a m :: int
  assumes "0 < m"
  shows "\<bar>2 * ((a div m) * m + (if a mod m + a mod m < m then 0 else m) - a)\<bar> \<le> m"
proof -
  define q r where "q = (a div m) * m" and "r = a mod m"
  have "a = q + r" by (simp add: q_def r_def)
  moreover have "0 \<le> r" "r < m" using assms by (simp_all add: r_def)
  ultimately show ?thesis unfolding q_def [symmetric] r_def [symmetric] by auto
qed

lemma Round_near:
  assumes "0 < m" shows "\<bar>2 * (Round d m - d)\<bar> \<le> m"
proof (cases "d < 0")
  case True
  define x where "x = ((- d) div m) * m + (if (- d) mod m + (- d) mod m < m then 0 else m)"
  have e: "Round d m = - x"
    using True assms by (simp add: Round_def x_def)
  have "\<bar>2 * (x - (- d))\<bar> \<le> m" unfolding x_def by (rule round_quotient [OF assms])
  then have "2 * (x + d) \<le> m" "- (2 * (x + d)) \<le> m" by (simp_all add: abs_le_iff)
  then show ?thesis unfolding e by (simp add: abs_le_iff)
next
  case False
  have e: "Round d m = (d div m) * m + (if d mod m + d mod m < m then 0 else m)"
    using False assms by (simp add: Round_def)
  show ?thesis unfolding e by (rule round_quotient [OF assms])
qed

lemma durations_printed:
  "duration_String (30 * Second) = ''30s''" "duration_String VMClusterWaitTimeout = ''5m0s''"
  "duration_String (90 * Minute) = ''1h30m0s''" "duration_String 1500000 = ''1.5ms''"
  by (simp_all add: duration_String_def abs_duration_String_def with_unit_def fmtFrac_def strip_zeros_def
      pad_zeros_def Minute_def Second_def VMClusterWaitTimeout_def nat_str.simps digits)

end
