(* ===== verification/Effects.thy ===== *)
theory Effects
  imports Prelude
begin

text \<open>
  Programs that act on the cluster. Every action of the install functions is a \<open>call\<close>; the
  cluster is the function \<open>w_answer\<close>, which answers a call knowing all calls before it, so it may
  depend on their history in any way; the calls made are recorded in \<open>w_trace\<close>. A program returns
  a result or fails the test (\<open>t.Fatalf\<close>, \<open>require.NoError\<close>), and after a failure makes no
  further call.
\<close>

subsection \<open>Calls\<close>

datatype manifest = Document json | ManifestText gostring

record KubectlOptions =
  ko_ContextName :: gostring
  ko_ConfigPath :: gostring
  ko_Namespace :: gostring
  ko_RequestTimeout :: int

definition NewKubectlOptions :: "gostring \<Rightarrow> gostring \<Rightarrow> gostring \<Rightarrow> KubectlOptions" where
  "NewKubectlOptions contextName configPath namespace =
     \<lparr>ko_ContextName = contextName, ko_ConfigPath = configPath, ko_Namespace = namespace, ko_RequestTimeout = 0\<rparr>"

text \<open>
  \<open>TryKubectl\<close> is the variant whose error the caller looks at, \<open>ApplyString\<close> the repository's own
  \<open>KubectlApplyFromString\<close> with its retries (theory \<open>Kubectl\<close>), \<open>ApplyPlain\<close> the one of terratest,
  \<open>WaitOperational\<close> a wait for a custom resource (theory \<open>Waiting\<close>).
\<close>

datatype call =
    GetNamespace KubectlOptions gostring
  | CreateNamespace KubectlOptions gostring
  | RunKubectl KubectlOptions "gostring list"
  | TryKubectl KubectlOptions "gostring list"
  | ApplyFile KubectlOptions gostring
  | ApplyString KubectlOptions manifest
  | ApplyPlain KubectlOptions manifest
  | ReadFile gostring
  | WaitDeployment KubectlOptions gostring int int
  | WaitJob KubectlOptions gostring int int
  | WaitHTTP "gostring list"
  | WaitTCP gostring
  | WaitOperational gostring KubectlOptions gostring gostring int
  | WaitCRDs KubectlOptions "gostring list"
  | WaitIngress KubectlOptions
  | WaitReady KubectlOptions "gostring list" int int
  | HelmRun "gostring list"
  | HelmUpgrade KubectlOptions gostring gostring gostring "(gostring \<times> gostring) list" "(gostring \<times> gostring) list" "gostring list" "gostring list"
  | HTTPGet gostring
  | GetDeployment KubectlOptions gostring
  | UpdateVMAlert gostring gostring gostring
  | WaitClusterIP gostring gostring
  | ListPods KubectlOptions gostring
  | DeletePod gostring gostring
  | DeleteSeries gostring

record world =
  w_trace :: "call list"
  w_answer :: "call list \<Rightarrow> call \<Rightarrow> gostring result"

type_synonym 'a prog = "world \<Rightarrow> 'a result \<times> world"

definition ret :: "'a \<Rightarrow> 'a prog" where "ret x w = (Inr x, w)"
definition fatal :: "gostring \<Rightarrow> 'a prog" where "fatal msg w = (Inl msg, w)"
definition lift_result :: "'a result \<Rightarrow> 'a prog" where "lift_result r w = (r, w)"

definition chain :: "'a prog \<Rightarrow> ('a \<Rightarrow> 'b prog) \<Rightarrow> 'b prog" where
  "chain m f w = (case m w of (Inl e, w') \<Rightarrow> (Inl e, w') | (Inr x, w') \<Rightarrow> f x w')"

text \<open>\<open>perform\<close> hands the answer to the program; \<open>must\<close> fails the test on an error.\<close>

definition perform :: "call \<Rightarrow> gostring result prog" where
  "perform c w = (Inr (w_answer w (w_trace w) c), w\<lparr>w_trace := w_trace w @ [c]\<rparr>)"

definition must :: "call \<Rightarrow> gostring prog" where
  "must c = chain (perform c) (\<lambda>a. lift_result a)"

fun run_musts :: "call list \<Rightarrow> unit prog" where
  "run_musts [] = ret ()"
| "run_musts (c # cs) = chain (must c) (\<lambda>_. run_musts cs)"

subsection \<open>Successful runs\<close>

lemma chain_Inr:
  "chain m f w = (Inr y, w') \<longleftrightarrow> (\<exists>x w1. m w = (Inr x, w1) \<and> f x w1 = (Inr y, w'))"
  by (cases "m w"; cases "fst (m w)") (auto simp: chain_def)

lemma ret_Inr: "ret x w = (Inr y, w') \<longleftrightarrow> y = x \<and> w' = w"
  by (auto simp: ret_def)

lemma fatal_Inr: "\<not> fatal msg w = (Inr y, w')"
  by (simp add: fatal_def)

lemma lift_result_Inr: "lift_result r w = (Inr y, w') \<longleftrightarrow> r = Inr y \<and> w' = w"
  by (auto simp: lift_result_def)

lemma perform_Inr:
  "perform c w = (Inr a, w') \<longleftrightarrow> a = w_answer w (w_trace w) c \<and> w' = w\<lparr>w_trace := w_trace w @ [c]\<rparr>"
  by (auto simp: perform_def)

lemma must_Inr:
  "must c w = (Inr x, w') \<longleftrightarrow>
     w_answer w (w_trace w) c = Inr x \<and> w' = w\<lparr>w_trace := w_trace w @ [c]\<rparr>"
  by (auto simp: must_def chain_Inr perform_Inr lift_result_Inr)

lemmas runs_Inr = chain_Inr ret_Inr fatal_Inr lift_result_Inr perform_Inr must_Inr

lemma run_musts_append: "run_musts (cs @ ds) = chain (run_musts cs) (\<lambda>_. run_musts ds)"
proof (induction cs)
  case Nil
  show ?case by (simp add: fun_eq_iff chain_def ret_def)
next
  case (Cons c cs)
  then show ?case
    by (simp add: fun_eq_iff chain_def split: prod.splits sum.splits)
qed

lemma run_musts_trace:
  "run_musts cs w = (Inr (), w') \<Longrightarrow> w_trace w' = w_trace w @ cs \<and> w_answer w' = w_answer w"
  by (induction cs arbitrary: w) (auto simp: runs_Inr)

subsection \<open>Failing fast\<close>

text \<open>
  The interface of programs that stop at the first failure: whatever the result, the trace grows
  by calls of which only the last can have failed, and only if the program then fails. Probes (for
  a namespace, with a tolerant \<open>kubectl\<close>) and the best-effort deletion of series are allowed to fail,
  since the program reacts to their answer.
\<close>

definition tolerated :: "call \<Rightarrow> bool" where
  "tolerated c \<longleftrightarrow> (\<exists>ko ns. c = GetNamespace ko ns) \<or> (\<exists>ko args. c = TryKubectl ko args) \<or>
     (\<exists>url. c = DeleteSeries url)"

definition succeeded :: "world \<Rightarrow> call list \<Rightarrow> nat \<Rightarrow> bool" where
  "succeeded w cs i \<longleftrightarrow> (\<exists>a. w_answer w (w_trace w @ take i cs) (cs ! i) = Inr a)"

definition grows :: "world \<Rightarrow> 'a result \<Rightarrow> world \<Rightarrow> call list \<Rightarrow> bool" where
  "grows w r w' cs \<longleftrightarrow> w_trace w' = w_trace w @ cs \<and> w_answer w' = w_answer w \<and>
     (\<forall>i < length cs. succeeded w cs i \<or> tolerated (cs ! i) \<or> Suc i = length cs \<and> (\<exists>e. r = Inl e))"

locale fail_fast =
  fixes p :: "'a prog"
  assumes steps: "p w = (r, w') \<Longrightarrow> \<exists>cs. grows w r w' cs"
begin

lemma stops_after_failure:
  assumes "p w = (r, w')"
  shows "\<exists>cs. w_trace w' = w_trace w @ cs \<and>
    (\<forall>i. Suc i < length cs \<longrightarrow> succeeded w cs i \<or> tolerated (cs ! i))"
proof -
  from steps [OF assms] obtain cs where g: "grows w r w' cs" ..
  have mid: "succeeded w cs i \<or> tolerated (cs ! i)" if "Suc i < length cs" for i
  proof -
    from that have i: "i < length cs" by simp
    with g have "succeeded w cs i \<or> tolerated (cs ! i) \<or> Suc i = length cs \<and> (\<exists>e. r = Inl e)"
      unfolding grows_def by blast
    moreover have "Suc i \<noteq> length cs" using that by simp
    ultimately show ?thesis by blast
  qed
  have "w_trace w' = w_trace w @ cs" using g unfolding grows_def by (rule conjunct1)
  with mid show ?thesis by (intro exI [of _ cs]) simp
qed

lemma failed_step_ends:
  assumes "p w = (Inr x, w')"
  shows "\<exists>cs. w_trace w' = w_trace w @ cs \<and>
    (\<forall>i < length cs. succeeded w cs i \<or> tolerated (cs ! i))"
  using steps [OF assms] unfolding grows_def by auto

end

lemma succeeded_shift:
  "w_trace w1 = w_trace w @ cs \<Longrightarrow> w_answer w1 = w_answer w \<Longrightarrow>
     succeeded w1 ds i \<longleftrightarrow> succeeded w (cs @ ds) (length cs + i)"
  by (simp add: succeeded_def)

lemma succeeded_prefix: "i < length cs \<Longrightarrow> succeeded w (cs @ ds) i \<longleftrightarrow> succeeded w cs i"
  by (simp add: succeeded_def nth_append)

lemma grows_trans:
  assumes "grows w (Inr x) w1 cs" and "grows w1 r w' ds"
  shows "grows w r w' (cs @ ds)"
proof -
  have a: "succeeded w (cs @ ds) i \<or> tolerated ((cs @ ds) ! i) \<or> Suc i = length (cs @ ds) \<and> (\<exists>e. r = Inl e)"
    if i: "i < length (cs @ ds)" for i
  proof (cases "i < length cs")
    case True
    with assms(1) show ?thesis unfolding grows_def
      by (auto simp: succeeded_prefix nth_append)
  next
    case False
    then obtain j where j: "i = length cs + j" "j < length ds" using i by (metis add_diff_inverse_nat
          length_append nat_add_left_cancel_less)
    with assms succeeded_shift [of w1 w cs ds j] show ?thesis unfolding grows_def
      by (auto simp: nth_append)
  qed
  with assms show ?thesis unfolding grows_def by auto
qed

text \<open>Fail-fast programs compose.\<close>

named_theorems ff \<open>rules showing that a program fails fast\<close>

lemma ff_ret [ff]: "fail_fast (ret x)"
  by unfold_locales (auto simp: ret_def grows_def)

lemma ff_fatal [ff]: "fail_fast (fatal msg)"
  by unfold_locales (auto simp: fatal_def grows_def)

lemma ff_lift [ff]: "fail_fast (lift_result r)"
  by unfold_locales (auto simp: lift_result_def grows_def)

lemma ff_must [ff]: "fail_fast (must c)"
proof
  fix w r w' assume "must c w = (r, w')"
  then have r: "r = w_answer w (w_trace w) c" "w' = w\<lparr>w_trace := w_trace w @ [c]\<rparr>"
    by (simp_all add: must_def chain_def perform_def lift_result_def)
  have "grows w r w' [c]"
    by (cases r) (use r in \<open>simp_all add: grows_def succeeded_def\<close>)
  then show "\<exists>cs. grows w r w' cs" ..
qed

lemma ff_probe: "tolerated c \<Longrightarrow> fail_fast (perform c)"
proof
  fix w r w' assume "tolerated c" and "perform c w = (r, w')"
  then have "grows w r w' [c]"
    by (auto simp: perform_def grows_def)
  then show "\<exists>cs. grows w r w' cs" ..
qed

lemma ff_probe_namespace [ff]: "fail_fast (perform (GetNamespace ko ns))"
  by (rule ff_probe) (simp add: tolerated_def)

lemma ff_probe_kubectl [ff]: "fail_fast (perform (TryKubectl ko args))"
  by (rule ff_probe) (simp add: tolerated_def)

lemma ff_probe_series [ff]: "fail_fast (perform (DeleteSeries url))"
  by (rule ff_probe) (simp add: tolerated_def)

text \<open>A call whose failure the program turns into a failure of its own.\<close>

lemma ff_checked:
  assumes "\<And>e. \<exists>e'. g (Inl e) = Inl e'"
  shows "fail_fast (chain (perform c) (\<lambda>a. lift_result (g a)))"
proof
  fix w r w' assume "chain (perform c) (\<lambda>a. lift_result (g a)) w = (r, w')"
  then have r: "r = g (w_answer w (w_trace w) c)" "w' = w\<lparr>w_trace := w_trace w @ [c]\<rparr>"
    by (simp_all add: chain_def perform_def lift_result_def)
  have "grows w r w' [c]"
  proof (cases "w_answer w (w_trace w) c")
    case (Inl e)
    with r assms [of e] show ?thesis by (auto simp: grows_def)
  next
    case (Inr a)
    with r show ?thesis by (simp add: grows_def succeeded_def)
  qed
  then show "\<exists>cs. grows w r w' cs" ..
qed

lemma ff_chain [ff]:
  assumes "fail_fast m" and "\<And>x. fail_fast (f x)"
  shows "fail_fast (chain m f)"
proof
  fix w r w' assume run: "chain m f w = (r, w')"
  obtain r1 w1 where m: "m w = (r1, w1)" by (cases "m w")
  from fail_fast.steps [OF assms(1) m] obtain cs where cs: "grows w r1 w1 cs" ..
  show "\<exists>cs. grows w r w' cs"
  proof (cases r1)
    case (Inl e)
    with run m have "r = Inl e" "w' = w1" by (auto simp: chain_def)
    with cs Inl show ?thesis by (auto simp: grows_def)
  next
    case (Inr x)
    with run m have "f x w1 = (r, w')" by (simp add: chain_def)
    from fail_fast.steps [OF assms(2) this] obtain ds where "grows w1 r w' ds" ..
    with cs Inr show ?thesis by (blast intro: grows_trans)
  qed
qed

lemma ff_run_musts [ff]: "fail_fast (run_musts cs)"
  by (induction cs) (auto intro: ff)

lemma ff_if [ff]: "fail_fast p \<Longrightarrow> fail_fast q \<Longrightarrow> fail_fast (if b then p else q)"
  by simp

lemma ff_sum [ff]: "(\<And>e. fail_fast (f e)) \<Longrightarrow> (\<And>x. fail_fast (g x)) \<Longrightarrow> fail_fast (case r of Inl e \<Rightarrow> f e | Inr x \<Rightarrow> g x)"
  by (cases r) simp_all

end
