(* ===== verification/Manifests.thy ===== *)
theory Manifests
  imports Endpoints GoTime Effects
begin

text \<open>
  The manifests the install functions build (\<open>pkg/install\<close>): JSON patches and the license patch,
  the image patches, what is read back from a patched cluster, ingresses, the base agents and
  the VMDistributed resource. A JSON document is a \<open>json\<close> value. The YAML converters and the
  JSON-patch library are third-party code, gathered in the record \<open>tools\<close>; a patch is an opaque
  value of type \<open>'p\<close> that \<open>tl_decode\<close> makes from a list of operations. Patches that the code writes
  as JSON text are given as the operations the text spells.
\<close>

subsection \<open>Patches\<close>

record PatchOp =
  po_Op :: gostring
  po_Path :: gostring
  po_Value :: json

record 'p tools =
  tl_decode :: "PatchOp list \<Rightarrow> 'p result"
  tl_apply :: "'p \<Rightarrow> json \<Rightarrow> json result"
  tl_yaml :: "gostring \<Rightarrow> json result"
  tl_to_yaml :: "json \<Rightarrow> gostring result"
  tl_secret :: "secret \<Rightarrow> gostring result"

definition CreateJsonPatch :: "'p tools \<Rightarrow> PatchOp list \<Rightarrow> 'p result" where
  "CreateJsonPatch ts ops = tl_decode ts ops"

definition patch_op :: "gostring \<Rightarrow> gostring \<Rightarrow> json \<Rightarrow> PatchOp" where
  "patch_op op path v = \<lparr>po_Op = op, po_Path = path, po_Value = v\<rparr>"

fun apply_patches :: "'p tools \<Rightarrow> 'p list \<Rightarrow> json \<Rightarrow> json result" where
  "apply_patches ts [] doc = Inr doc"
| "apply_patches ts (p # ps) doc = bind_result (tl_apply ts p doc) (\<lambda>doc'. apply_patches ts ps doc')"

subsection \<open>The license\<close>

definition LicensePatch :: "'p tools \<Rightarrow> 'p result" where
  "LicensePatch ts = tl_decode ts
     [patch_op ''add'' ''/spec/license''
        (JObj [(''keyRef'', JObj [(''name'', JStr LicenseSecretName), (''key'', JStr LicenseSecretKey)])])]"

definition isEnterpriseTag :: "gostring \<Rightarrow> bool" where
  "isEnterpriseTag tag = Contains tag ''-enterprise''"

definition VLSingleLicenseFiles :: "config \<Rightarrow> (gostring \<times> gostring) list" where
  "VLSingleLicenseFiles cfg =
     (if LicenseFile cfg = [] \<or> \<not> isEnterpriseTag (VLVersion cfg) then []
      else [(''license.key'', LicenseFile cfg)])"

definition appendLicensePatch :: "'p tools \<Rightarrow> config \<Rightarrow> 'p list \<Rightarrow> 'p list result" where
  "appendLicensePatch ts cfg jsonPatches =
     (if LicenseFile cfg = [] then Inr jsonPatches
      else bind_result (LicensePatch ts) (\<lambda>patch. Inr (jsonPatches @ [patch])))"

definition ensureLicenseSecret :: "'p tools \<Rightarrow> config \<Rightarrow> KubectlOptions \<Rightarrow> gostring \<Rightarrow> unit prog" where
  "ensureLicenseSecret ts cfg ko namespace =
     (if LicenseFile cfg = [] then ret ()
      else chain (chain (perform (ReadFile (LicenseFile cfg)))
                    (\<lambda>content. lift_result (PrepareLicenseSecret (\<lambda>_. content) (tl_secret ts) cfg namespace)))
             (\<lambda>secretYaml. run_musts [ApplyPlain ko (ManifestText secretYaml)]))"

subsection \<open>Images\<close>

definition image_op :: "gostring \<Rightarrow> gostring \<Rightarrow> gostring \<Rightarrow> PatchOp list" where
  "image_op path img tag =
     (if img = [] \<or> tag = [] then []
      else [patch_op ''add'' path (JObj [(''repository'', JStr img), (''tag'', JStr tag)])])"

definition vmcluster_image_ops :: "config \<Rightarrow> PatchOp list" where
  "vmcluster_image_ops cfg =
     image_op ''/spec/vmselect/image'' (VMClusterVMSelectDefaultImage cfg) (VMClusterVMSelectDefaultVersion cfg) @
     image_op ''/spec/vminsert/image'' (VMClusterVMInsertDefaultImage cfg) (VMClusterVMInsertDefaultVersion cfg) @
     image_op ''/spec/vmstorage/image'' (VMClusterVMStorageDefaultImage cfg) (VMClusterVMStorageDefaultVersion cfg)"

text \<open>The empty patch, which the installers skip, is \<open>None\<close>.\<close>

definition buildVMClusterImagePatch :: "'p tools \<Rightarrow> config \<Rightarrow> 'p option result" where
  "buildVMClusterImagePatch ts cfg =
     (if vmcluster_image_ops cfg = [] then Inr None
      else bind_result (CreateJsonPatch ts (vmcluster_image_ops cfg)) (\<lambda>p. Inr (Some p)))"

definition buildVLClusterImagePatch :: "'p tools \<Rightarrow> config \<Rightarrow> 'p option result" where
  "buildVLClusterImagePatch ts cfg =
     (if VLVersion cfg = [] then Inr None
      else bind_result (CreateJsonPatch ts [patch_op ''add'' ''/spec/clusterVersion'' (JStr (VLVersion cfg))])
             (\<lambda>p. Inr (Some p)))"

definition the_patches :: "'p option \<Rightarrow> 'p list" where
  "the_patches p = (case p of None \<Rightarrow> [] | Some q \<Rightarrow> [q])"

subsection \<open>Reading a patched cluster back\<close>

text \<open>
  \<open>json.Unmarshal\<close> into a struct: an absent or null value leaves the zero value, a value of the
  wrong kind is an error. (Field names are matched exactly; the decoder would also accept other
  capitalisations, which no manifest uses.)
\<close>

fun dec_object :: "json \<Rightarrow> json result" where
  "dec_object JNull = Inr (JObj [])"
| "dec_object (JObj fs) = Inr (JObj fs)"
| "dec_object _ = Inl ''json: cannot unmarshal into Go struct''"

fun dec_string :: "json \<Rightarrow> gostring result" where
  "dec_string JNull = Inr []"
| "dec_string (JStr s) = Inr s"
| "dec_string _ = Inl ''json: cannot unmarshal into Go value of type string''"

fun dec_strings :: "(gostring \<times> json) list \<Rightarrow> (gostring \<times> gostring) list result" where
  "dec_strings [] = Inr []"
| "dec_strings ((k, v) # fs) =
     bind_result (dec_string v) (\<lambda>s. bind_result (dec_strings fs) (\<lambda>r. Inr ((k, s) # r)))"

fun dec_string_map :: "json \<Rightarrow> (gostring \<times> gostring) list result" where
  "dec_string_map JNull = Inr []"
| "dec_string_map (JObj fs) = dec_strings fs"
| "dec_string_map _ = Inl ''json: cannot unmarshal into Go value of type map[string]string''"

definition map_entry :: "(gostring \<times> gostring) list \<Rightarrow> gostring \<Rightarrow> gostring" where
  "map_entry m k = (case map_of m k of None \<Rightarrow> [] | Some v \<Rightarrow> v)"

definition dec_extra_args :: "gostring \<Rightarrow> json \<Rightarrow> (gostring \<times> gostring) list result" where
  "dec_extra_args component spec =
     bind_result (dec_object (jfield component spec)) (\<lambda>c. dec_string_map (jfield ''extraArgs'' c))"

definition dec_metadata_name :: "json \<Rightarrow> gostring result" where
  "dec_metadata_name doc =
     bind_result (dec_object (jfield ''metadata'' doc)) (\<lambda>m. dec_string (jfield ''name'' m))"

record vmclusterIngressReadiness =
  vr_ClusterName :: gostring
  vr_VMInsertHTTPS :: bool
  vr_VMSelectHTTPS :: bool
  vr_VMInsertMTLS :: bool
  vr_VMSelectMTLS :: bool

definition vmclusterIngressReadinessFromSpec :: "json \<Rightarrow> vmclusterIngressReadiness result" where
  "vmclusterIngressReadinessFromSpec vmclusterJSON =
     bind_result (dec_object vmclusterJSON) (\<lambda>doc.
     bind_result (dec_metadata_name doc) (\<lambda>name.
     bind_result (dec_object (jfield ''spec'' doc)) (\<lambda>spec.
     bind_result (dec_extra_args ''vminsert'' spec) (\<lambda>ins.
     bind_result (dec_extra_args ''vmselect'' spec) (\<lambda>sel.
       Inr \<lparr>vr_ClusterName = name,
            vr_VMInsertHTTPS = (map_entry ins ''tls'' = ''true''),
            vr_VMSelectHTTPS = (map_entry sel ''tls'' = ''true''),
            vr_VMInsertMTLS = (map_entry ins ''mtls'' = ''true''),
            vr_VMSelectMTLS = (map_entry sel ''mtls'' = ''true'')\<rparr>)))))"

record vlclusterIngressReadiness =
  lr_ClusterName :: gostring
  lr_ClusterVersion :: gostring
  lr_VLInsertHTTPS :: bool
  lr_VLSelectHTTPS :: bool

definition vlclusterIngressReadinessFromSpec :: "json \<Rightarrow> vlclusterIngressReadiness result" where
  "vlclusterIngressReadinessFromSpec vlclusterJSON =
     bind_result (dec_object vlclusterJSON) (\<lambda>doc.
     bind_result (dec_metadata_name doc) (\<lambda>name.
     bind_result (dec_object (jfield ''spec'' doc)) (\<lambda>spec.
     bind_result (dec_string (jfield ''clusterVersion'' spec)) (\<lambda>version.
     bind_result (dec_extra_args ''vlinsert'' spec) (\<lambda>ins.
     bind_result (dec_extra_args ''vlselect'' spec) (\<lambda>sel.
       Inr \<lparr>lr_ClusterName = name, lr_ClusterVersion = version,
            lr_VLInsertHTTPS = (map_entry ins ''tls'' = ''true''),
            lr_VLSelectHTTPS = (map_entry sel ''tls'' = ''true'')\<rparr>))))))"

subsection \<open>Ingresses\<close>

text \<open>The fields the code sets; the encoder omits the empty annotations.\<close>

definition ingress_doc :: "gostring \<Rightarrow> gostring \<Rightarrow> gostring \<Rightarrow> int \<Rightarrow> json" where
  "ingress_doc name host serviceName servicePort =
     JObj [(''apiVersion'', JStr ''networking.k8s.io/v1''), (''kind'', JStr ''Ingress''),
       (''metadata'', JObj [(''name'', JStr name)]),
       (''spec'', JObj [(''ingressClassName'', JStr ''traefik''),
          (''rules'', JArr [JObj [(''host'', JStr host),
             (''http'', JObj [(''paths'', JArr [JObj
                [(''path'', JStr ''/''), (''pathType'', JStr ''Prefix''),
                 (''backend'', JObj [(''service'', JObj [(''name'', JStr serviceName),
                    (''port'', JObj [(''number'', JNum servicePort)])])])]])])]])])]"

definition BuildIngressManifest ::
  "'p tools \<Rightarrow> gostring \<Rightarrow> gostring \<Rightarrow> gostring \<Rightarrow> int \<Rightarrow> bool \<Rightarrow> gostring result" where
  "BuildIngressManifest ts name host serviceName servicePort https =
     tl_to_yaml ts (ingress_doc name host serviceName servicePort)"

subsection \<open>Agents\<close>

definition monitoringNodeSelector :: json where
  "monitoringNodeSelector = JObj [(''monitoring'', JStr ''true'')]"

definition monitoringToleration :: json where
  "monitoringToleration =
     JObj [(''key'', JStr ''monitoring''), (''operator'', JStr ''Exists''), (''effect'', JStr ''NoSchedule'')]"

definition vmAgentResources :: json where
  "vmAgentResources =
     JObj [(''limits'', JObj [(''memory'', JStr ''500Mi'')]),
           (''requests'', JObj [(''cpu'', JStr ''100m''), (''memory'', JStr ''200Mi'')])]"

definition baseVMAgentJSON :: "config \<Rightarrow> json" where
  "baseVMAgentJSON cfg =
     JObj [(''apiVersion'', JStr ''operator.victoriametrics.com/v1beta1''), (''kind'', JStr ''VMAgent''),
       (''metadata'', JObj [(''name'', JStr ''vmagent'')]),
       (''spec'', JObj [(''image'', JObj [(''repository'', JStr (VMAgentDefaultImage cfg)),
                                        (''tag'', JStr (VMAgentDefaultVersion cfg))]),
          (''resources'', vmAgentResources), (''nodeSelector'', monitoringNodeSelector),
          (''tolerations'', JArr [monitoringToleration]), (''remoteWrite'', JArr [])])]"

definition defaultVLAgentName :: gostring where "defaultVLAgentName = ''vlagent''"

definition baseVLAgentJSON :: "config \<Rightarrow> json list \<Rightarrow> json" where
  "baseVLAgentJSON cfg remoteWrite =
     JObj [(''apiVersion'', JStr ''operator.victoriametrics.com/v1''), (''kind'', JStr ''VLAgent''),
       (''metadata'', JObj [(''name'', JStr defaultVLAgentName)]),
       (''spec'', JObj [(''componentVersion'', JStr (VLEnterpriseVersion cfg)),
                       (''remoteWrite'', JArr remoteWrite)])]"

definition secretRef :: "gostring \<Rightarrow> gostring \<Rightarrow> json" where
  "secretRef tlsSecretName key = JObj [(''name'', JStr tlsSecretName), (''key'', JStr key)]"

definition vlagent_remote_write :: "gostring \<Rightarrow> gostring \<Rightarrow> json" where
  "vlagent_remote_write remoteWriteURL tlsSecretName =
     JObj [(''url'', JStr remoteWriteURL),
       (''tlsConfig'', JObj [(''caSecret'', secretRef tlsSecretName ''ca.crt''),
                            (''certSecret'', secretRef tlsSecretName ''client.crt''),
                            (''keySecret'', secretRef tlsSecretName ''client.key'')])]"

text \<open>The patch that turns the template of an ingress into the one of an agent.\<close>

definition vmagent_ingress_name :: "gostring \<Rightarrow> gostring" where
  "vmagent_ingress_name name = (if name \<noteq> [] then name @ ''-ingress'' else ''vmagent-ingress'')"

definition vmagent_host :: "config \<Rightarrow> gostring \<Rightarrow> gostring \<Rightarrow> gostring" where
  "vmagent_host cfg namespace name =
     (if name \<noteq> [] then VMAgentNamedHost name namespace cfg else VMAgentNamespacedHost namespace cfg)"

definition vmagent_service :: "gostring \<Rightarrow> gostring" where
  "vmagent_service name = (if name \<noteq> [] then ''vmagent-'' @ name else ''vmagent-vmagent'')"

definition vmagent_ingress_ops :: "config \<Rightarrow> gostring \<Rightarrow> gostring \<Rightarrow> PatchOp list" where
  "vmagent_ingress_ops cfg namespace name =
     [patch_op ''replace'' ''/metadata/name'' (JStr (vmagent_ingress_name name)),
      patch_op ''add'' ''/metadata/namespace'' (JStr namespace),
      patch_op ''replace'' ''/spec/rules/0/host'' (JStr (vmagent_host cfg namespace name)),
      patch_op ''replace'' ''/spec/rules/0/http/paths/0/backend/service/name'' (JStr (vmagent_service name))]"

subsection \<open>The VMDistributed resource\<close>

definition unlines :: "gostring list \<Rightarrow> gostring" where
  "unlines ls = Join [nl] ls"

definition distributed_zones :: "config \<Rightarrow> gostring list" where
  "distributed_zones cfg =
     filter (\<lambda>z. z \<noteq> []) (map TrimSpace (SplitC (CHR '','') (DistributedZones cfg)))"

definition license_yaml :: "config \<Rightarrow> gostring \<Rightarrow> gostring" where
  "license_yaml cfg indent =
     (if LicenseFile cfg \<noteq> [] then
        unlines [[], indent @ ''license:'', indent @ ''  keyRef:'',
                 indent @ ''    name: '' @ LicenseSecretName, indent @ ''    key: '' @ LicenseSecretKey]
      else [])"

definition buildVMDistributedManifest :: "config \<Rightarrow> gostring \<Rightarrow> gostring \<Rightarrow> gostring \<Rightarrow> gostring" where
  "buildVMDistributedManifest cfg releaseName namespace vmAuthHost =
     (let vmclusterLicense = license_yaml cfg ''        '';
          vmagentLicense = license_yaml cfg ''        '';
          vmauthLicense = license_yaml cfg ''      '';
          zonesYAML = concat (map (\<lambda>zone. ''  - name: '' @ zone @ [nl]) (distributed_zones cfg))
      in unlines
     [''apiVersion: operator.victoriametrics.com/v1alpha1'',
      ''kind: VMDistributed'',
      ''metadata:'',
      ''  name: '' @ releaseName,
      ''  namespace: '' @ namespace,
      ''spec:'',
      ''  vmauth:'',
      ''    spec:'' @ vmauthLicense,
      ''      ingress:'',
      ''        class_name: traefik'',
      ''        host: '' @ vmAuthHost,
      ''      unauthorizedUserAccessSpec:'',
      ''        targetRefs:'',
      ''          - name: write'',
      ''          - name: read'',
      ''  zoneCommon:'',
      ''    vmcluster:'',
      ''      spec:'' @ vmclusterLicense,
      ''        retentionPeriod: \"14\"'',
      ''        replicationFactor: 1'',
      ''        requestsLoadBalancer:'',
      ''          enabled: true'',
      ''          spec:'',
      ''            replicaCount: 2'',
      ''        vmstorage:'',
      ''          replicaCount: 2'',
      ''          storageDataPath: /vm-data'',
      ''          nodeSelector:'',
      ''            monitoring: \"true\"'',
      ''          tolerations:'',
      ''            - key: monitoring'',
      ''              value: \"true\"'',
      ''              effect: NoSchedule'',
      ''        vmselect:'',
      ''          replicaCount: 2'',
      ''          port: \"8481\"'',
      ''          nodeSelector:'',
      ''            monitoring: \"true\"'',
      ''          tolerations:'',
      ''            - key: monitoring'',
      ''              value: \"true\"'',
      ''              effect: NoSchedule'',
      ''        vminsert:'',
      ''          replicaCount: 2'',
      ''          port: \"8480\"'',
      ''          nodeSelector:'',
      ''            monitoring: \"true\"'',
      ''          tolerations:'',
      ''            - key: monitoring'',
      ''              value: \"true\"'',
      ''              effect: NoSchedule'',
      ''    vmagent:'',
      ''      spec:'' @ vmagentLicense,
      ''        nodeSelector:'',
      ''          monitoring: \"true\"'',
      ''        tolerations:'',
      ''          - key: monitoring'',
      ''            value: \"true\"'',
      ''            effect: NoSchedule'',
      ''  zones:'',
      zonesYAML])"

definition VMDistributedRemoteWriteURL :: "gostring \<Rightarrow> config \<Rightarrow> gostring" where
  "VMDistributedRemoteWriteURL namespace cfg = http (VMAuthHost namespace cfg @ TenantInsertPath 0)"

definition VMDistributedImportURL :: "gostring \<Rightarrow> config \<Rightarrow> gostring" where
  "VMDistributedImportURL namespace cfg = http (VMAuthHost namespace cfg @ TenantImportPath 0)"

end
