(* ===== verification/Temp_Files.thy ===== *)
theory Temp_Files
  imports GoTime Effects
begin

text \<open>
  Temporary files (\<open>kubectlApplyFromStringContextE\<close> of \<open>pkg/install/kubectl.go\<close>, \<open>collectSecretsFile\<close> of
  \<open>pkg/gather/k8s.go\<close>): the file system as a map from paths to contents, and the operations of package
  \<open>os\<close> on it as parameters with their contract, so that creating, writing and closing may each fail.
\<close>

type_synonym files = "gostring \<Rightarrow> gostring option"

text \<open>
  \<open>os_create\<close> names the new file or tells why there is none; \<open>os_write\<close> gives the bytes that were written
  and the error, if any; \<open>os_remove\<close> is the file system afterwards, its error being ignored.
\<close>

record temp_dir =
  os_create :: "files \<Rightarrow> gostring result"
  os_write :: "gostring \<Rightarrow> gostring \<Rightarrow> gostring \<times> gostring option"
  os_close :: "gostring \<Rightarrow> gostring option"
  os_remove :: "gostring \<Rightarrow> files \<Rightarrow> files"

text \<open>
  What is relied on: the name of a new file is non-empty and not in use, a write without an error has
  written everything, and a file that exists can be removed.
\<close>

definition temp_contract :: "temp_dir \<Rightarrow> bool" where
  "temp_contract os \<longleftrightarrow>
     (\<forall>fs name. os_create os fs = Inr name \<longrightarrow> name \<noteq> [] \<and> fs name = None) \<and>
     (\<forall>name content. snd (os_write os name content) = None \<longrightarrow> fst (os_write os name content) = content) \<and>
     (\<forall>name fs. fs name \<noteq> None \<longrightarrow> os_remove os name fs = fs(name := None))"

lemma temp_contractD:
  assumes "temp_contract os"
  shows "os_create os fs = Inr name \<Longrightarrow> name \<noteq> [] \<and> fs name = None"
    and "snd (os_write os name content) = None \<Longrightarrow> fst (os_write os name content) = content"
    and "fs name \<noteq> None \<Longrightarrow> os_remove os name fs = fs(name := None)"
  using assms unfolding temp_contract_def by blast+

text \<open>A directory in which everything succeeds: the new file has the first free name \<open>t\<close>, \<open>tt\<close>, \dots\<close>

definition free_name :: "nat \<Rightarrow> files \<Rightarrow> gostring result" where
  "free_name n fs =
     (case find (\<lambda>k. fs (replicate (Suc k) (CHR ''t'')) = None) [0..<n] of
        Some k \<Rightarrow> Inr (replicate (Suc k) (CHR ''t'')) | None \<Rightarrow> Inl ''no free name'')"

definition plain_dir :: temp_dir where
  "plain_dir = \<lparr>os_create = free_name 100, os_write = (\<lambda>name content. (content, None)), os_close = (\<lambda>_. None),
     os_remove = (\<lambda>name fs. fs(name := None))\<rparr>"

lemma plain_dir_contract: "temp_contract plain_dir"
  by (auto simp: temp_contract_def plain_dir_def free_name_def find_Some_iff split: option.splits)

end
