(* ===== verification/Kubectl.thy ===== *)
theory Kubectl
  imports Temp_Files
begin

text \<open>
  Running \<open>kubectl\<close> (\<open>pkg/install/kubectl.go\<close>): the logged command line, the apply of a manifest
  string with its retries on transient webhook failures, and the installation of shared CRDs.
  The backoff of the polling library is a parameter; \<open>call i\<close> is what attempt \<open>i\<close> returned.
\<close>

subsection \<open>The logged command\<close>

definition kubectlApplyArgs :: "KubectlOptions \<Rightarrow> gostring \<Rightarrow> gostring list" where
  "kubectlApplyArgs ko manifestPath =
     (if ko_ContextName ko \<noteq> [] then [''--context'', ko_ContextName ko] else []) @
     (if ko_ConfigPath ko \<noteq> [] then [''--kubeconfig'', ko_ConfigPath ko] else []) @
     (if ko_Namespace ko \<noteq> [] then [''--namespace'', ko_Namespace ko] else []) @
     (if 0 < ko_RequestTimeout ko then [''--request-timeout'', duration_String (ko_RequestTimeout ko)] else []) @
     [''apply'', ''-f'', manifestPath]"

definition kubectlApplyCommand :: "KubectlOptions \<Rightarrow> gostring \<Rightarrow> gostring" where
  "kubectlApplyCommand ko manifestPath = ''kubectl '' @ Join '' '' (kubectlApplyArgs ko manifestPath)"

subsection \<open>Applying with retries\<close>

definition webhookRetryAttempts :: nat where "webhookRetryAttempts = 5"
definition webhookRetryDelay :: duration where "webhookRetryDelay = 10 * Second"
definition webhookRetryFactor :: int where "webhookRetryFactor = 2"

definition transient_webhook :: "gostring \<Rightarrow> bool" where
  "transient_webhook err \<longleftrightarrow>
     \<not> (\<not> Contains err ''No agent available'' \<and> \<not> Contains err ''failed to call webhook'' \<and>
        \<not> Contains err ''InternalError'' \<and> \<not> Contains err ''AlreadyExists'')"

text \<open>
  The library's side, a parameter of the model: \<open>backoff steps cond\<close> runs the condition (\<open>cond i\<close> is
  what its call \<open>i\<close> gave) and tells how it ended and how often it was called. It is relied on for
  calling the condition again only while it neither held nor failed, at most \<open>steps\<close> times.
\<close>

datatype step = StepDone | StepAgain | StepError gostring

datatype backoff_end = Applied | ConditionError | Exhausted | ContextEnded

type_synonym backoff = "nat \<Rightarrow> (nat \<Rightarrow> step) \<Rightarrow> backoff_end \<times> nat"

definition backoff_contract :: "backoff \<Rightarrow> bool" where
  "backoff_contract backoff \<longleftrightarrow> (\<forall>steps cond how n. backoff steps cond = (how, n) \<longrightarrow>
     n \<le> steps \<and> (\<forall>i. Suc i < n \<longrightarrow> cond i = StepAgain) \<and>
     (how = Applied \<longrightarrow> 0 < n \<and> cond (n - 1) = StepDone) \<and>
     (how = ConditionError \<longrightarrow> 0 < n \<and> (\<exists>e. cond (n - 1) = StepError e)) \<and>
     (how = Exhausted \<longrightarrow> n = steps \<and> (\<forall>i < n. cond i = StepAgain)))"

definition apply_step :: "unit result \<Rightarrow> step" where
  "apply_step r =
     (case r of Inr _ \<Rightarrow> StepDone
      | Inl err \<Rightarrow> if \<not> transient_webhook err then StepError err else StepAgain)"

definition last_error :: "(nat \<Rightarrow> unit result) \<Rightarrow> nat \<Rightarrow> gostring" where
  "last_error call n = (if n = 0 then ''<nil>'' else case call (n - 1) of Inl err \<Rightarrow> err | Inr _ \<Rightarrow> ''<nil>'')"

definition KubectlApplyFromStringWithRetry :: "backoff \<Rightarrow> (nat \<Rightarrow> unit result) \<Rightarrow> bool \<Rightarrow> unit result" where
  "KubectlApplyFromStringWithRetry backoff call cancelled =
     (case backoff webhookRetryAttempts (\<lambda>i. apply_step (call i)) of
        (how, n) \<Rightarrow>
          if how = Applied then Inr ()
          else if cancelled then Inl ''context cancelled while retrying kubectl apply''
          else Inl (''kubectl apply failed after '' @ nat_str webhookRetryAttempts @ '' attempts: '' @ last_error call n))"

lemma apply_step_again: "apply_step r = StepAgain \<longleftrightarrow> (\<exists>e. r = Inl e \<and> transient_webhook e)"
  by (auto simp: apply_step_def split: sum.splits)

lemma find_upt_SomeD: "find P [0..<n] = Some k \<Longrightarrow> k < n \<and> P k \<and> (\<forall>j < k. \<not> P j)"
  by (auto simp: find_Some_iff)

lemma find_upt_first: "P k \<Longrightarrow> k < n \<Longrightarrow> \<forall>j < k. \<not> P j \<Longrightarrow> find P [0..<n] = Some k"
  by (auto simp: find_Some_iff)

lemma find_upt_none: "\<forall>j < n. \<not> P j \<Longrightarrow> find P [0..<n] = None"
  by (simp add: find_None_iff)

text \<open>
  C31: With a context that does not end, applying a manifest makes one to five attempts and stops at
  the first that succeeded or failed for a reason that is not a transient webhook failure; that
  attempt decides the outcome, and after five transient failures the last of them is reported.
\<close>

theorem apply_retries_outcome:
  assumes "backoff_contract backoff"
    and "fst (backoff webhookRetryAttempts (\<lambda>i. apply_step (call i))) \<noteq> ContextEnded"
  shows "KubectlApplyFromStringWithRetry backoff call False =
     (case find (\<lambda>i. apply_step (call i) \<noteq> StepAgain) [0..<5] of
        Some k \<Rightarrow> (case call k of Inr _ \<Rightarrow> Inr ()
                  | Inl err \<Rightarrow> Inl (''kubectl apply failed after 5 attempts: '' @ err))
      | None \<Rightarrow> Inl (''kubectl apply failed after 5 attempts: '' @
                     (case call 4 of Inl err \<Rightarrow> err | Inr _ \<Rightarrow> ''<nil>'')))"
proof -
  let ?cond = "\<lambda>i. apply_step (call i)"
  obtain how n where run: "backoff webhookRetryAttempts ?cond = (how, n)" by fastforce
  have five: "nat_str webhookRetryAttempts = ''5''" and five': "webhookRetryAttempts = 5"
    by (simp_all add: webhookRetryAttempts_def nat_str.simps digits)
  have c: "n \<le> 5" "\<forall>i. Suc i < n \<longrightarrow> ?cond i = StepAgain"
    "how = Applied \<Longrightarrow> 0 < n \<and> ?cond (n - 1) = StepDone"
    "how = ConditionError \<Longrightarrow> 0 < n \<and> (\<exists>e. ?cond (n - 1) = StepError e)"
    "how = Exhausted \<Longrightarrow> n = 5 \<and> (\<forall>i < n. ?cond i = StepAgain)"
    using assms(1) run unfolding backoff_contract_def five' by blast+
  have first: "find (\<lambda>i. ?cond i \<noteq> StepAgain) [0..<5] = Some (n - 1)" if "0 < n" "?cond (n - 1) \<noteq> StepAgain"
    using that c(1,2) by (intro find_upt_first) auto
  show ?thesis
  proof (cases how)
    case Applied
    with c(3) have n: "0 < n" "?cond (n - 1) = StepDone" by simp_all
    then have "call (n - 1) = Inr ()" by (auto simp: apply_step_def split: sum.splits if_splits)
    with first n run Applied show ?thesis by (simp add: KubectlApplyFromStringWithRetry_def)
  next
    case ConditionError
    with c(4) obtain e where n: "0 < n" "?cond (n - 1) = StepError e" by blast
    then have "call (n - 1) = Inl e" by (auto simp: apply_step_def split: sum.splits if_splits)
    with first n run ConditionError show ?thesis
      by (simp add: KubectlApplyFromStringWithRetry_def last_error_def five)
  next
    case Exhausted
    with c(5) have n: "n = 5" "\<forall>i < 5. ?cond i = StepAgain" by simp_all
    then have "find (\<lambda>i. ?cond i \<noteq> StepAgain) [0..<5] = None" by (intro find_upt_none) simp
    with n run Exhausted show ?thesis by (simp add: KubectlApplyFromStringWithRetry_def last_error_def five)
  next
    case ContextEnded
    with assms(2) run show ?thesis by simp
  qed
qed

text \<open>A backoff that meets the contract, with a context that never ends.\<close>

definition plain_backoff :: backoff where
  "plain_backoff steps cond =
     (case find (\<lambda>i. cond i \<noteq> StepAgain) [0..<steps] of
        None \<Rightarrow> (Exhausted, steps)
      | Some k \<Rightarrow> (if cond k = StepDone then Applied else ConditionError, Suc k))"

lemma plain_backoff_contract: "backoff_contract plain_backoff"
  unfolding backoff_contract_def
proof (intro allI impI)
  fix steps cond how n assume run: "plain_backoff steps cond = (how, n)"
  show "n \<le> steps \<and> (\<forall>i. Suc i < n \<longrightarrow> cond i = StepAgain) \<and>
     (how = Applied \<longrightarrow> 0 < n \<and> cond (n - 1) = StepDone) \<and>
     (how = ConditionError \<longrightarrow> 0 < n \<and> (\<exists>e. cond (n - 1) = StepError e)) \<and>
     (how = Exhausted \<longrightarrow> n = steps \<and> (\<forall>i < n. cond i = StepAgain))"
  proof (cases "find (\<lambda>i. cond i \<noteq> StepAgain) [0..<steps]")
    case None
    with run show ?thesis by (auto simp: plain_backoff_def find_None_iff)
  next
    case (Some k)
    with run find_upt_SomeD [OF Some] show ?thesis
      by (cases "cond k") (auto simp: plain_backoff_def)
  qed
qed

theorem apply_retries_outcome_witness:
  "KubectlApplyFromStringWithRetry plain_backoff
     (\<lambda>i. if i = 0 then Inl ''failed to call webhook'' else Inr ()) False = Inr ()"
proof -
  let ?call = "\<lambda>i::nat. if i = 0 then Inl ''failed to call webhook'' else Inr ()"
  have t: "transient_webhook ''failed to call webhook''" by (simp add: transient_webhook_def HasPrefix_def)
  have f: "find (\<lambda>i. apply_step (?call i) \<noteq> StepAgain) [0..<n] = Some 1" if "1 < n" for n
    by (rule find_upt_first) (use t that in \<open>simp_all add: apply_step_def\<close>)
  have "fst (plain_backoff webhookRetryAttempts (\<lambda>i. apply_step (?call i))) = Applied"
    unfolding plain_backoff_def by (simp add: f webhookRetryAttempts_def) (simp add: apply_step_def)
  then have "KubectlApplyFromStringWithRetry plain_backoff ?call False =
     (case find (\<lambda>i. apply_step (?call i) \<noteq> StepAgain) [0..<5] of
        Some k \<Rightarrow> (case ?call k of Inr _ \<Rightarrow> Inr ()
                  | Inl err \<Rightarrow> Inl (''kubectl apply failed after 5 attempts: '' @ err))
      | None \<Rightarrow> Inl (''kubectl apply failed after 5 attempts: '' @
                     (case ?call 4 of Inl err \<Rightarrow> err | Inr _ \<Rightarrow> ''<nil>'')))"
    by (intro apply_retries_outcome plain_backoff_contract) simp
  then show ?thesis by (simp add: f)
qed

text \<open>The message counts five attempts also when the first one failed permanently.\<close>

lemma permanent_failure_message:
  "plain_backoff webhookRetryAttempts (\<lambda>i. apply_step (Inl ''forbidden'')) = (ConditionError, 1)"
  "KubectlApplyFromStringWithRetry plain_backoff (\<lambda>_. Inl ''forbidden'') False =
     Inl ''kubectl apply failed after 5 attempts: forbidden''"
proof -
  have "apply_step (Inl ''forbidden'') = StepError ''forbidden''"
    by (simp add: apply_step_def transient_webhook_def HasPrefix_def)
  then show run: "plain_backoff webhookRetryAttempts (\<lambda>i. apply_step (Inl ''forbidden'')) = (ConditionError, 1)"
    by (simp add: plain_backoff_def webhookRetryAttempts_def upt_rec)
  show "KubectlApplyFromStringWithRetry plain_backoff (\<lambda>_. Inl ''forbidden'') False =
     Inl ''kubectl apply failed after 5 attempts: forbidden''"
    unfolding KubectlApplyFromStringWithRetry_def run
    by (simp add: last_error_def webhookRetryAttempts_def nat_str.simps digits)
qed

text \<open>
  The pause after attempt \<open>i\<close> grows by the factor; the log announces the base delay every time. A failing
  apply pauses for at most 150 seconds altogether.
\<close>

definition apply_delay :: "nat \<Rightarrow> duration" where
  "apply_delay i = webhookRetryDelay * webhookRetryFactor ^ i"

lemma announced_delay: "apply_delay i = webhookRetryDelay \<longleftrightarrow> i = 0"
proof (cases i)
  case (Suc k)
  have "(2 :: int) * 2 ^ k \<noteq> 1" by (rule ccontr) presburger
  with Suc show ?thesis by (simp add: apply_delay_def webhookRetryDelay_def webhookRetryFactor_def Second_def)
qed (simp add: apply_delay_def)

theorem apply_pauses_bounded:
  assumes "backoff_contract backoff"
  shows "(\<Sum>i < snd (backoff webhookRetryAttempts cond) - 1. apply_delay i) \<le> 150 * Second"
proof -
  obtain how n where run: "backoff webhookRetryAttempts cond = (how, n)" by fastforce
  then have "n \<le> 5" using assms by (auto simp: backoff_contract_def webhookRetryAttempts_def)
  then have "{..<n - 1} \<subseteq> {..<4}" by auto
  then have "(\<Sum>i < n - 1. apply_delay i) \<le> (\<Sum>i < 4. apply_delay i)"
    by (intro sum_mono2) (simp_all add: apply_delay_def webhookRetryDelay_def webhookRetryFactor_def Second_def)
  also have "\<dots> = 150 * Second"
    by (simp add: apply_delay_def webhookRetryDelay_def webhookRetryFactor_def Second_def numeral_eq_Suc)
  finally show ?thesis using run by simp
qed

theorem apply_pauses_bounded_witness:
  "(\<Sum>i < snd (plain_backoff webhookRetryAttempts (\<lambda>_. StepAgain)) - 1. apply_delay i) \<le> 150 * Second"
  by (rule apply_pauses_bounded [OF plain_backoff_contract])

subsection \<open>The file behind a manifest string\<close>

definition maxLogLines :: nat where "maxLogLines = 80"

text \<open>Manifests are logged unless they are long.\<close>

definition manifest_log :: "gostring \<Rightarrow> gostring \<Rightarrow> gostring option" where
  "manifest_log origin content =
     (if count_list content nl \<le> maxLogLines
      then Some (''Applying manifest from '' @ origin @ '':'' @ [nl] @ ''---'' @ [nl] @ content @ [nl] @ ''---'') else None)"

text \<open>\<open>KubectlApply\<close>: a file that cannot be read for the log is applied all the same.\<close>

definition KubectlApply :: "gostring result \<Rightarrow> KubectlOptions \<Rightarrow> gostring \<Rightarrow> gostring option \<times> call" where
  "KubectlApply content ko manifestPath =
     (case content of
        Inl err \<Rightarrow> Some (''WARNING: could not read manifest file '' @ manifestPath @ '': '' @ err)
      | Inr text \<Rightarrow> manifest_log manifestPath text,
      ApplyFile ko manifestPath)"

text \<open>
  \<open>kubectl\<close> is given options, arguments and the files it finds. The result is its error or that of the
  file operations, the files afterwards, and for a run of \<open>kubectl\<close> the logged command with what the
  file held.
\<close>

type_synonym kubectl = "KubectlOptions \<Rightarrow> gostring list \<Rightarrow> files \<Rightarrow> unit result"

definition kubectlApplyFromStringContextE ::
  "temp_dir \<Rightarrow> kubectl \<Rightarrow> KubectlOptions \<Rightarrow> gostring \<Rightarrow> files \<Rightarrow>
     unit result \<times> files \<times> (gostring \<times> gostring option) list" where
  "kubectlApplyFromStringContextE os kubectl ko manifest fs =
     (case os_create os fs of
        Inl err \<Rightarrow> (Inl err, fs, [])
      | Inr name \<Rightarrow>
          let written = fs(name \<mapsto> fst (os_write os name manifest))
          in (case snd (os_write os name manifest) of
                Some err \<Rightarrow> (Inl err, os_remove os name written, [])
              | None \<Rightarrow>
                  (case os_close os name of
                     Some err \<Rightarrow> (Inl err, os_remove os name written, [])
                   | None \<Rightarrow> (kubectl ko [''apply'', ''-f'', name] written, os_remove os name written,
                              [(kubectlApplyCommand ko name, written name)]))))"

text \<open>The files before attempt \<open>i\<close>, and the whole apply; attempt \<open>i\<close> meets \<open>kubectl i\<close>.\<close>

primrec files_at :: "temp_dir \<Rightarrow> (nat \<Rightarrow> kubectl) \<Rightarrow> KubectlOptions \<Rightarrow> gostring \<Rightarrow> files \<Rightarrow> nat \<Rightarrow> files" where
  "files_at os kubectl ko manifest fs 0 = fs"
| "files_at os kubectl ko manifest fs (Suc i) =
     fst (snd (kubectlApplyFromStringContextE os (kubectl i) ko manifest (files_at os kubectl ko manifest fs i)))"

definition KubectlApplyFromString ::
  "backoff \<Rightarrow> temp_dir \<Rightarrow> (nat \<Rightarrow> kubectl) \<Rightarrow> bool \<Rightarrow> KubectlOptions \<Rightarrow> gostring \<Rightarrow> files \<Rightarrow>
     unit result \<times> files \<times> (gostring \<times> gostring option) list" where
  "KubectlApplyFromString backoff os kubectl cancelled ko manifest fs =
     (let attempt = (\<lambda>i. kubectlApplyFromStringContextE os (kubectl i) ko manifest (files_at os kubectl ko manifest fs i));
          call = (\<lambda>i. fst (attempt i));
          n = snd (backoff webhookRetryAttempts (\<lambda>i. apply_step (call i)))
      in (KubectlApplyFromStringWithRetry backoff call cancelled, files_at os kubectl ko manifest fs n,
          concat (map (\<lambda>i. snd (snd (attempt i))) [0..<n])))"

lemma apply_attempt_files:
  assumes "temp_contract os"
  shows "fst (snd (kubectlApplyFromStringContextE os kubectl ko manifest fs)) = fs"
  using temp_contractD [OF assms]
  by (auto simp: kubectlApplyFromStringContextE_def Let_def fun_upd_idem split: sum.split option.split)

lemma apply_attempt_runs:
  assumes "temp_contract os" and "(cmd, content) \<in> set (snd (snd (kubectlApplyFromStringContextE os kubectl ko manifest fs)))"
  shows "content = Some manifest \<and> (\<exists>name. fs name = None \<and> cmd = kubectlApplyCommand ko name)"
  using temp_contractD [OF assms(1)] assms(2)
  by (auto simp: kubectlApplyFromStringContextE_def Let_def split: sum.splits option.splits)

lemma apply_attempt_succeeds:
  "fst (kubectlApplyFromStringContextE os kubectl ko manifest fs) = Inr () \<Longrightarrow>
   length (snd (snd (kubectlApplyFromStringContextE os kubectl ko manifest fs))) = 1"
  by (auto simp: kubectlApplyFromStringContextE_def Let_def split: sum.splits option.splits)

lemma files_at_initial: "temp_contract os \<Longrightarrow> files_at os kubectl ko manifest fs i = fs"
  by (induction i) (simp_all add: apply_attempt_files)

text \<open>
  C12: However often a manifest is applied and whatever fails on the way, no temporary file is left behind
  and no other file touched; \<open>kubectl\<close> runs at most five times, each time as the logged command on a new
  file that holds exactly the manifest; and a reported success means that it ran.
\<close>

theorem apply_leaves_no_file:
  assumes "backoff_contract backoff" and "temp_contract os"
    and "KubectlApplyFromString backoff os kubectl cancelled ko manifest fs = (r, fs', runs)"
  shows "fs' = fs \<and> length runs \<le> 5 \<and>
    (\<forall>(cmd, content) \<in> set runs. content = Some manifest \<and> (\<exists>name. fs name = None \<and> cmd = kubectlApplyCommand ko name)) \<and>
    (r = Inr () \<longrightarrow> runs \<noteq> [])"
proof -
  let ?attempt = "\<lambda>i. kubectlApplyFromStringContextE os (kubectl i) ko manifest fs"
  let ?cond = "\<lambda>i. apply_step (fst (?attempt i))"
  obtain how n where run: "backoff webhookRetryAttempts ?cond = (how, n)" by fastforce
  note parts = assms(3) [unfolded KubectlApplyFromString_def Let_def files_at_initial [OF assms(2)] run snd_conv prod.inject]
  then have runs: "runs = concat (map (\<lambda>i. snd (snd (?attempt i))) [0..<n])" and kept: "fs' = fs"
    and result: "KubectlApplyFromStringWithRetry backoff (\<lambda>i. fst (?attempt i)) cancelled = r"
    by blast+
  have n: "n \<le> 5" and applied: "how = Applied \<Longrightarrow> 0 < n \<and> ?cond (n - 1) = StepDone"
    using assms(1) run unfolding backoff_contract_def webhookRetryAttempts_def by blast+
  have one: "length (snd (snd (?attempt i))) \<le> 1" for i
    by (auto simp: kubectlApplyFromStringContextE_def Let_def split: sum.splits option.splits)
  have "length (concat (map (\<lambda>i. snd (snd (?attempt i))) [0..<m])) \<le> m" for m
  proof (induction m)
    case (Suc m)
    then show ?case using add_mono [OF Suc one [of m]] by simp
  qed simp
  then have "length runs \<le> 5" using n runs le_trans by blast
  moreover have "runs \<noteq> []" if "r = Inr ()"
  proof -
    have "how = Applied"
      using result that run by (auto simp: KubectlApplyFromStringWithRetry_def split: if_splits)
    with applied have last_call: "0 < n" "fst (?attempt (n - 1)) = Inr ()"
      by (auto simp: apply_step_def split: sum.splits if_splits)
    then have "snd (snd (?attempt (n - 1))) \<noteq> []" using apply_attempt_succeeds by fastforce
    with last_call(1) show ?thesis unfolding runs by (auto intro!: bexI [of _ "n - 1"])
  qed
  ultimately show ?thesis
    using kept apply_attempt_runs [OF assms(2)] unfolding runs by fastforce
qed

theorem apply_leaves_no_file_witness:
  "\<exists>r runs. KubectlApplyFromString plain_backoff plain_dir
      (\<lambda>i _ _ _. if i = 0 then Inl ''failed to call webhook'' else Inr ()) False
      (NewKubectlOptions [] [] ''vm'') ''kind: Pod'' (\<lambda>_. None) = (r, \<lambda>_. None, runs) \<and> length runs \<le> 5"
proof -
  obtain r fs' runs where run: "KubectlApplyFromString plain_backoff plain_dir
      (\<lambda>i _ _ _. if i = 0 then Inl ''failed to call webhook'' else Inr ()) False
      (NewKubectlOptions [] [] ''vm'') ''kind: Pod'' (\<lambda>_. None) = (r, fs', runs)" using prod_cases3 by blast
  from apply_leaves_no_file [OF plain_backoff_contract plain_dir_contract run] run show ?thesis by blast
qed

text \<open>A logged manifest adds at most eighty of its own line breaks to the log.\<close>

lemma manifest_log_bounded: "manifest_log origin content = Some m \<Longrightarrow> count_list m nl \<le> count_list origin nl + 83"
  by (auto simp: manifest_log_def maxLogLines_def split: if_splits)

subsection \<open>Custom resource definitions\<close>

definition crdEstablishTimeout :: duration where "crdEstablishTimeout = 30 * Second"

definition crd_wait_args :: "gostring list \<Rightarrow> gostring list" where
  "crd_wait_args names =
     [''wait'', ''--for=condition=Established'', ''crd''] @ names @
     [''--timeout='' @ duration_String crdEstablishTimeout]"

text \<open>\<open>outcomes\<close> are the results of the polls made before the deadline.\<close>

definition WaitForCRDsEstablished :: "gostring list \<Rightarrow> gostring result list \<Rightarrow> unit result" where
  "WaitForCRDsEstablished names outcomes =
     (case find (\<lambda>r. case r of Inr _ \<Rightarrow> True | Inl _ \<Rightarrow> False) outcomes of
        Some _ \<Rightarrow> Inr ()
      | None \<Rightarrow> Inl (''CRDs ['' @ Join '' '' names @ ''] were not established: '' @
                     (case rev outcomes of Inl err # _ \<Rightarrow> err | _ \<Rightarrow> ''<nil>'')))"

definition EnsureVPACRDs :: "config \<Rightarrow> KubectlOptions \<Rightarrow> unit prog" where
  "EnsureVPACRDs cfg ko =
     chain (perform (TryKubectl ko [''get'', ''crd'', ''verticalpodautoscalers.autoscaling.k8s.io'']))
       (\<lambda>r. case r of
          Inr _ \<Rightarrow> ret ()
        | Inl _ \<Rightarrow> run_musts
            [ApplyFile ko (VPACRDsYaml cfg),
             WaitCRDs ko [''verticalpodautoscalers.autoscaling.k8s.io'',
                          ''verticalpodautoscalercheckpoints.autoscaling.k8s.io'']])"

definition EnsureGatewayAPICRDs :: "config \<Rightarrow> KubectlOptions \<Rightarrow> unit prog" where
  "EnsureGatewayAPICRDs cfg ko =
     chain (perform (TryKubectl ko [''get'', ''crd'', ''httproutes.gateway.networking.k8s.io'']))
       (\<lambda>r. case r of
          Inr _ \<Rightarrow> ret ()
        | Inl _ \<Rightarrow> run_musts
            [RunKubectl ko [''apply'', ''-f'', GatewayAPIStandardInstallURL cfg],
             WaitCRDs ko [''gatewayclasses.gateway.networking.k8s.io'', ''gateways.gateway.networking.k8s.io'',
                          ''httproutes.gateway.networking.k8s.io'', ''referencegrants.gateway.networking.k8s.io'']])"

interpretation vpa_crds: fail_fast "EnsureVPACRDs cfg ko" for cfg ko
  unfolding EnsureVPACRDs_def by (intro ff)

interpretation gateway_crds: fail_fast "EnsureGatewayAPICRDs cfg ko" for cfg ko
  unfolding EnsureGatewayAPICRDs_def by (intro ff)

end
