(* ===== verification/Install.thy ===== *)
theory Install
  imports Manifests Kubectl
begin

text \<open>
  The install, expose and delete functions of \<open>pkg/install\<close> as programs over the cluster: each is
  the sequence of calls the Go function makes, in its order, with its early returns. Every one of
  them is a fail-fast program. The parameter \<open>cfg\<close> is the configuration the getters of \<open>consts\<close>
  read; \<open>ts\<close> are the third-party tools.
\<close>

subsection \<open>Shared steps\<close>

definition goldilocks_label :: "KubectlOptions \<Rightarrow> gostring \<Rightarrow> call" where
  "goldilocks_label ko namespace =
     RunKubectl ko [''label'', ''namespace'', namespace, ''goldilocks.fairwinds.com/enabled=true'', ''--overwrite'']"

definition ensure_namespace :: "KubectlOptions \<Rightarrow> gostring \<Rightarrow> bool \<Rightarrow> unit prog" where
  "ensure_namespace ko namespace labelled =
     chain (perform (GetNamespace ko namespace)) (\<lambda>r. case r of
        Inl err \<Rightarrow> run_musts (CreateNamespace ko namespace #
                     (if labelled then [goldilocks_label ko namespace] else []))
      | Inr _ \<Rightarrow> ret ())"

definition read_doc :: "'p tools \<Rightarrow> gostring \<Rightarrow> json prog" where
  "read_doc ts path = chain (must (ReadFile path)) (\<lambda>text. lift_result (tl_yaml ts text))"

text \<open>Operations that are decoded and applied one patch after the other.\<close>

fun apply_ops :: "'p tools \<Rightarrow> PatchOp list list \<Rightarrow> json \<Rightarrow> json result" where
  "apply_ops ts [] doc = Inr doc"
| "apply_ops ts (ops # rest) doc =
     bind_result (CreateJsonPatch ts ops) (\<lambda>p. bind_result (tl_apply ts p doc) (\<lambda>doc'. apply_ops ts rest doc'))"

definition wait_pods_args :: "gostring \<Rightarrow> gostring list" where
  "wait_pods_args clusterName =
     [''wait'', ''--for=condition=Ready'', ''pods'',
      ''-l'', ''managed-by=vm-operator,app.kubernetes.io/instance='' @ clusterName,
      ''--timeout='' @ duration_String VMClusterWaitTimeout]"

definition exposed_host :: "config \<Rightarrow> gostring \<Rightarrow> gostring \<Rightarrow> gostring" where
  "exposed_host cfg serviceName namespace =
     serviceName @ ''-'' @ namespace @ ''.'' @ IngressHost cfg @ ''.nip.io''"

definition exposeServiceAsIngress ::
  "'p tools \<Rightarrow> config \<Rightarrow> KubectlOptions \<Rightarrow> gostring \<Rightarrow> gostring \<Rightarrow> gostring \<Rightarrow> int \<Rightarrow> bool \<Rightarrow> unit prog" where
  "exposeServiceAsIngress ts cfg ko namespace clusterName serviceName servicePort https =
     chain (lift_result (BuildIngressManifest ts (serviceName @ ''-'' @ namespace)
              (exposed_host cfg serviceName namespace)
              (serviceName @ ''-'' @ clusterName) servicePort https))
       (\<lambda>ingress. run_musts [ApplyString ko (ManifestText ingress)])"

definition scheme_of :: "bool \<Rightarrow> gostring" where
  "scheme_of https = (if https then ''https'' else ''http'')"

subsection \<open>VMCluster\<close>

definition ExposeVMInsertAsIngress ::
  "'p tools \<Rightarrow> config \<Rightarrow> KubectlOptions \<Rightarrow> gostring \<Rightarrow> vmclusterIngressReadiness \<Rightarrow> unit prog" where
  "ExposeVMInsertAsIngress ts cfg ko namespace readiness =
     chain (exposeServiceAsIngress ts cfg ko namespace (vr_ClusterName readiness) ''vminsert'' 8480 (vr_VMInsertHTTPS readiness))
       (\<lambda>_. if vr_VMInsertMTLS readiness then ret ()
            else run_musts [WaitHTTP [scheme_of (vr_VMInsertHTTPS readiness) @ ''://'' @ VMInsertHost namespace cfg @ ''/health'']])"

definition ExposeVMSelectAsIngress ::
  "'p tools \<Rightarrow> config \<Rightarrow> KubectlOptions \<Rightarrow> gostring \<Rightarrow> vmclusterIngressReadiness \<Rightarrow> unit prog" where
  "ExposeVMSelectAsIngress ts cfg ko namespace readiness =
     chain (exposeServiceAsIngress ts cfg ko namespace (vr_ClusterName readiness) ''vmselect'' 8481 (vr_VMSelectHTTPS readiness))
       (\<lambda>_. if vr_VMSelectMTLS readiness then ret ()
            else run_musts [WaitHTTP [scheme_of (vr_VMSelectHTTPS readiness) @ ''://'' @ VMSelectHost namespace cfg @
                                      ''/select/0/prometheus/api/v1/query?query=1'']])"

definition vmcluster_doc :: "'p tools \<Rightarrow> config \<Rightarrow> 'p list \<Rightarrow> json \<Rightarrow> json result" where
  "vmcluster_doc ts cfg jsonPatches template =
     bind_result (buildVMClusterImagePatch ts cfg) (\<lambda>imagePatch.
     bind_result (apply_patches ts (the_patches imagePatch) template) (\<lambda>doc.
       apply_patches ts jsonPatches doc))"

definition InstallVMCluster ::
  "'p tools \<Rightarrow> config \<Rightarrow> KubectlOptions \<Rightarrow> gostring \<Rightarrow> 'p list \<Rightarrow> int \<Rightarrow> unit prog" where
  "InstallVMCluster ts cfg ko namespace jsonPatches operationalTimeout =
     chain (ensure_namespace ko namespace True) (\<lambda>_.
     chain (ensureLicenseSecret ts cfg ko namespace) (\<lambda>_.
     chain (lift_result (appendLicensePatch ts cfg jsonPatches)) (\<lambda>patches.
     chain (read_doc ts (ManifestsRoot cfg @ ''/overwatch/vmcluster.yaml'')) (\<lambda>template.
     chain (lift_result (vmcluster_doc ts cfg patches template)) (\<lambda>vmclusterJson.
     chain (lift_result (vmclusterIngressReadinessFromSpec vmclusterJson)) (\<lambda>readiness.
     chain (run_musts
              [ApplyString ko (Document vmclusterJson),
               WaitOperational ''VMCluster'' ko namespace (vr_ClusterName readiness) operationalTimeout,
               RunKubectl ko (wait_pods_args (vr_ClusterName readiness))]) (\<lambda>_.
     chain (ExposeVMSelectAsIngress ts cfg ko namespace readiness) (\<lambda>_.
       ExposeVMInsertAsIngress ts cfg ko namespace readiness))))))))"

definition kubectl_wait_delete :: "KubectlOptions \<Rightarrow> gostring \<Rightarrow> gostring \<Rightarrow> call" where
  "kubectl_wait_delete ko kind name =
     RunKubectl ko [''wait'', ''--for=delete'', kind, name, ''--timeout='' @ duration_String VMClusterWaitTimeout]"

definition kubectl_delete :: "KubectlOptions \<Rightarrow> gostring \<Rightarrow> gostring \<Rightarrow> call" where
  "kubectl_delete ko kind name = RunKubectl ko [''delete'', kind, name, ''--ignore-not-found=true'']"

definition DeleteVMCluster :: "KubectlOptions \<Rightarrow> gostring \<Rightarrow> unit prog" where
  "DeleteVMCluster ko vmclusterName = run_musts
     [kubectl_delete ko ''vmcluster'' vmclusterName,
      kubectl_wait_delete ko ''deployment'' (''vminsert-'' @ vmclusterName),
      kubectl_wait_delete ko ''statefulset'' (''vmstorage-'' @ vmclusterName),
      kubectl_wait_delete ko ''statefulset'' (''vmselect-'' @ vmclusterName)]"

definition RestartVMStoragePods :: "bool \<Rightarrow> KubectlOptions \<Rightarrow> gostring \<Rightarrow> unit prog" where
  "RestartVMStoragePods cancelled ko clusterName =
     (if cancelled then ret ()
      else run_musts [RunKubectl ko [''delete'', ''pods'', ''-l'',
             ''app.kubernetes.io/name=vmstorage,app.kubernetes.io/instance='' @ clusterName, ''--wait=false'']])"

record VMClusterEndpoints =
  ve_VMInsert :: gostring
  ve_VMSelect :: gostring
  ve_VMStorage :: gostring

definition GetVMClusterServiceEndpoints :: "gostring \<Rightarrow> gostring \<Rightarrow> VMClusterEndpoints" where
  "GetVMClusterServiceEndpoints namespace vmclusterName =
     \<lparr>ve_VMInsert = ''vminsert-'' @ vmclusterName @ ''.'' @ namespace @ ''.svc.cluster.local:8480'',
      ve_VMSelect = ''vmselect-'' @ vmclusterName @ ''.'' @ namespace @ ''.svc.cluster.local:8481'',
      ve_VMStorage = ''vmstorage-'' @ vmclusterName @ ''.'' @ namespace @ ''.svc.cluster.local:8482''\<rparr>"

subsection \<open>VLCluster\<close>

definition ExposeVLInsertAsIngress ::
  "'p tools \<Rightarrow> config \<Rightarrow> KubectlOptions \<Rightarrow> gostring \<Rightarrow> vlclusterIngressReadiness \<Rightarrow> unit prog" where
  "ExposeVLInsertAsIngress ts cfg ko namespace readiness =
     chain (exposeServiceAsIngress ts cfg ko namespace (lr_ClusterName readiness) ''vlinsert'' 9481 (lr_VLInsertHTTPS readiness))
       (\<lambda>_. run_musts [WaitHTTP [scheme_of (lr_VLInsertHTTPS readiness) @ ''://'' @ VLInsertHost namespace cfg @ ''/health'']])"

definition ExposeVLSelectAsIngress ::
  "'p tools \<Rightarrow> config \<Rightarrow> KubectlOptions \<Rightarrow> gostring \<Rightarrow> vlclusterIngressReadiness \<Rightarrow> unit prog" where
  "ExposeVLSelectAsIngress ts cfg ko namespace readiness =
     chain (exposeServiceAsIngress ts cfg ko namespace (lr_ClusterName readiness) ''vlselect'' 9471 (lr_VLSelectHTTPS readiness))
       (\<lambda>_. run_musts [WaitHTTP [scheme_of (lr_VLSelectHTTPS readiness) @ ''://'' @ VLSelectHost namespace cfg @ ''/health'']])"

definition vlcluster_doc :: "'p tools \<Rightarrow> config \<Rightarrow> 'p list \<Rightarrow> json \<Rightarrow> json result" where
  "vlcluster_doc ts cfg jsonPatches template =
     bind_result (buildVLClusterImagePatch ts cfg) (\<lambda>imagePatch.
     bind_result (apply_patches ts (the_patches imagePatch) template) (\<lambda>doc.
       apply_patches ts jsonPatches doc))"

text \<open>The license goes to enterprise builds only: the secret first, then the patch.\<close>

definition license_vlcluster ::
  "'p tools \<Rightarrow> config \<Rightarrow> KubectlOptions \<Rightarrow> gostring \<Rightarrow> gostring \<Rightarrow> json \<Rightarrow> json prog" where
  "license_vlcluster ts cfg ko namespace version doc =
     (if LicenseFile cfg \<noteq> [] \<and> isEnterpriseTag version then
        chain (ensureLicenseSecret ts cfg ko namespace)
          (\<lambda>_. lift_result (bind_result (LicensePatch ts) (\<lambda>p. tl_apply ts p doc)))
      else ret doc)"

definition InstallVLCluster ::
  "'p tools \<Rightarrow> config \<Rightarrow> KubectlOptions \<Rightarrow> gostring \<Rightarrow> 'p list \<Rightarrow> int \<Rightarrow> unit prog" where
  "InstallVLCluster ts cfg ko namespace jsonPatches operationalTimeout =
     chain (ensure_namespace ko namespace True) (\<lambda>_.
     chain (read_doc ts (ManifestsRoot cfg @ ''/overwatch/vlcluster.yaml'')) (\<lambda>template.
     chain (lift_result (vlcluster_doc ts cfg jsonPatches template)) (\<lambda>doc.
     chain (lift_result (vlclusterIngressReadinessFromSpec doc)) (\<lambda>readiness.
     chain (license_vlcluster ts cfg ko namespace (lr_ClusterVersion readiness) doc) (\<lambda>vlclusterJson.
     chain (run_musts
              [ApplyString ko (Document vlclusterJson),
               WaitOperational ''VLCluster'' ko namespace [] operationalTimeout,
               RunKubectl ko (wait_pods_args (lr_ClusterName readiness))]) (\<lambda>_.
     chain (ExposeVLInsertAsIngress ts cfg ko namespace readiness) (\<lambda>_.
       ExposeVLSelectAsIngress ts cfg ko namespace readiness)))))))"

definition DeleteVLCluster :: "KubectlOptions \<Rightarrow> gostring \<Rightarrow> unit prog" where
  "DeleteVLCluster ko vlclusterName = run_musts
     [kubectl_delete ko ''vlcluster'' vlclusterName,
      kubectl_wait_delete ko ''deployment'' (''vlinsert-'' @ vlclusterName),
      kubectl_wait_delete ko ''deployment'' (''vlselect-'' @ vlclusterName),
      kubectl_wait_delete ko ''statefulset'' (''vlstorage-'' @ vlclusterName)]"

subsection \<open>Agents\<close>

definition exposeVMAgentAsIngress ::
  "'p tools \<Rightarrow> config \<Rightarrow> KubectlOptions \<Rightarrow> gostring \<Rightarrow> gostring \<Rightarrow> unit prog" where
  "exposeVMAgentAsIngress ts cfg ko namespace name =
     chain (read_doc ts (OverwatchVMSingleIngress cfg)) (\<lambda>template.
     chain (lift_result (apply_ops ts [vmagent_ingress_ops cfg namespace name] template)) (\<lambda>doc.
       run_musts [ApplyString ko (Document doc),
                  WaitHTTP [''http://'' @ vmagent_host cfg namespace name @ ''/health'']]))"

definition ExposeNamedVMAgentAsIngress ::
  "'p tools \<Rightarrow> config \<Rightarrow> KubectlOptions \<Rightarrow> gostring \<Rightarrow> gostring \<Rightarrow> unit prog" where
  "ExposeNamedVMAgentAsIngress ts cfg ko namespace name = exposeVMAgentAsIngress ts cfg ko namespace name"

definition ExposeVMAgentAsIngress :: "'p tools \<Rightarrow> config \<Rightarrow> KubectlOptions \<Rightarrow> gostring \<Rightarrow> unit prog" where
  "ExposeVMAgentAsIngress ts cfg ko namespace = exposeVMAgentAsIngress ts cfg ko namespace []"

definition patched_vmagent :: "'p tools \<Rightarrow> config \<Rightarrow> 'p list \<Rightarrow> json result" where
  "patched_vmagent ts cfg jsonPatches =
     bind_result (appendLicensePatch ts cfg jsonPatches) (\<lambda>patches. apply_patches ts patches (baseVMAgentJSON cfg))"

definition ApplyVMAgentWithPatches ::
  "'p tools \<Rightarrow> config \<Rightarrow> KubectlOptions \<Rightarrow> gostring \<Rightarrow> gostring \<Rightarrow> 'p list \<Rightarrow> unit prog" where
  "ApplyVMAgentWithPatches ts cfg ko namespace name jsonPatches =
     chain (ensureLicenseSecret ts cfg ko namespace) (\<lambda>_.
     chain (lift_result (patched_vmagent ts cfg jsonPatches)) (\<lambda>vmagentJson.
     chain (run_musts [ApplyString ko (Document vmagentJson),
                       WaitOperational ''VMAgent'' ko namespace [] ResourceWaitTimeout]) (\<lambda>_.
       ExposeNamedVMAgentAsIngress ts cfg ko namespace name)))"

definition InstallVMAgent ::
  "'p tools \<Rightarrow> config \<Rightarrow> KubectlOptions \<Rightarrow> gostring \<Rightarrow> 'p list \<Rightarrow> unit prog" where
  "InstallVMAgent ts cfg ko namespace jsonPatches =
     chain (ensure_namespace ko namespace True) (\<lambda>_.
     chain (ensureLicenseSecret ts cfg ko namespace) (\<lambda>_.
     chain (lift_result (patched_vmagent ts cfg jsonPatches)) (\<lambda>vmagentJson.
     chain (run_musts [ApplyString ko (Document vmagentJson),
                       WaitOperational ''VMAgent'' ko namespace [] ResourceWaitTimeout]) (\<lambda>_.
       ExposeVMAgentAsIngress ts cfg ko namespace))))"

definition DeleteVMAgent :: "KubectlOptions \<Rightarrow> gostring \<Rightarrow> unit prog" where
  "DeleteVMAgent ko vmagentName = run_musts [kubectl_delete ko ''vmagent'' vmagentName]"

definition InstallVLAgent ::
  "'p tools \<Rightarrow> config \<Rightarrow> KubectlOptions \<Rightarrow> gostring \<Rightarrow> gostring \<Rightarrow> gostring \<Rightarrow> unit prog" where
  "InstallVLAgent ts cfg ko namespace remoteWriteURL tlsSecretName =
     chain (ensure_namespace ko namespace False) (\<lambda>_.
     chain (ensureLicenseSecret ts cfg ko namespace) (\<lambda>_.
     chain (lift_result (bind_result (appendLicensePatch ts cfg []) (\<lambda>patches.
              apply_patches ts patches (baseVLAgentJSON cfg [vlagent_remote_write remoteWriteURL tlsSecretName])))) (\<lambda>data.
       run_musts [ApplyString ko (Document data),
                  WaitOperational ''VLAgent'' ko namespace [] ResourceWaitTimeout])))"

definition DeleteVLAgent :: "KubectlOptions \<Rightarrow> gostring \<Rightarrow> unit prog" where
  "DeleteVLAgent ko name = run_musts [kubectl_delete ko ''vlagent'' name]"

subsection \<open>VMSingle\<close>

definition vmsingle_ingress_ops :: "config \<Rightarrow> gostring \<Rightarrow> PatchOp list list" where
  "vmsingle_ingress_ops cfg namespace =
     [[patch_op ''replace'' ''/spec/rules/0/host'' (JStr (VMSingleNamespacedHost namespace cfg))],
      [patch_op ''add'' ''/metadata/namespace'' (JStr namespace)],
      [patch_op ''replace'' ''/spec/rules/0/http/paths/0/backend/service/name'' (JStr ''vmsingle-vmsingle'')]]"

definition ExposeVMSingleAsIngress :: "'p tools \<Rightarrow> config \<Rightarrow> KubectlOptions \<Rightarrow> gostring \<Rightarrow> unit prog" where
  "ExposeVMSingleAsIngress ts cfg ko namespace =
     chain (read_doc ts (OverwatchVMSingleIngress cfg)) (\<lambda>template.
     chain (lift_result (apply_ops ts (vmsingle_ingress_ops cfg namespace) template)) (\<lambda>doc.
       run_musts [ApplyString ko (Document doc),
                  WaitHTTP [''http://'' @ VMSingleNamespacedHost namespace cfg @ PrometheusPathSuffix @
                            ''/api/v1/query?query=1'']]))"

definition patchAndApplyVMSingleManifest ::
  "'p tools \<Rightarrow> config \<Rightarrow> KubectlOptions \<Rightarrow> gostring \<Rightarrow> gostring \<Rightarrow> 'p list \<Rightarrow> unit prog" where
  "patchAndApplyVMSingleManifest ts cfg ko namespace vmsingleYamlPath jsonPatches =
     chain (ensureLicenseSecret ts cfg ko namespace) (\<lambda>_.
     chain (lift_result (appendLicensePatch ts cfg jsonPatches)) (\<lambda>patches.
     chain (read_doc ts vmsingleYamlPath) (\<lambda>template.
     chain (lift_result (apply_patches ts patches template)) (\<lambda>doc.
       run_musts [ApplyString ko (Document doc)]))))"

definition InstallVMSingle ::
  "'p tools \<Rightarrow> config \<Rightarrow> KubectlOptions \<Rightarrow> gostring \<Rightarrow> 'p list \<Rightarrow> int \<Rightarrow> unit prog" where
  "InstallVMSingle ts cfg ko namespace jsonPatches operationalTimeout =
     chain (ensure_namespace ko namespace True) (\<lambda>_.
     chain (patchAndApplyVMSingleManifest ts cfg ko namespace (ManifestsRoot cfg @ ''/components/vmsingle.yaml'') jsonPatches) (\<lambda>_.
     chain (run_musts [WaitOperational ''VMSingle'' ko namespace [] operationalTimeout,
                       WaitDeployment ko ''vmsingle-vmsingle'' Retries PollingInterval]) (\<lambda>_.
       ExposeVMSingleAsIngress ts cfg ko namespace)))"

definition DeleteVMSingle :: "KubectlOptions \<Rightarrow> gostring \<Rightarrow> unit prog" where
  "DeleteVMSingle ko vmsingleName = run_musts [kubectl_delete ko ''vmsingle'' vmsingleName]"

subsection \<open>VMAuth, VMDistributed and VMGather\<close>

definition InstallVMAuth ::
  "'p tools \<Rightarrow> config \<Rightarrow> KubectlOptions \<Rightarrow> gostring \<Rightarrow> 'p list \<Rightarrow> unit prog" where
  "InstallVMAuth ts cfg ko namespace jsonPatches =
     chain (ensure_namespace ko namespace False) (\<lambda>_.
     chain (read_doc ts (ManifestsRoot cfg @ ''/components/vmauth.yaml'')) (\<lambda>template.
     chain (ensureLicenseSecret ts cfg ko namespace) (\<lambda>_.
     chain (lift_result (bind_result (appendLicensePatch ts cfg jsonPatches) (\<lambda>patches. apply_patches ts patches template))) (\<lambda>doc.
       run_musts [ApplyString ko (Document doc),
                  WaitOperational ''VMAuth'' ko namespace [] ResourceWaitTimeout]))))"

definition DeleteVMAuth :: "KubectlOptions \<Rightarrow> gostring \<Rightarrow> unit prog" where
  "DeleteVMAuth ko vmAuthName = run_musts [kubectl_delete ko ''vmauth'' vmAuthName]"

definition InstallVMDistributed :: "'p tools \<Rightarrow> config \<Rightarrow> gostring \<Rightarrow> gostring \<Rightarrow> unit prog" where
  "InstallVMDistributed ts cfg namespace releaseName =
     (let ko = NewKubectlOptions [] [] namespace
      in chain (ensure_namespace ko namespace True) (\<lambda>_.
         chain (ensureLicenseSecret ts cfg ko namespace) (\<lambda>_.
           run_musts [ApplyString ko (ManifestText (buildVMDistributedManifest cfg releaseName namespace (VMAuthHost namespace cfg))),
                      WaitOperational ''VMDistributed'' ko namespace releaseName VMDistributedWaitTimeout])))"

definition InstallVMGather :: "'p tools \<Rightarrow> config \<Rightarrow> unit prog" where
  "InstallVMGather ts cfg =
     (let ko = NewKubectlOptions [] [] ''vmgather''
      in chain (ensure_namespace ko ''vmgather'' True) (\<lambda>_.
         chain (must (ReadFile (ManifestsRoot cfg @ ''/components/vmgather.yaml''))) (\<lambda>vmgatherYaml.
         chain (run_musts [ApplyString ko (ManifestText vmgatherYaml)]) (\<lambda>_.
         chain (must (ReadFile (ManifestsRoot cfg @ ''/components/vmgather-ingress.yaml''))) (\<lambda>ingressYaml.
         chain (lift_result
                  (bind_result (CreateJsonPatch ts [patch_op ''replace'' ''/spec/rules/0/host'' (JStr (VMGatherHost cfg))]) (\<lambda>patch.
                   bind_result (tl_yaml ts ingressYaml) (\<lambda>doc.
                   bind_result (tl_apply ts patch doc) (\<lambda>doc'. tl_to_yaml ts doc'))))) (\<lambda>vmgatherPatched.
           run_musts [ApplyString ko (ManifestText vmgatherPatched),
                      WaitDeployment ko ''vmgather'' Retries PollingInterval]))))))"

subsection \<open>Custom alert rules\<close>

definition AddCustomAlertRules :: "'p tools \<Rightarrow> config \<Rightarrow> gostring \<Rightarrow> unit prog" where
  "AddCustomAlertRules ts cfg namespace =
     chain (read_doc ts (ManifestsRoot cfg @ ''/components/custom-alerts.yaml'')) (\<lambda>template.
     chain (lift_result (apply_ops ts [[patch_op ''replace'' ''/metadata/namespace'' (JStr namespace)]] template)) (\<lambda>doc.
       run_musts [ApplyString (NewKubectlOptions [] [] namespace) (Document doc)]))"

subsection \<open>Kafka\<close>

definition strimziHelmRepo :: gostring where "strimziHelmRepo = ''strimzi''"
definition strimziHelmRepoURL :: gostring where "strimziHelmRepoURL = ''https://strimzi.io/charts/''"
definition strimziHelmChart :: gostring where "strimziHelmChart = ''strimzi/strimzi-kafka-operator''"
definition strimziHelmVersion :: gostring where "strimziHelmVersion = ''1.3.1''"
definition strimziReleaseName :: gostring where "strimziReleaseName = ''strimzi-kafka-operator''"
definition strimziOperatorName :: gostring where "strimziOperatorName = ''strimzi-cluster-operator''"

definition InstallStrimziOperator :: "gostring \<Rightarrow> unit prog" where
  "InstallStrimziOperator namespace =
     (let ko = NewKubectlOptions [] [] namespace
      in run_musts
        [HelmRun [''repo'', ''add'', strimziHelmRepo, strimziHelmRepoURL, ''--force-update''],
         HelmRun [''repo'', ''update''],
         HelmUpgrade ko strimziHelmChart strimziReleaseName strimziHelmVersion [(''watchAnyNamespace'', ''true'')] []
           [] [''--create-namespace'', ''--wait'', ''--timeout'', ''5m''],
         WaitCRDs (NewKubectlOptions [] [] [])
           [''kafkanodepools.kafka.strimzi.io'', ''kafkas.kafka.strimzi.io'', ''kafkatopics.kafka.strimzi.io''],
         WaitDeployment ko strimziOperatorName Retries PollingInterval])"

definition apply_kafka_manifest :: "'p tools \<Rightarrow> config \<Rightarrow> KubectlOptions \<Rightarrow> gostring \<Rightarrow> gostring \<Rightarrow> unit prog" where
  "apply_kafka_manifest ts cfg ko namespace manifestFile =
     chain (read_doc ts (ManifestsRoot cfg @ ''/kafka/'' @ manifestFile)) (\<lambda>template.
     chain (lift_result (apply_ops ts [[patch_op ''add'' ''/metadata/namespace'' (JStr namespace)]] template)) (\<lambda>doc.
       run_musts [ApplyString ko (Document doc)]))"

fun apply_kafka_manifests :: "'p tools \<Rightarrow> config \<Rightarrow> KubectlOptions \<Rightarrow> gostring \<Rightarrow> gostring list \<Rightarrow> unit prog" where
  "apply_kafka_manifests ts cfg ko namespace [] = ret ()"
| "apply_kafka_manifests ts cfg ko namespace (f # fs) =
     chain (apply_kafka_manifest ts cfg ko namespace f) (\<lambda>_. apply_kafka_manifests ts cfg ko namespace fs)"

definition InstallKafka :: "'p tools \<Rightarrow> config \<Rightarrow> KubectlOptions \<Rightarrow> gostring \<Rightarrow> unit prog" where
  "InstallKafka ts cfg ko namespace =
     chain (apply_kafka_manifests ts cfg ko namespace [''kafka-node-pool.yaml'', ''kafka.yaml'', ''kafka-topic.yaml''])
       (\<lambda>_. run_musts [WaitReady ko [''wait'', ''--for=condition=Ready'', ''kafka/kafka'', ''--timeout=60s'']
                         ResourceWaitTimeout PollingInterval])"

definition KafkaBrokerAddr :: "gostring \<Rightarrow> gostring" where
  "KafkaBrokerAddr namespace = ''kafka-kafka-bootstrap.'' @ namespace @ ''.svc.cluster.local:9092''"

definition DeleteKafka :: "KubectlOptions \<Rightarrow> unit prog" where
  "DeleteKafka ko = run_musts
     [RunKubectl ko [''delete'', ''kafkatopic'', ''--all'', ''--ignore-not-found=true'', ''--wait=true''],
      RunKubectl ko [''delete'', ''kafkanodepool'', ''--all'', ''--ignore-not-found=true'', ''--wait=true''],
      RunKubectl ko [''delete'', ''kafka'', ''--all'', ''--ignore-not-found=true'']]"

subsection \<open>The ingress host\<close>

definition ingressControllerNamespace :: gostring where "ingressControllerNamespace = ''kube-system''"
definition ingressControllerName :: gostring where "ingressControllerName = ''traefik''"

text \<open>The addresses in a service's load-balancer status: IP address and host name, either possibly empty.\<close>

definition extractIngressHost :: "(gostring \<times> gostring) list \<Rightarrow> gostring" where
  "extractIngressHost ingresses =
     (case ingresses of [] \<Rightarrow> [] | (ip, hostname) # _ \<Rightarrow> if ip \<noteq> [] then ip else [])"

text \<open>
  \<open>WaitIngress\<close> stands for \<open>waitForIngressLoadBalancerIngress\<close>, which gives the address or fails
  the test.
\<close>

definition DiscoverIngressHost :: "config \<Rightarrow> config prog" where
  "DiscoverIngressHost cfg =
     (if IngressHost cfg \<noteq> [] then
        chain (must (WaitTCP (IngressHost cfg @ '':'' @ int_str 80))) (\<lambda>_. ret cfg)
      else
        (let ko = NewKubectlOptions [] [] ingressControllerNamespace
         in chain (must (WaitDeployment ko ingressControllerName Retries PollingInterval)) (\<lambda>_.
            chain (if EnvK8SDistro cfg = ''kind'' then ret ''127.0.0.1'' else must (WaitIngress ko))
              (\<lambda>ingressHost. ret (SetIngressHost ingressHost cfg)))))"

text \<open>
  \<open>waitForIngressLoadBalancerIngress\<close>: \<open>first\<close> is the service as first read, \<open>watched\<close> the events
  of the watch until it ends (\<open>None\<close> for an event of another type or object).
\<close>

fun first_ingress :: "(gostring \<times> gostring) list option list \<Rightarrow> gostring result" where
  "first_ingress [] = Inl ''Failed to watch for LoadBalancer ingress''"
| "first_ingress (None # es) = first_ingress es"
| "first_ingress (Some sv # es) =
     (if extractIngressHost sv \<noteq> [] then Inr (extractIngressHost sv) else first_ingress es)"

definition waitForIngressLoadBalancerIngress ::
  "(gostring \<times> gostring) list result \<Rightarrow> (gostring \<times> gostring) list option list result \<Rightarrow> gostring result" where
  "waitForIngressLoadBalancerIngress first watched =
     (case first of
        Inl err \<Rightarrow> Inl (''Failed to get '' @ ingressControllerName @ '' service: '' @ err)
      | Inr sv \<Rightarrow>
          if extractIngressHost sv \<noteq> [] then Inr (extractIngressHost sv)
          else (case watched of
                  Inl err \<Rightarrow> Inl (''Failed to create watcher: '' @ err)
                | Inr events \<Rightarrow> first_ingress events))"

definition SetVMOperatorEnv :: "gostring \<Rightarrow> gostring \<Rightarrow> gostring \<Rightarrow> unit prog" where
  "SetVMOperatorEnv namespace name v =
     (let ko = NewKubectlOptions [] [] namespace; d = DefaultReleaseName @ ''-victoria-metrics-operator''
      in run_musts
        [RunKubectl ko [''set'', ''env'', ''deployment/'' @ d, name @ ''='' @ v],
         RunKubectl ko [''rollout'', ''status'', ''deployment/'' @ d, ''--timeout=120s''],
         WaitDeployment ko d Retries PollingInterval])"

end
