(* ===== verification/Install_Props.thy ===== *)
theory Install_Props
  imports Install
begin

text \<open>
  What the install functions guarantee: each is an instance of the interface \<open>fail_fast\<close>, and a
  successful run makes exactly the calls listed here, in this order.
\<close>

subsection \<open>Failing fast\<close>

lemma ff_ensure_namespace [ff]: "fail_fast (ensure_namespace ko ns b)"
  unfolding ensure_namespace_def by (intro ff)

lemma ff_ensureLicenseSecret [ff]: "fail_fast (ensureLicenseSecret ts cfg ko ns)"
proof (cases "LicenseFile cfg = []")
  case True
  then show ?thesis by (simp add: ensureLicenseSecret_def ff)
next
  case False
  then have e: "ensureLicenseSecret ts cfg ko ns =
      chain (chain (perform (ReadFile (LicenseFile cfg)))
              (\<lambda>content. lift_result (PrepareLicenseSecret (\<lambda>_. content) (tl_secret ts) cfg ns)))
        (\<lambda>secretYaml. run_musts [ApplyPlain ko (ManifestText secretYaml)])"
    by (simp add: ensureLicenseSecret_def)
  have "fail_fast (chain (perform (ReadFile (LicenseFile cfg)))
          (\<lambda>content. lift_result (PrepareLicenseSecret (\<lambda>_. content) (tl_secret ts) cfg ns)))"
    by (rule ff_checked) (simp add: PrepareLicenseSecret_def False)
  then show ?thesis unfolding e by (rule ff_chain) (rule ff_run_musts)
qed

lemma ff_read_doc [ff]: "fail_fast (read_doc ts path)"
  unfolding read_doc_def by (intro ff)

lemma ff_exposeService [ff]: "fail_fast (exposeServiceAsIngress ts cfg ko ns cl sn port https)"
  unfolding exposeServiceAsIngress_def by (intro ff)

lemma ff_exposeVMAgent [ff]: "fail_fast (exposeVMAgentAsIngress ts cfg ko ns name)"
  unfolding exposeVMAgentAsIngress_def by (intro ff)

lemma ff_license_vlcluster [ff]: "fail_fast (license_vlcluster ts cfg ko ns version doc)"
  unfolding license_vlcluster_def by (intro ff)

lemma ff_expose_cluster [ff]:
  "fail_fast (ExposeVMInsertAsIngress ts cfg ko ns rd)" "fail_fast (ExposeVMSelectAsIngress ts cfg ko ns rd)"
  "fail_fast (ExposeVLInsertAsIngress ts cfg ko ns ld)" "fail_fast (ExposeVLSelectAsIngress ts cfg ko ns ld)"
  "fail_fast (ExposeVMSingleAsIngress ts cfg ko ns)"
  unfolding ExposeVMInsertAsIngress_def ExposeVMSelectAsIngress_def ExposeVLInsertAsIngress_def
    ExposeVLSelectAsIngress_def ExposeVMSingleAsIngress_def
  by (intro ff)+

lemma ff_kafka [ff]: "fail_fast (apply_kafka_manifests ts cfg ko ns fs)"
  by (induction fs) (simp_all add: apply_kafka_manifest_def, (intro ff | assumption)+)

interpretation vmcluster: fail_fast "InstallVMCluster ts cfg ko ns ps t" for ts cfg ko ns ps t
  unfolding InstallVMCluster_def by (intro ff)

interpretation vlcluster: fail_fast "InstallVLCluster ts cfg ko ns ps t" for ts cfg ko ns ps t
  unfolding InstallVLCluster_def by (intro ff)

interpretation vmagent: fail_fast "InstallVMAgent ts cfg ko ns ps" for ts cfg ko ns ps
  unfolding InstallVMAgent_def ExposeVMAgentAsIngress_def by (intro ff)

interpretation named_vmagent: fail_fast "ApplyVMAgentWithPatches ts cfg ko ns name ps" for ts cfg ko ns name ps
  unfolding ApplyVMAgentWithPatches_def ExposeNamedVMAgentAsIngress_def by (intro ff)

interpretation vlagent: fail_fast "InstallVLAgent ts cfg ko ns url sec" for ts cfg ko ns url sec
  unfolding InstallVLAgent_def by (intro ff)

interpretation vmsingle: fail_fast "InstallVMSingle ts cfg ko ns ps t" for ts cfg ko ns ps t
  unfolding InstallVMSingle_def patchAndApplyVMSingleManifest_def by (intro ff)

interpretation vmauth: fail_fast "InstallVMAuth ts cfg ko ns ps" for ts cfg ko ns ps
  unfolding InstallVMAuth_def by (intro ff)

interpretation vmdistributed: fail_fast "InstallVMDistributed ts cfg ns rel" for ts cfg ns rel
  unfolding InstallVMDistributed_def Let_def by (intro ff)

interpretation vmgather: fail_fast "InstallVMGather ts cfg" for ts cfg
  unfolding InstallVMGather_def Let_def by (intro ff)

interpretation alert_rules: fail_fast "AddCustomAlertRules ts cfg ns" for ts cfg ns
  unfolding AddCustomAlertRules_def by (intro ff)

interpretation strimzi: fail_fast "InstallStrimziOperator ns" for ns
  unfolding InstallStrimziOperator_def Let_def by (intro ff)

interpretation kafka: fail_fast "InstallKafka ts cfg ko ns" for ts cfg ko ns
  unfolding InstallKafka_def by (intro ff)

interpretation ingress_host: fail_fast "DiscoverIngressHost cfg" for cfg
  unfolding DiscoverIngressHost_def Let_def by (intro ff)

subsection \<open>Traces of successful runs\<close>

abbreviation after :: "world \<Rightarrow> call list \<Rightarrow> world" where
  "after w cs \<equiv> w\<lparr>w_trace := w_trace w @ cs\<rparr>"

definition namespace_calls :: "world \<Rightarrow> KubectlOptions \<Rightarrow> gostring \<Rightarrow> bool \<Rightarrow> call list" where
  "namespace_calls w ko ns labelled =
     GetNamespace ko ns #
     (case w_answer w (w_trace w) (GetNamespace ko ns) of
        Inr _ \<Rightarrow> []
      | Inl _ \<Rightarrow> CreateNamespace ko ns # (if labelled then [goldilocks_label ko ns] else []))"

definition license_calls :: "config \<Rightarrow> KubectlOptions \<Rightarrow> gostring \<Rightarrow> call list" where
  "license_calls cfg ko secretYaml =
     (if LicenseFile cfg = [] then [] else [ReadFile (LicenseFile cfg), ApplyPlain ko (ManifestText secretYaml)])"

definition expose_calls :: "KubectlOptions \<Rightarrow> gostring \<Rightarrow> gostring list \<Rightarrow> call list" where
  "expose_calls ko ingress ready =
     ApplyString ko (ManifestText ingress) # (if ready = [] then [] else [WaitHTTP ready])"

lemma run_musts_Inr: "run_musts cs w = (Inr x, w') \<Longrightarrow> w' = after w cs"
proof (induction cs arbitrary: w)
  case Nil
  then show ?case by (simp add: runs_Inr)
next
  case (Cons c cs)
  then obtain w1 where "w1 = after w [c]" "run_musts cs w1 = (Inr x, w')"
    by (auto simp: runs_Inr)
  with Cons.IH show ?case by fastforce
qed

lemma ensure_namespace_Inr:
  assumes "ensure_namespace ko ns b w = (Inr x, w')"
  shows "w' = after w (namespace_calls w ko ns b)"
proof (cases "w_answer w (w_trace w) (GetNamespace ko ns)")
  case (Inl e)
  with assms have "run_musts (CreateNamespace ko ns # (if b then [goldilocks_label ko ns] else []))
      (after w [GetNamespace ko ns]) = (Inr x, w')"
    by (simp add: ensure_namespace_def chain_def perform_def del: run_musts.simps)
  from run_musts_Inr [OF this] show ?thesis by (simp add: namespace_calls_def Inl)
next
  case (Inr a)
  with assms show ?thesis by (simp add: ensure_namespace_def runs_Inr namespace_calls_def)
qed

lemma ensureLicenseSecret_Inr:
  assumes "ensureLicenseSecret ts cfg ko ns w = (Inr x, w')"
  shows "\<exists>secretYaml. w' = after w (license_calls cfg ko secretYaml)"
proof (cases "LicenseFile cfg = []")
  case True
  with assms show ?thesis by (simp add: ensureLicenseSecret_def runs_Inr license_calls_def)
next
  case False
  with assms obtain y where "w' = after w [ReadFile (LicenseFile cfg), ApplyPlain ko (ManifestText y)]"
    by (auto simp: ensureLicenseSecret_def runs_Inr)
  with False show ?thesis by (auto simp: license_calls_def)
qed

lemma read_doc_Inr:
  "read_doc ts path w = (Inr doc, w') \<Longrightarrow>
     w' = after w [ReadFile path] \<and> (\<exists>text. w_answer w (w_trace w) (ReadFile path) = Inr text \<and> tl_yaml ts text = Inr doc)"
  by (auto simp: read_doc_def runs_Inr)

lemma exposeService_Inr:
  "exposeServiceAsIngress ts cfg ko ns cl sn port https w = (Inr x, w') \<Longrightarrow>
     \<exists>ingress. BuildIngressManifest ts (sn @ ''-'' @ ns) (exposed_host cfg sn ns)
         (sn @ ''-'' @ cl) port https = Inr ingress \<and> w' = after w [ApplyString ko (ManifestText ingress)]"
  by (auto simp: exposeServiceAsIngress_def runs_Inr)

definition vminsert_ready :: "config \<Rightarrow> gostring \<Rightarrow> vmclusterIngressReadiness \<Rightarrow> gostring list" where
  "vminsert_ready cfg ns rd =
     (if vr_VMInsertMTLS rd then []
      else [scheme_of (vr_VMInsertHTTPS rd) @ ''://'' @ VMInsertHost ns cfg @ ''/health''])"

definition vmselect_ready :: "config \<Rightarrow> gostring \<Rightarrow> vmclusterIngressReadiness \<Rightarrow> gostring list" where
  "vmselect_ready cfg ns rd =
     (if vr_VMSelectMTLS rd then []
      else [scheme_of (vr_VMSelectHTTPS rd) @ ''://'' @ VMSelectHost ns cfg @
            ''/select/0/prometheus/api/v1/query?query=1''])"

lemma expose_vminsert_Inr:
  assumes "ExposeVMInsertAsIngress ts cfg ko ns rd w = (Inr x, w')"
  shows "\<exists>ingress. w' = after w (expose_calls ko ingress (vminsert_ready cfg ns rd))"
proof -
  from assms obtain y w1 where a:
    "exposeServiceAsIngress ts cfg ko ns (vr_ClusterName rd) ''vminsert'' 8480 (vr_VMInsertHTTPS rd) w = (Inr y, w1)"
    and b: "(if vr_VMInsertMTLS rd then ret ()
             else run_musts [WaitHTTP [scheme_of (vr_VMInsertHTTPS rd) @ ''://'' @ VMInsertHost ns cfg @ ''/health'']]) w1 = (Inr x, w')"
    unfolding ExposeVMInsertAsIngress_def chain_Inr by blast
  from exposeService_Inr [OF a] obtain ingress where w1: "w1 = after w [ApplyString ko (ManifestText ingress)]" by blast
  have "w' = after w (expose_calls ko ingress (vminsert_ready cfg ns rd))"
  proof (cases "vr_VMInsertMTLS rd")
    case True
    with b w1 show ?thesis by (simp add: vminsert_ready_def expose_calls_def ret_Inr)
  next
    case False
    with b have "w' = after w1 [WaitHTTP [scheme_of (vr_VMInsertHTTPS rd) @ ''://'' @ VMInsertHost ns cfg @ ''/health'']]"
      by (simp add: run_musts_Inr del: run_musts.simps)
    with False w1 show ?thesis by (simp add: vminsert_ready_def expose_calls_def)
  qed
  then show ?thesis ..
qed

lemma expose_vmselect_Inr:
  assumes "ExposeVMSelectAsIngress ts cfg ko ns rd w = (Inr x, w')"
  shows "\<exists>ingress. w' = after w (expose_calls ko ingress (vmselect_ready cfg ns rd))"
proof -
  from assms obtain y w1 where a:
    "exposeServiceAsIngress ts cfg ko ns (vr_ClusterName rd) ''vmselect'' 8481 (vr_VMSelectHTTPS rd) w = (Inr y, w1)"
    and b: "(if vr_VMSelectMTLS rd then ret ()
             else run_musts [WaitHTTP [scheme_of (vr_VMSelectHTTPS rd) @ ''://'' @ VMSelectHost ns cfg @
                   ''/select/0/prometheus/api/v1/query?query=1'']]) w1 = (Inr x, w')"
    unfolding ExposeVMSelectAsIngress_def chain_Inr by blast
  from exposeService_Inr [OF a] obtain ingress where w1: "w1 = after w [ApplyString ko (ManifestText ingress)]" by blast
  have "w' = after w (expose_calls ko ingress (vmselect_ready cfg ns rd))"
  proof (cases "vr_VMSelectMTLS rd")
    case True
    with b w1 show ?thesis by (simp add: vmselect_ready_def expose_calls_def ret_Inr)
  next
    case False
    with b have "w' = after w1 [WaitHTTP [scheme_of (vr_VMSelectHTTPS rd) @ ''://'' @ VMSelectHost ns cfg @
                   ''/select/0/prometheus/api/v1/query?query=1'']]"
      by (simp add: run_musts_Inr del: run_musts.simps)
    with False w1 show ?thesis by (simp add: vmselect_ready_def expose_calls_def)
  qed
  then show ?thesis ..
qed

text \<open>
  C3: A VMCluster installation that succeeds made exactly these calls: the namespace is probed and
  created (and labelled) only if it was missing; with a license configured its secret is applied
  before the cluster, whose manifest then carries the license patch after the caller's patches;
  the patched template is applied once, the wait is for the name the patched manifest declares, and
  only then are vmselect and vminsert exposed, in this order. A component with mTLS is exposed but
  not probed, the others are probed with the scheme of their TLS setting.
\<close>

theorem InstallVMCluster_trace:
  assumes "InstallVMCluster ts cfg ko ns ps t w = (Inr (), w')"
  shows "\<exists>secretYaml patches template doc rd selIngress insIngress.
    appendLicensePatch ts cfg ps = Inr patches \<and> vmcluster_doc ts cfg patches template = Inr doc \<and>
    vmclusterIngressReadinessFromSpec doc = Inr rd \<and>
    w_trace w' = w_trace w @ namespace_calls w ko ns True @ license_calls cfg ko secretYaml @
      [ReadFile (ManifestsRoot cfg @ ''/overwatch/vmcluster.yaml''), ApplyString ko (Document doc),
       WaitOperational ''VMCluster'' ko ns (vr_ClusterName rd) t, RunKubectl ko (wait_pods_args (vr_ClusterName rd))] @
      expose_calls ko selIngress (vmselect_ready cfg ns rd) @ expose_calls ko insIngress (vminsert_ready cfg ns rd)"
proof -
  from assms obtain w1 w2 w3 w4 w5 patches template doc rd u v x y where
    s1: "ensure_namespace ko ns True w = (Inr u, w1)" and
    s2: "ensureLicenseSecret ts cfg ko ns w1 = (Inr v, w2)" and
    p: "appendLicensePatch ts cfg ps = Inr patches" and
    s3: "read_doc ts (ManifestsRoot cfg @ ''/overwatch/vmcluster.yaml'') w2 = (Inr template, w3)" and
    d: "vmcluster_doc ts cfg patches template = Inr doc" and r: "vmclusterIngressReadinessFromSpec doc = Inr rd" and
    s4: "run_musts [ApplyString ko (Document doc), WaitOperational ''VMCluster'' ko ns (vr_ClusterName rd) t,
           RunKubectl ko (wait_pods_args (vr_ClusterName rd))] w3 = (Inr x, w4)" and
    s5: "ExposeVMSelectAsIngress ts cfg ko ns rd w4 = (Inr y, w5)" and
    s6: "ExposeVMInsertAsIngress ts cfg ko ns rd w5 = (Inr (), w')"
    unfolding InstallVMCluster_def chain_Inr lift_result_Inr by blast
  note w1 = ensure_namespace_Inr [OF s1] and w4 = run_musts_Inr [OF s4]
  from ensureLicenseSecret_Inr [OF s2] obtain sy where w2: "w2 = after w1 (license_calls cfg ko sy)" ..
  from read_doc_Inr [OF s3] have w3: "w3 = after w2 [ReadFile (ManifestsRoot cfg @ ''/overwatch/vmcluster.yaml'')]" ..
  from expose_vmselect_Inr [OF s5] obtain si where w5: "w5 = after w4 (expose_calls ko si (vmselect_ready cfg ns rd))" ..
  from expose_vminsert_Inr [OF s6] obtain ii where w6: "w' = after w5 (expose_calls ko ii (vminsert_ready cfg ns rd))" ..
  have "w_trace w' = w_trace w @ namespace_calls w ko ns True @ license_calls cfg ko sy @
      [ReadFile (ManifestsRoot cfg @ ''/overwatch/vmcluster.yaml''), ApplyString ko (Document doc),
       WaitOperational ''VMCluster'' ko ns (vr_ClusterName rd) t, RunKubectl ko (wait_pods_args (vr_ClusterName rd))] @
      expose_calls ko si (vmselect_ready cfg ns rd) @ expose_calls ko ii (vminsert_ready cfg ns rd)"
    by (simp add: w1 w2 w3 w4 w5 w6)
  with p d r show ?thesis by blast
qed

text \<open>A world and tools in which everything succeeds, for the witnesses.\<close>

definition demo_tools :: "PatchOp list tools" where
  "demo_tools = \<lparr>tl_decode = Inr, tl_apply = (\<lambda>p doc. Inr doc),
     tl_yaml = (\<lambda>text. Inr (JObj [(''metadata'', JObj [(''name'', JStr text)]),
        (''spec'', JObj [(''clusterVersion'', JStr ''v1-enterprise''),
                        (''vminsert'', JObj [(''extraArgs'', JObj [(''tls'', JStr ''true''), (''mtls'', JStr ''true'')])])])])),
     tl_to_yaml = (\<lambda>doc. Inr ''ingress''), tl_secret = (\<lambda>s. Inr ''secret'')\<rparr>"

definition demo_world :: world where
  "demo_world = \<lparr>w_trace = [], w_answer = (\<lambda>trace c. case c of
      GetNamespace _ _ \<Rightarrow> Inl ''not found'' | ReadFile _ \<Rightarrow> Inr ''vm'' | _ \<Rightarrow> Inr [])\<rparr>"

definition demo_config :: config where
  "demo_config = SetLicenseFile ''/key'' (SetIngressHost ''10.0.0.1'' (init_config (\<lambda>_. [])))"

lemma demo_config_simps [simp]: "LicenseFile demo_config = ''/key''"
  by (simp add: demo_config_def LicenseFile_def SetLicenseFile_def cell_Get_Set)

lemmas run_defs = ensure_namespace_def ensureLicenseSecret_def read_doc_def goldilocks_label_def chain_def
  perform_def must_def lift_result_def ret_def fatal_def exposeServiceAsIngress_def BuildIngressManifest_def
  appendLicensePatch_def LicensePatch_def PrepareLicenseSecret_def CreateJsonPatch_def

lemmas readiness_defs = dec_metadata_name_def dec_extra_args_def map_entry_def

lemma demo_vmcluster_run:
  "\<exists>w'. InstallVMCluster demo_tools demo_config (NewKubectlOptions [] [] ''ns'') ''ns'' [] 300 demo_world = (Inr (), w')"
  unfolding InstallVMCluster_def run_defs vmcluster_doc_def buildVMClusterImagePatch_def ExposeVMSelectAsIngress_def
    ExposeVMInsertAsIngress_def vmclusterIngressReadinessFromSpec_def readiness_defs demo_tools_def demo_world_def
  by (simp add: ret_def must_def chain_def perform_def lift_result_def the_patches_def)


theorem InstallVMCluster_trace_witness:
  "\<exists>w' doc. InstallVMCluster demo_tools demo_config (NewKubectlOptions [] [] ''ns'') ''ns'' [] 300 demo_world = (Inr (), w') \<and>
     ApplyString (NewKubectlOptions [] [] ''ns'') (Document doc) \<in> set (w_trace w')"
proof -
  from demo_vmcluster_run obtain w' where run:
    "InstallVMCluster demo_tools demo_config (NewKubectlOptions [] [] ''ns'') ''ns'' [] 300 demo_world = (Inr (), w')" ..
  from InstallVMCluster_trace [OF run]
  have "\<exists>doc. ApplyString (NewKubectlOptions [] [] ''ns'') (Document doc) \<in> set (w_trace w')"
    by (elim exE conjE) (simp only: set_append list.set Un_iff insert_iff, blast)
  with run show ?thesis by blast
qed

lemma license_vlcluster_Inr:
  assumes "license_vlcluster ts cfg ko ns version doc w = (Inr applied, w')"
  shows "if LicenseFile cfg \<noteq> [] \<and> isEnterpriseTag version
    then \<exists>secretYaml p. w' = after w (license_calls cfg ko secretYaml) \<and> LicensePatch ts = Inr p \<and> tl_apply ts p doc = Inr applied
    else w' = w \<and> applied = doc"
proof (cases "LicenseFile cfg \<noteq> [] \<and> isEnterpriseTag version")
  case True
  with assms obtain u where s: "ensureLicenseSecret ts cfg ko ns w = (Inr u, w')"
    and p: "bind_result (LicensePatch ts) (\<lambda>p. tl_apply ts p doc) = Inr applied"
    by (auto simp: license_vlcluster_def chain_Inr lift_result_Inr)
  from ensureLicenseSecret_Inr [OF s] p True show ?thesis by (auto simp: bind_result_Inr)
next
  case False
  with assms show ?thesis by (auto simp: license_vlcluster_def ret_Inr)
qed

lemma expose_vl_Inr:
  "ExposeVLInsertAsIngress ts cfg ko ns rd w = (Inr x, w') \<Longrightarrow>
     \<exists>ingress. w' = after w (expose_calls ko ingress [scheme_of (lr_VLInsertHTTPS rd) @ ''://'' @ VLInsertHost ns cfg @ ''/health''])"
  "ExposeVLSelectAsIngress ts cfg ko ns rd w = (Inr x, w') \<Longrightarrow>
     \<exists>ingress. w' = after w (expose_calls ko ingress [scheme_of (lr_VLSelectHTTPS rd) @ ''://'' @ VLSelectHost ns cfg @ ''/health''])"
  unfolding ExposeVLInsertAsIngress_def ExposeVLSelectAsIngress_def chain_Inr
  by (auto simp: expose_calls_def dest!: exposeService_Inr run_musts_Inr simp del: run_musts.simps)

text \<open>
  A VLCluster installation that succeeds applied the license secret and the license patch
  exactly when a license is configured and the patched manifest asks for an enterprise build; the
  secret goes before the manifest, and the manifest applied is the licensed one. The rest is the
  fixed sequence of apply, wait and the two exposures.
\<close>

theorem InstallVLCluster_license:
  assumes "InstallVLCluster ts cfg ko ns ps t w = (Inr (), w')"
  shows "\<exists>template doc rd lic applied insIngress selIngress.
    vlcluster_doc ts cfg ps template = Inr doc \<and> vlclusterIngressReadinessFromSpec doc = Inr rd \<and>
    (if LicenseFile cfg \<noteq> [] \<and> isEnterpriseTag (lr_ClusterVersion rd)
     then \<exists>secretYaml p. lic = license_calls cfg ko secretYaml \<and> LicensePatch ts = Inr p \<and> tl_apply ts p doc = Inr applied
     else lic = [] \<and> applied = doc) \<and>
    w_trace w' = w_trace w @ namespace_calls w ko ns True @
      [ReadFile (ManifestsRoot cfg @ ''/overwatch/vlcluster.yaml'')] @ lic @
      [ApplyString ko (Document applied), WaitOperational ''VLCluster'' ko ns [] t,
       RunKubectl ko (wait_pods_args (lr_ClusterName rd))] @
      expose_calls ko insIngress [scheme_of (lr_VLInsertHTTPS rd) @ ''://'' @ VLInsertHost ns cfg @ ''/health''] @
      expose_calls ko selIngress [scheme_of (lr_VLSelectHTTPS rd) @ ''://'' @ VLSelectHost ns cfg @ ''/health'']"
proof -
  from assms obtain w1 w2 w3 w4 w5 template doc rd applied u x y where
    s1: "ensure_namespace ko ns True w = (Inr u, w1)" and
    s2: "read_doc ts (ManifestsRoot cfg @ ''/overwatch/vlcluster.yaml'') w1 = (Inr template, w2)" and
    d: "vlcluster_doc ts cfg ps template = Inr doc" and r: "vlclusterIngressReadinessFromSpec doc = Inr rd" and
    s3: "license_vlcluster ts cfg ko ns (lr_ClusterVersion rd) doc w2 = (Inr applied, w3)" and
    s4: "run_musts [ApplyString ko (Document applied), WaitOperational ''VLCluster'' ko ns [] t,
           RunKubectl ko (wait_pods_args (lr_ClusterName rd))] w3 = (Inr x, w4)" and
    s5: "ExposeVLInsertAsIngress ts cfg ko ns rd w4 = (Inr y, w5)" and
    s6: "ExposeVLSelectAsIngress ts cfg ko ns rd w5 = (Inr (), w')"
    unfolding InstallVLCluster_def chain_Inr lift_result_Inr by blast
  note w1 = ensure_namespace_Inr [OF s1] and w4 = run_musts_Inr [OF s4]
  from read_doc_Inr [OF s2] have w2: "w2 = after w1 [ReadFile (ManifestsRoot cfg @ ''/overwatch/vlcluster.yaml'')]" ..
  from license_vlcluster_Inr [OF s3] obtain lic where w3: "w3 = after w2 lic" and l:
    "if LicenseFile cfg \<noteq> [] \<and> isEnterpriseTag (lr_ClusterVersion rd)
     then \<exists>secretYaml p. lic = license_calls cfg ko secretYaml \<and> LicensePatch ts = Inr p \<and> tl_apply ts p doc = Inr applied
     else lic = [] \<and> applied = doc"
    by (cases "LicenseFile cfg \<noteq> [] \<and> isEnterpriseTag (lr_ClusterVersion rd)") auto
  from expose_vl_Inr(1) [OF s5] obtain ii where w5: "w5 = after w4 (expose_calls ko ii
      [scheme_of (lr_VLInsertHTTPS rd) @ ''://'' @ VLInsertHost ns cfg @ ''/health''])" ..
  from expose_vl_Inr(2) [OF s6] obtain si where w6: "w' = after w5 (expose_calls ko si
      [scheme_of (lr_VLSelectHTTPS rd) @ ''://'' @ VLSelectHost ns cfg @ ''/health''])" ..
  from d r l show ?thesis
    by (intro exI conjI) (assumption, assumption, assumption, simp add: w1 w2 w3 w4 w5 w6)
qed

lemma demo_vlcluster_run:
  "\<exists>w'. InstallVLCluster demo_tools demo_config (NewKubectlOptions [] [] ''ns'') ''ns'' [] 300 demo_world = (Inr (), w')"
  unfolding InstallVLCluster_def run_defs vlcluster_doc_def buildVLClusterImagePatch_def ExposeVLSelectAsIngress_def
    ExposeVLInsertAsIngress_def vlclusterIngressReadinessFromSpec_def readiness_defs demo_tools_def demo_world_def
    license_vlcluster_def
  by (simp add: ret_def must_def chain_def perform_def lift_result_def the_patches_def isEnterpriseTag_def HasPrefix_def
      ensureLicenseSecret_def PrepareLicenseSecret_def LicensePatch_def)

theorem InstallVLCluster_license_witness:
  "\<exists>w' doc. InstallVLCluster demo_tools demo_config (NewKubectlOptions [] [] ''ns'') ''ns'' [] 300 demo_world = (Inr (), w') \<and>
     ApplyString (NewKubectlOptions [] [] ''ns'') (Document doc) \<in> set (w_trace w')"
proof -
  from demo_vlcluster_run obtain w' where run:
    "InstallVLCluster demo_tools demo_config (NewKubectlOptions [] [] ''ns'') ''ns'' [] 300 demo_world = (Inr (), w')" ..
  from InstallVLCluster_license [OF run]
  have "\<exists>doc. ApplyString (NewKubectlOptions [] [] ''ns'') (Document doc) \<in> set (w_trace w')"
    by (elim exE conjE) (simp only: set_append list.set Un_iff insert_iff, blast)
  with run show ?thesis by blast
qed

subsection \<open>Nothing after a failure\<close>

definition stops_at_failure :: "'a prog \<Rightarrow> bool" where
  "stops_at_failure p \<longleftrightarrow> (\<forall>w. \<exists>cs. w_trace (snd (p w)) = w_trace w @ cs \<and>
     (\<forall>i < length cs. succeeded w cs i \<or> tolerated (cs ! i) \<or>
        Suc i = length cs \<and> (\<exists>e. fst (p w) = Inl e)))"

lemma fail_fast_stops: "fail_fast p \<Longrightarrow> stops_at_failure p"
  unfolding stops_at_failure_def
proof
  fix w assume "fail_fast p"
  then obtain cs where "grows w (fst (p w)) (snd (p w)) cs"
    using fail_fast.steps [of p w "fst (p w)" "snd (p w)"] by auto
  then show "\<exists>cs. w_trace (snd (p w)) = w_trace w @ cs \<and>
     (\<forall>i < length cs. succeeded w cs i \<or> tolerated (cs ! i) \<or> Suc i = length cs \<and> (\<exists>e. fst (p w) = Inl e))"
    unfolding grows_def by blast
qed


subsection \<open>Hosts\<close>

text \<open>
  The host written into the ingress of a cluster component is the host whose readiness is
  then probed and which the rest of the framework uses for it.
\<close>

theorem exposed_hosts_match:
  assumes "ns \<noteq> []" and "IngressHost cfg \<noteq> []"
  shows "exposed_host cfg ''vminsert'' ns = VMInsertHost ns cfg \<and> exposed_host cfg ''vmselect'' ns = VMSelectHost ns cfg \<and>
    exposed_host cfg ''vlinsert'' ns = VLInsertHost ns cfg \<and> exposed_host cfg ''vlselect'' ns = VLSelectHost ns cfg"
  using assms by (simp add: exposed_host_def VMInsertHost_def VMSelectHost_def VLInsertHost_def VLSelectHost_def
      on_ingress_def nip_def)

theorem exposed_hosts_match_witness:
  "exposed_host demo_config ''vminsert'' ''ns'' = VMInsertHost ''ns'' demo_config"
  by (rule conjunct1 [OF exposed_hosts_match])
    (simp_all add: demo_config_def IngressHost_def SetIngressHost_def SetLicenseFile_def cell_Get_Set)

end
