(* ===== verification/K6_Run.thy ===== *)
theory K6_Run
  imports K6_Bundle Install_Props
begin

text \<open>
  Running a k6 scenario (\<open>RunK6Scenario\<close>, \<open>RunK6VLScenario\<close>, \<open>buildAndRunK6TestRun\<close>, \<open>InstallK6\<close> and
  \<open>UninstallK6\<close> of \<open>pkg/install/k6.go\<close>) as programs over the cluster. A Go function that returns an
  \<open>error\<close> is a program whose result is that error or \<open>None\<close>; failing the test is a failure of the
  program. A deferred call runs at the end in every case.
\<close>

subsection \<open>Deferred calls\<close>

definition with_defer :: "'a prog \<Rightarrow> call \<Rightarrow> 'a prog" where
  "with_defer p c w =
     (case p w of (r, w1) \<Rightarrow>
        (case must c w1 of (Inl e, w2) \<Rightarrow> (Inl e, w2) | (Inr _, w2) \<Rightarrow> (r, w2)))"

subsection \<open>The backend check\<close>

definition check_script :: gostring where
  "check_script = unlines
     [''for i in $(seq 1 60); do'',
      ''  if curl -fsS --max-time 5 \"$1\" >/dev/null && '' @ [CHR 0x5C],
      ''     curl -fsS --max-time 5 \"$2\" >/dev/null; then'',
      ''    exit 0'',
      ''  fi'',
      ''  sleep 5'',
      ''done'',
      ''exit 1'']"

definition backend_job :: "gostring \<Rightarrow> gostring" where
  "backend_job scenarioName = scenarioName @ ''-backend-ready''"

definition delete_job :: "KubectlOptions \<Rightarrow> gostring \<Rightarrow> call" where
  "delete_job ko jobName = RunKubectl ko [''delete'', ''job'', jobName, ''--ignore-not-found=true'']"

definition waitForK6BackendsReady :: "KubectlOptions \<Rightarrow> gostring \<Rightarrow> gostring \<Rightarrow> gostring \<Rightarrow> unit prog" where
  "waitForK6BackendsReady ko scenarioName vmselectHealthURL vminsertHealthURL =
     (if vmselectHealthURL = [] \<or> vminsertHealthURL = [] then ret ()
      else chain (run_musts [delete_job ko (backend_job scenarioName)]) (\<lambda>_.
        with_defer
          (run_musts
            [RunKubectl ko [''create'', ''job'', backend_job scenarioName, ''--image=curlimages/curl:8.16.0'', ''--'',
                            ''sh'', ''-c'', check_script, ''--'', vmselectHealthURL, vminsertHealthURL],
             WaitJob ko (backend_job scenarioName) Retries PollingInterval])
          (delete_job ko (backend_job scenarioName))))"

subsection \<open>The test run\<close>

definition k6RunnerImage :: gostring where
  "k6RunnerImage = ''quay.io/vrutkovs/k6-with-prw-extension:v2.0.0''"

definition k6RunnerResources :: json where
  "k6RunnerResources =
     JObj [(''limits'', JObj [(''cpu'', JStr ''1500m''), (''memory'', JStr ''768Mi'')]),
           (''requests'', JObj [(''cpu'', JStr ''500m''), (''memory'', JStr ''512Mi'')])]"

definition env_json :: "env \<Rightarrow> json" where
  "env_json envVars = JArr (map (\<lambda>(n, v). JObj [(''name'', JStr n), (''value'', JStr v)]) envVars)"

definition k6RunnerPod :: "env \<Rightarrow> json" where
  "k6RunnerPod envVars =
     JObj [(''image'', JStr k6RunnerImage), (''env'', env_json envVars), (''resources'', k6RunnerResources),
           (''nodeSelector'', JObj [(''node_pool'', JStr ''default-pool'')])]"

text \<open>The conversion of Go's 64-bit \<open>int\<close> to \<open>int32\<close> keeps the low 32 bits.\<close>

definition to_int32 :: "int \<Rightarrow> int" where
  "to_int32 i = (i + 2 ^ 31) mod 2 ^ 32 - 2 ^ 31"

definition scenario_configmap :: "gostring \<Rightarrow> gostring \<Rightarrow> gostring \<Rightarrow> json" where
  "scenario_configmap namespace scenarioName content =
     JObj [(''kind'', JStr ''ConfigMap''), (''apiVersion'', JStr ''v1''),
       (''metadata'', JObj [(''name'', JStr scenarioName), (''namespace'', JStr namespace)]),
       (''data'', JObj [(''script.js'', JStr content)])]"

definition scenario_testrun :: "gostring \<Rightarrow> gostring \<Rightarrow> int \<Rightarrow> env \<Rightarrow> json" where
  "scenario_testrun namespace scenarioName parallelism envVars =
     JObj [(''kind'', JStr ''TestRun''), (''apiVersion'', JStr ''k6.io/v1alpha1''),
       (''metadata'', JObj [(''name'', JStr scenarioName), (''namespace'', JStr namespace)]),
       (''spec'', JObj
         [(''script'', JObj [(''configMap'', JObj [(''name'', JStr scenarioName), (''file'', JStr ''script.js'')])]),
          (''parallelism'', JNum (to_int32 parallelism)),
          (''arguments'', JStr ''--out experimental-prometheus-rw --tag job=k6''),
          (''initializer'', JObj [(''disabled'', JBool True)]),
          (''runner'', k6RunnerPod envVars)])]"

definition buildAndRunK6TestRun ::
  "'p tools \<Rightarrow> KubectlOptions \<Rightarrow> gostring \<Rightarrow> gostring \<Rightarrow> gostring \<Rightarrow> int \<Rightarrow> env \<Rightarrow> gostring list \<Rightarrow> gostring option prog" where
  "buildAndRunK6TestRun ts ko namespace scenarioName scenarioContent parallelism envVars healthURLs =
     chain (case healthURLs of u # v # _ \<Rightarrow> waitForK6BackendsReady ko scenarioName u v | _ \<Rightarrow> ret ()) (\<lambda>_.
     case tl_to_yaml ts (scenario_configmap namespace scenarioName scenarioContent) of
       Inl err \<Rightarrow> ret (Some (''failed to marshal configMap: '' @ err))
     | Inr yamlConfigMap \<Rightarrow>
         chain (run_musts [ApplyString ko (ManifestText yamlConfigMap)]) (\<lambda>_.
         case tl_to_yaml ts (scenario_testrun namespace scenarioName parallelism envVars) of
           Inl err \<Rightarrow> ret (Some (''failed to marshal testRun: '' @ err))
         | Inr yamlTestRun \<Rightarrow>
             chain (run_musts [ApplyString ko (ManifestText yamlTestRun),
                               WaitJob ko (scenarioName @ ''-starter'') K6Retries K6JobPollingInterval])
               (\<lambda>_. ret None)))"

text \<open>\<open>now\<close> is the Unix time; the query is the sorted encoding of its two values.\<close>

definition delete_series_url :: "gostring \<Rightarrow> int \<Rightarrow> gostring" where
  "delete_series_url vmselectSvc now =
     http (vmselectSvc @ ''/delete_series?end='' @ int_str now @
           ''&match%5B%5D=%7B__name__%21%3D%22%22%7D'')"

text \<open>
  What deleting the series logs, given the error of building the request and the status or error of the
  answer. No outcome fails the test.
\<close>

definition DeleteAllSeriesBeforeScenario :: "unit result \<Rightarrow> int result \<Rightarrow> gostring" where
  "DeleteAllSeriesBeforeScenario built answer =
     (case built of
        Inl err \<Rightarrow> ''WARNING: failed to build delete_series request: '' @ err
      | Inr _ \<Rightarrow>
          (case answer of
             Inl err \<Rightarrow> ''WARNING: delete_series request failed: '' @ err
           | Inr status \<Rightarrow> ''Deleted all series before k6 scenario start (status '' @ int_str status @ '')''))"

text \<open>Also a refusal, such as the status of an unknown path, is logged as a deletion.\<close>

lemma refused_deletion_logged_as_done:
  "DeleteAllSeriesBeforeScenario (Inr ()) (Inr 400) = ''Deleted all series before k6 scenario start (status 400)''"
  by (simp add: DeleteAllSeriesBeforeScenario_def int_str_def nat_str.simps digits)

definition rw_env :: env where
  "rw_env =
     [(''K6_PROMETHEUS_RW_SERVER_URL'',
       http (GetVMSingleSvc DefaultReleaseName DefaultVMNamespace @ ''/prometheus/api/v1/write'')),
      (''K6_PROMETHEUS_RW_TREND_STATS'', ''p(95),p(99),min,max'')]"

definition scenario_path :: "config \<Rightarrow> gostring \<Rightarrow> gostring" where
  "scenario_path cfg scenario = ManifestsRoot cfg @ ''/load-tests/'' @ scenario @ ''.js''"

definition vm_env :: "gostring \<Rightarrow> gostring \<Rightarrow> env" where
  "vm_env namespace clusterName = rw_env @
     [(''VMSELECT_URL'', http (GetVMSelectSvc clusterName namespace @ ''/select/0/prometheus/api/v1/query_range'')),
      (''VMINSERT_URL'', http (GetVMInsertSvc clusterName namespace @ ''/insert/0/prometheus/api/v1/write'')),
      (''VMINSERT_OTLP_URL'', http (GetVMInsertSvc clusterName namespace @ ''/insert/0/opentelemetry/v1/metrics'')),
      (''VM_NAMESPACE'', namespace)]"

definition delete_old_run :: "KubectlOptions \<Rightarrow> gostring \<Rightarrow> call" where
  "delete_old_run ko scenarioName =
     RunKubectl ko [''delete'', ''testrun,configmap'', scenarioName, ''--ignore-not-found=true'', ''--wait=true'']"

definition RunK6Scenario ::
  "'p tools \<Rightarrow> config \<Rightarrow> int \<Rightarrow> gostring \<Rightarrow> gostring \<Rightarrow> gostring \<Rightarrow> int \<Rightarrow> gostring \<Rightarrow> env \<Rightarrow> gostring option prog" where
  "RunK6Scenario ts cfg now namespace clusterName scenario parallelism scenarioName extraEnvVars =
     (let ko = NewKubectlOptions [] [] namespace;
          envVars = MergeEnvVars (vm_env namespace clusterName) extraEnvVars
      in chain (run_musts [delete_old_run ko scenarioName]) (\<lambda>_.
         chain (perform (DeleteSeries (delete_series_url (GetVMSelectSvc clusterName namespace) now))) (\<lambda>_.
         chain (perform (ReadFile (scenario_path cfg scenario))) (\<lambda>content. case content of
           Inl err \<Rightarrow> ret (Some (''failed to read scenario file: '' @ err))
         | Inr scenarioContent \<Rightarrow>
             buildAndRunK6TestRun ts ko namespace scenarioName scenarioContent parallelism envVars
               [k6BackendHealthURL (k6EnvValue envVars ''VMSELECT_URL''),
                k6BackendHealthURL (k6EnvValue envVars ''VMINSERT_URL'')]))))"

definition vl_insert_url :: "gostring \<Rightarrow> gostring \<Rightarrow> gostring" where
  "vl_insert_url clusterName namespace = http (GetVLInsertSvc clusterName namespace @ ''/insert/jsonline'')"

definition vl_select_url :: "gostring \<Rightarrow> gostring \<Rightarrow> gostring" where
  "vl_select_url clusterName namespace = http (GetVLSelectSvc clusterName namespace @ ''/select/logsql/query'')"

definition vl_env :: "gostring \<Rightarrow> gostring \<Rightarrow> env" where
  "vl_env namespace clusterName = rw_env @
     [(''VL_INSERT_URL'', vl_insert_url clusterName namespace),
      (''VL_SELECT_URL'', vl_select_url clusterName namespace),
      (''VL_OTLP_URL'', http (GetVLInsertSvc clusterName namespace)),
      (''VL_NAMESPACE'', namespace)]"

definition RunK6VLScenario ::
  "'p tools \<Rightarrow> config \<Rightarrow> gostring \<Rightarrow> gostring \<Rightarrow> gostring \<Rightarrow> int \<Rightarrow> gostring \<Rightarrow> env \<Rightarrow> gostring option prog" where
  "RunK6VLScenario ts cfg namespace clusterName scenario parallelism scenarioName extraEnvVars =
     (let ko = NewKubectlOptions [] [] namespace;
          envVars = MergeEnvVars (vl_env namespace clusterName) extraEnvVars
      in chain (run_musts [delete_old_run ko scenarioName]) (\<lambda>_.
         chain (perform (ReadFile (scenario_path cfg scenario))) (\<lambda>content. case content of
           Inl err \<Rightarrow> ret (Some (''failed to read scenario file: '' @ err))
         | Inr scenarioContent \<Rightarrow>
             buildAndRunK6TestRun ts ko namespace scenarioName scenarioContent parallelism envVars
               [k6BackendHealthURL (vl_select_url clusterName namespace),
                k6BackendHealthURL (vl_insert_url clusterName namespace)])))"

subsection \<open>The operator\<close>

definition k6OperatorVersion :: gostring where "k6OperatorVersion = ''v1.7.0''"

definition k6OperatorBundleURL :: "config \<Rightarrow> gostring" where
  "k6OperatorBundleURL cfg =
     (let version = (if Getenv ''K6_OPERATOR_VERSION'' cfg \<noteq> [] then Getenv ''K6_OPERATOR_VERSION'' cfg
                     else k6OperatorVersion)
      in ''https://raw.githubusercontent.com/grafana/k6-operator/'' @ version @ ''/bundle.yaml'')"

text \<open>
  \<open>HTTPGet\<close> answers with the body of a response with status 200; any other outcome fails the test.
  \<open>split\<close> is the YAML document reader.
\<close>

definition InstallK6 ::
  "'p tools \<Rightarrow> (gostring \<Rightarrow> gostring result list) \<Rightarrow> config \<Rightarrow> gostring \<Rightarrow> unit prog" where
  "InstallK6 ts split cfg namespace =
     (let ko = NewKubectlOptions [] [] namespace
      in chain (must (HTTPGet (k6OperatorBundleURL cfg))) (\<lambda>body.
         chain (lift_result (retargetK6Bundle (tl_yaml ts) (tl_to_yaml ts) (split body) namespace)) (\<lambda>manifest.
           run_musts [ApplyString ko (ManifestText manifest),
                      WaitDeployment ko ''k6-operator-controller-manager'' Retries PollingInterval])))"

definition k6_bindings :: "gostring list" where
  "k6_bindings = [''k6-operator-manager-rolebinding'', ''k6-operator-metrics-auth-rolebinding'']"

definition UninstallK6 :: "gostring \<Rightarrow> unit prog" where
  "UninstallK6 namespace =
     run_musts [RunKubectl (NewKubectlOptions [] [] namespace)
       ([''delete'', ''clusterrolebinding''] @ map (\<lambda>b. k6PerNamespaceName b namespace) k6_bindings @
        [''--ignore-not-found=true''])]"

subsection \<open>Cleaning up\<close>

lemma with_defer_trace:
  assumes "\<exists>cs. w_trace (snd (p w)) = w_trace w @ cs"
  shows "\<exists>cs. w_trace (snd (with_defer p c w)) = w_trace w @ cs @ [c]"
proof -
  obtain cs where cs: "w_trace (snd (p w)) = w_trace w @ cs" using assms ..
  have m: "w_trace (snd (must c v)) = w_trace v @ [c]" for v
    by (simp add: must_def chain_def perform_def lift_result_def)
  have "w_trace (snd (with_defer p c w)) = w_trace (snd (must c (snd (p w))))"
    by (simp add: with_defer_def split: prod.split sum.split)
  with m cs show ?thesis by simp
qed

lemma run_musts_grows: "\<exists>ds. w_trace (snd (run_musts cs w)) = w_trace w @ ds"
proof (induction cs arbitrary: w)
  case Nil
  show ?case by (simp add: ret_def)
next
  case (Cons c cs)
  obtain r w1 where m: "must c w = (r, w1)" by fastforce
  then have "w_trace w1 = w_trace w @ [c]"
    by (auto simp: must_def chain_def perform_def lift_result_def)
  with Cons [of w1] m show ?case by (cases r) (auto simp: chain_def)
qed

lemma deferred_after_musts: "\<exists>ds. w_trace (snd (with_defer (run_musts cs) c w)) = w_trace w @ ds @ [c]"
  by (rule with_defer_trace, rule run_musts_grows)

text \<open>
  The job that checks the backends is always removed again: once the old job is gone, the last
  call of the check is the deletion of the job, whether the job was created, succeeded, or failed
  the test.
\<close>

theorem backend_check_cleans_up:
  assumes "selURL \<noteq> []" and "insURL \<noteq> []"
    and "w_answer w (w_trace w) (delete_job ko (backend_job sc)) = Inr a"
  shows "\<exists>cs. w_trace (snd (waitForK6BackendsReady ko sc selURL insURL w)) =
    w_trace w @ delete_job ko (backend_job sc) # cs @ [delete_job ko (backend_job sc)]"
proof -
  let ?d = "delete_job ko (backend_job sc)"
  let ?w1 = "w\<lparr>w_trace := w_trace w @ [?d]\<rparr>"
  have first: "run_musts [?d] w = (Inr (), ?w1)"
    using assms(3) by (simp add: chain_def must_def perform_def lift_result_def ret_def)
  have "waitForK6BackendsReady ko sc selURL insURL w =
      with_defer
          (run_musts
            [RunKubectl ko [''create'', ''job'', backend_job sc, ''--image=curlimages/curl:8.16.0'', ''--'',
                            ''sh'', ''-c'', check_script, ''--'', selURL, insURL],
             WaitJob ko (backend_job sc) Retries PollingInterval]) ?d ?w1"
    using assms(1,2) first by (simp add: waitForK6BackendsReady_def chain_def del: run_musts.simps)
  moreover obtain cs where "w_trace (snd (with_defer
          (run_musts
            [RunKubectl ko [''create'', ''job'', backend_job sc, ''--image=curlimages/curl:8.16.0'', ''--'',
                            ''sh'', ''-c'', check_script, ''--'', selURL, insURL],
             WaitJob ko (backend_job sc) Retries PollingInterval]) ?d ?w1)) = w_trace ?w1 @ cs @ [?d]"
    using deferred_after_musts by blast
  ultimately show ?thesis by auto
qed

definition flaky_world :: world where
  "flaky_world = \<lparr>w_trace = [], w_answer = (\<lambda>trace c. case c of WaitJob _ _ _ _ \<Rightarrow> Inl ''timeout'' | _ \<Rightarrow> Inr [])\<rparr>"

theorem backend_check_cleans_up_witness:
  "\<exists>cs. w_trace (snd (waitForK6BackendsReady (NewKubectlOptions [] [] ''ns'') ''load'' ''http://a/health'' ''http://b/health'' flaky_world)) =
     cs @ [delete_job (NewKubectlOptions [] [] ''ns'') (backend_job ''load'')]"
  using backend_check_cleans_up [of "''http://a/health''" "''http://b/health''" flaky_world
      "NewKubectlOptions [] [] ''ns''" "''load''" "[]"]
  by (auto simp: flaky_world_def delete_job_def)

subsection \<open>A scenario that ran\<close>

definition backend_calls :: "KubectlOptions \<Rightarrow> gostring \<Rightarrow> gostring \<Rightarrow> gostring \<Rightarrow> call list" where
  "backend_calls ko sc selURL insURL =
     (if selURL = [] \<or> insURL = [] then []
      else [delete_job ko (backend_job sc),
            RunKubectl ko [''create'', ''job'', backend_job sc, ''--image=curlimages/curl:8.16.0'', ''--'',
                           ''sh'', ''-c'', check_script, ''--'', selURL, insURL],
            WaitJob ko (backend_job sc) Retries PollingInterval, delete_job ko (backend_job sc)])"

lemma with_defer_Inr:
  "with_defer p c w = (Inr x, w') \<longleftrightarrow> (\<exists>w1 a. p w = (Inr x, w1) \<and> must c w1 = (Inr a, w'))"
  by (auto simp: with_defer_def split: prod.splits sum.splits)

lemma backends_ready_world:
  assumes "waitForK6BackendsReady ko sc selURL insURL w = (Inr x, w')"
  shows "w' = w\<lparr>w_trace := w_trace w @ backend_calls ko sc selURL insURL\<rparr>"
proof (cases "selURL = [] \<or> insURL = []")
  case True
  with assms show ?thesis by (simp add: waitForK6BackendsReady_def backend_calls_def ret_Inr)
next
  case False
  with assms show ?thesis
    by (auto simp: waitForK6BackendsReady_def backend_calls_def chain_Inr with_defer_Inr must_Inr
        dest!: run_musts_Inr simp del: run_musts.simps)
qed

lemma test_run_world:
  assumes "buildAndRunK6TestRun ts ko ns sc content par envVars [selURL, insURL] w = (Inr None, w')"
  shows "\<exists>cm tr. tl_to_yaml ts (scenario_configmap ns sc content) = Inr cm \<and>
    tl_to_yaml ts (scenario_testrun ns sc par envVars) = Inr tr \<and>
    w' = w\<lparr>w_trace := w_trace w @ backend_calls ko sc selURL insURL @
      [ApplyString ko (ManifestText cm), ApplyString ko (ManifestText tr),
       WaitJob ko (sc @ ''-starter'') K6Retries K6JobPollingInterval]\<rparr>"
proof -
  from assms obtain u w1 where b: "waitForK6BackendsReady ko sc selURL insURL w = (Inr u, w1)"
    and rest: "(case tl_to_yaml ts (scenario_configmap ns sc content) of
       Inl err \<Rightarrow> ret (Some (''failed to marshal configMap: '' @ err))
     | Inr yamlConfigMap \<Rightarrow>
         chain (run_musts [ApplyString ko (ManifestText yamlConfigMap)]) (\<lambda>_.
         case tl_to_yaml ts (scenario_testrun ns sc par envVars) of
           Inl err \<Rightarrow> ret (Some (''failed to marshal testRun: '' @ err))
         | Inr yamlTestRun \<Rightarrow>
             chain (run_musts [ApplyString ko (ManifestText yamlTestRun),
                               WaitJob ko (sc @ ''-starter'') K6Retries K6JobPollingInterval])
               (\<lambda>_. ret None))) w1 = (Inr None, w')"
    unfolding buildAndRunK6TestRun_def list.case chain_Inr by blast
  from rest obtain cm where cm: "tl_to_yaml ts (scenario_configmap ns sc content) = Inr cm"
    by (auto simp: ret_Inr split: sum.splits)
  from rest cm obtain tr where tr: "tl_to_yaml ts (scenario_testrun ns sc par envVars) = Inr tr"
    by (auto simp: runs_Inr split: sum.splits)
  from rest cm tr have "w' = w1\<lparr>w_trace := w_trace w1 @ [ApplyString ko (ManifestText cm), ApplyString ko (ManifestText tr),
       WaitJob ko (sc @ ''-starter'') K6Retries K6JobPollingInterval]\<rparr>"
    by (auto simp: chain_Inr ret_Inr dest!: run_musts_Inr simp del: run_musts.simps)
  with cm tr backends_ready_world [OF b] show ?thesis by simp
qed

text \<open>
  C27: A VictoriaMetrics scenario that ran without an error made exactly these calls: the old run is
  deleted and the series dropped before the script is read; the backends named by the final
  environment, overrides included, are checked before anything is created; the script's ConfigMap
  is applied before the test run that refers to it; and the starter job is awaited last.
\<close>

theorem RunK6Scenario_trace:
  assumes "RunK6Scenario ts cfg now ns cl scenario par sc extra w = (Inr None, w')"
  shows "\<exists>content cm tr. let ko = NewKubectlOptions [] [] ns; envVars = MergeEnvVars (vm_env ns cl) extra in
    tl_to_yaml ts (scenario_configmap ns sc content) = Inr cm \<and>
    tl_to_yaml ts (scenario_testrun ns sc par envVars) = Inr tr \<and>
    w_trace w' = w_trace w @
      [delete_old_run ko sc, DeleteSeries (delete_series_url (GetVMSelectSvc cl ns) now), ReadFile (scenario_path cfg scenario)] @
      backend_calls ko sc (k6BackendHealthURL (k6EnvValue envVars ''VMSELECT_URL'')) (k6BackendHealthURL (k6EnvValue envVars ''VMINSERT_URL'')) @
      [ApplyString ko (ManifestText cm), ApplyString ko (ManifestText tr),
       WaitJob ko (sc @ ''-starter'') K6Retries K6JobPollingInterval]"
proof -
  let ?ko = "NewKubectlOptions [] [] ns" and ?env = "MergeEnvVars (vm_env ns cl) extra"
  let ?sel = "k6BackendHealthURL (k6EnvValue ?env ''VMSELECT_URL'')"
    and ?ins = "k6BackendHealthURL (k6EnvValue ?env ''VMINSERT_URL'')"
  let ?w3 = "w\<lparr>w_trace := w_trace w @ [delete_old_run ?ko sc,
      DeleteSeries (delete_series_url (GetVMSelectSvc cl ns) now), ReadFile (scenario_path cfg scenario)]\<rparr>"
  from assms obtain content where
    "buildAndRunK6TestRun ts ?ko ns sc content par ?env [?sel, ?ins] ?w3 = (Inr None, w')"
    by (auto simp: RunK6Scenario_def Let_def runs_Inr split: sum.splits)
  from test_run_world [OF this] show ?thesis unfolding Let_def by auto
qed

lemma demo_scenario_run:
  "\<exists>w'. RunK6Scenario demo_tools demo_config 0 ''ns'' ''c'' ''prw'' 3 ''load'' [] demo_world = (Inr None, w')"
  by (simp add: RunK6Scenario_def buildAndRunK6TestRun_def Let_def delete_old_run_def waitForK6BackendsReady_def
      with_defer_def delete_job_def demo_tools_def demo_world_def chain_def perform_def must_def lift_result_def ret_def)

theorem RunK6Scenario_trace_witness:
  "\<exists>w' cm. RunK6Scenario demo_tools demo_config 0 ''ns'' ''c'' ''prw'' 3 ''load'' [] demo_world = (Inr None, w') \<and>
     ApplyString (NewKubectlOptions [] [] ''ns'') (ManifestText cm) \<in> set (w_trace w')"
proof -
  from demo_scenario_run obtain w' where run:
    "RunK6Scenario demo_tools demo_config 0 ''ns'' ''c'' ''prw'' 3 ''load'' [] demo_world = (Inr None, w')" ..
  from RunK6Scenario_trace [OF run]
  have "\<exists>cm. ApplyString (NewKubectlOptions [] [] ''ns'') (ManifestText cm) \<in> set (w_trace w')"
    unfolding Let_def by (elim exE conjE) (simp only: set_append list.set Un_iff insert_iff, blast)
  with run show ?thesis by blast
qed

end
