(* ===== verification/K6_Wait.thy ===== *)
theory K6_Wait
  imports Config
begin

text \<open>
  Waiting for a k6 test run (\<open>WaitForK6JobsToComplete\<close>, \<open>waitForK6TestRun\<close> of \<open>pkg/install/k6.go\<close>) as a
  labelled transition system. A label is what the next blocking operation of the goroutine
  observes: the reply of a \<open>Get\<close>, whether a watch could be opened, an event of the watch, the end of
  the watch channel with the outcome of reopening it, or the end of the context with the reply of the final \<open>Get\<close>.
  When several are possible, as in the \<open>select\<close>, any of them may come.
\<close>

subsection \<open>Stages\<close>

definition testRunStageFromUnstructured :: "json \<Rightarrow> gostring" where
  "testRunStageFromUnstructured obj =
     (case jfield ''status'' obj of JObj fs \<Rightarrow> jstr (jfield ''stage'' (JObj fs)) | _ \<Rightarrow> [])"

definition isTerminalStage :: "gostring \<Rightarrow> bool" where
  "isTerminalStage stage \<longleftrightarrow> stage = ''finished'' \<or> stage = ''error''"

subsection \<open>States and labels\<close>

datatype k6_state = Start | Subscribing | Rechecking | Watching | Passed | FailedTest gostring

datatype event_type = Added | Modified | OtherEvent

datatype k6_label =
    Got "json result"
  | WatchOpened "unit result"
  | WatchEvent event_type "json option"
  | WatchClosed "unit result"
  | ContextOver "json result"

definition handleTerminalStage :: "gostring \<Rightarrow> gostring \<Rightarrow> gostring \<Rightarrow> k6_state" where
  "handleTerminalStage namespace scenarioName stage =
     (if stage = ''finished'' then Passed
      else FailedTest (''k6 TestRun '' @ namespace @ ''/'' @ scenarioName @ '' reached terminal stage '' @ stage))"

text \<open>\<open>checkStage\<close>: the state a \<open>Get\<close> leads to, \<open>None\<close> if the run has not ended as far as it tells.\<close>

definition checkStage :: "gostring \<Rightarrow> gostring \<Rightarrow> json result \<Rightarrow> k6_state option" where
  "checkStage namespace scenarioName reply =
     (case reply of
        Inl err \<Rightarrow> None
      | Inr obj \<Rightarrow>
          (let stage = testRunStageFromUnstructured obj
           in if \<not> isTerminalStage stage then None
              else Some (handleTerminalStage namespace scenarioName stage)))"

definition run_name :: "gostring \<Rightarrow> gostring \<Rightarrow> gostring" where
  "run_name namespace scenarioName = ''k6 TestRun '' @ namespace @ ''/'' @ scenarioName"

inductive waitForK6TestRun :: "gostring \<Rightarrow> gostring \<Rightarrow> k6_state \<Rightarrow> k6_label \<Rightarrow> k6_state \<Rightarrow> bool"
  for namespace scenarioName where
  first_terminal: "checkStage namespace scenarioName r = Some s \<Longrightarrow>
    waitForK6TestRun namespace scenarioName Start (Got r) s"
| first_running: "checkStage namespace scenarioName r = None \<Longrightarrow>
    waitForK6TestRun namespace scenarioName Start (Got r) Subscribing"
| watch_refused: "waitForK6TestRun namespace scenarioName Subscribing (WatchOpened (Inl err))
    (FailedTest (run_name namespace scenarioName @ '': failed to start watch: '' @ err))"
| watch_open: "waitForK6TestRun namespace scenarioName Subscribing (WatchOpened (Inr ())) Rechecking"
| recheck_terminal: "checkStage namespace scenarioName r = Some s \<Longrightarrow>
    waitForK6TestRun namespace scenarioName Rechecking (Got r) s"
| recheck_running: "checkStage namespace scenarioName r = None \<Longrightarrow>
    waitForK6TestRun namespace scenarioName Rechecking (Got r) Watching"
| over_terminal: "checkStage namespace scenarioName r = Some s \<Longrightarrow>
    waitForK6TestRun namespace scenarioName Watching (ContextOver r) s"
| over_running: "checkStage namespace scenarioName r = None \<Longrightarrow>
    waitForK6TestRun namespace scenarioName Watching (ContextOver r)
      (FailedTest (run_name namespace scenarioName @ '' did not finish within timeout''))"
| reopen_refused: "waitForK6TestRun namespace scenarioName Watching (WatchClosed (Inl err))
    (FailedTest (run_name namespace scenarioName @ '': failed to restart watch: '' @ err))"
| reopened: "waitForK6TestRun namespace scenarioName Watching (WatchClosed (Inr ())) Rechecking"
| event_ignored: "t \<noteq> Modified \<and> t \<noteq> Added \<or> obj = None \<Longrightarrow>
    waitForK6TestRun namespace scenarioName Watching (WatchEvent t obj) Watching"
| event_running: "t = Modified \<or> t = Added \<Longrightarrow> \<not> isTerminalStage (testRunStageFromUnstructured obj) \<Longrightarrow>
    waitForK6TestRun namespace scenarioName Watching (WatchEvent t (Some obj)) Watching"
| event_terminal: "t = Modified \<or> t = Added \<Longrightarrow> isTerminalStage (testRunStageFromUnstructured obj) \<Longrightarrow>
    waitForK6TestRun namespace scenarioName Watching (WatchEvent t (Some obj))
      (handleTerminalStage namespace scenarioName (testRunStageFromUnstructured obj))"

code_pred (modes: i \<Rightarrow> i \<Rightarrow> i \<Rightarrow> i \<Rightarrow> o \<Rightarrow> bool) waitForK6TestRun .

inductive_cases from_start: "waitForK6TestRun ns sc Start l s"
inductive_cases from_subscribing: "waitForK6TestRun ns sc Subscribing l s"
inductive_cases from_rechecking: "waitForK6TestRun ns sc Rechecking l s"
inductive_cases from_watching: "waitForK6TestRun ns sc Watching l s"
inductive_cases from_passed: "waitForK6TestRun ns sc Passed l s"
inductive_cases from_failed: "waitForK6TestRun ns sc (FailedTest m) l s"

lemmas k6_cases = from_start from_subscribing from_rechecking from_watching from_passed from_failed

text \<open>A run of the wait: the labels observed from the start on.\<close>

inductive k6_run :: "gostring \<Rightarrow> gostring \<Rightarrow> k6_label list \<Rightarrow> k6_state \<Rightarrow> bool" for ns sc where
  at_start: "k6_run ns sc [] Start"
| observe: "k6_run ns sc ls s \<Longrightarrow> waitForK6TestRun ns sc s l s' \<Longrightarrow> k6_run ns sc (ls @ [l]) s'"

subsection \<open>What a label shows\<close>

text \<open>The terminal stage a label shows to the code, if any.\<close>

definition terminal_of :: "json \<Rightarrow> gostring option" where
  "terminal_of obj =
     (if isTerminalStage (testRunStageFromUnstructured obj) then Some (testRunStageFromUnstructured obj) else None)"

fun seen :: "k6_label \<Rightarrow> gostring option" where
  "seen (Got (Inr obj)) = terminal_of obj"
| "seen (ContextOver (Inr obj)) = terminal_of obj"
| "seen (WatchEvent Added (Some obj)) = terminal_of obj"
| "seen (WatchEvent Modified (Some obj)) = terminal_of obj"
| "seen _ = None"

fun final :: "k6_state \<Rightarrow> bool" where
  "final Passed = True" | "final (FailedTest m) = True" | "final _ = False"

lemma checkStage_Some:
  "checkStage ns sc r = Some s \<longleftrightarrow>
     (\<exists>obj stage. r = Inr obj \<and> terminal_of obj = Some stage \<and> s = handleTerminalStage ns sc stage)"
  by (auto simp: checkStage_def terminal_of_def Let_def split: sum.splits)

lemma checkStage_None:
  "checkStage ns sc r = None \<longleftrightarrow> (\<forall>obj. r = Inr obj \<longrightarrow> terminal_of obj = None)"
  by (auto simp: checkStage_def terminal_of_def Let_def split: sum.splits)

lemma final_handle [simp]: "final (handleTerminalStage ns sc stage)"
  by (simp add: handleTerminalStage_def)

lemma step_seen:
  assumes "waitForK6TestRun ns sc s l s'"
  shows "case seen l of Some stage \<Rightarrow> s' = handleTerminalStage ns sc stage | None \<Rightarrow> s' \<noteq> Passed"
  using assms
proof cases
  case (event_ignored t obj)
  then show ?thesis by (cases t; cases obj) auto
next
  case (event_running t obj)
  then show ?thesis by (cases t) (auto simp: terminal_of_def)
next
  case (event_terminal t obj)
  then show ?thesis by (cases t) (auto simp: terminal_of_def)
next
  case (first_running r)
  then show ?thesis by (cases r) (auto simp: checkStage_None)
next
  case (recheck_running r)
  then show ?thesis by (cases r) (auto simp: checkStage_None)
next
  case (over_running r)
  then show ?thesis by (cases r) (auto simp: checkStage_None)
qed (auto simp: checkStage_Some)

lemma no_step_from_final: "final s \<Longrightarrow> \<not> waitForK6TestRun ns sc s l s'"
  by (cases s) (auto elim: k6_cases)

lemma run_prefix_not_final: "k6_run ns sc (ls @ [l]) s \<Longrightarrow> \<exists>s0. k6_run ns sc ls s0 \<and> \<not> final s0 \<and> waitForK6TestRun ns sc s0 l s"
  by (erule k6_run.cases) (auto dest: no_step_from_final)

lemma running_saw_nothing:
  "k6_run ns sc ls s \<Longrightarrow> \<not> final s \<Longrightarrow> \<forall>l \<in> set ls. seen l = None"
proof (induction rule: k6_run.induct)
  case at_start
  then show ?case by simp
next
  case (observe ls s l s')
  then have "\<not> final s" using no_step_from_final by blast
  moreover from observe have "seen l = None"
    using step_seen [OF observe.hyps(2)] by (cases "seen l") auto
  ultimately show ?case using observe.IH by simp
qed

text \<open>
  C4: The wait passes exactly on the last observation, and only if that one shows the stage
  \<open>finished\<close>; every observation before it showed no terminal stage. A run that ended in \<open>error\<close>
  never passes, and the first terminal stage shown decides.
\<close>

theorem k6_passes_only_when_finished:
  assumes "k6_run ns sc ls Passed"
  shows "\<exists>before l. ls = before @ [l] \<and> seen l = Some ''finished'' \<and> (\<forall>x \<in> set before. seen x = None)"
  using assms
proof cases
  case (observe before s l)
  from observe(2) have "\<not> final s" using no_step_from_final [of s ns sc l Passed] observe by blast
  then have "\<forall>x \<in> set before. seen x = None" using observe running_saw_nothing by blast
  moreover have "seen l = Some ''finished''"
    using step_seen [OF observe(3)] by (cases "seen l") (auto simp: handleTerminalStage_def split: if_splits)
  ultimately show ?thesis using observe by blast
qed

definition staged :: "gostring \<Rightarrow> json" where
  "staged stage = JObj [(''status'', JObj [(''stage'', JStr stage)])]"

lemma terminal_of_staged [simp]:
  "terminal_of (staged stage) = (if isTerminalStage stage then Some stage else None)"
  by (simp add: terminal_of_def staged_def testRunStageFromUnstructured_def)

lemma demo_k6_run:
  "k6_run ''ns'' ''load''
     ([] @ [Got (Inl ''not found'')] @ [WatchOpened (Inr ())] @ [Got (Inr (staged ''created''))] @
      [WatchClosed (Inr ())] @ [Got (Inr (staged ''started''))] @
      [WatchEvent Modified (Some (staged ''stopped''))] @ [WatchEvent Modified (Some (staged ''finished''))]) Passed"
proof -
  have nt: "\<not> isTerminalStage ''created''" "\<not> isTerminalStage ''started''" "\<not> isTerminalStage ''stopped''"
    "isTerminalStage ''finished''" by (simp_all add: isTerminalStage_def)
  have stage: "testRunStageFromUnstructured (staged s) = s" for s
    by (simp add: staged_def testRunStageFromUnstructured_def)
  have 0: "waitForK6TestRun ''ns'' ''load'' Start (Got (Inl ''not found'')) Subscribing"
    by (rule first_running) (simp add: checkStage_None)
  note 2 = observe [OF observe [OF at_start 0] watch_open]
  note 3 = observe [OF 2 recheck_running [of _ _ "Inr (staged ''created'')"]]
  note 4 = observe [OF 3 reopened]
  note 5 = observe [OF 4 recheck_running [of _ _ "Inr (staged ''started'')"]]
  note 6 = observe [OF 5 event_running [of Modified "staged ''stopped''"]]
  note 7 = observe [OF 6 event_terminal [of Modified "staged ''finished''"]]
  from 7 nt stage show ?thesis by (simp add: checkStage_None handleTerminalStage_def)
qed

theorem k6_passes_only_when_finished_witness:
  "\<exists>ls before l. k6_run ''ns'' ''load'' ls Passed \<and> ls = before @ [l] \<and> seen l = Some ''finished''"
  using k6_passes_only_when_finished [OF demo_k6_run] demo_k6_run by blast

lemma k6_deterministic:
  "waitForK6TestRun ns sc s l s' \<Longrightarrow> waitForK6TestRun ns sc s l s'' \<Longrightarrow> s' = s''"
  by (erule waitForK6TestRun.cases; erule waitForK6TestRun.cases) auto

lemma watching_event_enabled: "\<exists>s. waitForK6TestRun ns sc Watching (WatchEvent t obj) s"
proof (cases "(t \<noteq> Modified \<and> t \<noteq> Added) \<or> obj = None")
  case True
  then show ?thesis by (blast intro: event_ignored)
next
  case False
  then obtain o' where o: "obj = Some o'" "t = Modified \<or> t = Added" by blast
  show ?thesis
    by (cases "isTerminalStage (testRunStageFromUnstructured o')") (use o in \<open>auto intro: event_running event_terminal\<close>)
qed

lemma watching_closed_enabled: "\<exists>s. waitForK6TestRun ns sc Watching (WatchClosed c) s"
  by (cases c) (auto intro: reopened reopen_refused)

lemma watching_over_enabled: "\<exists>s. waitForK6TestRun ns sc Watching (ContextOver r) s \<and> final s"
proof (cases "checkStage ns sc r")
  case None
  then have "waitForK6TestRun ns sc Watching (ContextOver r)
      (FailedTest (run_name ns sc @ '' did not finish within timeout''))" by (rule over_running)
  then show ?thesis by force
next
  case (Some s)
  then show ?thesis using over_terminal [OF Some] by (auto simp: checkStage_Some)
qed

lemma observed_end_decides:
  "k6_run ns sc (ls @ [l]) s \<Longrightarrow> seen l = Some stage \<Longrightarrow> s = handleTerminalStage ns sc stage"
  using run_prefix_not_final step_seen by fastforce

text \<open>
  C19: The wait loses no outcome: a test run whose end was shown by any observation has ended the
  wait with that outcome, so as long as the wait goes on nothing it observed showed an end. While
  it watches, every event and every closing of the channel leads to exactly one next state, and the
  end of its context always ends it.
\<close>

theorem k6_wait_misses_nothing:
  "(\<forall>ls l s stage. k6_run ns sc (ls @ [l]) s \<and> seen l = Some stage \<longrightarrow> s = handleTerminalStage ns sc stage \<and> final s) \<and>
   (\<forall>ls s. k6_run ns sc ls s \<and> \<not> final s \<longrightarrow> (\<forall>l \<in> set ls. seen l = None)) \<and>
   (\<forall>t obj. \<exists>!s. waitForK6TestRun ns sc Watching (WatchEvent t obj) s) \<and>
   (\<forall>c. \<exists>!s. waitForK6TestRun ns sc Watching (WatchClosed c) s) \<and>
   (\<forall>r. \<exists>!s. waitForK6TestRun ns sc Watching (ContextOver r) s \<and> final s)"
proof (intro conjI)
  show "\<forall>ls l s stage. k6_run ns sc (ls @ [l]) s \<and> seen l = Some stage \<longrightarrow> s = handleTerminalStage ns sc stage \<and> final s"
    using observed_end_decides by fastforce
  show "\<forall>ls s. k6_run ns sc ls s \<and> \<not> final s \<longrightarrow> (\<forall>l \<in> set ls. seen l = None)"
    using running_saw_nothing by blast
qed (use watching_event_enabled watching_closed_enabled watching_over_enabled k6_deterministic in blast)+

theorem k6_wait_misses_nothing_witness:
  "\<exists>s. waitForK6TestRun ''ns'' ''load'' Watching (ContextOver (Inr (staged ''error''))) s \<and> final s"
  using k6_wait_misses_nothing [of "''ns''" "''load''"] by blast

subsection \<open>The deadline\<close>

text \<open>
  \<open>WaitForK6JobsToComplete\<close> bounds the wait: the context is over no earlier than the given time after the
  start, or the default if none is given. Observations carry the times at which they are made; the
  parallelism is not used by the code.
\<close>

definition testRunGVR :: "gostring \<times> gostring \<times> gostring" where
  "testRunGVR = (''k6.io'', ''v1alpha1'', ''testruns'')"

definition k6_limit :: "duration \<Rightarrow> duration" where
  "k6_limit maxDuration = (if maxDuration = 0 then K6JobMaxDuration else maxDuration)"

definition WaitForK6JobsToComplete ::
  "gostring \<Rightarrow> gostring \<Rightarrow> duration \<Rightarrow> int \<Rightarrow> (int \<times> k6_label) list \<Rightarrow> k6_state \<Rightarrow> bool" where
  "WaitForK6JobsToComplete namespace scenarioName maxDuration start observed s \<longleftrightarrow>
     sorted (map fst observed) \<and>
     (\<forall>(t, l) \<in> set observed. case l of ContextOver r \<Rightarrow> start + k6_limit maxDuration \<le> t | _ \<Rightarrow> True) \<and>
     k6_run namespace scenarioName (map snd observed) s"

definition timeout_message :: "gostring \<Rightarrow> gostring \<Rightarrow> gostring" where
  "timeout_message namespace scenarioName = run_name namespace scenarioName @ '' did not finish within timeout''"

lemma timeout_only_when_over:
  assumes "waitForK6TestRun ns sc s l (FailedTest (timeout_message ns sc))"
  shows "\<exists>r. l = ContextOver r \<and> (\<forall>obj. r = Inr obj \<longrightarrow> terminal_of obj = None)"
  using assms
  by cases (auto simp: timeout_message_def run_name_def handleTerminalStage_def checkStage_Some checkStage_None
    split: if_splits)

text \<open>
  A wait is reported as timed out only when the given time, or twenty minutes if none is given, has
  passed since its start, and not even the last look then showed an end of the run.
\<close>

theorem k6_times_out_late:
  assumes "WaitForK6JobsToComplete ns sc maxDuration start observed (FailedTest (timeout_message ns sc))"
  shows "\<exists>before t r. observed = before @ [(t, ContextOver r)] \<and> start + k6_limit maxDuration \<le> t \<and>
    seen (ContextOver r) = None \<and> (\<forall>(t', l) \<in> set before. t' \<le> t \<and> seen l = None)"
proof -
  have run: "k6_run ns sc (map snd observed) (FailedTest (timeout_message ns sc))" and srt: "sorted (map fst observed)"
    and over: "\<forall>(t, l) \<in> set observed. case l of ContextOver r \<Rightarrow> start + k6_limit maxDuration \<le> t | _ \<Rightarrow> True"
    using assms by (simp_all add: WaitForK6JobsToComplete_def)
  from run show ?thesis
  proof cases
    case (observe ls s l)
    then obtain before t where obs: "observed = before @ [(t, l)]" and ls: "ls = map snd before"
      by (cases observed rule: rev_cases) auto
    obtain r where r: "l = ContextOver r" "\<forall>obj. r = Inr obj \<longrightarrow> terminal_of obj = None"
      using timeout_only_when_over [OF observe(3)] by blast
    have "\<not> final s" using no_step_from_final observe(3) by blast
    then have quiet: "\<forall>x \<in> set ls. seen x = None" using running_saw_nothing observe(2) by blast
    have "seen (ContextOver r) = None" using r(2) by (cases r) auto
    with obs ls r quiet srt over show ?thesis
      by (intro exI [of _ before] exI [of _ t] exI [of _ r]) (auto simp: sorted_append)
  qed
qed

theorem k6_times_out_late_witness:
  "\<exists>observed before t r. WaitForK6JobsToComplete ''ns'' ''load'' 0 5 observed (FailedTest (timeout_message ''ns'' ''load'')) \<and>
     observed = before @ [(t, ContextOver r)] \<and> 5 + K6JobMaxDuration \<le> t"
proof -
  let ?gone = "Inl ''gone'' :: json result"
  let ?t = "5 + K6JobMaxDuration"
  let ?obs = "[(5, Got ?gone), (6, WatchOpened (Inr ())), (7, Got ?gone), (?t, ContextOver ?gone)]"
  have 0: "waitForK6TestRun ''ns'' ''load'' Start (Got ?gone) Subscribing" by (rule first_running) (simp add: checkStage_None)
  note 2 = observe [OF observe [OF at_start 0] watch_open]
  note 3 = observe [OF 2 recheck_running [of _ _ ?gone]]
  note 4 = observe [OF 3 over_running [of _ _ ?gone]]
  then have "WaitForK6JobsToComplete ''ns'' ''load'' 0 5 ?obs (FailedTest (timeout_message ''ns'' ''load''))"
    by (simp add: WaitForK6JobsToComplete_def checkStage_None k6_limit_def timeout_message_def K6JobMaxDuration_def
      Minute_def Second_def)
  from this k6_times_out_late [OF this] show ?thesis by (auto simp: k6_limit_def)
qed

end
