(* ===== verification/Updates.thy ===== *)
theory Updates
  imports Endpoints Retry
begin

text \<open>
  Read-modify-write updates of custom resources under optimistic concurrency
  (\<open>EnsureVMAgentRemoteWriteURL\<close>, \<open>updateVMClusterSpec\<close>, \<open>ReconfigureVMAlert\<close> of \<open>pkg/install\<close>). Other
  actors may change a resource at any time, so what attempt \<open>i\<close> reads and what the API server answers
  to its update are arbitrary functions of \<open>i\<close>. \<open>retry.RetryOnConflict\<close> is a parameter.
\<close>

datatype api_error = ConflictError gostring | OtherError gostring

fun error_text :: "api_error \<Rightarrow> gostring" where
  "error_text (ConflictError e) = e"
| "error_text (OtherError e) = e"

fun is_conflict :: "api_error option \<Rightarrow> bool" where
  "is_conflict (Some (ConflictError _)) = True"
| "is_conflict _ = False"

subsection \<open>Retrying on conflict\<close>

type_synonym retry = "api_error retrier"

definition retries_on_conflict :: "nat \<Rightarrow> retry \<Rightarrow> bool" where
  "retries_on_conflict steps retry \<longleftrightarrow> retries_while is_conflict steps retry"

lemmas retries_on_conflictD = retries_whileD [OF retries_on_conflict_def [THEN iffD1]]

definition plain_retry :: "nat \<Rightarrow> retry" where
  "plain_retry steps = plain_retrier is_conflict steps"

lemma plain_retry_retries: "0 < steps \<Longrightarrow> retries_on_conflict steps (plain_retry steps)"
  by (simp add: retries_on_conflict_def plain_retry_def plain_retrier_retries)

subsection \<open>The remote-write URL of an agent\<close>

text \<open>One attempt: the fresh URLs, the API server's answer; the error and the URLs submitted, if any.\<close>

definition ensure_attempt ::
  "gostring \<Rightarrow> api_error + gostring list \<Rightarrow> api_error option \<Rightarrow> api_error option \<times> gostring list option" where
  "ensure_attempt url fresh answer =
     (case fresh of
        Inl err \<Rightarrow> (Some err, None)
      | Inr urls \<Rightarrow> if url \<in> set urls then (None, None) else (answer, Some (urls @ [url])))"

datatype ensure_result = EnsureFailed gostring | EnsureReported gostring | AlreadyThere | Ensured nat

definition EnsureVMAgentRemoteWriteURL ::
  "retry \<Rightarrow> gostring \<Rightarrow> gostring \<Rightarrow> gostring \<Rightarrow> api_error + gostring list \<Rightarrow>
     (nat \<Rightarrow> api_error + gostring list) \<Rightarrow> (nat \<Rightarrow> api_error option) \<Rightarrow> ensure_result" where
  "EnsureVMAgentRemoteWriteURL retry namespace vmAgentName url initial reads answers =
     (case initial of
        Inl err \<Rightarrow> EnsureFailed (error_text err)
      | Inr urls \<Rightarrow>
          if length urls = 0 then
            EnsureReported (''VMAgent '' @ vmAgentName @ '' in namespace '' @ namespace @
                            '' does not have any remoteWrite configuration'')
          else if url \<in> set urls then AlreadyThere
          else case retry (\<lambda>i. fst (ensure_attempt url (reads i) (answers i))) of
                 (Some err, _) \<Rightarrow> EnsureFailed (error_text err)
               | (None, n) \<Rightarrow> Ensured n)"

text \<open>
  When the update is reported done after \<open>n\<close> attempts, the agent's remote-write list as last seen
  had the URL, or the accepted list is the last read one, unchanged and in order, followed by the
  URL, which it did not contain before; all attempts before failed with a conflict, and there are
  at most as many as the retry policy allows. So concurrent helpers never duplicate a URL or drop
  an entry another one has added.
\<close>

theorem remote_write_url_added_once:
  assumes "EnsureVMAgentRemoteWriteURL retry ns agent url initial reads answers = Ensured n" and "retries_on_conflict steps retry"
  shows "0 < n \<and> n \<le> steps \<and> (\<forall>i < n - 1. is_conflict (fst (ensure_attempt url (reads i) (answers i)))) \<and>
    (\<exists>urls. reads (n - 1) = Inr urls \<and>
      (url \<in> set urls \<and> snd (ensure_attempt url (reads (n - 1)) (answers (n - 1))) = None \<or>
       url \<notin> set urls \<and> answers (n - 1) = None \<and>
         snd (ensure_attempt url (reads (n - 1)) (answers (n - 1))) = Some (urls @ [url])))"
proof -
  let ?call = "\<lambda>i. fst (ensure_attempt url (reads i) (answers i))"
  from assms(1) have run: "retry ?call = (None, n)"
    by (auto simp: EnsureVMAgentRemoteWriteURL_def split: sum.splits if_splits prod.splits option.splits)
  note n = retries_on_conflictD [OF assms(2) run]
  have final: "?call (n - 1) = None" using n(3) by simp
  from final obtain urls where "reads (n - 1) = Inr urls"
    by (auto simp: ensure_attempt_def split: sum.splits)
  with n(1,2,4) final show ?thesis by (auto simp: ensure_attempt_def split: if_splits)
qed

theorem remote_write_url_added_once_witness:
  "EnsureVMAgentRemoteWriteURL (plain_retry 5) ''ns'' ''a'' ''u'' (Inr [''x'']) (\<lambda>i. Inr (if i = 0 then [''x''] else [''x'', ''y'']))
     (\<lambda>i. if i = 0 then Some (ConflictError ''changed'') else None) = Ensured 2 \<and>
   (\<exists>urls. (Inr (if (1::nat) = 0 then [''x''] else [''x'', ''y'']) :: api_error + gostring list) = Inr urls)"
proof -
  let ?reads = "\<lambda>i::nat. Inr (if i = 0 then [''x''] else [''x'', ''y'']) :: api_error + gostring list"
  let ?answers = "\<lambda>i::nat. if i = 0 then Some (ConflictError ''changed'') else None"
  have run: "EnsureVMAgentRemoteWriteURL (plain_retry 5) ''ns'' ''a'' ''u'' (Inr [''x'']) ?reads ?answers = Ensured 2"
    by (simp add: EnsureVMAgentRemoteWriteURL_def plain_retry_def plain_retrier_def upt_rec ensure_attempt_def)
  have "\<exists>urls. ?reads (2 - 1) = Inr urls"
    using remote_write_url_added_once [OF run plain_retry_retries] by auto
  with run show ?thesis by simp
qed

subsection \<open>The spec of a VMCluster\<close>

text \<open>
  \<open>before i\<close> tells whether the context had ended when attempt \<open>i\<close> began (the attempt then gives the
  context's error, which is no conflict), \<open>cancelled\<close> whether it had when the update was over.
\<close>

definition update_attempt :: "('s \<Rightarrow> 's) \<Rightarrow> bool \<Rightarrow> api_error + 's \<Rightarrow> ('s \<Rightarrow> api_error option) \<Rightarrow> api_error option" where
  "update_attempt mutate ended fresh answer =
     (if ended then Some (OtherError ''context canceled'')
      else case fresh of Inl err \<Rightarrow> Some err | Inr spec \<Rightarrow> answer (mutate spec))"

definition updateVMClusterSpec ::
  "retry \<Rightarrow> ('s \<Rightarrow> 's) \<Rightarrow> (nat \<Rightarrow> bool) \<Rightarrow> (nat \<Rightarrow> api_error + 's) \<Rightarrow> (nat \<Rightarrow> 's \<Rightarrow> api_error option) \<Rightarrow>
     bool \<Rightarrow> bool \<Rightarrow> unit result" where
  "updateVMClusterSpec retry mutate ended reads answers cancelled_before cancelled =
     (if cancelled_before then Inr ()
      else case retry (\<lambda>i. update_attempt mutate (ended i) (reads i) (answers i)) of
        (Some err, _) \<Rightarrow> if \<not> cancelled then Inl (error_text err) else Inr ()
      | (None, _) \<Rightarrow> Inr ())"

lemma updateVMClusterSpec_applied:
  assumes "updateVMClusterSpec retry mutate ended reads answers False False = Inr ()" and "retries_on_conflict steps retry"
  shows "\<exists>n spec. 0 < n \<and> n \<le> steps \<and> reads (n - 1) = Inr spec \<and> answers (n - 1) (mutate spec) = None"
proof -
  let ?call = "\<lambda>i. update_attempt mutate (ended i) (reads i) (answers i)"
  from assms(1) obtain n where run: "retry ?call = (None, n)"
    by (auto simp: updateVMClusterSpec_def split: prod.splits option.splits)
  note n = retries_on_conflictD [OF assms(2) run]
  have final: "?call (n - 1) = None" using n(3) by simp
  from final have "\<exists>spec. reads (n - 1) = Inr spec \<and> answers (n - 1) (mutate spec) = None"
    by (auto simp: update_attempt_def split: if_splits sum.splits)
  with n(1,2) show ?thesis by blast
qed

subsection \<open>VMAlert\<close>

record VMAlertSpec =
  va_DatasourceURL :: gostring
  va_RemoteReadURL :: "gostring option"
  va_RemoteWriteURL :: "gostring option"

text \<open>\<open>RemoteRead\<close> is a pointer; assigning through a nil one panics.\<close>

definition set_urls :: "gostring \<Rightarrow> VMAlertSpec \<Rightarrow> VMAlertSpec result" where
  "set_urls url spec =
     (case va_RemoteReadURL spec of
        None \<Rightarrow> Inl ''invalid memory address or nil pointer dereference''
      | Some _ \<Rightarrow> Inr (spec\<lparr>va_DatasourceURL := url, va_RemoteReadURL := Some url\<rparr>))"

definition overwatch_svc_url :: "gostring \<Rightarrow> gostring" where
  "overwatch_svc_url overwatchURL = http (overwatchURL @ ''/'')"

definition reconfigure_attempt ::
  "gostring \<Rightarrow> api_error + VMAlertSpec \<Rightarrow> (VMAlertSpec \<Rightarrow> api_error option) \<Rightarrow> api_error option" where
  "reconfigure_attempt url fresh answer =
     (case fresh of
        Inl err \<Rightarrow> Some err
      | Inr spec \<Rightarrow> (case set_urls url spec of Inl panic \<Rightarrow> Some (OtherError panic) | Inr spec' \<Rightarrow> answer spec'))"

definition ReconfigureVMAlert ::
  "retry \<Rightarrow> gostring \<Rightarrow> api_error + VMAlertSpec \<Rightarrow> (nat \<Rightarrow> api_error + VMAlertSpec) \<Rightarrow>
     (nat \<Rightarrow> VMAlertSpec \<Rightarrow> api_error option) \<Rightarrow> unit result" where
  "ReconfigureVMAlert retry overwatchURL initial reads answers =
     (case initial of
        Inl err \<Rightarrow> Inl (error_text err)
      | Inr vmAlert \<Rightarrow>
          bind_result (set_urls (overwatch_svc_url overwatchURL) vmAlert) (\<lambda>_.
          case retry
                 (\<lambda>i. reconfigure_attempt (overwatch_svc_url overwatchURL) (reads i) (answers i)) of
            (Some err, _) \<Rightarrow> Inl (error_text err) | (None, _) \<Rightarrow> Inr ()))"

text \<open>The remote-write target is left alone, whatever the comment of the function says.\<close>

lemma set_urls_keeps_remote_write:
  "set_urls url spec = Inr spec' \<Longrightarrow> va_RemoteWriteURL spec' = va_RemoteWriteURL spec \<and>
     va_DatasourceURL spec' = url \<and> va_RemoteReadURL spec' = Some url"
  by (auto simp: set_urls_def split: option.splits)

end
