(* ===== verification/Helm.thy ===== *)
theory Helm
  imports Install_Props Updates
begin

text \<open>
  The Helm installers (\<open>pkg/install/helm.go\<close> and the chaos-mesh chart of \<open>pkg/install/chaos.go\<close>): the
  values handed to the charts, which are Go maps and here association lists written with
  \<open>AList.update\<close>, and the installations as programs over the cluster. The semantic-version library
  is a parameter of type \<open>'v semver\<close>, the Go type of a VMAgent resource the function \<open>as_vmagent\<close>.
\<close>

subsection \<open>Operator versions\<close>

record 'v semver =
  sm_NewVersion :: "gostring \<Rightarrow> 'v result"
  sm_Compare :: "'v \<Rightarrow> 'v \<Rightarrow> int"

definition minOperatorVersionForPrometheusConverterDisable :: gostring where
  "minOperatorVersionForPrometheusConverterDisable = ''0.69.0''"

definition minOperatorVersionForVMSingleVPA :: gostring where
  "minOperatorVersionForVMSingleVPA = ''0.73.0''"

text \<open>
  \<open>MustParse\<close> of a minimum version runs when the package is initialised and panics on an error;
  the last branch is therefore never reached with a library that parses the two minimum versions.
\<close>

definition at_least :: "'v semver \<Rightarrow> gostring \<Rightarrow> gostring \<Rightarrow> bool" where
  "at_least sm minimum tag =
     (if tag = [] then True
      else case sm_NewVersion sm tag of
        Inl err \<Rightarrow> True
      | Inr v \<Rightarrow> (case sm_NewVersion sm minimum of Inr m \<Rightarrow> 0 \<le> sm_Compare sm v m | Inl panic \<Rightarrow> True))"

definition operatorSupportsPrometheusConverterDisable :: "'v semver \<Rightarrow> gostring \<Rightarrow> bool" where
  "operatorSupportsPrometheusConverterDisable sm tag = at_least sm minOperatorVersionForPrometheusConverterDisable tag"

definition OperatorSupportsVMSingleVPA :: "'v semver \<Rightarrow> gostring \<Rightarrow> bool" where
  "OperatorSupportsVMSingleVPA sm tag = at_least sm minOperatorVersionForVMSingleVPA tag"

subsection \<open>Chart values\<close>

type_synonym chart_values = "(gostring \<times> gostring) list"

definition set_nonempty :: "gostring \<Rightarrow> gostring \<Rightarrow> chart_values \<Rightarrow> chart_values" where
  "set_nonempty k v m = (if v \<noteq> [] then AList.update k v m else m)"

definition stack_base_values :: "config \<Rightarrow> gostring \<Rightarrow> chart_values" where
  "stack_base_values cfg namespace =
     [(''vmsingle.ingress.hosts[0]'', VMSingleHost cfg),
      (''alertmanager.ingress.enabled'', ''true''),
      (''alertmanager.ingress.hosts[0]'', AlertManagerHost namespace cfg),
      (''vmagent.spec.resources.requests.cpu'', ''200m''),
      (''vmagent.spec.resources.limits.cpu'', ''1''),
      (''vmagent.spec.resources.requests.memory'', ''384Mi''),
      (''vmagent.spec.resources.limits.memory'', ''1Gi''),
      (''victoria-metrics-operator.operator.vpa_support'', ''true''),
      (''victoria-metrics-operator.operator.gateway_support'', ''true'')]"

definition stack_operator_values :: "'v semver \<Rightarrow> config \<Rightarrow> chart_values \<Rightarrow> chart_values" where
  "stack_operator_values sm cfg m =
     set_nonempty ''victoria-metrics-operator.configReloader.image.tag'' (ConfigReloaderTag cfg)
     (set_nonempty ''victoria-metrics-operator.configReloader.image.repository'' (ConfigReloaderRepository cfg)
     (set_nonempty ''victoria-metrics-operator.configReloader.image.registry'' (ConfigReloaderRegistry cfg)
     (set_nonempty ''victoria-metrics-operator.image.tag'' (OperatorImageTag cfg)
     (set_nonempty ''victoria-metrics-operator.image.repository'' (OperatorImageRepository cfg)
     (set_nonempty ''victoria-metrics-operator.image.registry'' (OperatorImageRegistry cfg)
     (if operatorSupportsPrometheusConverterDisable sm (OperatorImageTag cfg)
      then AList.update ''victoria-metrics-operator.operator.disable_prometheus_converter'' ''true'' m else m))))))"

definition env_key :: "nat \<Rightarrow> gostring \<Rightarrow> gostring" where
  "env_key i field = ''victoria-metrics-operator.env['' @ nat_str i @ ''].'' @ field"

definition addEnv :: "gostring \<times> gostring \<Rightarrow> nat \<times> chart_values \<Rightarrow> nat \<times> chart_values" where
  "addEnv entry st =
     (case (entry, st) of ((name, v), (envIdx, setValues)) \<Rightarrow>
        if v \<noteq> [] then
          (Suc envIdx, AList.update (env_key envIdx ''value'') v (AList.update (env_key envIdx ''name'') name setValues))
        else (envIdx, setValues))"

definition operator_env :: "config \<Rightarrow> (gostring \<times> gostring) list" where
  "operator_env cfg =
     [(''VM_VMSINGLEDEFAULT_IMAGE'', VMSingleDefaultImage cfg),
      (''VM_VMSINGLEDEFAULT_VERSION'', VMSingleDefaultVersion cfg),
      (''VM_VMCLUSTERDEFAULT_VMSELECTDEFAULT_IMAGE'', VMClusterVMSelectDefaultImage cfg),
      (''VM_VMCLUSTERDEFAULT_VMSELECTDEFAULT_VERSION'', VMClusterVMSelectDefaultVersion cfg),
      (''VM_VMCLUSTERDEFAULT_VMSTORAGEDEFAULT_IMAGE'', VMClusterVMStorageDefaultImage cfg),
      (''VM_VMCLUSTERDEFAULT_VMSTORAGEDEFAULT_VERSION'', VMClusterVMStorageDefaultVersion cfg),
      (''VM_VMCLUSTERDEFAULT_VMINSERTDEFAULT_IMAGE'', VMClusterVMInsertDefaultImage cfg),
      (''VM_VMCLUSTERDEFAULT_VMINSERTDEFAULT_VERSION'', VMClusterVMInsertDefaultVersion cfg),
      (''VM_VMAGENTDEFAULT_IMAGE'', VMAgentDefaultImage cfg),
      (''VM_VMAGENTDEFAULT_VERSION'', VMAgentDefaultVersion cfg),
      (''VM_VMALERTDEFAULT_IMAGE'', VMAlertDefaultImage cfg),
      (''VM_VMALERTDEFAULT_VERSION'', VMAlertDefaultVersion cfg),
      (''VM_VMAUTHDEFAULT_IMAGE'', VMAuthDefaultImage cfg),
      (''VM_VMAUTHDEFAULT_VERSION'', VMAuthDefaultVersion cfg)]"

definition buildVMK8StackValues :: "'v semver \<Rightarrow> config \<Rightarrow> gostring \<Rightarrow> chart_values" where
  "buildVMK8StackValues sm cfg namespace =
     snd (fold addEnv (operator_env cfg) (0, stack_operator_values sm cfg (stack_base_values cfg namespace)))"

definition isLocalChartPath :: "gostring \<Rightarrow> bool" where
  "isLocalChartPath helmChart \<longleftrightarrow> HasPrefix helmChart ''/'' \<or> HasPrefix helmChart ''./'' \<or> HasPrefix helmChart ''../''"

definition zone_key :: "nat \<Rightarrow> gostring" where
  "zone_key i = ''availabilityZones['' @ nat_str i @ ''].name''"

fun set_zones :: "nat \<Rightarrow> gostring list \<Rightarrow> chart_values \<Rightarrow> chart_values" where
  "set_zones i [] m = m"
| "set_zones i (z # zs) m =
     set_zones (Suc i) zs (if TrimSpace z \<noteq> [] then AList.update (zone_key i) (TrimSpace z) m else m)"

definition distributed_base_values :: "config \<Rightarrow> gostring \<Rightarrow> chart_values" where
  "distributed_base_values cfg namespace =
     [(''read.global.vmauth.spec.ingress.host'', VMSelectHost namespace cfg),
      (''write.global.vmauth.spec.ingress.host'', VMInsertHost namespace cfg),
      (''zoneTpl.read.vmauth.spec.ingress.host'', ''vmselect-{{ (.zone).name }}.'' @ IngressHost cfg @ ''.nip.io'')]"

definition buildVMDistributedValues :: "config \<Rightarrow> gostring \<Rightarrow> chart_values" where
  "buildVMDistributedValues cfg namespace =
     set_zones 0 (SplitC (CHR '','') (DistributedZones cfg)) (distributed_base_values cfg namespace)"

definition buildVMDistributedSetFiles :: "config \<Rightarrow> chart_values" where
  "buildVMDistributedSetFiles cfg =
     (if LicenseFile cfg = [] then []
      else [(''global.license.key'', LicenseFile cfg),
            (''common.vmcluster.spec.license.key'', LicenseFile cfg),
            (''common.vmsingle.spec.license.key'', LicenseFile cfg)])"

subsection \<open>What the values say\<close>

lemma env_key_inj: "env_key i f = env_key j g \<longleftrightarrow> i = j \<and> f = g"
  by (simp add: env_key_def nat_str_sep is_digit_def)

lemma zone_key_inj: "zone_key i = zone_key j \<longleftrightarrow> i = j"
  by (simp add: zone_key_def nat_str_inj)

definition given :: "(gostring \<times> gostring) list \<Rightarrow> (gostring \<times> gostring) list" where
  "given es = filter (\<lambda>e. snd e \<noteq> []) es"

lemma fold_addEnv_lookup:
  assumes "f = ''name'' \<or> f = ''value''"
  shows "map_of (snd (fold addEnv es (i, m))) (env_key j f) =
     (if i \<le> j \<and> j - i < length (given es)
      then Some ((if f = ''name'' then fst else snd) (given es ! (j - i)))
      else map_of m (env_key j f))"
proof (induction es arbitrary: i m j)
  case Nil
  show ?case by (simp add: given_def)
next
  case (Cons e es)
  obtain n v where e: "e = (n, v)" by (cases e)
  show ?case
  proof (cases "v = []")
    case True
    then have "addEnv e (i, m) = (i, m)" by (simp add: e addEnv_def)
    then show ?thesis using True Cons.IH [of i m j] by (simp add: e given_def)
  next
    case False
    define m' where "m' = AList.update (env_key i ''value'') v (AList.update (env_key i ''name'') n m)"
    have step: "addEnv e (i, m) = (Suc i, m')" using False by (simp add: e addEnv_def m'_def)
    have g: "given (e # es) = (n, v) # given es" using False by (simp add: e given_def)
    have m': "map_of m' (env_key j f) = (if j = i then Some (if f = ''name'' then n else v) else map_of m (env_key j f))"
      using assms by (auto simp: m'_def env_key_inj)
    consider "j < i" | "j = i" | "i < j" by linarith
    then show ?thesis
    proof cases
      case 3
      then have d: "j - i = Suc (j - Suc i)" by simp
      show ?thesis using 3 by (simp add: step g Cons.IH m' d)
    next
      case 2
      then show ?thesis unfolding fold.simps o_apply step Cons.IH g using m' by simp
    qed (simp add: step g Cons.IH m')
  qed
qed

lemma set_zones_lookup:
  "map_of (set_zones i zs m) (zone_key j) =
     (if i \<le> j \<and> j - i < length zs \<and> TrimSpace (zs ! (j - i)) \<noteq> [] then Some (TrimSpace (zs ! (j - i)))
      else map_of m (zone_key j))"
proof (induction zs arbitrary: i m j)
  case Nil
  show ?case by simp
next
  case (Cons z zs)
  consider "j < i" | "j = i" | "i < j" by linarith
  then show ?case
  proof cases
    case 3
    then have d: "j - i = Suc (j - Suc i)" by simp
    show ?thesis using 3 by (simp add: Cons.IH d zone_key_inj)
  qed (simp_all add: Cons.IH zone_key_inj)
qed


lemma map_of_set_nonempty:
  "map_of (set_nonempty k v m) q = (if v \<noteq> [] \<and> q = k then Some v else map_of m q)"
  by (simp add: set_nonempty_def)

lemma stack_values_no_env:
  "map_of (stack_operator_values sm cfg (stack_base_values cfg namespace)) (env_key j f) = None"
  by (simp add: stack_operator_values_def map_of_set_nonempty stack_base_values_def env_key_def)

text \<open>
  The operator's environment in the values of the monitoring stack is a list without holes: entry
  \<open>i\<close> names the \<open>i\<close>-th configured image or version and carries its value as configured, and there
  are no entries beyond them, whatever is configured. (Helm fills a hole in a list with null.)
\<close>

theorem operator_env_contiguous:
  "map_of (buildVMK8StackValues sm cfg ns) (env_key i ''name'') =
     (if i < length (given (operator_env cfg)) then Some (fst (given (operator_env cfg) ! i)) else None) \<and>
   map_of (buildVMK8StackValues sm cfg ns) (env_key i ''value'') =
     (if i < length (given (operator_env cfg)) then Some (snd (given (operator_env cfg) ! i)) else None)"
  by (simp add: buildVMK8StackValues_def fold_addEnv_lookup stack_values_no_env)

lemma distributed_base_no_zone: "map_of (distributed_base_values cfg namespace) (zone_key i) = None"
  by (simp add: distributed_base_values_def zone_key_def)

text \<open>
  Zone \<open>i\<close> of the distributed chart is named exactly when the \<open>i\<close>-th entry of the configured list
  is not blank. A blank entry in the middle therefore leaves a hole in \<open>availabilityZones\<close>, which
  the manifest built for the operator from the same list does not have.
\<close>

theorem distributed_zone_names:
  "map_of (buildVMDistributedValues cfg ns) (zone_key i) =
     (let zones = SplitC (CHR '','') (DistributedZones cfg)
      in if i < length zones \<and> TrimSpace (zones ! i) \<noteq> [] then Some (TrimSpace (zones ! i)) else None)"
  by (simp add: buildVMDistributedValues_def set_zones_lookup distributed_base_no_zone Let_def)

subsection \<open>Installing\<close>

definition helm_upgrade_args :: "gostring \<Rightarrow> gostring list" where
  "helm_upgrade_args version =
     [''--create-namespace'', ''--wait'', ''--timeout'', ''10m''] @ (if version \<noteq> [] then [''--version'', version] else [])"

definition VMVersionFromCR :: "KubectlOptions \<Rightarrow> gostring \<Rightarrow> gostring prog" where
  "VMVersionFromCR ko releaseName =
     chain (perform (TryKubectl ko [''get'', ''vmsingle'', releaseName, ''-o'',
               ''jsonpath={.metadata.labels.app'' @ [CHR 0x5C] @ ''.kubernetes'' @ [CHR 0x5C] @ ''.io/version}'']))
       (\<lambda>r. case r of Inl err \<Rightarrow> ret [] | Inr out \<Rightarrow> ret (TrimSpace out))"

definition ready_pods_args :: "gostring \<Rightarrow> gostring list" where
  "ready_pods_args selector =
     [''wait'', ''--for=condition=Ready'', ''pod'', ''-l'', selector, ''--timeout=300s'']"

text \<open>
  \<open>labels_of\<close> reads the labels out of what the API server answers for a deployment. The result is
  the configuration with the versions found.
\<close>

definition InstallVMK8StackWithHelm ::
  "'v semver \<Rightarrow> (gostring \<Rightarrow> (gostring \<times> gostring) list) \<Rightarrow> config \<Rightarrow>
     gostring \<Rightarrow> gostring \<Rightarrow> gostring \<Rightarrow> gostring \<Rightarrow> config prog" where
  "InstallVMK8StackWithHelm sm labels_of cfg helmChart valuesFile namespace releaseName =
     (let ko = NewKubectlOptions [] [] namespace;
          setFiles = (if LicenseFile cfg \<noteq> [] then [(''global.license.key'', LicenseFile cfg)] else []);
          version = (if isLocalChartPath helmChart then [] else VMK8sStackChartVersion cfg)
      in chain (run_musts
           [HelmUpgrade ko helmChart releaseName [] (buildVMK8StackValues sm cfg namespace) setFiles
              [valuesFile] (helm_upgrade_args version),
            WaitDeployment ko ''vmks-victoria-metrics-operator'' Retries PollingInterval]) (\<lambda>_.
         chain (must (GetDeployment ko ''vmks-victoria-metrics-operator'')) (\<lambda>vmOperator.
         let cfg1 = SetOperatorVersion (map_entry (labels_of vmOperator) ''app.kubernetes.io/version'') cfg
         in chain (run_musts
              [WaitDeployment ko ''vmagent-vmks'' Retries PollingInterval,
               WaitDeployment ko ''vmalert-vmks'' Retries PollingInterval,
               WaitDeployment ko ''vmsingle-vmks'' Retries PollingInterval,
               WaitReady ko (ready_pods_args ''app.kubernetes.io/name=vmalertmanager'') ResourceWaitTimeout PollingInterval]) (\<lambda>_.
            chain (VMVersionFromCR ko releaseName) (\<lambda>vmVersion.
            let cfg2 = SetHelmChartVersion (map_entry (labels_of vmOperator) ''helm.sh/chart'') (SetVMVersion vmVersion cfg1)
            in chain (run_musts [ApplyFile ko (ManifestsRoot cfg @ ''/components/node-scrape.yaml'')]) (\<lambda>_. ret cfg2))))))"

definition InstallVMDistributedWithHelm ::
  "config \<Rightarrow> gostring \<Rightarrow> gostring \<Rightarrow> gostring \<Rightarrow> gostring \<Rightarrow> unit prog" where
  "InstallVMDistributedWithHelm cfg helmChart valuesFile namespace releaseName =
     (let ko = NewKubectlOptions [] [] namespace;
          vmauth = (\<lambda>kind. ''vmauth-vmauth-global-'' @ kind @ ''-vmks-vm-distributed'')
      in run_musts
           [HelmUpgrade ko helmChart releaseName [] (buildVMDistributedValues cfg namespace)
              (buildVMDistributedSetFiles cfg) [valuesFile] (helm_upgrade_args (VMDistributedChartVersion cfg)),
            WaitDeployment ko (vmauth ''read'') Retries PollingInterval,
            WaitDeployment ko (vmauth ''write'') Retries PollingInterval,
            WaitOperational ''VMAgent'' ko namespace [] ResourceWaitTimeout,
            WaitOperational ''VMCluster'' ko namespace [] VMClusterWaitTimeout])"

definition VictoriaLogsSingleChart :: gostring where "VictoriaLogsSingleChart = ''vm/victoria-logs-single''"
definition VictoriaLogsCollectorChart :: gostring where "VictoriaLogsCollectorChart = ''vm/victoria-logs-collector''"

definition vl_single_values :: "config \<Rightarrow> chart_values" where
  "vl_single_values cfg =
     set_nonempty ''server.image.tag'' (VLVersion cfg)
       [(''server.ingress.enabled'', ''true''), (''server.ingress.ingressClassName'', ''traefik''),
        (''server.ingress.hosts[0].name'', VLHost cfg), (''server.ingress.hosts[0].path[0]'', ''/'')]"

definition InstallVictoriaLogs :: "config \<Rightarrow> gostring \<Rightarrow> gostring \<Rightarrow> gostring \<Rightarrow> unit prog" where
  "InstallVictoriaLogs cfg namespace releaseName collectorReleaseName =
     (let ko = NewKubectlOptions [] [] namespace
      in run_musts
           [HelmUpgrade ko VictoriaLogsSingleChart releaseName [] (vl_single_values cfg) (VLSingleLicenseFiles cfg)
              [VictoriaLogsSingleValuesFile cfg] (helm_upgrade_args (VLSingleChartVersion cfg)),
            WaitReady ko (ready_pods_args (''app.kubernetes.io/instance='' @ releaseName)) ResourceWaitTimeout PollingInterval,
            HelmUpgrade ko VictoriaLogsCollectorChart collectorReleaseName []
              [(''remoteWrite[0].url'', ''http://'' @ GetVLSingleSvc releaseName namespace)] []
              [VictoriaLogsCollectorValuesFile cfg] (helm_upgrade_args (VLCollectorChartVersion cfg))])"

definition InstallChaosMesh :: "config \<Rightarrow> gostring \<Rightarrow> gostring \<Rightarrow> gostring \<Rightarrow> gostring \<Rightarrow> unit prog" where
  "InstallChaosMesh cfg helmChart valuesFile namespace releaseName =
     (let ko = NewKubectlOptions [] [] namespace
      in run_musts
           [HelmUpgrade ko helmChart releaseName [] [] [] [valuesFile] (helm_upgrade_args []),
            ApplyFile ko (ManifestsRoot cfg @ ''/chaos-mesh-operator/ebtables.yaml''),
            WaitDeployment ko ''chaos-controller-manager'' Retries PollingInterval])"

subsection \<open>Failing fast\<close>

lemma ff_let [ff]: "fail_fast (f x) \<Longrightarrow> fail_fast (let y = x in f y)"
  by (simp add: Let_def)

lemma ff_vmversion [ff]: "fail_fast (VMVersionFromCR ko rel)"
  unfolding VMVersionFromCR_def by (intro ff)

interpretation vmk8stack: fail_fast "InstallVMK8StackWithHelm sm labels_of cfg chart vals ns rel"
  for sm labels_of cfg chart vals ns rel
  unfolding InstallVMK8StackWithHelm_def Let_def by (intro ff)

interpretation helm_distributed: fail_fast "InstallVMDistributedWithHelm cfg chart vals ns rel" for cfg chart vals ns rel
  unfolding InstallVMDistributedWithHelm_def Let_def by (intro ff)

interpretation victorialogs: fail_fast "InstallVictoriaLogs cfg ns rel col" for cfg ns rel col
  unfolding InstallVictoriaLogs_def Let_def by (intro ff)

interpretation chaos_mesh: fail_fast "InstallChaosMesh cfg chart vals ns rel" for cfg chart vals ns rel
  unfolding InstallChaosMesh_def Let_def by (intro ff)

subsection \<open>What the stack installation records\<close>

lemma stack_run_config:
  assumes "InstallVMK8StackWithHelm sm labels_of cfg chart vals ns rel w = (Inr cfg', w')"
  shows "\<exists>d v. cfg' = SetHelmChartVersion (map_entry (labels_of d) ''helm.sh/chart'')
      (SetVMVersion v (SetOperatorVersion (map_entry (labels_of d) ''app.kubernetes.io/version'') cfg))"
  using assms unfolding InstallVMK8StackWithHelm_def Let_def chain_Inr ret_Inr by blast

text \<open>
  After a successful installation of the monitoring stack, the configuration holds the operator
  and chart versions read from the labels of the operator's deployment and the VM version of the
  custom resource without surrounding blanks (empty when it could not be read); no other value
  changed.
\<close>

theorem stack_versions_recorded:
  assumes "InstallVMK8StackWithHelm sm labels_of cfg chart vals ns rel w = (Inr cfg', w')"
  shows "\<exists>d v. cfg' = SetHelmChartVersion (map_entry (labels_of d) ''helm.sh/chart'')
      (SetVMVersion v (SetOperatorVersion (map_entry (labels_of d) ''app.kubernetes.io/version'') cfg)) \<and>
    OperatorVersion cfg' = map_entry (labels_of d) ''app.kubernetes.io/version'' \<and> VMVersion cfg' = v \<and>
    HelmChartVersion cfg' = map_entry (labels_of d) ''helm.sh/chart''"
proof -
  from stack_run_config [OF assms] obtain d v where "cfg' = SetHelmChartVersion (map_entry (labels_of d) ''helm.sh/chart'')
      (SetVMVersion v (SetOperatorVersion (map_entry (labels_of d) ''app.kubernetes.io/version'') cfg))"
    by blast
  then show ?thesis
    by (intro exI [of _ d] exI [of _ v])
      (simp add: OperatorVersion_def VMVersion_def HelmChartVersion_def SetHelmChartVersion_def SetVMVersion_def
        SetOperatorVersion_def cell_Get_Set)
qed

definition demo_semver :: "nat semver" where
  "demo_semver = \<lparr>sm_NewVersion = (\<lambda>s. Inr (length s)), sm_Compare = (\<lambda>a b. int a - int b)\<rparr>"

lemma demo_stack_run:
  "\<exists>cfg' w'. InstallVMK8StackWithHelm demo_semver (\<lambda>_. [(''helm.sh/chart'', ''c-1'')]) demo_config ''vm/chart'' ''v.yaml'' ''vm'' ''vmks''
     demo_world = (Inr cfg', w')"
  unfolding InstallVMK8StackWithHelm_def VMVersionFromCR_def demo_world_def Let_def
  by (simp add: ret_def must_def chain_def perform_def lift_result_def)

theorem stack_versions_recorded_witness:
  "\<exists>cfg' w'. InstallVMK8StackWithHelm demo_semver (\<lambda>_. [(''helm.sh/chart'', ''c-1'')]) demo_config ''vm/chart'' ''v.yaml'' ''vm'' ''vmks''
     demo_world = (Inr cfg', w') \<and> HelmChartVersion cfg' = ''c-1'' \<and> OperatorVersion cfg' = []"
proof -
  from demo_stack_run obtain cfg' w' where run:
    "InstallVMK8StackWithHelm demo_semver (\<lambda>_. [(''helm.sh/chart'', ''c-1'')]) demo_config ''vm/chart'' ''v.yaml'' ''vm'' ''vmks''
     demo_world = (Inr cfg', w')" by blast
  from stack_versions_recorded [OF run] have "HelmChartVersion cfg' = ''c-1'' \<and> OperatorVersion cfg' = []"
    by (elim exE conjE) (simp add: map_entry_def)
  with run show ?thesis by blast
qed

end
