(* ===== verification/Overwatch.thy ===== *)
theory Overwatch
  imports Helm
begin

text \<open>
  Forwarding to the monitoring instance (\<open>InstallOverwatch\<close> of \<open>pkg/install/helm.go\<close>): the agent of the
  monitoring stack is redirected, given the cluster's label and, where a password is configured, a
  second target with credentials of its own; then the alerting component is reconfigured. The
  Go types of the operator and of a secret are third-party: \<open>as_vmagent\<close> decodes the manifest, and
  the documents are given by the fields the code sets.
\<close>

definition MDXRemoteWriteURL :: gostring where
  "MDXRemoteWriteURL = ''https://maas.victoriametrics.com/metrics/insert/prometheus/api/v1/write''"

definition MDXRemoteWriteUsername :: gostring where "MDXRemoteWriteUsername = ''monitoring-4''"
definition MDXRemoteWriteSecretName :: gostring where "MDXRemoteWriteSecretName = ''mdx-remote-write-secret''"

fun jset :: "gostring \<Rightarrow> json \<Rightarrow> json \<Rightarrow> json" where
  "jset k v (JObj fs) = JObj (AList.update k v fs)"
| "jset k v _ = JObj [(k, v)]"

lemma jfield_jset [simp]: "jfield k (jset k' v doc) = (if k = k' then v else jfield k doc)"
  by (cases doc) simp_all

text \<open>\<open>append\<close> to a list of the specification; an absent list counts as empty.\<close>

definition append_spec :: "gostring \<Rightarrow> json \<Rightarrow> json \<Rightarrow> json" where
  "append_spec field item doc =
     jset ''spec'' (jset field (JArr (jitems (jfield field (jfield ''spec'' doc)) @ [item])) (jfield ''spec'' doc)) doc"

definition relabel :: "gostring \<Rightarrow> gostring \<Rightarrow> json" where
  "relabel targetLabel replacement = JObj [(''target_label'', JStr targetLabel), (''replacement'', JStr replacement)]"

definition with_cluster_id :: "config \<Rightarrow> json \<Rightarrow> json" where
  "with_cluster_id cfg vmAgent =
     (let clusterID = TrimSpace (Getenv ''CLUSTER_ID'' cfg)
      in if clusterID \<noteq> [] then append_spec ''inlineRelabelConfig'' (relabel ''cluster_id'' clusterID) vmAgent
         else vmAgent)"

definition mdx_secret :: "gostring \<Rightarrow> gostring \<Rightarrow> json" where
  "mdx_secret namespace password =
     JObj [(''apiVersion'', JStr ''v1''), (''kind'', JStr ''Secret''),
       (''metadata'', JObj [(''name'', JStr MDXRemoteWriteSecretName), (''namespace'', JStr namespace)]),
       (''type'', JStr ''Opaque''),
       (''stringData'', JObj [(''username'', JStr MDXRemoteWriteUsername), (''password'', JStr (TrimSpace password))])]"

definition mdx_key :: "gostring \<Rightarrow> json" where
  "mdx_key key = JObj [(''name'', JStr MDXRemoteWriteSecretName), (''key'', JStr key)]"

definition mdx_remote_write :: json where
  "mdx_remote_write =
     JObj [(''url'', JStr MDXRemoteWriteURL),
       (''basicAuth'', JObj [(''username'', mdx_key ''username''), (''password'', mdx_key ''password'')]),
       (''inlineUrlRelabelConfig'', JArr [relabel ''victoriametrics_app'' ''true''])]"

definition with_mdx :: "config \<Rightarrow> json \<Rightarrow> json" where
  "with_mdx cfg vmAgent =
     (if MDXPasswordFile cfg \<noteq> [] then append_spec ''remoteWrite'' mdx_remote_write vmAgent else vmAgent)"

definition overwatch_agent :: "config \<Rightarrow> json \<Rightarrow> json" where
  "overwatch_agent cfg vmAgent = with_mdx cfg (with_cluster_id cfg vmAgent)"

definition redirect_agent :: "gostring \<Rightarrow> gostring \<Rightarrow> gostring" where
  "redirect_agent vmSingleSvc vmagentYaml =
     ReplaceAll vmagentYaml ''http://vmsingle-overwatch.vm.svc.cluster.local.:8428/prometheus/api/v1/write''
       (''http://'' @ vmSingleSvc @ ''/prometheus/api/v1/write'')"

definition ensure_mdx_secret :: "config \<Rightarrow> KubectlOptions \<Rightarrow> gostring \<Rightarrow> unit prog" where
  "ensure_mdx_secret cfg ko namespace =
     (if MDXPasswordFile cfg = [] then ret ()
      else chain (must (ReadFile (MDXPasswordFile cfg)))
             (\<lambda>password. run_musts [ApplyString ko (Document (mdx_secret namespace password))]))"

definition InstallOverwatch ::
  "(gostring \<Rightarrow> json result) \<Rightarrow> config \<Rightarrow> gostring \<Rightarrow> gostring \<Rightarrow> gostring \<Rightarrow> unit prog" where
  "InstallOverwatch as_vmagent cfg namespace vmAgentNamespace vmAgentReleaseName =
     (let ko = NewKubectlOptions [] [] vmAgentNamespace;
          vmSingleSvc = GetVMSingleSvc vmAgentReleaseName vmAgentNamespace
      in chain (must (ReadFile (OverwatchVMAgentYaml cfg))) (\<lambda>vmagentYaml.
         chain (lift_result (as_vmagent (redirect_agent vmSingleSvc vmagentYaml))) (\<lambda>vmAgent.
         chain (ensure_mdx_secret cfg ko vmAgentNamespace) (\<lambda>_.
           run_musts
             [ApplyString ko (Document (overwatch_agent cfg vmAgent)),
              WaitOperational ''VMAgent'' ko vmAgentNamespace [] ResourceWaitTimeout,
              UpdateVMAlert vmAgentNamespace vmAgentReleaseName vmSingleSvc,
              WaitOperational ''VMAlert'' ko vmAgentNamespace [] ResourceWaitTimeout,
              WaitOperational ''VMSingle'' ko vmAgentNamespace [] ResourceWaitTimeout]))))"

interpretation overwatch: fail_fast "InstallOverwatch as_vmagent cfg ns ans rel" for as_vmagent cfg ns ans rel
  unfolding InstallOverwatch_def ensure_mdx_secret_def Let_def by (intro ff)

lemma append_spec_items:
  "jitems (jfield f (jfield ''spec'' (append_spec g item doc))) =
     jitems (jfield f (jfield ''spec'' doc)) @ (if f = g then [item] else [])"
  by (simp add: append_spec_def)

lemma ensure_mdx_secret_Inr:
  assumes "ensure_mdx_secret cfg ko ns w = (Inr x, w')"
  shows "\<exists>password. w' = after w (if MDXPasswordFile cfg = [] then []
    else [ReadFile (MDXPasswordFile cfg), ApplyString ko (Document (mdx_secret ns password))])"
  using assms by (auto simp: ensure_mdx_secret_def runs_Inr split: if_splits)


definition mdx_config :: config where
  "mdx_config = init_config (\<lambda>k. if k = ''MDX_PASSWORD'' then ''/pw'' else [])"

lemma demo_overwatch_run:
  "\<exists>w'. InstallOverwatch (\<lambda>_. Inr (JObj [])) mdx_config ''ns'' ''vm'' ''vmks'' demo_world = (Inr (), w')"
  unfolding InstallOverwatch_def ensure_mdx_secret_def demo_world_def mdx_config_def Let_def
  by (simp add: ret_def must_def chain_def perform_def lift_result_def MDXPasswordFile_def Getenv_def init_config_def)


end
