(* ===== verification/ArgoCD.thy ===== *)
theory ArgoCD
  imports Install_Props "HOL-Library.Multiset"
begin

text \<open>
  Argo CD (\<open>pkg/install/argocd.go\<close>): the Application built for a Helm chart, the state that is read
  back with \<open>kubectl get -o json\<close>, the decision whether that state is the current one, and the
  functions that install Argo CD and apply and delete an Application. A Go map of parameters is
  ranged over in any order, so \<open>parameters\<close> is the list of its entries in the order of one run.
\<close>

definition argocdNamespace :: gostring where "argocdNamespace = ''argocd''"
definition argocdApplicationResource :: gostring where "argocdApplicationResource = ''applications.argoproj.io''"
definition argocdRepoURL :: gostring where "argocdRepoURL = ''https://victoriametrics.github.io/helm-charts''"
definition argocdResourcesFinalizer :: gostring where
  "argocdResourcesFinalizer = ''resources-finalizer.argocd.argoproj.io''"

definition argocd_install_url :: "gostring \<Rightarrow> gostring" where
  "argocd_install_url version =
     ''https://raw.githubusercontent.com/argoproj/argo-cd/'' @ version @ ''/manifests/install.yaml''"

subsection \<open>The Application\<close>

definition parameter_doc :: "gostring \<times> gostring \<Rightarrow> json" where
  "parameter_doc p = JObj [(''name'', JStr (fst p)), (''value'', JStr (snd p))]"

text \<open>An empty list of parameters is omitted.\<close>

definition source_doc :: "gostring \<Rightarrow> gostring \<Rightarrow> (gostring \<times> gostring) list \<Rightarrow> json" where
  "source_doc chart revision parameters =
     JObj [(''repoURL'', JStr argocdRepoURL), (''chart'', JStr chart), (''targetRevision'', JStr revision),
       (''helm'', JObj (if parameters = [] then [] else [(''parameters'', JArr (map parameter_doc parameters))]))]"

definition destination_doc :: "gostring \<Rightarrow> json" where
  "destination_doc namespace =
     JObj [(''server'', JStr ''https://kubernetes.default.svc''), (''namespace'', JStr namespace)]"

definition application_doc ::
  "gostring \<Rightarrow> gostring \<Rightarrow> gostring \<Rightarrow> gostring \<Rightarrow> (gostring \<times> gostring) list \<Rightarrow> bool \<Rightarrow> json" where
  "application_doc name namespace chart revision parameters serverSideApply =
     (let compareOption = (if serverSideApply then ''ServerSideDiff=true'' else ''ServerSideDiff=false'');
          syncOptions = [''CreateNamespace=true''] @ (if serverSideApply then [''ServerSideApply=true''] else [])
      in JObj [(''apiVersion'', JStr ''argoproj.io/v1alpha1''), (''kind'', JStr ''Application''),
           (''metadata'', JObj [(''name'', JStr name), (''namespace'', JStr argocdNamespace),
              (''annotations'', JObj [(''argocd.argoproj.io/compare-options'', JStr compareOption)]),
              (''finalizers'', JArr [JStr argocdResourcesFinalizer])]),
           (''spec'', JObj [(''project'', JStr ''default''),
              (''source'', source_doc chart revision parameters),
              (''destination'', destination_doc namespace),
              (''syncPolicy'', JObj [(''automated'', JObj [(''prune'', JBool True), (''selfHeal'', JBool True)]),
                                   (''syncOptions'', JArr (map JStr syncOptions))])])])"

definition buildArgoCDHelmApplication ::
  "'p tools \<Rightarrow> gostring \<Rightarrow> gostring \<Rightarrow> gostring \<Rightarrow> gostring \<Rightarrow> (gostring \<times> gostring) list \<Rightarrow> bool \<Rightarrow> gostring result" where
  "buildArgoCDHelmApplication ts name namespace chart revision parameters serverSideApply =
     (case tl_to_yaml ts (application_doc name namespace chart revision parameters serverSideApply) of
        Inl err \<Rightarrow> Inl (''marshal Argo CD Application: '' @ err)
      | Inr data \<Rightarrow> Inr data)"

definition BuildArgoCDHelmApplication where
  "BuildArgoCDHelmApplication ts name namespace chart revision parameters =
     buildArgoCDHelmApplication ts name namespace chart revision parameters True"

definition BuildArgoCDHelmApplicationWithoutSSA where
  "BuildArgoCDHelmApplicationWithoutSSA ts name namespace chart revision parameters =
     buildArgoCDHelmApplication ts name namespace chart revision parameters False"

subsection \<open>The reported state\<close>

record argoCDSource =
  so_RepoURL :: gostring
  so_Chart :: gostring
  so_TargetRevision :: gostring
  so_Parameters :: "(gostring \<times> gostring) list"

record argoCDDestination =
  de_Server :: gostring
  de_Namespace :: gostring

record argoCDApplicationState =
  as_Source :: argoCDSource
  as_Destination :: argoCDDestination
  as_SyncStatus :: gostring
  as_ComparedSource :: argoCDSource
  as_ComparedDestination :: argoCDDestination
  as_HealthStatus :: gostring

definition dec_parameter :: "json \<Rightarrow> (gostring \<times> gostring) result" where
  "dec_parameter j =
     bind_result (dec_object j) (\<lambda>p. bind_result (dec_string (jfield ''name'' p)) (\<lambda>n.
     bind_result (dec_string (jfield ''value'' p)) (\<lambda>v. Inr (n, v))))"

fun dec_array :: "(json \<Rightarrow> 'a result) \<Rightarrow> json list \<Rightarrow> 'a list result" where
  "dec_array f [] = Inr []"
| "dec_array f (j # js) = bind_result (f j) (\<lambda>x. bind_result (dec_array f js) (\<lambda>xs. Inr (x # xs)))"

fun dec_parameters :: "json \<Rightarrow> (gostring \<times> gostring) list result" where
  "dec_parameters JNull = Inr []"
| "dec_parameters (JArr js) = dec_array dec_parameter js"
| "dec_parameters _ = Inl ''json: cannot unmarshal into Go struct field parameters''"

definition dec_source :: "json \<Rightarrow> argoCDSource result" where
  "dec_source j =
     bind_result (dec_object j) (\<lambda>s. bind_result (dec_string (jfield ''repoURL'' s)) (\<lambda>url.
     bind_result (dec_string (jfield ''chart'' s)) (\<lambda>chart. bind_result (dec_string (jfield ''targetRevision'' s)) (\<lambda>rev.
     bind_result (dec_object (jfield ''helm'' s)) (\<lambda>helm. bind_result (dec_parameters (jfield ''parameters'' helm)) (\<lambda>ps.
       Inr \<lparr>so_RepoURL = url, so_Chart = chart, so_TargetRevision = rev, so_Parameters = ps\<rparr>))))))"

definition dec_destination :: "json \<Rightarrow> argoCDDestination result" where
  "dec_destination j =
     bind_result (dec_object j) (\<lambda>d. bind_result (dec_string (jfield ''server'' d)) (\<lambda>server.
     bind_result (dec_string (jfield ''namespace'' d)) (\<lambda>ns. Inr \<lparr>de_Server = server, de_Namespace = ns\<rparr>)))"

definition dec_application :: "json \<Rightarrow> argoCDApplicationState result" where
  "dec_application j =
     bind_result (dec_object j) (\<lambda>app.
     bind_result (dec_object (jfield ''spec'' app)) (\<lambda>spec.
     bind_result (dec_source (jfield ''source'' spec)) (\<lambda>src.
     bind_result (dec_destination (jfield ''destination'' spec)) (\<lambda>dst.
     bind_result (dec_object (jfield ''status'' app)) (\<lambda>status.
     bind_result (dec_object (jfield ''sync'' status)) (\<lambda>sync.
     bind_result (dec_string (jfield ''status'' sync)) (\<lambda>synced.
     bind_result (dec_object (jfield ''comparedTo'' sync)) (\<lambda>compared.
     bind_result (dec_source (jfield ''source'' compared)) (\<lambda>csrc.
     bind_result (dec_destination (jfield ''destination'' compared)) (\<lambda>cdst.
     bind_result (dec_object (jfield ''health'' status)) (\<lambda>h.
     bind_result (dec_string (jfield ''status'' h)) (\<lambda>healthy.
       Inr \<lparr>as_Source = src, as_Destination = dst, as_SyncStatus = synced, as_ComparedSource = csrc,
            as_ComparedDestination = cdst, as_HealthStatus = healthy\<rparr>))))))))))))"

text \<open>\<open>maps.Equal\<close> on the maps two loops fill, a later entry of a name replacing an earlier one.\<close>

definition parameter_map :: "(gostring \<times> gostring) list \<Rightarrow> (gostring \<times> gostring) list" where
  "parameter_map ps = fold (\<lambda>(k, v). AList.update k v) ps []"

definition maps_Equal :: "(gostring \<times> gostring) list \<Rightarrow> (gostring \<times> gostring) list \<Rightarrow> bool" where
  "maps_Equal m1 m2 \<longleftrightarrow> length m1 = length m2 \<and> list_all (\<lambda>(k, v). map_of m2 k = Some v) m1"

definition current :: "argoCDApplicationState \<Rightarrow> bool" where
  "current app \<longleftrightarrow>
     (let desired = as_Source app; compared = as_ComparedSource app
      in if length (so_Parameters desired) \<noteq> length (so_Parameters compared) then False
         else as_SyncStatus app = ''Synced'' \<and> as_HealthStatus app = ''Healthy'' \<and>
           so_RepoURL desired = so_RepoURL compared \<and> so_Chart desired = so_Chart compared \<and>
           so_TargetRevision desired = so_TargetRevision compared \<and>
           maps_Equal (parameter_map (so_Parameters desired)) (parameter_map (so_Parameters compared)) \<and>
           as_Destination app = as_ComparedDestination app)"

subsection \<open>Installing, applying and deleting\<close>

definition InstallArgoCD :: "KubectlOptions \<Rightarrow> gostring \<Rightarrow> unit prog" where
  "InstallArgoCD ko version =
     chain (perform (TryKubectl ko [''create'', ''namespace'', argocdNamespace])) (\<lambda>_.
       let argocd = NewKubectlOptions (ko_ContextName ko) (ko_ConfigPath ko) argocdNamespace
       in run_musts
            [RunKubectl argocd [''apply'', ''--server-side'', ''--force-conflicts'', ''-f'', argocd_install_url version],
             WaitDeployment argocd ''argocd-server'' (go_div ArgoCDWaitTimeout PollingInterval) PollingInterval])"

text \<open>
  \<open>polls\<close> are the outputs of the polls before the deadline; \<open>parse\<close> reads a JSON text.
\<close>

definition argo_poll :: "(gostring \<Rightarrow> json result) \<Rightarrow> gostring result \<Rightarrow> bool" where
  "argo_poll parse polled =
     (case polled of
        Inl err \<Rightarrow> False
      | Inr output \<Rightarrow> (case bind_result (parse output) dec_application of Inl err \<Rightarrow> False | Inr app \<Rightarrow> current app))"

definition ApplyArgoCDApplication ::
  "(gostring \<Rightarrow> json result) \<Rightarrow> unit result \<Rightarrow> gostring result list \<Rightarrow> gostring \<Rightarrow> unit result" where
  "ApplyArgoCDApplication parse applied polls name =
     bind_result applied (\<lambda>_.
       if list_ex (argo_poll parse) polls then Inr ()
       else Inl (''Argo CD Application '' @ name @ '' did not sync the current source and become Healthy''))"

definition DeleteArgoCDApplication :: "KubectlOptions option \<Rightarrow> gostring \<Rightarrow> unit prog" where
  "DeleteArgoCDApplication kubeOpts name =
     (case kubeOpts of
        None \<Rightarrow> ret ()
      | Some ko \<Rightarrow>
          (let argocd = NewKubectlOptions (ko_ContextName ko) (ko_ConfigPath ko) argocdNamespace
           in run_musts
                [RunKubectl argocd [''delete'', argocdApplicationResource, name, ''--ignore-not-found=true''],
                 RunKubectl argocd [''wait'', ''--for=delete'', argocdApplicationResource, name,
                                    ''--timeout='' @ duration_String ResourceWaitTimeout]]))"

lemma ff_option [ff]: "fail_fast f \<Longrightarrow> (\<And>x. fail_fast (g x)) \<Longrightarrow> fail_fast (case r of None \<Rightarrow> f | Some x \<Rightarrow> g x)"
  by (cases r) simp_all

interpretation argocd_install: fail_fast "InstallArgoCD ko version" for ko version
  unfolding InstallArgoCD_def Let_def by (intro ff)

interpretation argocd_delete: fail_fast "DeleteArgoCDApplication ko name" for ko name
  unfolding DeleteArgoCDApplication_def Let_def by (intro ff)

subsection \<open>Parameters as a map\<close>

lemma fold_update_map: "map_of (fold (\<lambda>(k, v). AList.update k v) ps m) = map_of m ++ map_of (rev ps)"
  by (induction ps arbitrary: m) (auto simp: map_add_def fun_eq_iff split: option.splits)

lemma fold_update_distinct:
  "distinct (map fst m) \<Longrightarrow> distinct (map fst (fold (\<lambda>(k, v). AList.update k v) ps m))"
  by (induction ps arbitrary: m) (auto simp: distinct_update)

lemma fold_update_keys: "fst ` set (fold (\<lambda>(k, v). AList.update k v) ps m) = fst ` set m \<union> fst ` set ps"
proof (induction ps arbitrary: m)
  case (Cons p ps)
  obtain k v where p: "p = (k, v)" by (cases p)
  show ?case by (simp add: p Cons.IH dom_update)
qed simp

lemma parameter_map_lookup: "map_of (parameter_map ps) = map_of (rev ps)"
  by (simp add: parameter_map_def fold_update_map)

lemma parameter_map_distinct: "distinct (map fst (parameter_map ps))"
  by (simp add: parameter_map_def fold_update_distinct)

lemma parameter_map_keys: "fst ` set (parameter_map ps) = fst ` set ps"
  by (simp add: parameter_map_def fold_update_keys)

lemma parameter_map_length: "length (parameter_map ps) = card (fst ` set ps)"
  by (metis parameter_map_distinct parameter_map_keys distinct_card length_map set_map)

lemma maps_Equal_iff:
  assumes "distinct (map fst m1)" and "distinct (map fst m2)"
  shows "maps_Equal m1 m2 \<longleftrightarrow> map_of m1 = map_of m2"
proof
  assume eq: "maps_Equal m1 m2"
  then have sub: "map_of m2 k = Some v" if "(k, v) \<in> set m1" for k v
    using that by (auto simp: maps_Equal_def list_all_iff)
  have "fst ` set m1 \<subseteq> fst ` set m2"
    using sub by (force dest: map_of_SomeD)
  moreover have "card (fst ` set m1) = card (fst ` set m2)"
    using eq assms by (simp add: maps_Equal_def distinct_card flip: set_map)
  ultimately have keys: "fst ` set m1 = fst ` set m2" by (simp add: card_subset_eq)
  show "map_of m1 = map_of m2"
  proof
    fix k
    show "map_of m1 k = map_of m2 k"
    proof (cases "map_of m1 k")
      case None
      then have "map_of m2 k = None" by (simp add: map_of_eq_None_iff keys)
      with None show ?thesis by (rule trans [OF _ sym])
    next
      case (Some v)
      then show ?thesis using sub [OF map_of_SomeD [OF Some]] by simp
    qed
  qed
next
  assume eq: "map_of m1 = map_of m2"
  then have "fst ` set m1 = fst ` set m2" by (metis dom_map_of_conv_image_fst)
  then have "length m1 = length m2" by (metis assms distinct_card length_map set_map)
  moreover have "map_of m2 k = Some v" if "(k, v) \<in> set m1" for k v
    using that assms(1) by (simp flip: eq)
  ultimately show "maps_Equal m1 m2" by (auto simp: maps_Equal_def list_all_iff)
qed

lemma parameter_maps_Equal:
  "maps_Equal (parameter_map ps) (parameter_map qs) \<longleftrightarrow> map_of (rev ps) = map_of (rev qs)"
  by (simp add: maps_Equal_iff parameter_map_distinct parameter_map_lookup)

lemma same_parameters:
  assumes "distinct (map fst ps)" and "length ps = length qs"
  shows "map_of (rev ps) = map_of (rev qs) \<longleftrightarrow> mset ps = mset qs"
proof
  assume eq: "map_of (rev ps) = map_of (rev qs)"
  then have keys: "fst ` set ps = fst ` set qs"
    by (metis dom_map_of_conv_image_fst set_rev)
  then have "card (set (map fst qs)) = length (map fst qs)"
    using assms by (metis distinct_card length_map set_map)
  then have dq: "distinct (map fst qs)" by (rule card_distinct)
  have "(k, v) \<in> set ps \<longleftrightarrow> (k, v) \<in> set qs" for k v
    using assms(1) dq by (metis eq distinct_rev map_of_eq_Some_iff rev_map set_rev)
  then have "set ps = set qs" by auto
  then show "mset ps = mset qs"
    using assms(1) dq by (simp add: distinct_map set_eq_iff_mset_eq_distinct)
next
  assume eq: "mset ps = mset qs"
  then have "distinct (map fst qs)"
    using assms(1) by (metis mset_map distinct_count_atmost_1 set_mset_mset)
  moreover have "set ps = set qs" using eq by (rule mset_eq_setD)
  ultimately show "map_of (rev ps) = map_of (rev qs)"
    using assms(1) by (intro map_of_inject_set [THEN iffD2]) (simp_all add: rev_map [symmetric])
qed

lemma current_iff:
  assumes "distinct (map fst (so_Parameters (as_Source app)))"
  shows "current app \<longleftrightarrow>
    as_SyncStatus app = ''Synced'' \<and> as_HealthStatus app = ''Healthy'' \<and>
    so_RepoURL (as_Source app) = so_RepoURL (as_ComparedSource app) \<and>
    so_Chart (as_Source app) = so_Chart (as_ComparedSource app) \<and>
    so_TargetRevision (as_Source app) = so_TargetRevision (as_ComparedSource app) \<and>
    mset (so_Parameters (as_Source app)) = mset (so_Parameters (as_ComparedSource app)) \<and>
    as_Destination app = as_ComparedDestination app"
proof (cases "length (so_Parameters (as_Source app)) = length (so_Parameters (as_ComparedSource app))")
  case True
  then show ?thesis
    by (simp add: current_def Let_def parameter_maps_Equal same_parameters [OF assms])
next
  case False
  then have "mset (so_Parameters (as_Source app)) \<noteq> mset (so_Parameters (as_ComparedSource app))"
    by (metis size_mset)
  with False show ?thesis by (simp add: current_def Let_def)
qed

text \<open>
  With parameters of distinct names, an Application counts as current exactly when Argo CD
  reports it synced and healthy, compared against the very source and destination that are wanted,
  the parameters in any order but with the same names and values: a report about an older revision,
  fewer, more or other parameters, or another namespace never passes.
\<close>

theorem current_iff_same_source:
  assumes "distinct (map fst (so_Parameters (as_Source app)))"
  shows "current app \<longleftrightarrow>
    as_SyncStatus app = ''Synced'' \<and> as_HealthStatus app = ''Healthy'' \<and>
    so_RepoURL (as_Source app) = so_RepoURL (as_ComparedSource app) \<and>
    so_Chart (as_Source app) = so_Chart (as_ComparedSource app) \<and>
    so_TargetRevision (as_Source app) = so_TargetRevision (as_ComparedSource app) \<and>
    mset (so_Parameters (as_Source app)) = mset (so_Parameters (as_ComparedSource app)) \<and>
    as_Destination app = as_ComparedDestination app"
  by (rule current_iff [OF assms])

theorem current_iff_same_source_witness:
  "\<not> current \<lparr>as_Source = \<lparr>so_RepoURL = ''r'', so_Chart = ''c'', so_TargetRevision = ''2'', so_Parameters = [(''a'', ''1'')]\<rparr>,
     as_Destination = \<lparr>de_Server = ''s'', de_Namespace = ''n''\<rparr>, as_SyncStatus = ''Synced'',
     as_ComparedSource = \<lparr>so_RepoURL = ''r'', so_Chart = ''c'', so_TargetRevision = ''1'', so_Parameters = [(''a'', ''1'')]\<rparr>,
     as_ComparedDestination = \<lparr>de_Server = ''s'', de_Namespace = ''n''\<rparr>, as_HealthStatus = ''Healthy''\<rparr>"
  by (subst current_iff_same_source) simp_all

subsection \<open>Reading the Application back\<close>

lemma dec_parameter_doc: "dec_parameter (parameter_doc p) = Inr p"
  by (simp add: dec_parameter_def parameter_doc_def)

lemma dec_array_parameters: "dec_array dec_parameter (map parameter_doc ps) = Inr ps"
  by (induction ps) (simp_all add: dec_parameter_doc)

definition wanted_source :: "gostring \<Rightarrow> gostring \<Rightarrow> (gostring \<times> gostring) list \<Rightarrow> argoCDSource" where
  "wanted_source chart revision parameters =
     \<lparr>so_RepoURL = argocdRepoURL, so_Chart = chart, so_TargetRevision = revision, so_Parameters = parameters\<rparr>"

definition wanted_destination :: "gostring \<Rightarrow> argoCDDestination" where
  "wanted_destination namespace = \<lparr>de_Server = ''https://kubernetes.default.svc'', de_Namespace = namespace\<rparr>"

lemma dec_source_doc: "dec_source (source_doc chart revision ps) = Inr (wanted_source chart revision ps)"
  by (cases "ps = []") (simp_all add: dec_source_def source_doc_def wanted_source_def dec_array_parameters)

lemma dec_destination_doc: "dec_destination (destination_doc ns) = Inr (wanted_destination ns)"
  by (simp add: dec_destination_def destination_doc_def wanted_destination_def)

text \<open>What Argo CD adds to an applied Application: the source it compared and how that went.\<close>

definition with_status :: "json \<Rightarrow> gostring \<Rightarrow> json \<Rightarrow> json \<Rightarrow> gostring \<Rightarrow> json" where
  "with_status app synced src dst healthy =
     (case app of JObj fs \<Rightarrow> JObj (fs @ [(''status'', JObj [
          (''sync'', JObj [(''status'', JStr synced), (''comparedTo'', JObj [(''source'', src), (''destination'', dst)])]),
          (''health'', JObj [(''status'', JStr healthy)])])])
      | _ \<Rightarrow> app)"

text \<open>
  C29: The Application that was built is decoded to the source and destination it was built from, with
  every parameter, whatever the name and the apply mode; together with a status, it is current
  exactly when the status says synced and healthy and the compared source is the wanted one. So
  applying a built Application cannot wait for a state other than the requested one.
\<close>

theorem application_roundtrip:
  assumes "distinct (map fst ps)"
  shows "\<exists>app. dec_application (with_status (application_doc name ns chart revision ps ssa) synced
        (source_doc chart' revision' qs) (destination_doc ns') healthy) = Inr app \<and>
      as_Source app = wanted_source chart revision ps \<and> as_Destination app = wanted_destination ns \<and>
      (current app \<longleftrightarrow> synced = ''Synced'' \<and> healthy = ''Healthy'' \<and> chart = chart' \<and> revision = revision' \<and>
         mset ps = mset qs \<and> ns = ns')"
proof -
  define app where "app = \<lparr>as_Source = wanted_source chart revision ps, as_Destination = wanted_destination ns,
    as_SyncStatus = synced, as_ComparedSource = wanted_source chart' revision' qs,
    as_ComparedDestination = wanted_destination ns', as_HealthStatus = healthy\<rparr>"
  have "dec_application (with_status (application_doc name ns chart revision ps ssa) synced
        (source_doc chart' revision' qs) (destination_doc ns') healthy) = Inr app"
    by (simp add: dec_application_def with_status_def application_doc_def Let_def dec_source_doc dec_destination_doc app_def)
  moreover have "distinct (map fst (so_Parameters (as_Source app)))"
    using assms by (simp add: app_def wanted_source_def)
  from current_iff [OF this]
  have "current app \<longleftrightarrow> synced = ''Synced'' \<and> healthy = ''Healthy'' \<and> chart = chart' \<and> revision = revision' \<and>
         mset ps = mset qs \<and> ns = ns'"
    by (simp add: app_def wanted_source_def wanted_destination_def)
  ultimately show ?thesis by (intro exI [of _ app]) (simp add: app_def)
qed

theorem application_roundtrip_witness:
  "\<exists>app. dec_application (with_status (application_doc ''vm'' ''ns'' ''chart'' ''1.0'' [(''b'', ''2''), (''a'', ''1'')] True)
      ''Synced'' (source_doc ''chart'' ''1.0'' [(''a'', ''1''), (''b'', ''2'')]) (destination_doc ''ns'') ''Healthy'') = Inr app \<and>
    current app"
  using application_roundtrip [of "[(''b'', ''2''), (''a'', ''1'')]" "''vm''" "''ns''" "''chart''" "''1.0''" True "''Synced''"
      "''chart''" "''1.0''" "[(''a'', ''1''), (''b'', ''2'')]" "''ns''" "''Healthy''"]
  by (auto simp: add_mset_commute)

end
