(* ===== verification/Waiting.thy ===== *)
theory Waiting
  imports Prelude
begin

text \<open>
  Waiting for the operator (\<open>pkg/helpers/wait.go\<close> and the \<open>WaitFor\<dots>ToBeOperational\<close> functions of
  \<open>pkg/install\<close>). One poll looks at the statuses the fetch function gives; the polling library
  calls it at every tick until it decides or the time is over, so a wait is a recursion over the
  list of what the fetches return before the deadline.
\<close>

subsection \<open>Statuses\<close>

datatype update_status = StatusNone | StatusOperational | StatusFailed | StatusOther gostring

record ResourceStatus =
  rs_ResName :: gostring
  rs_UpdateStatus :: update_status
  rs_Reason :: gostring

definition TransientWebhookFailure :: gostring where
  "TransientWebhookFailure = ''failed calling webhook''"

subsection \<open>One poll\<close>

datatype verdict = KeepPolling | Ready | Fatal gostring

definition failure_reason :: "ResourceStatus \<Rightarrow> gostring" where
  "failure_reason r = (if TrimSpace (rs_Reason r) = [] then ''unknown reason'' else TrimSpace (rs_Reason r))"

definition is_transient :: "gostring list \<Rightarrow> ResourceStatus \<Rightarrow> bool" where
  "is_transient transientReasons r = list_ex (\<lambda>tr. Contains (failure_reason r) tr) transientReasons"

definition failed_message :: "gostring \<Rightarrow> gostring \<Rightarrow> ResourceStatus \<Rightarrow> gostring" where
  "failed_message kind namespace r =
     kind @ '' '' @ namespace @ ''/'' @ rs_ResName r @ '' entered failed state: '' @ failure_reason r"

fun scan_resources :: "gostring \<Rightarrow> gostring \<Rightarrow> gostring list \<Rightarrow> ResourceStatus list \<Rightarrow> verdict" where
  "scan_resources kind namespace transientReasons [] = KeepPolling"
| "scan_resources kind namespace transientReasons (r # rs) =
     (case rs_UpdateStatus r of
        StatusNone \<Rightarrow> KeepPolling
      | StatusOperational \<Rightarrow> Ready
      | StatusFailed \<Rightarrow>
          if is_transient transientReasons r then scan_resources kind namespace transientReasons rs
          else Fatal (failed_message kind namespace r)
      | StatusOther _ \<Rightarrow> scan_resources kind namespace transientReasons rs)"

definition poll_once ::
  "gostring \<Rightarrow> gostring \<Rightarrow> gostring list \<Rightarrow> ResourceStatus list result \<Rightarrow> verdict" where
  "poll_once kind namespace transientReasons fetched =
     (case fetched of
        Inl err \<Rightarrow> KeepPolling
      | Inr resources \<Rightarrow>
          if length resources = 0 then KeepPolling
          else scan_resources kind namespace transientReasons resources)"

subsection \<open>The wait\<close>

fun poll_until :: "('a \<Rightarrow> verdict) \<Rightarrow> 'a list \<Rightarrow> verdict" where
  "poll_until cond [] = KeepPolling"
| "poll_until cond (x # xs) = (case cond x of KeepPolling \<Rightarrow> poll_until cond xs | v \<Rightarrow> v)"

text \<open>
  \<open>cancelled\<close> tells whether the caller's context had ended before, or by the end of, the wait: then
  the wait returns silently. A wait that never decides fails with a timeout.
\<close>

definition WaitForOperational ::
  "bool \<Rightarrow> gostring \<Rightarrow> gostring \<Rightarrow> gostring list \<Rightarrow> ResourceStatus list result list \<Rightarrow> bool \<Rightarrow> unit result" where
  "WaitForOperational cancelled_before kind namespace transientReasons fetches cancelled_after =
     (if cancelled_before then Inr ()
      else case poll_until (poll_once kind namespace transientReasons) fetches of
        Ready \<Rightarrow> Inr ()
      | Fatal msg \<Rightarrow> Inl msg
      | KeepPolling \<Rightarrow>
          if cancelled_after then Inr ()
          else Inl (''timed out waiting for '' @ kind @ '' in namespace '' @ namespace @
                    '' to become operational''))"

text \<open>What the fetch functions make of a list of custom resources.\<close>

record custom_resource =
  cr_Name :: gostring
  cr_Status :: update_status
  cr_Reason :: gostring

definition status_of :: "custom_resource \<Rightarrow> ResourceStatus" where
  "status_of c = \<lparr>rs_ResName = cr_Name c, rs_UpdateStatus = cr_Status c, rs_Reason = cr_Reason c\<rparr>"

definition all_statuses :: "custom_resource list result \<Rightarrow> ResourceStatus list result" where
  "all_statuses listed = bind_result listed (\<lambda>items. Inr (map status_of items))"

definition named_statuses :: "gostring \<Rightarrow> custom_resource list result \<Rightarrow> ResourceStatus list result" where
  "named_statuses name listed =
     bind_result listed (\<lambda>items.
       Inr (map status_of (filter (\<lambda>c. \<not> (name \<noteq> [] \<and> cr_Name c \<noteq> name)) items)))"

definition WaitForVMClusterToBeOperational ::
  "bool \<Rightarrow> gostring \<Rightarrow> gostring \<Rightarrow> custom_resource list result list \<Rightarrow> bool \<Rightarrow> unit result" where
  "WaitForVMClusterToBeOperational before namespace name polls after =
     WaitForOperational before ''VMCluster'' namespace
       [''actual pod count: 0 less than needed'', TransientWebhookFailure]
       (map (named_statuses name) polls) after"

definition WaitForVMSingleToBeOperational ::
  "bool \<Rightarrow> gostring \<Rightarrow> custom_resource list result list \<Rightarrow> bool \<Rightarrow> unit result" where
  "WaitForVMSingleToBeOperational before namespace polls after =
     WaitForOperational before ''VMSingle'' namespace
       [''actual pod count: 0 less than needed'', TransientWebhookFailure] (map all_statuses polls) after"

definition WaitForVMAgentToBeOperational ::
  "bool \<Rightarrow> gostring \<Rightarrow> custom_resource list result list \<Rightarrow> bool \<Rightarrow> unit result" where
  "WaitForVMAgentToBeOperational before namespace polls after =
     WaitForOperational before ''VMAgent'' namespace [TransientWebhookFailure] (map all_statuses polls) after"

definition WaitForVLClusterToBeOperational ::
  "bool \<Rightarrow> gostring \<Rightarrow> custom_resource list result list \<Rightarrow> bool \<Rightarrow> unit result" where
  "WaitForVLClusterToBeOperational before namespace polls after =
     WaitForOperational before ''VLCluster'' namespace [TransientWebhookFailure] (map all_statuses polls) after"

definition WaitForVLAgentToBeOperational ::
  "bool \<Rightarrow> gostring \<Rightarrow> custom_resource list result list \<Rightarrow> bool \<Rightarrow> unit result" where
  "WaitForVLAgentToBeOperational before namespace polls after =
     WaitForOperational before ''VLAgent'' namespace [TransientWebhookFailure] (map all_statuses polls) after"

definition WaitForVMAuthToBeOperational ::
  "bool \<Rightarrow> gostring \<Rightarrow> custom_resource list result list \<Rightarrow> bool \<Rightarrow> unit result" where
  "WaitForVMAuthToBeOperational before namespace polls after =
     WaitForOperational before ''VMAuth'' namespace [TransientWebhookFailure] (map all_statuses polls) after"

definition WaitForVMAlertToBeOperational ::
  "bool \<Rightarrow> gostring \<Rightarrow> custom_resource list result list \<Rightarrow> bool \<Rightarrow> unit result" where
  "WaitForVMAlertToBeOperational before namespace polls after =
     WaitForOperational before ''VMAlert'' namespace [TransientWebhookFailure] (map all_statuses polls) after"

definition WaitForVMDistributedToBeOperational ::
  "bool \<Rightarrow> gostring \<Rightarrow> custom_resource result list \<Rightarrow> bool \<Rightarrow> unit result" where
  "WaitForVMDistributedToBeOperational before namespace gets after =
     WaitForOperational before ''VMDistributed'' namespace [TransientWebhookFailure]
       (map (\<lambda>g. bind_result g (\<lambda>c. Inr [status_of c])) gets) after"

subsection \<open>What a poll decides\<close>

definition decisive :: "gostring list \<Rightarrow> ResourceStatus \<Rightarrow> bool" where
  "decisive tr r \<longleftrightarrow> rs_UpdateStatus r = StatusNone \<or> rs_UpdateStatus r = StatusOperational \<or>
     rs_UpdateStatus r = StatusFailed \<and> \<not> is_transient tr r"

lemma scan_resources_find:
  "scan_resources kind ns tr rs =
     (case find (decisive tr) rs of None \<Rightarrow> KeepPolling
      | Some r \<Rightarrow> (case rs_UpdateStatus r of StatusOperational \<Rightarrow> Ready
                   | StatusFailed \<Rightarrow> Fatal (failed_message kind ns r) | _ \<Rightarrow> KeepPolling))"
  by (induction rs) (auto simp: decisive_def split: update_status.splits)

lemma poll_until_first:
  "poll_until cond xs =
     (case find (\<lambda>x. cond x \<noteq> KeepPolling) xs of None \<Rightarrow> KeepPolling | Some x \<Rightarrow> cond x)"
  by (induction xs) (auto split: verdict.splits)

lemma poll_once_nonempty: "poll_once kind ns tr (Inr rs) = scan_resources kind ns tr rs"
  by (cases rs) (simp_all add: poll_once_def)

text \<open>
  C15: A wait returns normally exactly when its context ended or, before any poll saw a permanent
  failure first, some poll saw an operational resource that no undecided or permanently failed one
  precedes. Failed fetches, empty polls and transient failures never decide it.
\<close>

theorem WaitForOperational_outcome:
  "WaitForOperational False kind ns tr fetches False =
     (case find (\<lambda>f. case f of Inl _ \<Rightarrow> False
                     | Inr rs \<Rightarrow> (case find (decisive tr) rs of None \<Rightarrow> False
                                  | Some r \<Rightarrow> rs_UpdateStatus r \<noteq> StatusNone)) fetches of
        Some (Inr rs) \<Rightarrow>
          (case find (decisive tr) rs of
             Some r \<Rightarrow> if rs_UpdateStatus r = StatusOperational then Inr ()
                      else Inl (failed_message kind ns r)
           | None \<Rightarrow> Inr ())
      | _ \<Rightarrow> Inl (''timed out waiting for '' @ kind @ '' in namespace '' @ ns @ '' to become operational''))"
proof -
  have deciding: "poll_once kind ns tr f \<noteq> KeepPolling \<longleftrightarrow>
      (case f of Inl _ \<Rightarrow> False
       | Inr rs \<Rightarrow> (case find (decisive tr) rs of None \<Rightarrow> False | Some r \<Rightarrow> rs_UpdateStatus r \<noteq> StatusNone))" for f
  proof (cases f)
    case (Inl e)
    then show ?thesis by (simp add: poll_once_def)
  next
    case (Inr rs)
    show ?thesis
    proof (cases "find (decisive tr) rs")
      case None
      then show ?thesis by (simp add: Inr poll_once_nonempty scan_resources_find)
    next
      case (Some r)
      then have "decisive tr r" by (auto simp: find_Some_iff)
      with Some Inr show ?thesis
        by (auto simp: poll_once_nonempty scan_resources_find decisive_def split: update_status.splits)
    qed
  qed
  show ?thesis
  proof (cases "find (\<lambda>f. poll_once kind ns tr f \<noteq> KeepPolling) fetches")
    case None
    then show ?thesis by (simp add: WaitForOperational_def poll_until_first deciding [symmetric])
  next
    case (Some f)
    then have f: "poll_once kind ns tr f \<noteq> KeepPolling" by (auto simp: find_Some_iff)
    then obtain rs r where fr: "f = Inr rs" "find (decisive tr) rs = Some r"
      using deciding by (auto split: sum.splits option.splits)
    then have "decisive tr r" by (auto simp: find_Some_iff)
    with f fr Some show ?thesis
      by (auto simp: WaitForOperational_def poll_until_first deciding [symmetric] poll_once_nonempty
          scan_resources_find decisive_def split: update_status.splits)
  qed
qed

text \<open>
  A wait for a named VMCluster looks at nothing else: its outcome is the same whatever other
  clusters of the namespace report, and one poll is satisfied exactly when that cluster is
  operational.
\<close>

theorem named_wait_exact:
  assumes "name \<noteq> []" and "cr_Name c = name" and "list_all (\<lambda>x. cr_Name x \<noteq> name) (before @ after)"
  shows "named_statuses name (Inr (before @ c # after)) = Inr [status_of c] \<and>
    (poll_once ''VMCluster'' ns tr (named_statuses name (Inr (before @ c # after))) = Ready) =
      (cr_Status c = StatusOperational)"
proof -
  have "filter (\<lambda>x. \<not> (name \<noteq> [] \<and> cr_Name x \<noteq> name)) before = []"
    "filter (\<lambda>x. \<not> (name \<noteq> [] \<and> cr_Name x \<noteq> name)) after = []"
    using assms(1,3) by (auto simp: filter_empty_conv list_all_iff)
  then have n: "named_statuses name (Inr (before @ c # after)) = Inr [status_of c]"
    using assms(1,2) by (simp add: named_statuses_def)
  then show ?thesis
    by (auto simp: poll_once_def status_of_def split: update_status.splits)
qed

theorem named_wait_exact_witness:
  "let c = \<lparr>cr_Name = ''a'', cr_Status = StatusOperational, cr_Reason = []\<rparr>;
       d = \<lparr>cr_Name = ''b'', cr_Status = StatusFailed, cr_Reason = ''quota''\<rparr>
   in poll_once ''VMCluster'' ''vm'' [] (named_statuses ''a'' (Inr [d, c])) = Ready"
proof -
  let ?c = "\<lparr>cr_Name = ''a'', cr_Status = StatusOperational, cr_Reason = []\<rparr>"
  let ?d = "\<lparr>cr_Name = ''b'', cr_Status = StatusFailed, cr_Reason = ''quota''\<rparr>"
  have "(poll_once ''VMCluster'' ''vm'' [] (named_statuses ''a'' (Inr ([?d] @ ?c # []))) = Ready) =
      (cr_Status ?c = StatusOperational)"
    by (rule conjunct2 [OF named_wait_exact]) simp_all
  then show ?thesis unfolding Let_def by (simp only: append.simps custom_resource.simps simp_thms)
qed

text \<open>
  With several resources the first operational one ends the wait, and a permanent failure that
  comes after it in the list goes unnoticed: waiting without a name does not check every cluster of
  the namespace.
\<close>

theorem unnamed_wait_misses_failure:
  "WaitForVMClusterToBeOperational False ''vm'' []
     [Inr [\<lparr>cr_Name = ''a'', cr_Status = StatusOperational, cr_Reason = []\<rparr>,
           \<lparr>cr_Name = ''b'', cr_Status = StatusFailed, cr_Reason = ''quota''\<rparr>]] False = Inr ()"
  by (simp add: WaitForVMClusterToBeOperational_def WaitForOperational_def named_statuses_def poll_once_def
      status_of_def)

end
