(* ===== verification/Chaos.thy ===== *)
theory Chaos
  imports Helm Waiting
begin

text \<open>
  Chaos experiments (\<open>pkg/install/chaos.go\<close>, the zone disruption of \<open>pkg/install/vmdistributed.go\<close>):
  adapting a scenario manifest, the conditions of a scenario, waiting for its completion, and telling
  whether a pod was restarted. \<open>strings.Replacer\<close> scans once from the left; at each position the first
  pair in argument order whose old string is there is replaced, and what is inserted is not scanned.
\<close>

subsection \<open>Replacing\<close>

function replacer :: "(gostring \<times> gostring) list \<Rightarrow> gostring \<Rightarrow> gostring" where
  "replacer pairs s =
     (case s of [] \<Rightarrow> []
      | c # cs \<Rightarrow>
          (case find (\<lambda>p. fst p \<noteq> [] \<and> HasPrefix s (fst p)) pairs of
             Some p \<Rightarrow> snd p @ replacer pairs (drop (length (fst p)) s)
           | None \<Rightarrow> c # replacer pairs cs))"
  by pat_completeness auto
termination
  by (relation "measure (\<lambda>(pairs, s). length s)") (auto simp: find_Some_iff neq_Nil_conv)

declare replacer.simps [simp del]

definition chaos_pairs :: "gostring \<Rightarrow> gostring \<Rightarrow> (gostring \<times> gostring) list" where
  "chaos_pairs namespace clusterName =
     [(''- vm'', ''- '' @ namespace), (''- vl'', ''- '' @ namespace),
      (''vmstorage-vm-'', ''vmstorage-'' @ clusterName @ ''-''),
      (''vlstorage-vl-'', ''vlstorage-'' @ clusterName @ ''-'')]"

definition prepareChaosManifest :: "gostring \<Rightarrow> gostring \<Rightarrow> gostring \<Rightarrow> gostring" where
  "prepareChaosManifest manifest namespace clusterName = replacer (chaos_pairs namespace clusterName) manifest"

definition chaos_manifest_path :: "config \<Rightarrow> gostring \<Rightarrow> gostring \<Rightarrow> gostring" where
  "chaos_manifest_path cfg scenarioFolder scenario =
     ManifestsRoot cfg @ ''/chaos-tests/'' @ scenarioFolder @ ''/'' @ scenario @ ''.yaml''"

definition ApplyChaosScenario :: "config \<Rightarrow> gostring \<Rightarrow> gostring \<Rightarrow> gostring \<Rightarrow> gostring \<Rightarrow> unit prog" where
  "ApplyChaosScenario cfg namespace clusterName scenarioFolder scenario =
     chain (must (ReadFile (chaos_manifest_path cfg scenarioFolder scenario))) (\<lambda>manifestContent.
       run_musts [ApplyString (NewKubectlOptions [] [] namespace)
                    (ManifestText (prepareChaosManifest manifestContent namespace clusterName))])"

interpretation apply_chaos: fail_fast "ApplyChaosScenario cfg ns cl folder scenario" for cfg ns cl folder scenario
  unfolding ApplyChaosScenario_def by (intro ff)

subsection \<open>Scenarios\<close>

text \<open>
  \<open>unstructured.NestedSlice\<close> fails or finds nothing when a level is missing or is not an object, or the
  value is not an array; all of these are no conditions.
\<close>

fun condition_is :: "gostring \<Rightarrow> json \<Rightarrow> bool" where
  "condition_is conditionType (JObj fs) \<longleftrightarrow>
     map_of fs ''type'' = Some (JStr conditionType) \<and> map_of fs ''status'' = Some (JStr ''True'')"
| "condition_is conditionType _ \<longleftrightarrow> False"

definition hasChaosCondition :: "json \<Rightarrow> gostring \<Rightarrow> bool" where
  "hasChaosCondition obj conditionType =
     list_ex (condition_is conditionType) (jitems (jpath [''status'', ''conditions''] obj))"

datatype lookup = Gone | GetFailed gostring | Got json

text \<open>One poll: whether the caller's context had ended, and what the API server answered.\<close>

definition chaos_poll :: "gostring \<Rightarrow> bool \<times> lookup \<Rightarrow> verdict" where
  "chaos_poll chaosType tick =
     (if fst tick then Ready
      else case snd tick of
        Gone \<Rightarrow> KeepPolling
      | GetFailed err \<Rightarrow> Fatal err
      | Got obj \<Rightarrow>
          if chaosType \<noteq> ''workflows'' then (if hasChaosCondition obj ''AllRecovered'' then Ready else KeepPolling)
          else (if hasChaosCondition obj ''Accomplished'' then Ready else KeepPolling))"

text \<open>
  \<open>ticks\<close> are the polls before the scenario's own deadline of \<open>ChaosTestMaxDuration\<close>, \<open>cancelled\<close> tells
  whether the caller's context has ended when the polling is over.
\<close>

definition WaitForChaosScenarioToComplete ::
  "gostring \<Rightarrow> gostring \<Rightarrow> (bool \<times> lookup) list \<Rightarrow> bool \<Rightarrow> unit result" where
  "WaitForChaosScenarioToComplete scenario chaosType ticks cancelled =
     (case poll_until (chaos_poll chaosType) ticks of
        Ready \<Rightarrow> Inr ()
      | Fatal err \<Rightarrow> if cancelled then Inr () else Inl (''failed waiting for chaos scenario '' @ scenario @ '': '' @ err)
      | KeepPolling \<Rightarrow>
          if cancelled then Inr ()
          else Inl (''failed waiting for chaos scenario '' @ scenario @ '': context deadline exceeded''))"

definition RunChaosScenario ::
  "config \<Rightarrow> gostring \<Rightarrow> gostring \<Rightarrow> gostring \<Rightarrow> gostring \<Rightarrow> gostring \<Rightarrow> (bool \<times> lookup) list \<Rightarrow> bool \<Rightarrow> unit prog" where
  "RunChaosScenario cfg namespace clusterName scenarioFolder scenario chaosType ticks cancelled =
     chain (ApplyChaosScenario cfg namespace clusterName scenarioFolder scenario)
       (\<lambda>_. lift_result (WaitForChaosScenarioToComplete scenario chaosType ticks cancelled))"

subsection \<open>Restarts\<close>

record pod =
  pod_UID :: gostring
  pod_ContainerStatuses :: "(gostring \<times> int) list"

definition PodRestarted :: "pod \<Rightarrow> pod \<Rightarrow> bool" where
  "PodRestarted before after_pod =
     (if pod_UID before \<noteq> pod_UID after_pod then True
      else list_ex (\<lambda>cur. list_ex (\<lambda>prev. fst cur = fst prev \<and> snd cur > snd prev)
                     (pod_ContainerStatuses before)) (pod_ContainerStatuses after_pod))"

subsection \<open>Zone disruption\<close>

definition name_char :: "char \<Rightarrow> bool" where
  "name_char c \<longleftrightarrow> (97 \<le> (of_char c :: nat) \<and> (of_char c :: nat) \<le> 122) \<or> is_digit c \<or> c = CHR ''-''"

text \<open>
  \<open>chaosNameSanitizer\<close> replaces every character outside \<open>[a-z0-9-]\<close>; zone names are ASCII, so a
  character is a byte.
\<close>

definition sanitize :: "gostring \<Rightarrow> gostring" where
  "sanitize s = map (\<lambda>c. if name_char c then c else CHR ''-'') s"

definition chaosDuration :: "duration \<Rightarrow> gostring" where
  "chaosDuration d =
     (if go_rem d Minute = 0 then int_str (go_div d Minute) @ ''m'' else duration_String (Round d Second))"

definition buildVMDistributedZoneDisruptionChaos :: "gostring \<Rightarrow> gostring \<Rightarrow> duration \<Rightarrow> gostring" where
  "buildVMDistributedZoneDisruptionChaos namespace zone d = unlines
     [''apiVersion: chaos-mesh.org/v1alpha1'',
      ''kind: NetworkChaos'',
      ''metadata:'',
      ''  name: zone-disruption-'' @ sanitize (ToLower zone),
      ''spec:'',
      ''  selector:'',
      ''    namespaces:'',
      ''      - '' @ namespace,
      ''    labelSelectors:'',
      ''      app.kubernetes.io/instance: '' @ zone,
      ''  mode: all'',
      ''  action: loss'',
      ''  duration: '' @ chaosDuration d,
      ''  loss:'',
      ''    loss: '' @ [CHR 0x27] @ ''100'' @ [CHR 0x27],
      ''    correlation: '' @ [CHR 0x27] @ ''0'' @ [CHR 0x27],
      ''  direction: to'', []]"

definition ApplyVMDistributedZoneDisruptionChaos :: "gostring \<Rightarrow> gostring \<Rightarrow> duration \<Rightarrow> unit prog" where
  "ApplyVMDistributedZoneDisruptionChaos namespace zone d =
     run_musts [ApplyString (NewKubectlOptions [] [] namespace)
                  (ManifestText (buildVMDistributedZoneDisruptionChaos namespace zone d))]"

subsection \<open>What replacing does\<close>

text \<open>
  A manifest as verbatim pieces and occurrences of the patterns. It is well marked when no pattern
  starts inside a verbatim piece, also not one that reaches beyond it, and every occurrence is of
  the first pattern that fits there.
\<close>

datatype fragment = Verbatim gostring | Occurrence nat

fun source_text :: "(gostring \<times> gostring) list \<Rightarrow> fragment list \<Rightarrow> gostring" where
  "source_text pairs [] = []"
| "source_text pairs (Verbatim s # fs) = s @ source_text pairs fs"
| "source_text pairs (Occurrence i # fs) = fst (pairs ! i) @ source_text pairs fs"

fun replaced_text :: "(gostring \<times> gostring) list \<Rightarrow> fragment list \<Rightarrow> gostring" where
  "replaced_text pairs [] = []"
| "replaced_text pairs (Verbatim s # fs) = s @ replaced_text pairs fs"
| "replaced_text pairs (Occurrence i # fs) = snd (pairs ! i) @ replaced_text pairs fs"

definition fits :: "(gostring \<times> gostring) list \<Rightarrow> gostring \<Rightarrow> bool" where
  "fits pairs s \<longleftrightarrow> list_ex (\<lambda>p. fst p \<noteq> [] \<and> HasPrefix s (fst p)) pairs"

fun untouched :: "(gostring \<times> gostring) list \<Rightarrow> gostring \<Rightarrow> gostring \<Rightarrow> bool" where
  "untouched pairs [] rest = True"
| "untouched pairs (c # s) rest = (\<not> fits pairs ((c # s) @ rest) \<and> untouched pairs s rest)"

fun well_marked :: "(gostring \<times> gostring) list \<Rightarrow> fragment list \<Rightarrow> bool" where
  "well_marked pairs [] = True"
| "well_marked pairs (Verbatim s # fs) = (untouched pairs s (source_text pairs fs) \<and> well_marked pairs fs)"
| "well_marked pairs (Occurrence i # fs) =
     (i < length pairs \<and> fst (pairs ! i) \<noteq> [] \<and>
      \<not> fits (take i pairs) (source_text pairs (Occurrence i # fs)) \<and> well_marked pairs fs)"

lemma find_none_fits: "find (\<lambda>p. fst p \<noteq> [] \<and> HasPrefix s (fst p)) pairs = None \<longleftrightarrow> \<not> fits pairs s"
  by (auto simp: fits_def find_None_iff list_ex_iff)

lemma replacer_Nil [simp]: "replacer pairs [] = []"
  by (simp add: replacer.simps)

lemma replacer_untouched: "untouched pairs s rest \<Longrightarrow> replacer pairs (s @ rest) = s @ replacer pairs rest"
proof (induction s)
  case (Cons c s)
  then have "find (\<lambda>p. fst p \<noteq> [] \<and> HasPrefix (c # s @ rest) (fst p)) pairs = None"
    by (simp add: find_none_fits)
  with Cons show ?case by (simp add: replacer.simps [of pairs "c # s @ rest"])
qed simp

lemma find_take_drop:
  assumes "i < length ps" and "P (ps ! i)" and "find P (take i ps) = None"
  shows "find P ps = Some (ps ! i)"
  using assms by (auto simp: find_Some_iff find_None_iff in_set_conv_nth)

lemma replacer_occurrence:
  assumes "i < length pairs" and "fst (pairs ! i) \<noteq> []" and "\<not> fits (take i pairs) (fst (pairs ! i) @ rest)"
  shows "replacer pairs (fst (pairs ! i) @ rest) = snd (pairs ! i) @ replacer pairs rest"
proof -
  let ?s = "fst (pairs ! i) @ rest"
  have f: "find (\<lambda>p. fst p \<noteq> [] \<and> HasPrefix ?s (fst p)) pairs = Some (pairs ! i)"
    using assms by (intro find_take_drop) (simp_all add: find_none_fits)
  obtain c cs where s: "?s = c # cs" using assms(2) by (cases ?s) auto
  show ?thesis by (subst replacer.simps) (use f in \<open>simp add: s\<close>, simp flip: s)
qed

lemma replacer_fragments: "well_marked pairs fs \<Longrightarrow> replacer pairs (source_text pairs fs) = replaced_text pairs fs"
proof (induction fs)
  case (Cons f fs)
  show ?case
  proof (cases f)
    case (Verbatim s)
    with Cons show ?thesis by (simp add: replacer_untouched)
  next
    case (Occurrence i)
    with Cons show ?thesis by (simp add: replacer_occurrence)
  qed
qed simp


lemma demo_fragments:
  "well_marked (chaos_pairs ''vm-1'' ''vmstorage-vm-'')
     [Verbatim (''namespaces:'' @ [nl]), Occurrence 0, Verbatim (nl # ''pod-name: ''), Occurrence 2, Verbatim ''1'']"
  by (simp add: chaos_pairs_def fits_def HasPrefix_def)


text \<open>
  A pod named in a list of pods is not recognised as a name: the pattern for namespaces fits its
  beginning, so the item \<open>- vmstorage-vmks-0\<close> of a network scenario is rewritten to a name of the
  namespace and refers to no pod any more.
\<close>

theorem pod_list_item_mangled:
  "prepareChaosManifest ''- vmstorage-vmks-0'' ns cl = ''- '' @ ns @ ''storage-vmks-0''"
proof -
  have "well_marked (chaos_pairs ns cl) [Occurrence 0, Verbatim ''storage-vmks-0'']"
    by (simp add: chaos_pairs_def fits_def HasPrefix_def)
  from replacer_fragments [OF this] show ?thesis
    by (simp add: prepareChaosManifest_def chaos_pairs_def)
qed

subsection \<open>What the wait decides\<close>

text \<open>
  C33: If the scenario reports its final condition in some poll before the deadline, and no earlier
  poll got an error other than that the resource is missing, the wait succeeds. (The final
  condition is \<open>Accomplished\<close> for workflows and \<open>AllRecovered\<close> for every other kind.)
\<close>

theorem chaos_wait_completes:
  assumes "hasChaosCondition obj (if chaosType = ''workflows'' then ''Accomplished'' else ''AllRecovered'')"
    and "list_all (\<lambda>t. \<forall>e. snd t \<noteq> GetFailed e) before"
  shows "WaitForChaosScenarioToComplete scenario chaosType (before @ (c, Got obj) # later) cancelled = Inr ()"
proof -
  have "poll_until (chaos_poll chaosType) (before @ (c, Got obj) # later) = Ready"
    using assms(2)
  proof (induction before)
    case Nil
    show ?case using assms(1) by (simp add: chaos_poll_def split: if_splits)
  next
    case (Cons t before)
    then have "chaos_poll chaosType t \<in> {KeepPolling, Ready}"
      by (auto simp: chaos_poll_def split: lookup.splits)
    with Cons show ?case by auto
  qed
  then show ?thesis by (simp add: WaitForChaosScenarioToComplete_def)
qed

definition recovered :: json where
  "recovered = JObj [(''status'', JObj [(''conditions'',
     JArr [JObj [(''type'', JStr ''AllRecovered''), (''status'', JStr ''True'')]])])]"

theorem chaos_wait_completes_witness:
  "WaitForChaosScenarioToComplete ''s'' ''podchaos'' [(False, Gone), (False, Got JNull), (False, Got recovered)] False = Inr ()"
  using chaos_wait_completes [of recovered "''podchaos''" "[(False, Gone), (False, Got JNull)]" "''s''" False "[]" False]
  by (simp add: recovered_def hasChaosCondition_def)

text \<open>
  A scenario resource that is deleted, and stays missing for the rest of the polls, is waited for
  until the deadline, and then the test fails, although the comment says that deletion is handled.
\<close>

theorem deleted_scenario_times_out:
  "WaitForChaosScenarioToComplete scenario chaosType (replicate n (False, Gone)) False =
     Inl (''failed waiting for chaos scenario '' @ scenario @ '': context deadline exceeded'')"
proof -
  have "poll_until (chaos_poll chaosType) (replicate n (False, Gone)) = KeepPolling"
    by (induction n) (simp_all add: chaos_poll_def)
  then show ?thesis by (simp add: WaitForChaosScenarioToComplete_def)
qed

text \<open>A pod is not restarted with respect to itself, and a recreated one always counts as restarted.\<close>

lemma PodRestarted_recreated: "pod_UID p \<noteq> pod_UID q \<Longrightarrow> PodRestarted p q"
  by (simp add: PodRestarted_def)

lemma PodRestarted_self: "distinct (map fst (pod_ContainerStatuses p)) \<Longrightarrow> \<not> PodRestarted p p"
  by (auto simp: PodRestarted_def list_ex_iff dest: eq_key_imp_eq_value)

lemma sanitize_names: "list_all name_char (sanitize s) \<and> length (sanitize s) = length s"
  by (auto simp: sanitize_def list_all_iff name_char_def)

lemma chaosDuration_minutes: "0 \<le> m \<Longrightarrow> chaosDuration (m * Minute) = int_str m @ ''m''"
  by (simp add: chaosDuration_def go_rem_def go_div_nonneg Minute_def Second_def)

end
