(* ===== verification/Nfs.thy ===== *)
theory Nfs
  imports Install_Props
begin

text \<open>
  The NFS server of a namespace (\<open>pkg/install/nfs.go\<close>): the pod with one directory per replica, its
  service, the storage class and one static volume per replica, and their deletion. Documents are
  given by the fields the code sets; building the API client is left out.
\<close>

definition nfsExportPath :: gostring where "nfsExportPath = ''/nfsshare''"
definition nfsVMStorageReplicas :: nat where "nfsVMStorageReplicas = 2"
definition nfsVMSelectReplicas :: nat where "nfsVMSelectReplicas = 2"
definition nfsStorageSize :: gostring where "nfsStorageSize = ''10Gi''"
definition nfsCacheSize :: gostring where "nfsCacheSize = ''2Gi''"
definition nfsServerPodName :: gostring where "nfsServerPodName = ''nfs-server''"

definition nfsVMStoragePVName :: "gostring \<Rightarrow> nat \<Rightarrow> gostring" where
  "nfsVMStoragePVName namespace idx = ''nfs-pv-'' @ namespace @ ''-vmstorage-'' @ nat_str idx"

definition nfsVMSelectPVName :: "gostring \<Rightarrow> nat \<Rightarrow> gostring" where
  "nfsVMSelectPVName namespace idx = ''nfs-pv-'' @ namespace @ ''-vmselect-'' @ nat_str idx"

definition nfsStorageClassName :: "gostring \<Rightarrow> gostring" where
  "nfsStorageClassName namespace = ''nfs-static-'' @ namespace"

subsection \<open>Documents\<close>

definition nfs_mkdir :: gostring where
  "nfs_mkdir = ''mkdir -p'' @
     concat (map (\<lambda>i. '' '' @ nfsExportPath @ ''/vmstorage/'' @ nat_str i) [0..<nfsVMStorageReplicas]) @
     concat (map (\<lambda>i. '' '' @ nfsExportPath @ ''/vmselect/'' @ nat_str i) [0..<nfsVMSelectReplicas])"

definition nfs_mount :: json where
  "nfs_mount = JArr [JObj [(''name'', JStr ''nfs-data''), (''mountPath'', JStr nfsExportPath)]]"

definition nfs_pod :: "gostring \<Rightarrow> json" where
  "nfs_pod namespace =
     JObj [(''kind'', JStr ''Pod''), (''apiVersion'', JStr ''v1''),
       (''metadata'', JObj [(''name'', JStr nfsServerPodName), (''namespace'', JStr namespace),
          (''labels'', JObj [(''app'', JStr nfsServerPodName)])]),
       (''spec'', JObj
          [(''initContainers'', JArr [JObj
              [(''name'', JStr ''init-dirs''), (''image'', JStr ''busybox:latest''),
               (''command'', JArr [JStr ''sh'', JStr ''-c'', JStr nfs_mkdir]), (''volumeMounts'', nfs_mount)]]),
           (''containers'', JArr [JObj
              [(''name'', JStr nfsServerPodName), (''image'', JStr ''itsthenetwork/nfs-server-alpine:latest''),
               (''env'', JArr [JObj [(''name'', JStr ''SHARED_DIRECTORY''), (''value'', JStr nfsExportPath)]]),
               (''securityContext'', JObj [(''privileged'', JBool True)]),
               (''ports'', JArr [JObj [(''name'', JStr ''nfs''), (''containerPort'', JNum 2049), (''protocol'', JStr ''TCP'')]]),
               (''volumeMounts'', nfs_mount)]]),
           (''volumes'', JArr [JObj [(''name'', JStr ''nfs-data''), (''emptyDir'', JObj [])]]),
           (''nodeSelector'', monitoringNodeSelector), (''tolerations'', JArr [monitoringToleration])])]"

definition nfs_service :: "gostring \<Rightarrow> json" where
  "nfs_service namespace =
     JObj [(''kind'', JStr ''Service''), (''apiVersion'', JStr ''v1''),
       (''metadata'', JObj [(''name'', JStr nfsServerPodName), (''namespace'', JStr namespace)]),
       (''spec'', JObj [(''selector'', JObj [(''app'', JStr nfsServerPodName)]),
          (''ports'', JArr [JObj [(''name'', JStr ''nfs''), (''port'', JNum 2049), (''protocol'', JStr ''TCP'')]])])]"

definition nfs_storage_class :: "gostring \<Rightarrow> json" where
  "nfs_storage_class scName =
     JObj [(''kind'', JStr ''StorageClass''), (''apiVersion'', JStr ''storage.k8s.io/v1''),
       (''metadata'', JObj [(''name'', JStr scName)]),
       (''provisioner'', JStr ''kubernetes.io/no-provisioner''),
       (''volumeBindingMode'', JStr ''Immediate''), (''reclaimPolicy'', JStr ''Delete'')]"

definition nfs_volume :: "gostring \<Rightarrow> gostring \<Rightarrow> gostring \<Rightarrow> gostring \<Rightarrow> gostring \<Rightarrow> json" where
  "nfs_volume scName clusterIP pvName nfsPath capacity =
     JObj [(''kind'', JStr ''PersistentVolume''), (''apiVersion'', JStr ''v1''),
       (''metadata'', JObj [(''name'', JStr pvName)]),
       (''spec'', JObj
          [(''capacity'', JObj [(''storage'', JStr capacity)]), (''accessModes'', JArr [JStr ''ReadWriteOnce'']),
           (''persistentVolumeReclaimPolicy'', JStr ''Delete''), (''storageClassName'', JStr scName),
           (''mountOptions'', JArr [JStr ''nfsvers=4'', JStr ''soft'', JStr ''timeo=30'', JStr ''retrans=2'']),
           (''nfs'', JObj [(''server'', JStr clusterIP), (''path'', JStr nfsPath)])])]"

subsection \<open>Programs\<close>

text \<open>The polls of the service's cluster address before the deadline; \<open>WaitClusterIP\<close> stands for them.\<close>

fun poll_cluster_ip :: "gostring \<Rightarrow> gostring result list \<Rightarrow> gostring result" where
  "poll_cluster_ip namespace [] =
     Inl (''timed out waiting for NFS service ClusterIP in namespace '' @ namespace)"
| "poll_cluster_ip namespace (Inl err # polls) = poll_cluster_ip namespace polls"
| "poll_cluster_ip namespace (Inr ip # polls) =
     (if ip = [] \<or> ip = ''None'' then poll_cluster_ip namespace polls else Inr ip)"

definition delete_pv_args :: "gostring \<Rightarrow> duration \<Rightarrow> gostring list" where
  "delete_pv_args pvName timeout =
     [''delete'', ''pv'', pvName, ''--ignore-not-found=true'', ''--timeout='' @ duration_String timeout]"

definition create_pv :: "gostring \<Rightarrow> gostring \<Rightarrow> gostring \<times> gostring \<times> gostring \<Rightarrow> call list" where
  "create_pv scName clusterIP pv =
     (case pv of (pvName, nfsPath, capacity) \<Rightarrow>
        [RunKubectl (NewKubectlOptions [] [] []) (delete_pv_args pvName (60 * Second)),
         ApplyString (NewKubectlOptions [] [] []) (Document (nfs_volume scName clusterIP pvName nfsPath capacity))])"

definition nfs_volumes :: "gostring \<Rightarrow> (gostring \<times> gostring \<times> gostring) list" where
  "nfs_volumes namespace =
     map (\<lambda>i. (nfsVMStoragePVName namespace i, ''/vmstorage/'' @ nat_str i, nfsStorageSize)) [0..<nfsVMStorageReplicas] @
     map (\<lambda>i. (nfsVMSelectPVName namespace i, ''/vmselect/'' @ nat_str i, nfsCacheSize)) [0..<nfsVMSelectReplicas]"

definition InstallNFSServer :: "KubectlOptions \<Rightarrow> gostring \<Rightarrow> gostring prog" where
  "InstallNFSServer ko namespace =
     (let scName = nfsStorageClassName namespace
      in chain (run_musts
           [ApplyString ko (Document (nfs_pod namespace)), ApplyString ko (Document (nfs_service namespace)),
            RunKubectl ko [''wait'', ''--for=condition=Ready'', ''pod'', nfsServerPodName,
                           ''--timeout='' @ duration_String ResourceWaitTimeout]]) (\<lambda>_.
         chain (must (WaitClusterIP namespace nfsServerPodName)) (\<lambda>clusterIP.
         chain (run_musts
           (ApplyString (NewKubectlOptions [] [] []) (Document (nfs_storage_class scName)) #
            concat (map (create_pv scName clusterIP) (nfs_volumes namespace)))) (\<lambda>_. ret scName))))"

text \<open>Calls whose errors are only logged.\<close>

fun try_all :: "call list \<Rightarrow> unit prog" where
  "try_all [] = ret ()"
| "try_all (c # cs) = chain (perform c) (\<lambda>_. try_all cs)"

definition DeleteNFSResources :: "gostring \<Rightarrow> unit prog" where
  "DeleteNFSResources namespace =
     (let ko = NewKubectlOptions [] [] []
      in try_all
        (map (\<lambda>i. TryKubectl ko (delete_pv_args (nfsVMStoragePVName namespace i) (30 * Second))) [0..<nfsVMStorageReplicas] @
         map (\<lambda>i. TryKubectl ko (delete_pv_args (nfsVMSelectPVName namespace i) (30 * Second))) [0..<nfsVMSelectReplicas] @
         [TryKubectl ko [''delete'', ''storageclass'', nfsStorageClassName namespace, ''--ignore-not-found=true'',
                         ''--timeout='' @ duration_String (30 * Second)]]))"

interpretation nfs_install: fail_fast "InstallNFSServer ko ns" for ko ns
  unfolding InstallNFSServer_def Let_def by (intro ff)

subsection \<open>Volumes\<close>

lemma nat_str_suffix:
  assumes "\<not> is_digit c"
  shows "xs @ c # nat_str m = ys @ c # nat_str n \<longleftrightarrow> xs = ys \<and> m = n"
proof
  assume eq: "xs @ c # nat_str m = ys @ c # nat_str n"
  have tw: "takeWhile is_digit (rev (zs @ c # nat_str k)) = rev (nat_str k)" for zs k
    using assms by (simp add: takeWhile_append nat_str_digits)
  from arg_cong [OF eq, of "\<lambda>s. takeWhile is_digit (rev s)"] have "nat_str m = nat_str n" by (simp only: tw rev_is_rev_conv)
  with eq show "xs = ys \<and> m = n" by (simp add: nat_str_inj)
qed simp

lemma pv_name_suffix:
  "xs @ ''-vmstorage-'' @ nat_str m = ys @ ''-vmstorage-'' @ nat_str n \<longleftrightarrow> xs = ys \<and> m = n"
  "xs @ ''-vmselect-'' @ nat_str m = ys @ ''-vmselect-'' @ nat_str n \<longleftrightarrow> xs = ys \<and> m = n"
  "xs @ ''-vmstorage-'' @ nat_str m \<noteq> ys @ ''-vmselect-'' @ nat_str n"
proof -
  have d: "\<not> is_digit (CHR ''-'')" by (rule is_digit_minus)
  show "xs @ ''-vmstorage-'' @ nat_str m = ys @ ''-vmstorage-'' @ nat_str n \<longleftrightarrow> xs = ys \<and> m = n"
    using nat_str_suffix [OF d, of "xs @ ''-vmstorage''" m "ys @ ''-vmstorage''" n] by simp
  show "xs @ ''-vmselect-'' @ nat_str m = ys @ ''-vmselect-'' @ nat_str n \<longleftrightarrow> xs = ys \<and> m = n"
    using nat_str_suffix [OF d, of "xs @ ''-vmselect''" m "ys @ ''-vmselect''" n] by simp
  have "xs @ ''-vmstorage'' \<noteq> ys @ ''-vmselect''"
    by (auto dest: arg_cong [of _ _ last])
  with nat_str_suffix [OF d, of "xs @ ''-vmstorage''" m "ys @ ''-vmselect''" n]
  show "xs @ ''-vmstorage-'' @ nat_str m \<noteq> ys @ ''-vmselect-'' @ nat_str n" by simp
qed

definition pv_names :: "gostring \<Rightarrow> gostring list" where
  "pv_names namespace = map fst (nfs_volumes namespace)"

lemma pv_names_conv:
  "pv_names ns = map (nfsVMStoragePVName ns) [0..<nfsVMStorageReplicas] @ map (nfsVMSelectPVName ns) [0..<nfsVMSelectReplicas]"
  by (simp add: pv_names_def nfs_volumes_def o_def)

lemma pv_name_inj:
  "nfsVMStoragePVName ns i = nfsVMStoragePVName ns' j \<longleftrightarrow> ns = ns' \<and> i = j"
  "nfsVMSelectPVName ns i = nfsVMSelectPVName ns' j \<longleftrightarrow> ns = ns' \<and> i = j"
  "nfsVMStoragePVName ns i \<noteq> nfsVMSelectPVName ns' j"
  "nfsVMSelectPVName ns i \<noteq> nfsVMStoragePVName ns' j"
proof -
  note d = pv_name_suffix
  show "nfsVMStoragePVName ns i = nfsVMStoragePVName ns' j \<longleftrightarrow> ns = ns' \<and> i = j"
    unfolding nfsVMStoragePVName_def same_append_eq by (rule d)
  show "nfsVMSelectPVName ns i = nfsVMSelectPVName ns' j \<longleftrightarrow> ns = ns' \<and> i = j"
    unfolding nfsVMSelectPVName_def same_append_eq by (rule d)
  show "nfsVMStoragePVName ns i \<noteq> nfsVMSelectPVName ns' j"
    unfolding nfsVMStoragePVName_def nfsVMSelectPVName_def same_append_eq by (rule d)
  show "nfsVMSelectPVName ns i \<noteq> nfsVMStoragePVName ns' j"
    unfolding nfsVMStoragePVName_def nfsVMSelectPVName_def same_append_eq by (rule d(3) [symmetric])
qed

text \<open>
  C35: The cluster-wide volumes of a namespace have distinct names, and two namespaces share a volume
  name only if they are the same namespace; every volume's path is one of the directories the
  server's init container creates. So tests running side by side never take each other's storage.
\<close>

theorem nfs_volumes_isolated:
  "distinct (pv_names ns) \<and> (set (pv_names ns) \<inter> set (pv_names ns') = {} \<longleftrightarrow> ns \<noteq> ns') \<and>
   list_all (\<lambda>v. Contains nfs_mkdir ('' '' @ nfsExportPath @ fst (snd v))) (nfs_volumes ns)"
proof (intro conjI)
  show "distinct (pv_names ns)"
    by (simp add: pv_names_conv nfsVMStorageReplicas_def nfsVMSelectReplicas_def upt_rec pv_name_inj)
  show "set (pv_names ns) \<inter> set (pv_names ns') = {} \<longleftrightarrow> ns \<noteq> ns'"
    by (auto simp: pv_names_conv nfsVMStorageReplicas_def nfsVMSelectReplicas_def pv_name_inj)
  show "list_all (\<lambda>v. Contains nfs_mkdir ('' '' @ nfsExportPath @ fst (snd v))) (nfs_volumes ns)"
    by (simp add: nfs_volumes_def nfs_mkdir_def nfsVMStorageReplicas_def nfsVMSelectReplicas_def nfsExportPath_def
        upt_rec nat_str.simps digits HasPrefix_def)
qed

lemma try_all_run: "try_all cs w = (Inr (), after w cs)"
  by (induction cs arbitrary: w) (simp_all add: ret_def chain_def perform_def)

text \<open>
  Deleting the NFS resources never fails the test and attempts, whatever goes wrong with an
  earlier one, the deletion of exactly the volumes that installing the server creates.
\<close>

theorem nfs_cleanup_complete:
  "\<exists>cs. DeleteNFSResources ns w = (Inr (), after w cs) \<and>
     map fst (nfs_volumes ns) = concat (map (\<lambda>c. case c of
       TryKubectl _ args \<Rightarrow> if take 2 args = [''delete'', ''pv''] then [args ! 2] else [] | _ \<Rightarrow> []) cs)"
  unfolding DeleteNFSResources_def Let_def try_all_run
  by (rule exI, rule conjI, rule refl)
    (simp add: pv_names_conv [unfolded pv_names_def] delete_pv_args_def nfsVMStorageReplicas_def nfsVMSelectReplicas_def upt_rec)

lemma InstallNFSServer_Inr:
  assumes "InstallNFSServer ko ns w = (Inr sc, w')"
  shows "sc = nfsStorageClassName ns \<and> (\<exists>ip cs. set (concat (map (create_pv sc ip) (nfs_volumes ns))) \<subseteq> set (w_trace w'))"
proof -
  from assms obtain ip w1 w2 x where sc: "sc = nfsStorageClassName ns" and
    last: "run_musts (ApplyString (NewKubectlOptions [] [] []) (Document (nfs_storage_class sc)) #
      concat (map (create_pv sc ip) (nfs_volumes ns))) w2 = (Inr x, w')"
    unfolding InstallNFSServer_def Let_def chain_Inr ret_Inr by blast
  from run_musts_Inr [OF last] have "set (concat (map (create_pv sc ip) (nfs_volumes ns))) \<subseteq> set (w_trace w')" by auto
  with sc show ?thesis by blast
qed

end
