(* ===== verification/Gather.thy ===== *)
theory Gather
  imports Install_Props Retry "HOL-Library.List_Lexorder" "HOL-Library.Char_ord" "HOL-Library.Word"
begin

text \<open>
  Gathering of diagnostics after a spec (\<open>pkg/gather\<close>, with the request types of \<open>pkg/exporter\<close>): the
  export job of the metrics gatherer with its retries, the logs of VictoriaLogs, the resources
  collected by crust-gather with the secrets to redact, and the restart of the monitoring instance.
  HTTP replies, the texts of times, the JSON parser, the archiver and the retry function are
  parameters; log lines are left out.
\<close>

subsection \<open>The export request\<close>

record Connection =
  cn_URL :: gostring
  cn_APIBasePath :: gostring
  cn_TenantID :: "int option"
  cn_IsMultitenant :: bool
  cn_FullAPIURL :: gostring
  cn_AuthType :: gostring
  cn_SkipTLSVerify :: bool
  cn_DisableCompression :: bool

record Obfuscation =
  ob_Enabled :: bool
  ob_ObfuscateInstance :: bool
  ob_ObfuscateJob :: bool
  ob_PreserveStructure :: bool
  ob_CustomLabels :: "gostring list"

record Batching =
  ba_Enabled :: bool
  ba_Strategy :: gostring
  ba_CustomIntervalSecs :: int

record RequestBody =
  rb_Connection :: Connection
  rb_Start :: gostring
  rb_End :: gostring
  rb_Components :: "gostring list"
  rb_Jobs :: "gostring list"
  rb_Namespaces :: "gostring list"
  rb_Obfuscation :: Obfuscation
  rb_StagingDir :: gostring
  rb_MetricStepSeconds :: int
  rb_Batching :: Batching

definition strings_json :: "gostring list \<Rightarrow> json" where "strings_json ss = JArr (map JStr ss)"

definition connection_json :: "Connection \<Rightarrow> json" where
  "connection_json c = JObj
     ([(''url'', JStr (cn_URL c)), (''api_base_path'', JStr (cn_APIBasePath c)),
       (''tenant_id'', case cn_TenantID c of None \<Rightarrow> JNull | Some i \<Rightarrow> JNum i),
       (''is_multitenant'', JBool (cn_IsMultitenant c)), (''full_api_url'', JStr (cn_FullAPIURL c)),
       (''auth'', JObj [(''type'', JStr (cn_AuthType c))]), (''skip_tls_verify'', JBool (cn_SkipTLSVerify c))] @
      (if cn_DisableCompression c then [(''disable_compression'', JBool True)] else []))"

definition obfuscation_json :: "Obfuscation \<Rightarrow> json" where
  "obfuscation_json b = JObj
     [(''enabled'', JBool (ob_Enabled b)), (''obfuscate_instance'', JBool (ob_ObfuscateInstance b)),
      (''obfuscate_job'', JBool (ob_ObfuscateJob b)), (''preserve_structure'', JBool (ob_PreserveStructure b)),
      (''custom_labels'', strings_json (ob_CustomLabels b))]"

definition batching_json :: "Batching \<Rightarrow> json" where
  "batching_json b = JObj
     [(''enabled'', JBool (ba_Enabled b)), (''strategy'', JStr (ba_Strategy b)),
      (''custom_interval_seconds'', JNum (ba_CustomIntervalSecs b))]"

definition request_json :: "RequestBody \<Rightarrow> json" where
  "request_json b = JObj
     [(''connection'', connection_json (rb_Connection b)),
      (''time_range'', JObj [(''start'', JStr (rb_Start b)), (''end'', JStr (rb_End b))]),
      (''components'', strings_json (rb_Components b)), (''jobs'', strings_json (rb_Jobs b)),
      (''namespaces'', strings_json (rb_Namespaces b)), (''obfuscation'', obfuscation_json (rb_Obfuscation b)),
      (''staging_dir'', JStr (rb_StagingDir b)), (''metric_step_seconds'', JNum (rb_MetricStepSeconds b)),
      (''batching'', batching_json (rb_Batching b))]"

text \<open>The set of namespaces, as the list of its elements without order, and its sorted listing.\<close>

definition gatherNamespaces :: "gostring list \<Rightarrow> gostring list" where
  "gatherNamespaces namespaces = remdups (DefaultVMNamespace # filter (\<lambda>n. n \<noteq> []) namespaces)"

definition sets_List :: "gostring list \<Rightarrow> gostring list" where "sets_List ns = sort ns"

text \<open>Instants are nanoseconds; \<open>None\<close> is the zero time.\<close>

definition start_or_hour_ago :: "int option \<Rightarrow> int \<Rightarrow> int" where
  "start_or_hour_ago startTime endTime =
     (case startTime of None \<Rightarrow> endTime - 60 * Minute | Some s \<Rightarrow> s)"

definition export_request :: "(int \<Rightarrow> gostring) \<Rightarrow> int option \<Rightarrow> int \<Rightarrow> gostring list \<Rightarrow> RequestBody" where
  "export_request fmt_time startTime endTime namespaces =
     (let url = ''http://'' @ GetVMSingleSvc DefaultReleaseName DefaultVMNamespace
      in \<lparr>rb_Connection = \<lparr>cn_URL = url, cn_APIBasePath = ''/prometheus'', cn_TenantID = None,
            cn_IsMultitenant = False, cn_FullAPIURL = url, cn_AuthType = ''none'', cn_SkipTLSVerify = False,
            cn_DisableCompression = True\<rparr>,
          rb_Start = fmt_time (start_or_hour_ago startTime endTime), rb_End = fmt_time endTime,
          rb_Components = [''operator'', ''vmagent'', ''vmalert'', ''vminsert'', ''vmselect'', ''vmstorage'', ''k6''],
          rb_Jobs = [], rb_Namespaces = sets_List (gatherNamespaces namespaces),
          rb_Obfuscation = \<lparr>ob_Enabled = False, ob_ObfuscateInstance = False, ob_ObfuscateJob = False,
            ob_PreserveStructure = True, ob_CustomLabels = []\<rparr>,
          rb_StagingDir = ''/tmp/staging'', rb_MetricStepSeconds = 30,
          rb_Batching = \<lparr>ba_Enabled = True, ba_Strategy = ''custom'', ba_CustomIntervalSecs = 300\<rparr>\<rparr>)"

subsection \<open>Requests\<close>

text \<open>A reply: none, or a status with what reading the body gives.\<close>

datatype http_reply = NoReply gostring | Reply int "gostring result"

datatype gather_error = ExportFailed | GatherError gostring

definition doVMGatherRequest :: "gostring \<Rightarrow> http_reply \<Rightarrow> gather_error + gostring result" where
  "doVMGatherRequest step reply =
     (case reply of
        NoReply err \<Rightarrow> Inl (GatherError err)
      | Reply status body \<Rightarrow>
          if status \<noteq> 200 then Inl (GatherError (''unexpected status code from '' @ step @ '': '' @ int_str status))
          else Inr body)"

definition decode_body :: "(gostring \<Rightarrow> json result) \<Rightarrow> gostring result \<Rightarrow> json result" where
  "decode_body parse body = bind_result body (\<lambda>b. bind_result (parse b) dec_object)"

definition export_started :: "(gostring \<Rightarrow> json result) \<Rightarrow> http_reply \<Rightarrow> gather_error + gostring" where
  "export_started parse reply =
     (case doVMGatherRequest ''/api/export/start'' reply of
        Inl err \<Rightarrow> Inl err
      | Inr body \<Rightarrow>
          (case bind_result (decode_body parse body) (\<lambda>j. dec_string (jfield ''job_id'' j)) of
             Inl err \<Rightarrow> Inl (GatherError err)
           | Inr jobID \<Rightarrow>
               if jobID = [] then Inl (GatherError ''job_id should not be empty in /api/export/start response'')
               else Inr jobID))"

datatype export_step = ExportPending | ExportDone gostring | ExportEnded gather_error

definition export_status :: "(gostring \<Rightarrow> json result) \<Rightarrow> http_reply \<Rightarrow> export_step" where
  "export_status parse reply =
     (case doVMGatherRequest ''/api/export/status'' reply of
        Inl err \<Rightarrow> ExportPending
      | Inr body \<Rightarrow>
          (case bind_result (decode_body parse body) (\<lambda>j. bind_result (dec_string (jfield ''state'' j)) (\<lambda>st.
                  bind_result (dec_object (jfield ''result'' j)) (\<lambda>r.
                  bind_result (dec_string (jfield ''archive_path'' r)) (\<lambda>path. Inr (st, path))))) of
             Inl err \<Rightarrow> ExportPending
           | Inr (st, path) \<Rightarrow>
               if st = ''completed'' then
                 (if path = [] then ExportEnded (GatherError ''archive_path should not be empty when state is complete'')
                  else ExportDone path)
               else if st = ''failed'' then ExportEnded ExportFailed
               else ExportPending))"

text \<open>The polls before the timeout; the timeout's own error is that of the context.\<close>

fun poll_export :: "(gostring \<Rightarrow> json result) \<Rightarrow> http_reply list \<Rightarrow> gather_error + gostring" where
  "poll_export parse [] = Inl (GatherError ''context deadline exceeded'')"
| "poll_export parse (reply # replies) =
     (case export_status parse reply of
        ExportPending \<Rightarrow> poll_export parse replies
      | ExportDone path \<Rightarrow> Inr path
      | ExportEnded err \<Rightarrow> Inl err)"

definition status_url :: "config \<Rightarrow> gostring \<Rightarrow> gostring" where
  "status_url cfg jobID = ''http://'' @ VMGatherHost cfg @ ''/api/export/status?'' @ Encode [(''id'', jobID)]"

definition download_url :: "config \<Rightarrow> gostring \<Rightarrow> gostring" where
  "download_url cfg path = ''http://'' @ VMGatherHost cfg @ ''/api/download?'' @ Encode [(''path'', path)]"

text \<open>
  The gatherer during one attempt: its reply to the start request with a given body, the replies to
  the status polls at a URL before the timeout, and the reply to a download.
\<close>

record gatherer =
  ga_start :: "json \<Rightarrow> http_reply"
  ga_status :: "gostring \<Rightarrow> http_reply list"
  ga_download :: "gostring \<Rightarrow> http_reply"

type_synonym attachments = "(gostring \<times> gostring) list"

text \<open>The body of a download is read into a buffer and attached.\<close>

definition download_archive :: "http_reply \<Rightarrow> gather_error option \<times> attachments" where
  "download_archive reply =
     (case doVMGatherRequest ''/api/download'' reply of
        Inl err \<Rightarrow> (Some err, [])
      | Inr (Inl err) \<Rightarrow> (Some (GatherError err), [])
      | Inr (Inr zip_content) \<Rightarrow> (None, [(''vmexporter-report.zip'', zip_content)]))"

definition vmAfterAll ::
  "(gostring \<Rightarrow> json result) \<Rightarrow> config \<Rightarrow> RequestBody \<Rightarrow> gatherer \<Rightarrow> gather_error option \<times> attachments" where
  "vmAfterAll parse cfg request g =
     (case export_started parse (ga_start g (request_json request)) of
        Inl err \<Rightarrow> (Some err, [])
      | Inr jobID \<Rightarrow>
          (case poll_export parse (ga_status g (status_url cfg jobID)) of
             Inl err \<Rightarrow> (Some err, [])
           | Inr archivePath \<Rightarrow> download_archive (ga_download g (download_url cfg archivePath))))"

definition vmGatherExportAttempts :: nat where "vmGatherExportAttempts = 3"
definition vmGatherExportTimeout :: duration where "vmGatherExportTimeout = 5 * Minute"

fun isRetriableVMGatherExportError :: "gather_error option \<Rightarrow> bool" where
  "isRetriableVMGatherExportError (Some ExportFailed) = True"
| "isRetriableVMGatherExportError _ = False"

text \<open>
  Attempt \<open>i\<close> makes the request of its own start time and meets the gatherer \<open>g i\<close>; the result is the
  error that is logged, the number of attempts, and what was attached to the report.
\<close>

definition VMAfterAll ::
  "gather_error retrier \<Rightarrow> (gostring \<Rightarrow> json result) \<Rightarrow> config \<Rightarrow> (nat \<Rightarrow> RequestBody) \<Rightarrow> (nat \<Rightarrow> gatherer) \<Rightarrow>
     gather_error option \<times> nat \<times> attachments" where
  "VMAfterAll retry parse cfg request g =
     (case retry (\<lambda>i. fst (vmAfterAll parse cfg (request i) (g i))) of
        (err, n) \<Rightarrow> (err, n, concat (map (\<lambda>i. snd (vmAfterAll parse cfg (request i) (g i))) [0..<n])))"

subsection \<open>Logs\<close>

definition logs_url :: "(int \<Rightarrow> gostring) \<Rightarrow> config \<Rightarrow> int option \<Rightarrow> int \<Rightarrow> gostring" where
  "logs_url fmt_time cfg startTime endTime =
     ''http://'' @ VLHost cfg @ ''/select/logsql/query?'' @
     Encode [(''end'', fmt_time endTime), (''query'', ''*''), (''start'', fmt_time (start_or_hour_ago startTime endTime))]"

text \<open>
  The writers of \<open>archive/tar\<close> and \<open>compress/gzip\<close> are parameters: \<open>'w\<close> is the state of the tar writer over
  the gzip writer over a buffer. The header's size is an \<open>int64\<close>.
\<close>

record tar_header =
  th_Name :: gostring
  th_Mode :: int
  th_Size :: "64 word"
  th_ModTime :: int

record 'w archive_writer =
  aw_new :: 'w
  aw_WriteHeader :: "tar_header \<Rightarrow> 'w \<Rightarrow> 'w result"
  aw_Write :: "gostring \<Rightarrow> 'w \<Rightarrow> 'w result"
  aw_CloseTar :: "'w \<Rightarrow> 'w result"
  aw_CloseGzip :: "'w \<Rightarrow> gostring result"

definition wrap_error :: "gostring \<Rightarrow> 'a result \<Rightarrow> 'a result" where
  "wrap_error what r = (case r of Inl err \<Rightarrow> Inl (what @ '': '' @ err) | Inr x \<Rightarrow> Inr x)"

definition buildTarGz :: "'w archive_writer \<Rightarrow> int \<Rightarrow> gostring \<Rightarrow> gostring \<Rightarrow> gostring result" where
  "buildTarGz aw now filename content =
     (let hdr = \<lparr>th_Name = filename, th_Mode = 384, th_Size = word_of_nat (length content), th_ModTime = now\<rparr>
      in bind_result (wrap_error ''write tar header'' (aw_WriteHeader aw hdr (aw_new aw))) (\<lambda>w1.
         bind_result (wrap_error ''write tar content'' (aw_Write aw content w1)) (\<lambda>w2.
         bind_result (wrap_error ''close tar writer'' (aw_CloseTar aw w2)) (\<lambda>w3.
         wrap_error ''close gzip writer'' (aw_CloseGzip aw w3)))))"

text \<open>\<open>tar_gz\<close> is \<open>buildTarGz\<close> at the time of the archive.\<close>

definition VLAfterAll ::
  "(int \<Rightarrow> gostring) \<Rightarrow> (gostring \<Rightarrow> gostring \<Rightarrow> gostring result) \<Rightarrow> config \<Rightarrow> (gostring \<Rightarrow> http_reply) \<Rightarrow>
     int option \<Rightarrow> int \<Rightarrow> attachments" where
  "VLAfterAll fmt_time tar_gz cfg get startTime endTime =
     (case get (logs_url fmt_time cfg startTime endTime) of
        NoReply err \<Rightarrow> []
      | Reply status body \<Rightarrow>
          if status \<noteq> 200 then []
          else (case body of
                  Inl err \<Rightarrow> []
                | Inr jsonlData \<Rightarrow>
                    (case tar_gz ''victoria-logs.jsonl'' jsonlData of
                       Inl err \<Rightarrow> [] | Inr archive \<Rightarrow> [(''victoria-logs.tar.gz'', archive)])))"

subsection \<open>Cluster resources\<close>

record SecretRef =
  sr_Name :: gostring
  sr_Namespace :: gostring

definition secret_refs :: "config \<Rightarrow> gostring list \<Rightarrow> SecretRef list" where
  "secret_refs cfg namespaces = concat (map (\<lambda>ns.
     (if LicenseFile cfg \<noteq> [] then [\<lparr>sr_Name = LicenseSecretName, sr_Namespace = ns\<rparr>] else []) @
     (if MDXPasswordFile cfg \<noteq> [] then [\<lparr>sr_Name = ''mdx-remote-write-secret'', sr_Namespace = ns\<rparr>] else []))
     namespaces)"

datatype secret_lookup = SecretMissing | SecretError gostring | SecretData "gostring list"

definition secret_lines :: "(SecretRef \<Rightarrow> secret_lookup) \<Rightarrow> SecretRef list \<Rightarrow> gostring list" where
  "secret_lines lookup refs = concat (map (\<lambda>ref. case lookup ref of
     SecretMissing \<Rightarrow> [] | SecretError err \<Rightarrow> [] | SecretData vs \<Rightarrow> map TrimSpace vs) refs)"

text \<open>
  The result is the name of the temporary file, empty if there is none, and the files afterwards; errors
  of writing and closing it are not looked at.
\<close>

definition collectSecretsFile ::
  "(SecretRef \<Rightarrow> secret_lookup) \<Rightarrow> temp_dir \<Rightarrow> SecretRef list \<Rightarrow> files \<Rightarrow> gostring \<times> files" where
  "collectSecretsFile lookup os refs fs =
     (if length (secret_lines lookup refs) = 0 then ([], fs)
      else case os_create os fs of
        Inl err \<Rightarrow> ([], fs)
      | Inr name \<Rightarrow> (name, fs(name \<mapsto> fst (os_write os name (Join [nl] (secret_lines lookup refs))))))"

text \<open>What a finished command logs: its error with all output, else the errors it printed, if any.\<close>

definition runCmdLogged :: "gostring \<Rightarrow> gostring option \<Rightarrow> gostring \<Rightarrow> gostring \<Rightarrow> gostring option" where
  "runCmdLogged path err outb errb =
     (case err of
        Some e \<Rightarrow> Some (path @ '' failed: '' @ e @ '', stdout: '' @ outb @ '', stderr: '' @ errb)
      | None \<Rightarrow> if 0 < length errb then Some (path @ '' stderr: '' @ errb) else None)"

text \<open>The report locations are clean paths, so \<open>filepath.Join\<close> puts a slash between its parts.\<close>

definition crust_gather_args :: "gostring \<Rightarrow> gostring \<Rightarrow> gostring list" where
  "crust_gather_args reportDir secretsFilePath =
     [''collect'', ''-v'', ''WARN'', ''--duration'', ''3m'', ''--exclude-kind'', ''Event'', ''--skip-logs-collection'',
      ''--disable-additional-logs'', ''-f'', reportDir] @
     (if secretsFilePath \<noteq> [] then [''--secrets-file'', secretsFilePath] else [])"

text \<open>
  What is run and removed, in order: crust-gather with its arguments and what its secrets file holds,
  the tree that is removed from the report, \<open>tar\<close> in its directory. Their failures are only logged.
\<close>

datatype gather_action =
    CrustGather "gostring list" "gostring option"
  | RemoveTree gostring
  | Tar gostring "gostring list"

text \<open>
  \<open>hash\<close> is the hexadecimal hash of the spec's text, \<open>archive\<close> what reading the archive at a path gives.
  The secrets file is removed when the function returns.
\<close>

definition K8sAfterAll ::
  "config \<Rightarrow> gostring \<Rightarrow> gostring list \<Rightarrow> (SecretRef \<Rightarrow> secret_lookup) \<Rightarrow> temp_dir \<Rightarrow>
     (gostring \<Rightarrow> gostring result) \<Rightarrow> files \<Rightarrow> gather_action list \<times> files \<times> attachments" where
  "K8sAfterAll cfg hash namespaces lookup os archive fs =
     (let reports = CrustGatherLocation cfg; reportDir = reports @ ''/'' @ hash; archiveName = hash @ ''.tar.gz'';
          (secretsFile, fs1) = collectSecretsFile lookup os (secret_refs cfg namespaces) fs
      in ([CrustGather (crust_gather_args reportDir secretsFile) (if secretsFile \<noteq> [] then fs1 secretsFile else None),
           RemoveTree (reportDir @ ''/namespaces/kube-system/v1''),
           Tar reports [''-czvf'', archiveName, hash]],
          if secretsFile \<noteq> [] then os_remove os secretsFile fs1 else fs1,
          case archive (reports @ ''/'' @ archiveName) of
            Inl err \<Rightarrow> [] | Inr content \<Rightarrow> [(''crust-gather.tar.gz'', content)]))"

subsection \<open>Restarting the monitoring instance\<close>

text \<open>\<open>names\<close> reads the names of the listed pods.\<close>

definition RestartOverwatchInstance :: "(gostring \<Rightarrow> gostring list) \<Rightarrow> KubectlOptions \<Rightarrow> unit prog" where
  "RestartOverwatchInstance names ko =
     chain (must (ListPods ko (''app.kubernetes.io/instance='' @ DefaultReleaseName @ '',app.kubernetes.io/name=vmsingle'')))
       (\<lambda>listed. case names listed of
          [] \<Rightarrow> fatal ''no monitoring VMSingle pods found''
        | firstPod # _ \<Rightarrow> run_musts
            [DeletePod (ko_Namespace ko) firstPod,
             WaitOperational ''VMSingle'' ko (ko_Namespace ko) [] PollingTimeout])"

lemma ff_list [ff]: "fail_fast p \<Longrightarrow> (\<And>x xs. fail_fast (q x xs)) \<Longrightarrow> fail_fast (case l of [] \<Rightarrow> p | x # xs \<Rightarrow> q x xs)"
  by (cases l) simp_all

interpretation restart_overwatch: fail_fast "RestartOverwatchInstance names ko" for names ko
  unfolding RestartOverwatchInstance_def by (intro ff)

subsection \<open>What is gathered\<close>

text \<open>
  The namespaces of an export are listed in order and without repetition: the default namespace
  and every non-empty one that was asked for, nothing else.
\<close>

theorem gathered_namespaces:
  "sorted (sets_List (gatherNamespaces nss)) \<and> distinct (sets_List (gatherNamespaces nss)) \<and>
   set (sets_List (gatherNamespaces nss)) = insert DefaultVMNamespace (set nss - {[]})"
  by (auto simp: sets_List_def gatherNamespaces_def)

lemma vmAfterAll_attachments:
  "vmAfterAll parse cfg request g = (err, atts) \<Longrightarrow>
     (case err of None \<Rightarrow> \<exists>content. atts = [(''vmexporter-report.zip'', content)] | Some _ \<Rightarrow> atts = [])"
  unfolding vmAfterAll_def download_archive_def
  by (cases "export_started parse (ga_start g (request_json request))") (auto split: sum.splits)

lemma poll_export_path: "poll_export parse replies = Inr path \<Longrightarrow> path \<noteq> []"
proof (induction replies)
  case (Cons r rs)
  have path: "p \<noteq> []" if "export_status parse r = ExportDone p" for p
    using that by (auto simp: export_status_def split: sum.splits prod.splits if_splits)
  from Cons show ?case by (auto split: export_step.splits dest: path)
qed simp

lemma retriable_iff: "isRetriableVMGatherExportError e \<longleftrightarrow> e = Some ExportFailed"
  by (cases e rule: isRetriableVMGatherExportError.cases) simp_all

lemma VMAfterAll_last:
  assumes "retries_while isRetriableVMGatherExportError vmGatherExportAttempts retry"
    and "VMAfterAll retry parse cfg request g = (err, n, atts)"
  shows "0 < n \<and> n \<le> 3 \<and> (\<forall>i < n - 1. fst (vmAfterAll parse cfg (request i) (g i)) = Some ExportFailed) \<and>
    err = fst (vmAfterAll parse cfg (request (n - 1)) (g (n - 1))) \<and>
    atts = snd (vmAfterAll parse cfg (request (n - 1)) (g (n - 1))) \<and>
    (case err of None \<Rightarrow> \<exists>content. atts = [(''vmexporter-report.zip'', content)] | Some _ \<Rightarrow> atts = [])"
proof -
  let ?at = "\<lambda>i. vmAfterAll parse cfg (request i) (g i)"
  obtain e m where run: "retry (\<lambda>i. fst (?at i)) = (e, m)" by (cases "retry (\<lambda>i. fst (?at i))")
  from assms(2) have "(e, m, concat (map (\<lambda>i. snd (?at i)) [0..<m])) = (err, n, atts)"
    unfolding VMAfterAll_def run prod.case .
  then have em: "e = err" "m = n" and atts: "atts = concat (map (\<lambda>i. snd (?at i)) [0..<n])"
    unfolding prod.inject by blast+
  note n = retries_whileD [OF assms(1) run, unfolded em]
  have failed: "fst (?at i) = Some ExportFailed" if "i < n - 1" for i
    using n(4) that unfolding retriable_iff by blast
  have "snd (?at i) = []" if "i < n - 1" for i
  proof -
    have "?at i = (Some ExportFailed, snd (?at i))" using failed [OF that] by (simp only: prod_eq_iff fst_conv snd_conv simp_thms)
    from vmAfterAll_attachments [OF this] show ?thesis by (simp only: option.case)
  qed
  then have "concat (map (\<lambda>i. snd (?at i)) [0..<n - 1]) = []" by simp
  moreover have "[0..<n] = [0..<n - 1] @ [n - 1]"
    using n(1) by (metis Suc_diff_1 le0 upt_Suc_append)
  ultimately have a: "atts = snd (?at (n - 1))" by (simp add: atts)
  have "case err of None \<Rightarrow> \<exists>content. atts = [(''vmexporter-report.zip'', content)] | Some _ \<Rightarrow> atts = []"
    by (rule vmAfterAll_attachments [of parse cfg "request (n - 1)" "g (n - 1)"]) (simp only: a n(3) prod.collapse)
  moreover have "n \<le> 3" using n(2) by (simp only: vmGatherExportAttempts_def)
  ultimately show ?thesis using n(1,3) failed a by blast
qed

text \<open>
  Gathering metrics makes at most three attempts, repeating only while the export job itself
  failed, and attaches the archive of at most one of them: exactly when the last attempt succeeded
  there is one attachment, the archive downloaded in that attempt, and otherwise there is none.
\<close>

theorem VMAfterAll_attaches_once:
  assumes "retries_while isRetriableVMGatherExportError vmGatherExportAttempts retry"
    and "VMAfterAll retry parse cfg request g = (err, n, atts)"
  shows "0 < n \<and> n \<le> 3 \<and> (\<forall>i < n - 1. fst (vmAfterAll parse cfg (request i) (g i)) = Some ExportFailed) \<and>
    err = fst (vmAfterAll parse cfg (request (n - 1)) (g (n - 1))) \<and>
    atts = snd (vmAfterAll parse cfg (request (n - 1)) (g (n - 1))) \<and>
    (case err of None \<Rightarrow> \<exists>content. atts = [(''vmexporter-report.zip'', content)] | Some _ \<Rightarrow> atts = [])"
  by (rule VMAfterAll_last [OF assms])

definition demo_gatherer :: "nat \<Rightarrow> gatherer" where
  "demo_gatherer i = \<lparr>ga_start = (\<lambda>_. Reply 200 (Inr ''start'')),
     ga_status = (\<lambda>_. [NoReply ''refused'', Reply 200 (Inr (if i = 0 then ''failed'' else ''completed''))]),
     ga_download = (\<lambda>_. Reply 200 (Inr ''zip''))\<rparr>"

definition demo_parse :: "gostring \<Rightarrow> json result" where
  "demo_parse b = Inr (JObj [(''job_id'', JStr ''7''), (''state'', JStr b),
     (''result'', JObj [(''archive_path'', JStr ''/a'')])])"

definition demo_request :: RequestBody where
  "demo_request = export_request (\<lambda>_. ''now'') None 0 [''vm'', ''k6'']"

lemma demo_gather_runs:
  "vmAfterAll demo_parse cfg rb (demo_gatherer i) =
     (if i = 0 then (Some ExportFailed, []) else (None, [(''vmexporter-report.zip'', ''zip'')]))"
  by (simp add: vmAfterAll_def download_archive_def demo_gatherer_def export_started_def doVMGatherRequest_def decode_body_def demo_parse_def
      export_status_def)

theorem VMAfterAll_attaches_once_witness:
  "VMAfterAll (plain_retrier isRetriableVMGatherExportError 3) demo_parse (init_config (\<lambda>_. [])) (\<lambda>_. demo_request) demo_gatherer =
     (None, 2, [(''vmexporter-report.zip'', ''zip'')]) \<and>
   fst (vmAfterAll demo_parse (init_config (\<lambda>_. [])) demo_request (demo_gatherer 0)) = Some ExportFailed"
proof -
  have r: "retries_while isRetriableVMGatherExportError vmGatherExportAttempts (plain_retrier isRetriableVMGatherExportError 3)"
    unfolding vmGatherExportAttempts_def by (rule plain_retrier_retries) simp
  have run: "VMAfterAll (plain_retrier isRetriableVMGatherExportError 3) demo_parse (init_config (\<lambda>_. [])) (\<lambda>_. demo_request) demo_gatherer =
      (None, 2, [(''vmexporter-report.zip'', ''zip'')])"
    by (simp add: VMAfterAll_def plain_retrier_def upt_rec demo_gather_runs)
  have "fst (vmAfterAll demo_parse (init_config (\<lambda>_. [])) demo_request (demo_gatherer 0)) = Some ExportFailed"
    using VMAfterAll_attaches_once [OF r run] by simp
  with run show ?thesis by blast
qed


definition demo_secret_config :: config where
  "demo_secret_config = SetLicenseFile ''/key'' (init_config (\<lambda>_. []))"

lemma demo_secret_lines:
  "secret_lines (\<lambda>_. SecretData [''a '', ''b'']) (secret_refs demo_secret_config [''vm'']) = [''a'', ''b'']"
proof -
  have "secret_refs demo_secret_config [''vm''] = [\<lparr>sr_Name = LicenseSecretName, sr_Namespace = ''vm''\<rparr>]"
    by (simp add: secret_refs_def demo_secret_config_def LicenseFile_def SetLicenseFile_def MDXPasswordFile_def
      cell_Get_def Getenv_def cell_Set_def init_config_def)
  then show ?thesis by (simp add: secret_lines_def TrimSpace_def trim_chars_def is_space_def)
qed


text \<open>
  When no temporary file can be created, crust-gather still runs, and without any secrets to
  redact: whatever secrets exist, its arguments are those of a cluster without secrets.
\<close>

theorem unredacted_without_temp_file:
  assumes "os_create os fs = Inl err"
  shows "fst (K8sAfterAll cfg hash nss lookup os archive fs) ! 0 =
    CrustGather (crust_gather_args (CrustGatherLocation cfg @ ''/'' @ hash) []) None"
  using assms by (simp add: K8sAfterAll_def collectSecretsFile_def Let_def)

theorem unredacted_without_temp_file_witness:
  "fst (K8sAfterAll demo_secret_config ''hash'' [''vm''] (\<lambda>_. SecretData [''a'']) (plain_dir\<lparr>os_create := \<lambda>_. Inl ''full''\<rparr>)
      (\<lambda>_. Inr ''gz'') (\<lambda>_. None)) ! 0 =
    CrustGather (crust_gather_args (CrustGatherLocation demo_secret_config @ ''/'' @ ''hash'') []) None"
  by (rule unredacted_without_temp_file [of _ _ "''full''"]) simp

text \<open>
  What is relied on of the archiver: when every operation succeeded and the header's size is that of the
  content, reading the archive (\<open>untar\<close>) gives the one file with its name and content.
\<close>

definition archive_contract :: "'w archive_writer \<Rightarrow> (gostring \<Rightarrow> (gostring \<times> gostring) list option) \<Rightarrow> bool" where
  "archive_contract aw untar \<longleftrightarrow> (\<forall>hdr content w1 w2 w3 bytes.
     aw_WriteHeader aw hdr (aw_new aw) = Inr w1 \<longrightarrow> aw_Write aw content w1 = Inr w2 \<longrightarrow>
     aw_CloseTar aw w2 = Inr w3 \<longrightarrow> aw_CloseGzip aw w3 = Inr bytes \<longrightarrow> unat (th_Size hdr) = length content \<longrightarrow>
     untar bytes = Some [(th_Name hdr, content)])"

lemma wrap_error_Inr: "wrap_error what r = Inr x \<longleftrightarrow> r = Inr x"
  by (simp add: wrap_error_def split: sum.splits)

lemma buildTarGz_readable:
  assumes "archive_contract aw untar" "length content < 2 ^ 63" "buildTarGz aw now filename content = Inr bytes"
  shows "untar bytes = Some [(filename, content)]"
proof -
  let ?hdr = "\<lparr>th_Name = filename, th_Mode = 384, th_Size = word_of_nat (length content), th_ModTime = now\<rparr>"
  from assms(3) obtain w1 w2 w3 where
    "aw_WriteHeader aw ?hdr (aw_new aw) = Inr w1" "aw_Write aw content w1 = Inr w2"
    "aw_CloseTar aw w2 = Inr w3" "aw_CloseGzip aw w3 = Inr bytes"
    by (auto simp: buildTarGz_def Let_def bind_result_def wrap_error_Inr split: sum.splits)
  moreover have "unat (th_Size ?hdr) = length content"
    using assms(2) by (simp add: unsigned_of_nat take_bit_nat_eq_self)
  ultimately have "untar bytes = Some [(th_Name ?hdr, content)]"
    using assms(1) unfolding archive_contract_def by blast
  then show ?thesis by simp
qed

text \<open>
  C23: The logs attached to the report are the logs the database returned: an archive is attached only when
  the query was answered with status 200 and the whole body could be read, and unpacking the archive
  gives one file with exactly that body.
\<close>

theorem attached_logs_readable:
  assumes "archive_contract aw untar"
    and "\<forall>body. get (logs_url fmt_time cfg startTime endTime) = Reply 200 (Inr body) \<longrightarrow> length body < 2 ^ 63"
    and "VLAfterAll fmt_time (buildTarGz aw now) cfg get startTime endTime = atts" and "atts \<noteq> []"
  shows "\<exists>body archive. get (logs_url fmt_time cfg startTime endTime) = Reply 200 (Inr body) \<and>
    atts = [(''victoria-logs.tar.gz'', archive)] \<and> untar archive = Some [(''victoria-logs.jsonl'', body)]"
  using assms(2-) buildTarGz_readable [OF assms(1)]
  by (auto simp: VLAfterAll_def split: http_reply.splits sum.splits if_splits)

text \<open>An archiver for the witness: the name up to a zero byte, then the content.\<close>

definition plain_archiver :: "(gostring \<times> gostring) archive_writer" where
  "plain_archiver = \<lparr>aw_new = ([], []),
     aw_WriteHeader = (\<lambda>hdr w. if CHR 0x00 \<in> set (th_Name hdr) then Inl ''name'' else Inr (th_Name hdr, [])),
     aw_Write = (\<lambda>content (name, _). Inr (name, content)), aw_CloseTar = Inr,
     aw_CloseGzip = (\<lambda>(name, content). Inr (name @ [CHR 0x00] @ content))\<rparr>"

definition plain_untar :: "gostring \<Rightarrow> (gostring \<times> gostring) list option" where
  "plain_untar bytes = Some [(takeWhile (\<lambda>c. c \<noteq> CHR 0x00) bytes, drop 1 (dropWhile (\<lambda>c. c \<noteq> CHR 0x00) bytes))]"

lemma plain_archive_contract: "archive_contract plain_archiver plain_untar"
proof -
  have "takeWhile (\<lambda>c. c \<noteq> CHR 0x00) (n @ CHR 0x00 # c) = n \<and> dropWhile (\<lambda>c. c \<noteq> CHR 0x00) (n @ CHR 0x00 # c) = CHR 0x00 # c"
    if "CHR 0x00 \<notin> set n" for n c :: gostring
    using that by (induction n) auto
  then show ?thesis
    by (auto simp: archive_contract_def plain_archiver_def plain_untar_def split: if_splits)
qed

theorem attached_logs_readable_witness:
  "\<exists>archive. VLAfterAll (\<lambda>_. ''t'') (buildTarGz plain_archiver 0) demo_secret_config (\<lambda>_. Reply 200 (Inr ''{}'')) None 0 =
      [(''victoria-logs.tar.gz'', archive)] \<and> plain_untar archive = Some [(''victoria-logs.jsonl'', ''{}'')]"
proof -
  let ?run = "VLAfterAll (\<lambda>_. ''t'') (buildTarGz plain_archiver 0) demo_secret_config (\<lambda>_. Reply 200 (Inr ''{}'')) None 0"
  have "?run \<noteq> []"
    by (simp add: VLAfterAll_def buildTarGz_def plain_archiver_def wrap_error_def)
  from attached_logs_readable [OF plain_archive_contract _ refl this] show ?thesis by simp
qed

end
