(* ===== verification/JsonPatch.thy ===== *)
theory JsonPatch
  imports Manifests
begin

text \<open>
  What a JSON patch means: the operations \<open>add\<close>, \<open>replace\<close> and \<open>remove\<close> of RFC 6902 on \<open>json\<close>
  documents, with the pointers of RFC 6901. This is the documented behaviour of the patch library,
  stated as a reference; \<open>follows_rfc\<close> is the hypothesis that a set of tools behaves so.
\<close>

subsection \<open>Pointers\<close>

definition unescape_token :: "gostring \<Rightarrow> gostring" where
  "unescape_token t = ReplaceAll (ReplaceAll t ''~1'' ''/'') ''~0'' ''~''"

definition pointer :: "gostring \<Rightarrow> gostring list option" where
  "pointer path =
     (case path of [] \<Rightarrow> Some []
      | c # cs \<Rightarrow> if c = CHR ''/'' then Some (map unescape_token (SplitC (CHR ''/'') cs)) else None)"

definition plain_token :: "gostring \<Rightarrow> bool" where
  "plain_token t \<longleftrightarrow> CHR ''/'' \<notin> set t \<and> CHR ''~'' \<notin> set t"

lemma unescape_plain: "CHR ''~'' \<notin> set t \<Longrightarrow> unescape_token t = t"
  by (simp add: unescape_token_def ReplaceAll_absent)

lemma pointer_Join:
  assumes "ts \<noteq> []" and "list_all plain_token ts"
  shows "pointer (CHR ''/'' # Join ''/'' ts) = Some ts"
proof -
  have "SplitC (CHR ''/'') (Join ''/'' ts) = ts"
    using assms by (intro SplitC_Join) (auto simp: list_all_iff plain_token_def)
  moreover have "map unescape_token ts = ts"
    using assms(2) by (auto simp: list_all_iff plain_token_def unescape_plain intro!: map_idI)
  ultimately show ?thesis by (simp add: pointer_def)
qed

text \<open>An array index: decimal digits without a leading zero.\<close>

definition array_index :: "gostring \<Rightarrow> nat option" where
  "array_index t =
     (if t \<noteq> [] \<and> list_all is_digit t \<and> (hd t \<noteq> CHR ''0'' \<or> t = ''0'') then Some (str_val 0 t) else None)"

subsection \<open>Operations\<close>

text \<open>\<open>edit f path doc\<close> applies \<open>f token container\<close> to the container the last token of the path is in.\<close>

fun edit :: "(gostring \<Rightarrow> json \<Rightarrow> json option) \<Rightarrow> gostring list \<Rightarrow> json \<Rightarrow> json option" where
  "edit f [] doc = None"
| "edit f [k] doc = f k doc"
| "edit f (k # k' # ks) (JObj fs) =
     (case map_of fs k of None \<Rightarrow> None
      | Some w \<Rightarrow> map_option (\<lambda>w'. JObj (AList.update k w' fs)) (edit f (k' # ks) w))"
| "edit f (k # k' # ks) (JArr xs) =
     (case array_index k of
        Some i \<Rightarrow> if i < length xs then map_option (\<lambda>w'. JArr (xs[i := w'])) (edit f (k' # ks) (xs ! i)) else None
      | None \<Rightarrow> None)"
| "edit f (k # k' # ks) doc = None"

fun add_in :: "json \<Rightarrow> gostring \<Rightarrow> json \<Rightarrow> json option" where
  "add_in v k (JObj fs) = Some (JObj (AList.update k v fs))"
| "add_in v k (JArr xs) =
     (if k = ''-'' then Some (JArr (xs @ [v]))
      else case array_index k of
        Some i \<Rightarrow> if i \<le> length xs then Some (JArr (take i xs @ v # drop i xs)) else None
      | None \<Rightarrow> None)"
| "add_in v k doc = None"

fun replace_in :: "json \<Rightarrow> gostring \<Rightarrow> json \<Rightarrow> json option" where
  "replace_in v k (JObj fs) = (if map_of fs k = None then None else Some (JObj (AList.update k v fs)))"
| "replace_in v k (JArr xs) =
     (case array_index k of Some i \<Rightarrow> if i < length xs then Some (JArr (xs[i := v])) else None | None \<Rightarrow> None)"
| "replace_in v k doc = None"

fun remove_in :: "gostring \<Rightarrow> json \<Rightarrow> json option" where
  "remove_in k (JObj fs) = (if map_of fs k = None then None else Some (JObj (AList.delete k fs)))"
| "remove_in k (JArr xs) =
     (case array_index k of Some i \<Rightarrow> if i < length xs then Some (JArr (take i xs @ drop (Suc i) xs)) else None | None \<Rightarrow> None)"
| "remove_in k doc = None"

definition rfc_op :: "PatchOp \<Rightarrow> json \<Rightarrow> json option" where
  "rfc_op p doc =
     (case pointer (po_Path p) of
        None \<Rightarrow> None
      | Some ts \<Rightarrow>
          if ts = [] then (if po_Op p = ''add'' \<or> po_Op p = ''replace'' then Some (po_Value p) else None)
          else if po_Op p = ''add'' then edit (add_in (po_Value p)) ts doc
          else if po_Op p = ''replace'' then edit (replace_in (po_Value p)) ts doc
          else if po_Op p = ''remove'' then edit remove_in ts doc
          else None)"

fun rfc_patch :: "PatchOp list \<Rightarrow> json \<Rightarrow> json option" where
  "rfc_patch [] doc = Some doc"
| "rfc_patch (p # ps) doc = Option.bind (rfc_op p doc) (rfc_patch ps)"

lemma rfc_patch_append: "rfc_patch (ps @ qs) doc = Option.bind (rfc_patch ps doc) (rfc_patch qs)"
  by (induction ps arbitrary: doc) (auto split: Option.bind_splits)

text \<open>The tools decode every list of operations and apply it as the RFC says, or fail.\<close>

definition follows_rfc :: "'p tools \<Rightarrow> bool" where
  "follows_rfc ts \<longleftrightarrow> (\<forall>ops. \<exists>p. tl_decode ts ops = Inr p \<and>
     (\<forall>doc. case rfc_patch ops doc of Some doc' \<Rightarrow> tl_apply ts p doc = Inr doc' | None \<Rightarrow> \<exists>e. tl_apply ts p doc = Inl e))"

definition rfc_tools :: "PatchOp list tools" where
  "rfc_tools = \<lparr>tl_decode = Inr,
     tl_apply = (\<lambda>ops doc. case rfc_patch ops doc of Some d \<Rightarrow> Inr d | None \<Rightarrow> Inl ''patch failed''),
     tl_yaml = (\<lambda>_. Inl ''no yaml''), tl_to_yaml = (\<lambda>_. Inl ''no yaml''), tl_secret = (\<lambda>_. Inl ''no yaml'')\<rparr>"

lemma rfc_tools_apply:
  "tl_apply rfc_tools ops doc = (case rfc_patch ops doc of Some d \<Rightarrow> Inr d | None \<Rightarrow> Inl ''patch failed'')"
  by (simp only: rfc_tools_def tools.simps)

lemma rfc_tools_decode: "tl_decode rfc_tools ops = Inr ops"
  by (simp only: rfc_tools_def tools.simps)

lemma rfc_tools_follow: "follows_rfc rfc_tools"
  unfolding follows_rfc_def
proof (intro allI exI conjI)
  fix ops :: "PatchOp list" and doc
  show "tl_decode rfc_tools ops = Inr ops" by (rule rfc_tools_decode)
  show "case rfc_patch ops doc of Some doc' \<Rightarrow> tl_apply rfc_tools ops doc = Inr doc'
        | None \<Rightarrow> \<exists>e. tl_apply rfc_tools ops doc = Inl e"
    by (cases "rfc_patch ops doc") (simp_all add: rfc_tools_apply)
qed

lemma follows_rfcD:
  assumes "follows_rfc ts" and "rfc_patch ops doc = Some doc'"
  shows "\<exists>p. CreateJsonPatch ts ops = Inr p \<and> tl_apply ts p doc = Inr doc'"
proof -
  from assms(1) obtain p where p: "tl_decode ts ops = Inr p"
    and a: "\<forall>doc. case rfc_patch ops doc of Some doc' \<Rightarrow> tl_apply ts p doc = Inr doc' | None \<Rightarrow> \<exists>e. tl_apply ts p doc = Inl e"
    unfolding follows_rfc_def by blast
  from a have "case rfc_patch ops doc of Some d \<Rightarrow> tl_apply ts p doc = Inr d | None \<Rightarrow> \<exists>e. tl_apply ts p doc = Inl e"
    by (rule spec)
  then have "tl_apply ts p doc = Inr doc'" unfolding assms(2) by (simp only: option.case)
  moreover have "CreateJsonPatch ts ops = Inr p" unfolding CreateJsonPatch_def by (rule p)
  ultimately show ?thesis by blast
qed

end
