(* ===== verification/RemoteWrite.thy ===== *)
theory RemoteWrite
  imports Retry
begin

text \<open>
  Remote write (\<open>pkg/remotewrite/utils.go\<close>): generated series and the retried POST request. The
  protobuf and snappy encoders and the transport are parameters: \<open>call i\<close> is what attempt \<open>i\<close> ends
  in, \<open>ended i\<close> says that the context ended during the pause before it.
\<close>

subsection \<open>Generated series\<close>

record wlabel =
  wl_Name :: gostring
  wl_Value :: gostring

record 'f sample =
  sa_Value :: 'f
  sa_Timestamp :: int

record 'f series =
  se_Labels :: "wlabel list"
  se_Samples :: "'f sample list"

definition gen_series :: "(nat \<Rightarrow> int) \<Rightarrow> gostring \<Rightarrow> 'f \<Rightarrow> nat \<Rightarrow> 'f series" where
  "gen_series now namePrefix value i =
     \<lparr>se_Labels =
        [\<lparr>wl_Name = ''__name__'', wl_Value = namePrefix @ ''_'' @ int_str (int i)\<rparr>,
         \<lparr>wl_Name = ''foo'', wl_Value = ''fooVal_'' @ int_str (int i)\<rparr>,
         \<lparr>wl_Name = ''bar'', wl_Value = ''barVal_'' @ int_str (int i)\<rparr>,
         \<lparr>wl_Name = ''baz'', wl_Value = ''bazVal_'' @ int_str (int i)\<rparr>],
      se_Samples = [\<lparr>sa_Value = value, sa_Timestamp = now i\<rparr>]\<rparr>"

definition GenTimeSeries :: "(nat \<Rightarrow> int) \<Rightarrow> gostring \<Rightarrow> int \<Rightarrow> 'f \<Rightarrow> 'f series list" where
  "GenTimeSeries now namePrefix num value = map (gen_series now namePrefix value) [0..<nat num]"

definition GenPayload ::
  "('f series list \<Rightarrow> gostring) \<Rightarrow> (gostring \<Rightarrow> gostring) \<Rightarrow> 'f series list \<Rightarrow> gostring" where
  "GenPayload marshal snappy ts = snappy (marshal ts)"

text \<open>The identity of a series is its set of labels.\<close>

definition series_id :: "'f series \<Rightarrow> (gostring \<times> gostring) set" where
  "series_id s = (\<lambda>l. (wl_Name l, wl_Value l)) ` set (se_Labels s)"

lemma gen_series_id:
  "series_id (gen_series now p v i) =
     {(''__name__'', p @ ''_'' @ int_str (int i)), (''foo'', ''fooVal_'' @ int_str (int i)),
      (''bar'', ''barVal_'' @ int_str (int i)), (''baz'', ''bazVal_'' @ int_str (int i))}"
  by (simp add: series_id_def gen_series_def)

text \<open>
  \<open>GenTimeSeries\<close> gives as many series as asked for (none for a negative size), no two of
  them the same series, each with one sample of the given value.
\<close>

theorem GenTimeSeries_distinct:
  "length (GenTimeSeries now p num v) = nat num \<and>
   distinct (map series_id (GenTimeSeries now p num v)) \<and>
   list_all (\<lambda>s. map sa_Value (se_Samples s) = [v]) (GenTimeSeries now p num v)"
proof -
  have inj: "inj_on (\<lambda>i. series_id (gen_series now p v i)) A" for A
  proof (rule inj_onI)
    fix i j assume eq: "series_id (gen_series now p v i) = series_id (gen_series now p v j)"
    have "(''foo'', ''fooVal_'' @ int_str (int i)) \<in> series_id (gen_series now p v i)"
      unfolding gen_series_id by simp
    then have "(''foo'', ''fooVal_'' @ int_str (int i)) \<in> series_id (gen_series now p v j)"
      by (simp only: eq)
    then show "i = j" by (auto simp: gen_series_id gostr)
  qed
  have "map series_id (GenTimeSeries now p num v) =
      map (\<lambda>i. series_id (gen_series now p v i)) [0..<nat num]"
    by (simp add: GenTimeSeries_def)
  then have "distinct (map series_id (GenTimeSeries now p num v))" by (simp add: distinct_map inj)
  then show ?thesis by (simp add: GenTimeSeries_def list_all_iff gen_series_def)
qed

subsection \<open>Sending\<close>

datatype outcome = BuildFailed gostring | DoFailed gostring | Response int gostring

definition StatusNoContent :: int where "StatusNoContent = 204"
definition remoteWriteAttempts :: nat where "remoteWriteAttempts = 5"

fun ends_write :: "outcome \<Rightarrow> bool" where
  "ends_write (BuildFailed _) = True"
| "ends_write (DoFailed _) = False"
| "ends_write (Response code _) = (code = StatusNoContent)"

fun write_error_of :: "outcome \<Rightarrow> gostring option" where
  "write_error_of (BuildFailed e) = Some (''failed to build remote write request: '' @ e)"
| "write_error_of (DoFailed e) = Some e"
| "write_error_of (Response code status) =
     (if code = StatusNoContent then None else Some (''remote write returned '' @ status))"

definition remote_write_headers :: "(gostring \<times> gostring) list" where
  "remote_write_headers =
     [(''Content-Type'', ''application/x-protobuf''), (''Connection'', ''keep-alive''),
      (''User-Agent'', ''aUserAgent''), (''Content-Encoding'', ''snappy''),
      (''X-Prometheus-Remote-Write-Version'', ''0.1.0'')]"

function RemoteWrite_loop ::
  "gostring option \<Rightarrow> (nat \<Rightarrow> outcome) \<Rightarrow> (nat \<Rightarrow> bool) \<Rightarrow> nat \<Rightarrow> outcome option \<Rightarrow> gostring option \<times> nat" where
  "RemoteWrite_loop ctx_err call ended i prev =
     (if remoteWriteAttempts \<le> i then (Option.bind prev write_error_of, i)
      else if 0 < i \<and> ended i then (ctx_err, i)
      else if ends_write (call i) then (write_error_of (call i), Suc i)
      else RemoteWrite_loop ctx_err call ended (Suc i) (Some (call i)))"
  by pat_completeness auto
termination
  by (relation "measure (\<lambda>(e, call, ended, i, prev). remoteWriteAttempts - i)") auto

declare RemoteWrite_loop.simps [simp del]

definition RemoteWrite :: "gostring option \<Rightarrow> (nat \<Rightarrow> outcome) \<Rightarrow> (nat \<Rightarrow> bool) \<Rightarrow> gostring option \<times> nat" where
  "RemoteWrite ctx_err call ended = RemoteWrite_loop ctx_err call ended 0 None"

lemma RemoteWrite_laws:
  "remoteWriteAttempts \<le> i \<Longrightarrow> RemoteWrite_loop e call ended i prev = (Option.bind prev write_error_of, i)"
  "i < remoteWriteAttempts \<Longrightarrow> 0 < i \<Longrightarrow> ended i \<Longrightarrow> RemoteWrite_loop e call ended i prev = (e, i)"
  "i < remoteWriteAttempts \<Longrightarrow> i = 0 \<or> \<not> ended i \<Longrightarrow> ends_write (call i) \<Longrightarrow>
     RemoteWrite_loop e call ended i prev = (write_error_of (call i), Suc i)"
  "i < remoteWriteAttempts \<Longrightarrow> i = 0 \<or> \<not> ended i \<Longrightarrow> \<not> ends_write (call i) \<Longrightarrow>
     RemoteWrite_loop e call ended i prev = RemoteWrite_loop e call ended (Suc i) (Some (call i))"
  by (subst RemoteWrite_loop.simps, force)+

interpretation rw: cancellable_loop "RemoteWrite_loop ctx_err" remoteWriteAttempts ends_write write_error_of
  "\<lambda>prev. Option.bind prev write_error_of" ctx_err
  for ctx_err :: "gostring option"
  by unfold_locales (simp_all add: RemoteWrite_laws)

lemma write_error_of_None: "write_error_of r = None \<longleftrightarrow> (\<exists>status. r = Response StatusNoContent status)"
  by (cases r) auto

text \<open>
  A remote write reports success exactly when its last attempt was answered with 204; it makes
  one to five attempts and never another one after a 204. (The context error is not nil, as Go
  documents of an ended context.)
\<close>

theorem RemoteWrite_contract:
  assumes "ctx_err \<noteq> None"
  shows "let (err, n) = RemoteWrite ctx_err call ended in
    1 \<le> n \<and> n \<le> 5 \<and> list_all (\<lambda>i. \<not> ends_write (call i)) [0..<n - 1] \<and>
    ((err = None) = (\<exists>status. call (n - 1) = Response StatusNoContent status))"
proof -
  from rw.contract [of ctx_err call ended] obtain err n where
    run: "RemoteWrite ctx_err call ended = (err, n)" and m: "rw.meets ctx_err call ended err n"
    by (auto simp: RemoteWrite_def)
  note m = m [unfolded rw.meets_def, unfolded remoteWriteAttempts_def]
  from m have n: "1 \<le> n" "n \<le> 5" and early: "list_all (\<lambda>i. \<not> ends_write (call i)) [0..<n - 1]"
    by (auto simp: list_all_iff)
  have l: "rw.last_of call n = Some (call (n - 1))" unfolding rw.last_of_def using n by simp
  have no: "write_error_of r \<noteq> None" if "\<not> ends_write r" for r
    using that by (cases r) auto
  have "(err = None) = (write_error_of (call (n - 1)) = None)"
    using m no [of "call (n - 1)"] assms n(1) by (auto simp: l)
  with n early run show ?thesis by (simp add: write_error_of_None)
qed

theorem RemoteWrite_contract_witness:
  "let (err, n) = RemoteWrite (Some ''context canceled'')
       (\<lambda>i. if i = 1 then Response 204 ''204'' else DoFailed ''eof'') (\<lambda>_. False) in
     1 \<le> n \<and> n \<le> 5 \<and> (err = None) = (\<exists>status. (if n - 1 = 1 then Response 204 ''204'' else DoFailed ''eof'') =
       Response StatusNoContent status)"
  using RemoteWrite_contract [of "Some ''context canceled''"
      "\<lambda>i. if i = 1 then Response 204 ''204'' else DoFailed ''eof''" "\<lambda>_. False"]
  by (simp add: split_beta Let_def)

end
