(* ===== verification/Clients.thy ===== *)
theory Clients
  imports Effects Config
begin

text \<open>
  Clients and pauses (\<open>GetDynamicClient\<close> of \<open>pkg/helpers/kubernetes.go\<close>, \<open>GetVMClient\<close> of
  \<open>pkg/install/vmcluster.go\<close>, the HTTP clients and sleeps of \<open>pkg/helpers/common.go\<close>). Finding the path of a
  kubeconfig, loading it and constructing a client from it are parameters; every failure, a panic of the
  construction included, ends the test.
\<close>

definition rest_config ::
  "(KubectlOptions \<Rightarrow> gostring result) \<Rightarrow> (gostring \<Rightarrow> 'r result) \<Rightarrow> KubectlOptions \<Rightarrow> 'r result" where
  "rest_config config_path load ko = bind_result (config_path ko) load"

definition GetDynamicClient ::
  "(KubectlOptions \<Rightarrow> gostring result) \<Rightarrow> (gostring \<Rightarrow> 'r result) \<Rightarrow> ('r \<Rightarrow> 'c result) \<Rightarrow> KubectlOptions \<Rightarrow> 'c result" where
  "GetDynamicClient config_path load new ko = bind_result (rest_config config_path load ko) new"

definition GetVMClient ::
  "(KubectlOptions \<Rightarrow> gostring result) \<Rightarrow> (gostring \<Rightarrow> 'r result) \<Rightarrow> ('r \<Rightarrow> 'c result) \<Rightarrow> KubectlOptions \<Rightarrow> 'c result" where
  "GetVMClient config_path load new ko = bind_result (rest_config config_path load ko) new"

text \<open>Two clients for the same options talk to the same cluster: they are made from one configuration.\<close>

lemma clients_share_config:
  assumes "GetVMClient config_path load new_vm ko = Inr c" "GetDynamicClient config_path load new_dyn ko = Inr d"
  shows "\<exists>path cfg. config_path ko = Inr path \<and> load path = Inr cfg \<and> new_vm cfg = Inr c \<and> new_dyn cfg = Inr d"
  using assms by (auto simp: GetVMClient_def GetDynamicClient_def rest_config_def bind_result_def split: sum.splits)

record http_client =
  hc_Timeout :: duration

definition NewHTTPClientWithTimeout :: "duration \<Rightarrow> http_client" where
  "NewHTTPClientWithTimeout timeout = \<lparr>hc_Timeout = timeout\<rparr>"

definition NewHTTPClient :: http_client where
  "NewHTTPClient = NewHTTPClientWithTimeout HTTPClientTimeout"

text \<open>The pauses, as the instant at which they end.\<close>

definition WaitForDataPropagation :: "int \<Rightarrow> int" where
  "WaitForDataPropagation now = now + DataPropagationDelay"

definition WaitForAggregation :: "int \<Rightarrow> int" where
  "WaitForAggregation now = now + AggregationWaitTime"

end
