(* ===== verification/Builders.thy ===== *)
theory Builders
  imports JsonPatch RemoteWrite Clients
begin

text \<open>
  The fluent builders of \<open>pkg/tests/builders.go\<close>: ConfigMaps and secrets, JSON patches, Prometheus and
  remote-write clients, time series, relabeling and stream-aggregation rules. A builder is a record,
  its methods are functions on it; a method that panics gives \<open>Inl\<close>. Converting a document to YAML
  is third-party code.
\<close>

subsection \<open>Builders that append\<close>

text \<open>What the rule and patch builders have in common: a method appends one item and keeps the others.\<close>

locale appending =
  fixes items :: "'b \<Rightarrow> 'i list"
    and add :: "'i \<Rightarrow> 'b \<Rightarrow> 'b"
  assumes items_add: "items (add i b) = items b @ [i]"
begin

lemma items_fold: "items (fold add xs b) = items b @ xs"
  by (induction xs arbitrary: b) (simp_all add: items_add)

lemma add_keeps_prefix: "prefix (items b) (items (add i b))"
  by (simp add: items_add)

end

subsection \<open>ConfigMaps and secrets\<close>

record ConfigMapBuilder =
  cm_name :: gostring
  cm_data :: "(gostring \<times> gostring) list"

definition NewConfigMapBuilder :: "gostring \<Rightarrow> ConfigMapBuilder" where
  "NewConfigMapBuilder name = \<lparr>cm_name = name, cm_data = []\<rparr>"

definition WithRelabelConfig :: "gostring \<Rightarrow> ConfigMapBuilder \<Rightarrow> ConfigMapBuilder" where
  "WithRelabelConfig conf b = b\<lparr>cm_data := AList.update ''relabel.yml'' conf (cm_data b)\<rparr>"

definition WithStreamAggrConfig :: "gostring \<Rightarrow> ConfigMapBuilder \<Rightarrow> ConfigMapBuilder" where
  "WithStreamAggrConfig conf b = b\<lparr>cm_data := AList.update ''stream-aggr.yml'' conf (cm_data b)\<rparr>"

definition string_map_json :: "(gostring \<times> gostring) list \<Rightarrow> json" where
  "string_map_json m = JObj (map (\<lambda>(k, v). (k, JStr v)) m)"

definition configmap_build :: "ConfigMapBuilder \<Rightarrow> json" where
  "configmap_build b = JObj
     ([(''apiVersion'', JStr ''v1''), (''kind'', JStr ''ConfigMap''), (''metadata'', JObj [(''name'', JStr (cm_name b))])] @
      (if cm_data b = [] then [] else [(''data'', string_map_json (cm_data b))]))"

definition apply_built :: "'p tools \<Rightarrow> gostring \<Rightarrow> KubectlOptions \<Rightarrow> json \<Rightarrow> gostring option prog" where
  "apply_built ts kind ko doc =
     (case tl_to_yaml ts doc of
        Inl err \<Rightarrow> ret (Some (''failed to marshal '' @ kind @ '': '' @ err))
      | Inr yaml \<Rightarrow> chain (run_musts [ApplyString ko (ManifestText yaml)]) (\<lambda>_. ret None))"

definition configmap_Apply :: "'p tools \<Rightarrow> KubectlOptions \<Rightarrow> ConfigMapBuilder \<Rightarrow> gostring option prog" where
  "configmap_Apply ts ko b = apply_built ts ''ConfigMap'' ko (configmap_build b)"

record SecretBuilder =
  sb_name :: gostring
  sb_stringData :: "(gostring \<times> gostring) list"

definition NewSecretBuilder :: "gostring \<Rightarrow> SecretBuilder" where
  "NewSecretBuilder name = \<lparr>sb_name = name, sb_stringData = []\<rparr>"

definition WithStringData :: "gostring \<Rightarrow> gostring \<Rightarrow> SecretBuilder \<Rightarrow> SecretBuilder" where
  "WithStringData key value b = b\<lparr>sb_stringData := AList.update key value (sb_stringData b)\<rparr>"

definition secret_build :: "SecretBuilder \<Rightarrow> json" where
  "secret_build b = JObj
     ([(''apiVersion'', JStr ''v1''), (''kind'', JStr ''Secret''), (''metadata'', JObj [(''name'', JStr (sb_name b))])] @
      (if sb_stringData b = [] then [] else [(''stringData'', string_map_json (sb_stringData b))]) @
      [(''type'', JStr ''Opaque'')])"

definition secret_Apply :: "'p tools \<Rightarrow> KubectlOptions \<Rightarrow> SecretBuilder \<Rightarrow> gostring option prog" where
  "secret_Apply ts ko b = apply_built ts ''Secret'' ko (secret_build b)"

subsection \<open>JSON patches\<close>

record JSONPatchBuilder =
  jb_operations :: "PatchOp list"
  jb_extraArgsInited :: bool

definition NewJSONPatchBuilder :: JSONPatchBuilder where
  "NewJSONPatchBuilder = \<lparr>jb_operations = [], jb_extraArgsInited = False\<rparr>"

definition append_op :: "PatchOp \<Rightarrow> JSONPatchBuilder \<Rightarrow> JSONPatchBuilder" where
  "append_op p b = b\<lparr>jb_operations := jb_operations b @ [p]\<rparr>"

definition jb_Add :: "gostring \<Rightarrow> json \<Rightarrow> JSONPatchBuilder \<Rightarrow> JSONPatchBuilder" where
  "jb_Add path value = append_op (patch_op ''add'' path value)"

definition jb_Replace :: "gostring \<Rightarrow> json \<Rightarrow> JSONPatchBuilder \<Rightarrow> JSONPatchBuilder" where
  "jb_Replace path value = append_op (patch_op ''replace'' path value)"

text \<open>The value of a \<open>remove\<close> operation is the nil interface.\<close>

definition jb_Remove :: "gostring \<Rightarrow> JSONPatchBuilder \<Rightarrow> JSONPatchBuilder" where
  "jb_Remove path = append_op (patch_op ''remove'' path JNull)"

definition init_extra_args :: "JSONPatchBuilder \<Rightarrow> JSONPatchBuilder" where
  "init_extra_args b =
     (if \<not> jb_extraArgsInited b then jb_Add ''/spec/extraArgs'' (JObj []) (b\<lparr>jb_extraArgsInited := True\<rparr>) else b)"

definition config_path :: "gostring \<Rightarrow> gostring \<Rightarrow> gostring" where
  "config_path cfgMapName configFileName = ''/etc/vm/configs/'' @ cfgMapName @ ''/'' @ configFileName"

definition WithVMSingleConfig :: "gostring \<Rightarrow> gostring \<Rightarrow> gostring \<Rightarrow> JSONPatchBuilder \<Rightarrow> JSONPatchBuilder" where
  "WithVMSingleConfig cfgMapName extraArgKey configFileName b =
     jb_Add ''/spec/configMaps/-'' (JStr cfgMapName)
       (jb_Add ''/spec/configMaps'' (JArr [])
         (jb_Add (''/spec/extraArgs/'' @ extraArgKey) (JStr (config_path cfgMapName configFileName))
           (init_extra_args b)))"

definition WithExtraArg :: "gostring \<Rightarrow> gostring \<Rightarrow> JSONPatchBuilder \<Rightarrow> JSONPatchBuilder" where
  "WithExtraArg key value b = jb_Add (''/spec/extraArgs/'' @ key) (JStr value) (init_extra_args b)"

definition jb_build :: "'p tools \<Rightarrow> JSONPatchBuilder \<Rightarrow> 'p result" where
  "jb_build ts b = CreateJsonPatch ts (jb_operations b)"

definition jb_MustBuild :: "'p tools \<Rightarrow> JSONPatchBuilder \<Rightarrow> 'p result" where
  "jb_MustBuild ts b = (case jb_build ts b of Inl err \<Rightarrow> Inl err | Inr patch \<Rightarrow> Inr patch)"

lemma jb_MustBuild_eq: "jb_MustBuild ts b = CreateJsonPatch ts (jb_operations b)"
  by (simp add: jb_MustBuild_def jb_build_def split: sum.splits)

interpretation patches: appending jb_operations append_op
  by unfold_locales (simp add: append_op_def)

definition ClusterAffinityPatches :: "'p tools \<Rightarrow> gostring \<Rightarrow> json \<Rightarrow> gostring list \<Rightarrow> 'p list result" where
  "ClusterAffinityPatches ts clusterName affinity components =
     fold (\<lambda>component acc. bind_result acc (\<lambda>patches.
         bind_result (jb_MustBuild ts (jb_Add (''/spec/'' @ component @ ''/affinity'') affinity
           (jb_Add ''/metadata/name'' (JStr clusterName) NewJSONPatchBuilder))) (\<lambda>p. Inr (patches @ [p]))))
       components (Inr [])"

subsection \<open>Clients\<close>

text \<open>\<open>'t\<close> are instants; a zero start time is \<open>None\<close>. \<open>new_client\<close> is the API client's constructor.\<close>

record 't PromClientBuilder =
  pb_baseURL :: gostring
  pb_tenantID :: "int option"
  pb_namespace :: gostring
  pb_startTime :: "'t option"
  pb_timeout :: duration

definition NewPromClientBuilder :: "'t PromClientBuilder" where
  "NewPromClientBuilder =
     \<lparr>pb_baseURL = [], pb_tenantID = None, pb_namespace = [], pb_startTime = None, pb_timeout = HTTPClientTimeout\<rparr>"

definition WithBaseURL :: "gostring \<Rightarrow> 't PromClientBuilder \<Rightarrow> 't PromClientBuilder" where
  "WithBaseURL url b = b\<lparr>pb_baseURL := url\<rparr>"
definition WithNamespace :: "gostring \<Rightarrow> 't PromClientBuilder \<Rightarrow> 't PromClientBuilder" where
  "WithNamespace ns b = b\<lparr>pb_namespace := ns\<rparr>"
definition WithTenant :: "int \<Rightarrow> 't PromClientBuilder \<Rightarrow> 't PromClientBuilder" where
  "WithTenant tenantID b = b\<lparr>pb_tenantID := Some tenantID\<rparr>"
definition Multitenant :: "'t PromClientBuilder \<Rightarrow> 't PromClientBuilder" where
  "Multitenant b = b\<lparr>pb_tenantID := None\<rparr>"
definition WithStartTime :: "'t option \<Rightarrow> 't PromClientBuilder \<Rightarrow> 't PromClientBuilder" where
  "WithStartTime t b = b\<lparr>pb_startTime := t\<rparr>"
definition pb_ForVMSingle :: "config \<Rightarrow> gostring \<Rightarrow> 't PromClientBuilder \<Rightarrow> 't PromClientBuilder" where
  "pb_ForVMSingle cfg ns b = b\<lparr>pb_baseURL := VMSinglePrometheusURL ns cfg\<rparr>"

definition client_url :: "config \<Rightarrow> 't PromClientBuilder \<Rightarrow> gostring" where
  "client_url cfg b =
     (if pb_baseURL b = [] \<and> pb_namespace b \<noteq> [] then
        (case pb_tenantID b of
           Some tenant \<Rightarrow> TenantSelectURL (pb_namespace b) tenant cfg
         | None \<Rightarrow> MultitenantSelectURL (pb_namespace b) cfg)
      else pb_baseURL b)"

record ('c, 't) PrometheusClient =
  pc_client :: 'c
  pc_Start :: "'t option"

definition NewPrometheusClient :: "(gostring \<Rightarrow> 'c result) \<Rightarrow> gostring \<Rightarrow> ('c, 't) PrometheusClient result" where
  "NewPrometheusClient new_client url = bind_result (new_client url) (\<lambda>c. Inr \<lparr>pc_client = c, pc_Start = None\<rparr>)"

definition prom_build :: "(gostring \<Rightarrow> 'c result) \<Rightarrow> config \<Rightarrow> 't PromClientBuilder \<Rightarrow> ('c, 't) PrometheusClient result" where
  "prom_build new_client cfg b =
     (if client_url cfg b = [] then Inl ''no URL configured for Prometheus client''
      else bind_result (NewPrometheusClient new_client (client_url cfg b)) (\<lambda>client.
        Inr (if pb_startTime b \<noteq> None then client\<lparr>pc_Start := pb_startTime b\<rparr> else client)))"

definition prom_MustBuild :: "(gostring \<Rightarrow> 'c result) \<Rightarrow> config \<Rightarrow> 't PromClientBuilder \<Rightarrow> ('c, 't) PrometheusClient result" where
  "prom_MustBuild new_client cfg b =
     (case prom_build new_client cfg b of Inl err \<Rightarrow> Inl err | Inr client \<Rightarrow> Inr client)"

subsection \<open>Time series\<close>

record 'f TimeSeriesBuilder =
  tb_prefix :: gostring
  tb_count :: int
  tb_value :: 'f
  tb_labels :: "(gostring \<times> gostring) list"
  tb_httpClient :: http_client

definition NewTimeSeriesBuilder :: "'f \<Rightarrow> gostring \<Rightarrow> 'f TimeSeriesBuilder" where
  "NewTimeSeriesBuilder one namePrefix = \<lparr>tb_prefix = namePrefix, tb_count = 10, tb_value = one, tb_labels = [],
     tb_httpClient = NewHTTPClient\<rparr>"

definition WithCount :: "int \<Rightarrow> 'f TimeSeriesBuilder \<Rightarrow> 'f TimeSeriesBuilder" where
  "WithCount n b = b\<lparr>tb_count := n\<rparr>"
definition WithValue :: "'f \<Rightarrow> 'f TimeSeriesBuilder \<Rightarrow> 'f TimeSeriesBuilder" where
  "WithValue v b = b\<lparr>tb_value := v\<rparr>"
definition WithLabel :: "gostring \<Rightarrow> gostring \<Rightarrow> 'f TimeSeriesBuilder \<Rightarrow> 'f TimeSeriesBuilder" where
  "WithLabel name value b = b\<lparr>tb_labels := AList.update name value (tb_labels b)\<rparr>"
definition WithTenantLabel :: "int \<Rightarrow> 'f TimeSeriesBuilder \<Rightarrow> 'f TimeSeriesBuilder" where
  "WithTenantLabel tenantID b = b\<lparr>tb_labels := AList.update ''vm_account_id'' (int_str tenantID) (tb_labels b)\<rparr>"

definition series_WithHTTPClient :: "http_client \<Rightarrow> 'f TimeSeriesBuilder \<Rightarrow> 'f TimeSeriesBuilder" where
  "series_WithHTTPClient client b = b\<lparr>tb_httpClient := client\<rparr>"

text \<open>Go ranges over the labels in any order; the model takes the order of the list.\<close>

definition series_Build :: "(nat \<Rightarrow> int) \<Rightarrow> 'f TimeSeriesBuilder \<Rightarrow> 'f series list" where
  "series_Build now b =
     (let ts = GenTimeSeries now (tb_prefix b) (tb_count b) (tb_value b)
      in if 0 < length (tb_labels b) then
           map (\<lambda>s. s\<lparr>se_Labels := se_Labels s @ map (\<lambda>(k, v). \<lparr>wl_Name = k, wl_Value = v\<rparr>) (tb_labels b)\<rparr>) ts
         else ts)"

record RemoteWriteBuilder =
  wb_httpClient :: http_client
  wb_url :: gostring

definition NewRemoteWriteBuilder :: RemoteWriteBuilder where
  "NewRemoteWriteBuilder = \<lparr>wb_httpClient = NewHTTPClient, wb_url = []\<rparr>"
definition write_WithHTTPClient :: "http_client \<Rightarrow> RemoteWriteBuilder \<Rightarrow> RemoteWriteBuilder" where
  "write_WithHTTPClient client b = b\<lparr>wb_httpClient := client\<rparr>"

definition WithURL :: "gostring \<Rightarrow> RemoteWriteBuilder \<Rightarrow> RemoteWriteBuilder" where
  "WithURL url b = b\<lparr>wb_url := url\<rparr>"
definition wb_ForVMSingle :: "config \<Rightarrow> gostring \<Rightarrow> RemoteWriteBuilder \<Rightarrow> RemoteWriteBuilder" where
  "wb_ForVMSingle cfg ns b = b\<lparr>wb_url := VMSingleRemoteWriteURL ns cfg\<rparr>"
definition ForMultitenant :: "config \<Rightarrow> gostring \<Rightarrow> RemoteWriteBuilder \<Rightarrow> RemoteWriteBuilder" where
  "ForMultitenant cfg ns b = b\<lparr>wb_url := MultitenantInsertURL ns cfg\<rparr>"
definition ForVMAgent :: "config \<Rightarrow> gostring \<Rightarrow> RemoteWriteBuilder \<Rightarrow> RemoteWriteBuilder" where
  "ForVMAgent cfg ns b = b\<lparr>wb_url := VMAgentRemoteWriteURL ns cfg\<rparr>"
definition ForTenant :: "config \<Rightarrow> gostring \<Rightarrow> int \<Rightarrow> RemoteWriteBuilder \<Rightarrow> RemoteWriteBuilder" where
  "ForTenant cfg ns tenantID b = b\<lparr>wb_url := TenantInsertURL ns tenantID cfg\<rparr>"

text \<open>\<open>write\<close> is the remote write with a client to a URL (theory \<open>RemoteWrite\<close>): the error it returned, if any.\<close>

definition write_Send :: "(http_client \<Rightarrow> 'f series list \<Rightarrow> gostring \<Rightarrow> gostring option) \<Rightarrow> RemoteWriteBuilder \<Rightarrow> 'f series list \<Rightarrow> gostring option" where
  "write_Send write b ts = (if wb_url b = [] then Some ''no URL configured for remote write'' else write (wb_httpClient b) ts (wb_url b))"

definition series_Send ::
  "(http_client \<Rightarrow> 'f series list \<Rightarrow> gostring \<Rightarrow> gostring option) \<Rightarrow> (nat \<Rightarrow> int) \<Rightarrow> 'f TimeSeriesBuilder \<Rightarrow> gostring \<Rightarrow> gostring option" where
  "series_Send write now b url = write (tb_httpClient b) (series_Build now b) url"

subsection \<open>Rules\<close>

record relabelRule =
  rr_TargetLabel :: gostring
  rr_Replacement :: gostring
  rr_Action :: gostring
  rr_SourceLabels :: "gostring list"
  rr_Regex :: gostring

record RelabelConfigBuilder =
  rl_rules :: "relabelRule list"

definition NewRelabelConfigBuilder :: RelabelConfigBuilder where
  "NewRelabelConfigBuilder = \<lparr>rl_rules = []\<rparr>"

definition add_relabel :: "relabelRule \<Rightarrow> RelabelConfigBuilder \<Rightarrow> RelabelConfigBuilder" where
  "add_relabel r b = b\<lparr>rl_rules := rl_rules b @ [r]\<rparr>"

definition AddLabel :: "gostring \<Rightarrow> gostring \<Rightarrow> RelabelConfigBuilder \<Rightarrow> RelabelConfigBuilder" where
  "AddLabel targetLabel replacement = add_relabel
     \<lparr>rr_TargetLabel = targetLabel, rr_Replacement = replacement, rr_Action = [], rr_SourceLabels = [], rr_Regex = []\<rparr>"

definition DropByName :: "gostring \<Rightarrow> RelabelConfigBuilder \<Rightarrow> RelabelConfigBuilder" where
  "DropByName regex = add_relabel
     \<lparr>rr_TargetLabel = [], rr_Replacement = [], rr_Action = ''drop'', rr_SourceLabels = [''__name__''], rr_Regex = regex\<rparr>"

record streamAggrRule =
  ar_Match :: gostring
  ar_Interval :: gostring
  ar_Outputs :: "gostring list"
  ar_Without :: "gostring list"
  ar_By :: "gostring list"

record StreamAggrConfigBuilder =
  sg_rules :: "streamAggrRule list"

definition NewStreamAggrConfigBuilder :: StreamAggrConfigBuilder where
  "NewStreamAggrConfigBuilder = \<lparr>sg_rules = []\<rparr>"

definition append_aggr :: "streamAggrRule \<Rightarrow> StreamAggrConfigBuilder \<Rightarrow> StreamAggrConfigBuilder" where
  "append_aggr r b = b\<lparr>sg_rules := sg_rules b @ [r]\<rparr>"

definition AddRule :: "gostring \<Rightarrow> gostring \<Rightarrow> gostring list \<Rightarrow> StreamAggrConfigBuilder \<Rightarrow> StreamAggrConfigBuilder" where
  "AddRule m interval outputs = append_aggr
     \<lparr>ar_Match = m, ar_Interval = interval, ar_Outputs = outputs, ar_Without = [], ar_By = []\<rparr>"

definition WithoutLabels :: "gostring list \<Rightarrow> StreamAggrConfigBuilder \<Rightarrow> StreamAggrConfigBuilder" where
  "WithoutLabels labels b =
     (if 0 < length (sg_rules b)
      then b\<lparr>sg_rules := (sg_rules b)[length (sg_rules b) - 1 := (sg_rules b ! (length (sg_rules b) - 1))\<lparr>ar_Without := labels\<rparr>]\<rparr>
      else b)"

interpretation relabeling: appending rl_rules add_relabel
  by unfold_locales (simp add: add_relabel_def)

interpretation aggregation: appending sg_rules append_aggr
  by unfold_locales (simp add: append_aggr_def)

lemma WithoutLabels_last:
  "sg_rules (WithoutLabels labels (append_aggr r b)) = sg_rules b @ [r\<lparr>ar_Without := labels\<rparr>]"
  by (simp add: WithoutLabels_def aggregation.items_add list_update_append nth_append)

text \<open>A rule as the YAML encoder sees it: empty fields with \<open>omitempty\<close> are left out.\<close>

definition omit_empty :: "gostring \<Rightarrow> gostring \<Rightarrow> (gostring \<times> json) list" where
  "omit_empty k v = (if v = [] then [] else [(k, JStr v)])"

definition omit_empty_list :: "gostring \<Rightarrow> gostring list \<Rightarrow> (gostring \<times> json) list" where
  "omit_empty_list k vs = (if vs = [] then [] else [(k, JArr (map JStr vs))])"

definition relabel_json :: "relabelRule \<Rightarrow> json" where
  "relabel_json r = JObj (omit_empty ''target_label'' (rr_TargetLabel r) @ omit_empty ''replacement'' (rr_Replacement r) @
     omit_empty ''action'' (rr_Action r) @ omit_empty_list ''source_labels'' (rr_SourceLabels r) @
     omit_empty ''regex'' (rr_Regex r))"

definition aggr_json :: "streamAggrRule \<Rightarrow> json" where
  "aggr_json r = JObj ([(''match'', JStr (ar_Match r)), (''interval'', JStr (ar_Interval r)),
     (''outputs'', JArr (map JStr (ar_Outputs r)))] @ omit_empty_list ''without'' (ar_Without r) @ omit_empty_list ''by'' (ar_By r))"

definition relabel_build :: "'p tools \<Rightarrow> RelabelConfigBuilder \<Rightarrow> gostring result" where
  "relabel_build ts b = tl_to_yaml ts (JArr (map relabel_json (rl_rules b)))"

definition relabel_MustBuild :: "'p tools \<Rightarrow> RelabelConfigBuilder \<Rightarrow> gostring result" where
  "relabel_MustBuild ts b = (case relabel_build ts b of Inl err \<Rightarrow> Inl err | Inr config \<Rightarrow> Inr config)"

definition aggr_build :: "'p tools \<Rightarrow> StreamAggrConfigBuilder \<Rightarrow> gostring result" where
  "aggr_build ts b = tl_to_yaml ts (JArr (map aggr_json (sg_rules b)))"

definition aggr_MustBuild :: "'p tools \<Rightarrow> StreamAggrConfigBuilder \<Rightarrow> gostring result" where
  "aggr_MustBuild ts b = (case aggr_build ts b of Inl err \<Rightarrow> Inl err | Inr config \<Rightarrow> Inr config)"

text \<open>The Datadog payload, which the specs fill in and encode; a point is a pair of numbers.\<close>

record DatadogMetric =
  dd_Metric :: gostring
  dd_Points :: "(json list) list"
  dd_Tags :: "gostring list"
  dd_Host :: gostring
  dd_Type :: gostring

record DatadogSeries =
  dd_Series :: "DatadogMetric list"

definition datadog_json :: "DatadogMetric \<Rightarrow> json" where
  "datadog_json m = JObj ([(''metric'', JStr (dd_Metric m)), (''points'', JArr (map JArr (dd_Points m)))] @
     omit_empty_list ''tags'' (dd_Tags m) @ omit_empty ''host'' (dd_Host m) @ omit_empty ''type'' (dd_Type m))"

definition datadog_series_json :: "DatadogSeries \<Rightarrow> json" where
  "datadog_series_json s = JObj [(''series'', JArr (map datadog_json (dd_Series s)))]"

end
