(* ===== verification/Builder_Patch.thy ===== *)
theory Builder_Patch
  imports Builders
begin

text \<open>
  What the patch of a VMSingle builder does to a manifest: an abstract specification of the two
  methods on the arguments and the config map of a VMSingle, and the refinement: with tools that
  patch as RFC 6902 says, the built patch changes the manifest's specification exactly as the
  specification says.
\<close>

datatype bstep = VMSingleConfig gostring gostring gostring | ExtraArg gostring gostring

fun builder_step :: "bstep \<Rightarrow> JSONPatchBuilder \<Rightarrow> JSONPatchBuilder" where
  "builder_step (VMSingleConfig m k f) b = WithVMSingleConfig m k f b"
| "builder_step (ExtraArg k v) b = WithExtraArg k v b"

definition built :: "bstep list \<Rightarrow> JSONPatchBuilder" where
  "built steps = fold builder_step steps NewJSONPatchBuilder"

subsection \<open>The specification\<close>

text \<open>The arguments given so far, the last value of each, and the config map mounted, if any.\<close>

record vmsingle_spec =
  vs_args :: "(gostring \<times> gostring) list"
  vs_map :: "gostring option"

fun spec_step :: "bstep \<Rightarrow> vmsingle_spec \<Rightarrow> vmsingle_spec" where
  "spec_step (VMSingleConfig m k f) s = \<lparr>vs_args = AList.update k (config_path m f) (vs_args s), vs_map = Some m\<rparr>"
| "spec_step (ExtraArg k v) s = s\<lparr>vs_args := AList.update k v (vs_args s)\<rparr>"

definition specified :: "bstep list \<Rightarrow> vmsingle_spec" where
  "specified steps = fold spec_step steps \<lparr>vs_args = [], vs_map = None\<rparr>"

fun step_key :: "bstep \<Rightarrow> gostring" where
  "step_key (VMSingleConfig m k f) = k"
| "step_key (ExtraArg k v) = k"

text \<open>A document of which the specification was patched as specified, and nothing else.\<close>

definition patched_fields ::
  "vmsingle_spec \<Rightarrow> (gostring \<times> json) list \<Rightarrow> (gostring \<times> json) list \<Rightarrow>
     (gostring \<times> json) list \<Rightarrow> (gostring \<times> json) list \<Rightarrow> bool" where
  "patched_fields s fs0 ss0 fs ss \<longleftrightarrow> map_of fs ''spec'' = Some (JObj ss) \<and>
     map_of ss ''extraArgs'' = Some (string_map_json (vs_args s)) \<and>
     map_of ss ''configMaps'' = (case vs_map s of None \<Rightarrow> map_of ss0 ''configMaps'' | Some m \<Rightarrow> Some (JArr [JStr m])) \<and>
     (\<forall>f. f \<noteq> ''extraArgs'' \<and> f \<noteq> ''configMaps'' \<longrightarrow> map_of ss f = map_of ss0 f) \<and>
     (\<forall>f. f \<noteq> ''spec'' \<longrightarrow> map_of fs f = map_of fs0 f)"

definition patched_as :: "vmsingle_spec \<Rightarrow> (gostring \<times> json) list \<Rightarrow> (gostring \<times> json) list \<Rightarrow> json \<Rightarrow> bool" where
  "patched_as s fs0 ss0 doc \<longleftrightarrow> (\<exists>fs ss. doc = JObj fs \<and> patched_fields s fs0 ss0 fs ss)"

lemma patched_fieldsD:
  assumes "patched_fields s fs0 ss0 fs ss"
  shows "map_of fs ''spec'' = Some (JObj ss)" "map_of ss ''extraArgs'' = Some (string_map_json (vs_args s))"
    "map_of ss ''configMaps'' = (case vs_map s of None \<Rightarrow> map_of ss0 ''configMaps'' | Some m \<Rightarrow> Some (JArr [JStr m]))"
    "f \<noteq> ''extraArgs'' \<Longrightarrow> f \<noteq> ''configMaps'' \<Longrightarrow> map_of ss f = map_of ss0 f"
    "f \<noteq> ''spec'' \<Longrightarrow> map_of fs f = map_of fs0 f"
  using assms unfolding patched_fields_def by simp_all

subsection \<open>Operations on the specification's fields\<close>

lemma pointer_spec: "pointer ''/spec/extraArgs'' = Some [''spec'', ''extraArgs'']"
    "pointer ''/spec/configMaps'' = Some [''spec'', ''configMaps'']"
    "pointer ''/spec/configMaps/-'' = Some [''spec'', ''configMaps'', ''-'']"
  using pointer_Join [of "[''spec'', ''extraArgs'']"] pointer_Join [of "[''spec'', ''configMaps'']"]
    pointer_Join [of "[''spec'', ''configMaps'', ''-'']"]
  by (simp_all add: plain_token_def)

lemma pointer_arg: "plain_token k \<Longrightarrow> pointer (''/spec/extraArgs/'' @ k) = Some [''spec'', ''extraArgs'', k]"
  using pointer_Join [of "[''spec'', ''extraArgs'', k]"] by (simp add: plain_token_def)

lemma update_string_map:
  "AList.update k (JStr v) (map (\<lambda>(k, v). (k, JStr v)) m) = map (\<lambda>(k, v). (k, JStr v)) (AList.update k v m)"
  by (induction m) auto

lemma add_field:
  assumes "pointer path = Some [''spec'', f]" and "map_of fs ''spec'' = Some (JObj ss)"
  shows "rfc_op (patch_op ''add'' path v) (JObj fs) =
    Some (JObj (AList.update ''spec'' (JObj (AList.update f v ss)) fs))"
  using assms by (simp add: rfc_op_def patch_op_def)

lemma add_arg:
  assumes "plain_token k" and "map_of fs ''spec'' = Some (JObj ss)" and "map_of ss ''extraArgs'' = Some (string_map_json args)"
  shows "rfc_op (patch_op ''add'' (''/spec/extraArgs/'' @ k) (JStr v)) (JObj fs) =
    Some (JObj (AList.update ''spec'' (JObj (AList.update ''extraArgs'' (string_map_json (AList.update k v args)) ss)) fs))"
  using assms by (simp only: rfc_op_def patch_op_def PatchOp.simps pointer_arg option.case) (simp add: string_map_json_def update_string_map)

lemma add_config_map:
  assumes "map_of fs ''spec'' = Some (JObj ss)" and "map_of ss ''configMaps'' = Some (JArr [])"
  shows "rfc_op (patch_op ''add'' ''/spec/configMaps/-'' (JStr m)) (JObj fs) =
    Some (JObj (AList.update ''spec'' (JObj (AList.update ''configMaps'' (JArr [JStr m]) ss)) fs))"
  using assms by (simp only: rfc_op_def patch_op_def PatchOp.simps pointer_spec option.case) simp

text \<open>One method call: the operations it appends, and what they do.\<close>

fun step_ops :: "bstep \<Rightarrow> PatchOp list" where
  "step_ops (VMSingleConfig m k f) =
     [patch_op ''add'' (''/spec/extraArgs/'' @ k) (JStr (config_path m f)),
      patch_op ''add'' ''/spec/configMaps'' (JArr []), patch_op ''add'' ''/spec/configMaps/-'' (JStr m)]"
| "step_ops (ExtraArg k v) = [patch_op ''add'' (''/spec/extraArgs/'' @ k) (JStr v)]"

definition init_op :: PatchOp where "init_op = patch_op ''add'' ''/spec/extraArgs'' (JObj [])"

lemma builder_step_ops:
  "jb_operations (builder_step st b) =
     jb_operations b @ (if jb_extraArgsInited b then [] else [init_op]) @ step_ops st \<and>
   jb_extraArgsInited (builder_step st b)"
  by (cases st)
    (simp_all add: WithVMSingleConfig_def WithExtraArg_def init_extra_args_def jb_Add_def append_op_def init_op_def)

lemma built_ops: "steps \<noteq> [] \<Longrightarrow> jb_operations (built steps) = init_op # concat (map step_ops steps) \<and> jb_extraArgsInited (built steps)"
proof (induction steps rule: rev_induct)
  case (snoc st steps)
  show ?case
  proof (cases "steps = []")
    case True
    then show ?thesis
      using builder_step_ops [of st NewJSONPatchBuilder] by (simp add: built_def NewJSONPatchBuilder_def)
  next
    case False
    with snoc.IH builder_step_ops [of st "built steps"] show ?thesis by (simp add: built_def)
  qed
qed simp

lemma step_refines:
  assumes "plain_token (step_key st)" and "patched_as s fs0 ss0 doc"
  shows "\<exists>doc'. rfc_patch (step_ops st) doc = Some doc' \<and> patched_as (spec_step st s) fs0 ss0 doc'"
proof -
  from assms(2) obtain fs ss where d: "doc = JObj fs" and p: "patched_fields s fs0 ss0 fs ss"
    unfolding patched_as_def by blast
  note f = patched_fieldsD [OF p]
  show ?thesis
  proof (cases st)
    case (VMSingleConfig c k conf)
    with assms(1) have k: "plain_token k" by simp
    define ss1 where "ss1 = AList.update ''extraArgs'' (string_map_json (AList.update k (config_path c conf) (vs_args s))) ss"
    define ss2 where "ss2 = AList.update ''configMaps'' (JArr []) ss1"
    define ss3 where "ss3 = AList.update ''configMaps'' (JArr [JStr c]) ss2"
    define fs1 where "fs1 = AList.update ''spec'' (JObj ss1) fs"
    define fs2 where "fs2 = AList.update ''spec'' (JObj ss2) fs1"
    define fs3 where "fs3 = AList.update ''spec'' (JObj ss3) fs2"
    have o1: "rfc_op (patch_op ''add'' (''/spec/extraArgs/'' @ k) (JStr (config_path c conf))) (JObj fs) = Some (JObj fs1)"
      unfolding fs1_def ss1_def by (rule add_arg [OF k f(1,2)])
    have "map_of fs1 ''spec'' = Some (JObj ss1)" by (simp add: fs1_def)
    from add_field [OF pointer_spec(2) this]
    have o2: "rfc_op (patch_op ''add'' ''/spec/configMaps'' (JArr [])) (JObj fs1) = Some (JObj fs2)"
      unfolding fs2_def ss2_def .
    have "map_of fs2 ''spec'' = Some (JObj ss2)" "map_of ss2 ''configMaps'' = Some (JArr [])"
      by (simp_all add: fs2_def ss2_def)
    from add_config_map [OF this, of c]
    have o3: "rfc_op (patch_op ''add'' ''/spec/configMaps/-'' (JStr c)) (JObj fs2) = Some (JObj fs3)"
      unfolding fs3_def ss3_def .
    have "rfc_patch (step_ops st) doc = Some (JObj fs3)"
      unfolding VMSingleConfig d step_ops.simps rfc_patch.simps o1 bind.bind_lunit o2 o3 ..
    moreover have "patched_fields (spec_step st s) fs0 ss0 fs3 ss3"
      unfolding patched_fields_def VMSingleConfig using f(4,5)
      by (simp add: fs3_def fs2_def fs1_def ss3_def ss2_def ss1_def)
    ultimately show ?thesis unfolding patched_as_def by blast
  next
    case (ExtraArg k v)
    with assms(1) have k: "plain_token k" by simp
    define ss1 where "ss1 = AList.update ''extraArgs'' (string_map_json (AList.update k v (vs_args s))) ss"
    define fs1 where "fs1 = AList.update ''spec'' (JObj ss1) fs"
    have o1: "rfc_op (patch_op ''add'' (''/spec/extraArgs/'' @ k) (JStr v)) (JObj fs) = Some (JObj fs1)"
      unfolding fs1_def ss1_def by (rule add_arg [OF k f(1,2)])
    have "rfc_patch (step_ops st) doc = Some (JObj fs1)"
      unfolding ExtraArg d step_ops.simps rfc_patch.simps o1 bind.bind_lunit ..
    moreover have "patched_fields (spec_step st s) fs0 ss0 fs1 ss1"
      unfolding patched_fields_def ExtraArg using f(3,4,5) by (simp add: fs1_def ss1_def)
    ultimately show ?thesis unfolding patched_as_def by blast
  qed
qed

lemma steps_refine:
  "list_all (\<lambda>st. plain_token (step_key st)) steps \<Longrightarrow> patched_as s fs0 ss0 doc \<Longrightarrow>
     \<exists>doc'. rfc_patch (concat (map step_ops steps)) doc = Some doc' \<and> patched_as (fold spec_step steps s) fs0 ss0 doc'"
proof (induction steps arbitrary: s doc)
  case (Cons st steps)
  then obtain doc1 where 1: "rfc_patch (step_ops st) doc = Some doc1" "patched_as (spec_step st s) fs0 ss0 doc1"
    using step_refines by fastforce
  with Cons show ?case by (simp add: rfc_patch_append)
qed simp

lemma init_refines:
  assumes "map_of fs ''spec'' = Some (JObj ss)"
  shows "\<exists>doc. rfc_op init_op (JObj fs) = Some doc \<and> patched_as \<lparr>vs_args = [], vs_map = None\<rparr> fs ss doc"
proof -
  define ss1 where "ss1 = AList.update ''extraArgs'' (JObj []) ss"
  define fs1 where "fs1 = AList.update ''spec'' (JObj ss1) fs"
  have "rfc_op init_op (JObj fs) = Some (JObj fs1)"
    unfolding init_op_def fs1_def ss1_def by (rule add_field [OF pointer_spec(1) assms])
  moreover have "patched_fields \<lparr>vs_args = [], vs_map = None\<rparr> fs ss fs1 ss1"
    by (simp add: patched_fields_def fs1_def ss1_def string_map_json_def)
  ultimately show ?thesis unfolding patched_as_def by blast
qed

subsection \<open>The refinement\<close>

text \<open>
  C10: Building a VMSingle patch by any sequence of the two methods, and applying it with a patch
  library that follows RFC 6902, succeeds on every manifest with a specification, and the result
  refines the abstract specification: its arguments are exactly those given, each with the last
  value given to it (arguments of the manifest are gone), its config maps are the last one named,
  and every other field of the manifest is as before.
\<close>

theorem vmsingle_patch_refines:
  assumes "follows_rfc ts" and "steps \<noteq> []" and "list_all (\<lambda>st. plain_token (step_key st)) steps"
    and "map_of fs ''spec'' = Some (JObj ss)"
  shows "\<exists>p doc. jb_MustBuild ts (built steps) = Inr p \<and> tl_apply ts p (JObj fs) = Inr doc \<and>
    patched_as (specified steps) fs ss doc"
proof -
  from init_refines [OF assms(4)] obtain doc1 where 1: "rfc_op init_op (JObj fs) = Some doc1"
    "patched_as \<lparr>vs_args = [], vs_map = None\<rparr> fs ss doc1" by blast
  from steps_refine [OF assms(3) 1(2)] obtain doc where
    2: "rfc_patch (concat (map step_ops steps)) doc1 = Some doc" "patched_as (specified steps) fs ss doc"
    unfolding specified_def by blast
  have "rfc_patch (jb_operations (built steps)) (JObj fs) = Some doc"
    using built_ops [OF assms(2)] 1(1) 2(1) by simp
  from follows_rfcD [OF assms(1) this] 2(2) show ?thesis unfolding jb_MustBuild_eq by blast
qed

theorem vmsingle_patch_refines_witness:
  "\<exists>p doc. jb_MustBuild rfc_tools (built [ExtraArg ''a'' ''1'', VMSingleConfig ''cm'' ''k'' ''f'', ExtraArg ''a'' ''2'']) = Inr p \<and>
     tl_apply rfc_tools p (JObj [(''spec'', JObj [(''extraArgs'', JObj [(''old'', JStr ''x'')])])]) = Inr doc \<and>
     jpath [''spec'', ''extraArgs''] doc = JObj [(''a'', JStr ''2''), (''k'', JStr ''/etc/vm/configs/cm/f'')]"
proof -
  let ?steps = "[ExtraArg ''a'' ''1'', VMSingleConfig ''cm'' ''k'' ''f'', ExtraArg ''a'' ''2'']"
  let ?fs = "[(''spec'', JObj [(''extraArgs'', JObj [(''old'', JStr ''x'')])])]"
  have "\<exists>p doc. jb_MustBuild rfc_tools (built ?steps) = Inr p \<and> tl_apply rfc_tools p (JObj ?fs) = Inr doc \<and>
    patched_as (specified ?steps) ?fs [(''extraArgs'', JObj [(''old'', JStr ''x'')])] doc"
    by (rule vmsingle_patch_refines [OF rfc_tools_follow]) (simp_all add: plain_token_def)
  then obtain p doc where p: "jb_MustBuild rfc_tools (built ?steps) = Inr p" "tl_apply rfc_tools p (JObj ?fs) = Inr doc"
    and r: "patched_as (specified ?steps) ?fs [(''extraArgs'', JObj [(''old'', JStr ''x'')])] doc" by blast
  from r have "jpath [''spec'', ''extraArgs''] doc = string_map_json (vs_args (specified ?steps))"
    unfolding patched_as_def patched_fields_def by (elim exE conjE) simp
  with p show ?thesis by (simp add: specified_def config_path_def string_map_json_def)
qed

text \<open>
  Configuring a VMSingle twice keeps the argument of the first configuration but mounts only the
  second config map: every call starts the list of config maps again, so the first argument names
  a file that is not there.
\<close>

theorem second_config_map_unmounts_first:
  "rfc_patch (jb_operations (built [VMSingleConfig ''rules'' ''relabelConfig'' ''r.yml'', VMSingleConfig ''aggr'' ''streamAggr.config'' ''s.yml'']))
     (JObj [(''spec'', JObj [])]) =
   Some (JObj [(''spec'', JObj
     [(''extraArgs'', JObj [(''relabelConfig'', JStr ''/etc/vm/configs/rules/r.yml''),
                          (''streamAggr.config'', JStr ''/etc/vm/configs/aggr/s.yml'')]),
      (''configMaps'', JArr [JStr ''aggr''])])])"
proof -
  let ?steps = "[VMSingleConfig ''rules'' ''relabelConfig'' ''r.yml'', VMSingleConfig ''aggr'' ''streamAggr.config'' ''s.yml'']"
  have k: "pointer (''/spec/extraArgs/'' @ ''relabelConfig'') = Some [''spec'', ''extraArgs'', ''relabelConfig'']"
    "pointer (''/spec/extraArgs/'' @ ''streamAggr.config'') = Some [''spec'', ''extraArgs'', ''streamAggr.config'']"
    by (rule pointer_arg, simp add: plain_token_def)+
  have ops: "jb_operations (built ?steps) = init_op # concat (map step_ops ?steps)"
    using built_ops [of ?steps] by simp
  show ?thesis
    unfolding ops
    by (simp add: init_op_def rfc_op_def patch_op_def pointer_spec k [simplified] config_path_def)
qed

end
