(* ===== verification/Flags.thy ===== *)
theory Flags
  imports Config
begin

text \<open>
  The command line (\<open>pkg/tests/flags.go\<close>): the flags with their defaults, some of them from the
  environment, and \<open>Init\<close>, which hands the parsed values to the configuration. \<open>fl\<close> gives the value of
  a flag after parsing; \<open>abs_path\<close> is the absolute form of a path, which depends on the operating
  system. Parsing itself is the flag package's.
\<close>

definition flag_table :: "(gostring \<Rightarrow> gostring) \<Rightarrow> (gostring \<times> gostring) list" where
  "flag_table env =
     [(''manifests-dir'', []),
      (''report'', ''/tmp/allure-results''),
      (''crust-gather-dir'', env ''CRUST_GATHER_DIR''),
      (''env-k8s-distro'', ''kind''),
      (''operator-registry'', []),
      (''operator-repository'', []),
      (''operator-tag'', []),
      (''operator-chart-version'', ''0.67.2''),
      (''config-reloader-registry'', env ''CONFIG_RELOADER_REGISTRY''),
      (''config-reloader-repository'', env ''CONFIG_RELOADER_REPOSITORY''),
      (''config-reloader-tag'', env ''CONFIG_RELOADER_TAG''),
      (''argocd-version'', ''v3.5.1''),
      (''vm-vmsingledefault-image'', env ''VM_VMSINGLEDEFAULT_IMAGE''),
      (''vm-vmsingledefault-version'', env ''VM_VMSINGLEDEFAULT_VERSION''),
      (''vm-vmclusterdefault-vmselectdefault-image'', env ''VM_VMCLUSTERDEFAULT_VMSELECTDEFAULT_IMAGE''),
      (''vm-vmclusterdefault-vmselectdefault-version'', env ''VM_VMCLUSTERDEFAULT_VMSELECTDEFAULT_VERSION''),
      (''vm-vmclusterdefault-vmstoragedefault-image'', env ''VM_VMCLUSTERDEFAULT_VMSTORAGEDEFAULT_IMAGE''),
      (''vm-vmclusterdefault-vmstoragedefault-version'', env ''VM_VMCLUSTERDEFAULT_VMSTORAGEDEFAULT_VERSION''),
      (''vm-vmclusterdefault-vminsertdefault-image'', env ''VM_VMCLUSTERDEFAULT_VMINSERTDEFAULT_IMAGE''),
      (''vm-vmclusterdefault-vminsertdefault-version'', env ''VM_VMCLUSTERDEFAULT_VMINSERTDEFAULT_VERSION''),
      (''vm-vmagentdefault-image'', env ''VM_VMAGENTDEFAULT_IMAGE''),
      (''vm-vmagentdefault-version'', env ''VM_VMAGENTDEFAULT_VERSION''),
      (''vm-vmalertdefault-image'', env ''VM_VMALERTDEFAULT_IMAGE''),
      (''vm-vmalertdefault-version'', env ''VM_VMALERTDEFAULT_VERSION''),
      (''vm-vmauthdefault-image'', env ''VM_VMAUTHDEFAULT_IMAGE''),
      (''vm-vmauthdefault-version'', env ''VM_VMAUTHDEFAULT_VERSION''),
      (''vm-vmbackupdefault-image'', env ''VM_VMBACKUPDEFAULT_IMAGE''),
      (''vm-vmbackupdefault-version'', env ''VM_VMBACKUPDEFAULT_VERSION''),
      (''vm-vmrestoredefault-image'', env ''VM_VMRESTOREDEFAULT_IMAGE''),
      (''vm-vmrestoredefault-version'', env ''VM_VMRESTOREDEFAULT_VERSION''),
      (''license-file'', []),
      (''distributed-region'', ''europe-central2''),
      (''distributed-zones'', ''europe-central2-a,europe-central2-b,europe-central2-c''),
      (''vm-k8s-stack-chart-path'', env ''VM_K8S_STACK_CHART_PATH''),
      (''vm-k8s-stack-chart-version'', env ''VM_K8S_STACK_CHART_VERSION''),
      (''vm-distributed-chart-version'', env ''VM_DISTRIBUTED_CHART_VERSION''),
      (''vl-single-chart-version'', env ''VL_SINGLE_CHART_VERSION''),
      (''vl-collector-chart-version'', env ''VL_COLLECTOR_CHART_VERSION''),
      (''vl-version'', env ''VL_VERSION''),
      (''vl-enterprise-version'', env ''VL_ENTERPRISE_VERSION''),
      (''ingress-host'', []),
      (''scramble-names'', env ''SCRAMBLE_NAMES'')]"

text \<open>The value of a flag: what the command line says, or else its default.\<close>

definition flag_value :: "(gostring \<Rightarrow> gostring) \<Rightarrow> (gostring \<times> gostring) list \<Rightarrow> gostring \<Rightarrow> gostring" where
  "flag_value env given name =
     (case map_of given name of Some v \<Rightarrow> v | None \<Rightarrow> (case map_of (flag_table env) name of Some v \<Rightarrow> v | None \<Rightarrow> []))"

definition set_nonblank :: "(gostring \<Rightarrow> config \<Rightarrow> config) \<Rightarrow> gostring \<Rightarrow> config \<Rightarrow> config" where
  "set_nonblank setter v cfg = (if v \<noteq> [] then setter v cfg else cfg)"

definition Init :: "(gostring \<Rightarrow> gostring result) \<Rightarrow> (gostring \<Rightarrow> gostring) \<Rightarrow> config \<Rightarrow> config result" where
  "Init abs_path fl cfg =
     bind_result (abs_path (fl ''report'')) (\<lambda>absReport. Inr (fold (\<lambda>f c. f c)
       [set_nonblank SetManifestsDir (fl ''manifests-dir''),
        set_nonblank SetCrustGatherLocation (fl ''crust-gather-dir''),
        SetReportLocation absReport,
        Setenv ''ALLURE_RESULTS_PATH'' absReport,
        SetEnvK8SDistro (fl ''env-k8s-distro''),
        SetOperatorImageRegistry (fl ''operator-registry''),
        SetOperatorImageRepository (fl ''operator-repository''),
        SetOperatorImageTag (fl ''operator-tag''),
        SetOperatorChartVersion (fl ''operator-chart-version''),
        SetArgoCDVersion (fl ''argocd-version''),
        SetConfigReloaderRegistry (fl ''config-reloader-registry''),
        SetConfigReloaderRepository (fl ''config-reloader-repository''),
        SetConfigReloaderTag (fl ''config-reloader-tag''),
        SetVMSingleDefaultImage (fl ''vm-vmsingledefault-image''),
        SetVMSingleDefaultVersion (fl ''vm-vmsingledefault-version''),
        SetVMClusterVMSelectDefaultImage (fl ''vm-vmclusterdefault-vmselectdefault-image''),
        SetVMClusterVMSelectDefaultVersion (fl ''vm-vmclusterdefault-vmselectdefault-version''),
        SetVMClusterVMStorageDefaultImage (fl ''vm-vmclusterdefault-vmstoragedefault-image''),
        SetVMClusterVMStorageDefaultVersion (fl ''vm-vmclusterdefault-vmstoragedefault-version''),
        SetVMClusterVMInsertDefaultImage (fl ''vm-vmclusterdefault-vminsertdefault-image''),
        SetVMClusterVMInsertDefaultVersion (fl ''vm-vmclusterdefault-vminsertdefault-version''),
        SetVMAgentDefaultImage (fl ''vm-vmagentdefault-image''),
        SetVMAgentDefaultVersion (fl ''vm-vmagentdefault-version''),
        SetVMAlertDefaultImage (fl ''vm-vmalertdefault-image''),
        SetVMAlertDefaultVersion (fl ''vm-vmalertdefault-version''),
        SetVMAuthDefaultImage (fl ''vm-vmauthdefault-image''),
        SetVMAuthDefaultVersion (fl ''vm-vmauthdefault-version''),
        SetVMBackupDefaultImage (fl ''vm-vmbackupdefault-image''),
        SetVMBackupDefaultVersion (fl ''vm-vmbackupdefault-version''),
        SetVMRestoreDefaultImage (fl ''vm-vmrestoredefault-image''),
        SetVMRestoreDefaultVersion (fl ''vm-vmrestoredefault-version''),
        SetLicenseFile (fl ''license-file''),
        SetDistributedRegion (fl ''distributed-region''),
        SetDistributedZones (fl ''distributed-zones''),
        set_nonblank SetVMK8sStackChart (fl ''vm-k8s-stack-chart-path''),
        SetVMK8sStackChartVersion (fl ''vm-k8s-stack-chart-version''),
        SetVMDistributedChartVersion (fl ''vm-distributed-chart-version''),
        SetVLSingleChartVersion (fl ''vl-single-chart-version''),
        SetVLCollectorChartVersion (fl ''vl-collector-chart-version''),
        SetVLVersion (fl ''vl-version''),
        SetVLEnterpriseVersion (fl ''vl-enterprise-version''),
        set_nonblank SetIngressHost (fl ''ingress-host''),
        SetScrambleNames (fl ''scramble-names'')] cfg))"

text \<open>What each flag configures, for the flags that are handed over whatever their value.\<close>

definition flag_getters :: "((config \<Rightarrow> gostring) \<times> gostring) list" where
  "flag_getters =
     [(EnvK8SDistro, ''env-k8s-distro''),
      (OperatorImageRegistry, ''operator-registry''),
      (OperatorImageRepository, ''operator-repository''),
      (OperatorImageTag, ''operator-tag''),
      (OperatorChartVersion, ''operator-chart-version''),
      (ArgoCDVersion, ''argocd-version''),
      (ConfigReloaderRegistry, ''config-reloader-registry''),
      (ConfigReloaderRepository, ''config-reloader-repository''),
      (ConfigReloaderTag, ''config-reloader-tag''),
      (VMSingleDefaultImage, ''vm-vmsingledefault-image''),
      (VMSingleDefaultVersion, ''vm-vmsingledefault-version''),
      (VMClusterVMSelectDefaultImage, ''vm-vmclusterdefault-vmselectdefault-image''),
      (VMClusterVMSelectDefaultVersion, ''vm-vmclusterdefault-vmselectdefault-version''),
      (VMClusterVMStorageDefaultImage, ''vm-vmclusterdefault-vmstoragedefault-image''),
      (VMClusterVMStorageDefaultVersion, ''vm-vmclusterdefault-vmstoragedefault-version''),
      (VMClusterVMInsertDefaultImage, ''vm-vmclusterdefault-vminsertdefault-image''),
      (VMClusterVMInsertDefaultVersion, ''vm-vmclusterdefault-vminsertdefault-version''),
      (VMAgentDefaultImage, ''vm-vmagentdefault-image''),
      (VMAgentDefaultVersion, ''vm-vmagentdefault-version''),
      (VMAlertDefaultImage, ''vm-vmalertdefault-image''),
      (VMAlertDefaultVersion, ''vm-vmalertdefault-version''),
      (VMAuthDefaultImage, ''vm-vmauthdefault-image''),
      (VMAuthDefaultVersion, ''vm-vmauthdefault-version''),
      (VMBackupDefaultImage, ''vm-vmbackupdefault-image''),
      (VMBackupDefaultVersion, ''vm-vmbackupdefault-version''),
      (VMRestoreDefaultImage, ''vm-vmrestoredefault-image''),
      (VMRestoreDefaultVersion, ''vm-vmrestoredefault-version''),
      (LicenseFile, ''license-file''),
      (DistributedRegion, ''distributed-region''),
      (DistributedZones, ''distributed-zones''),
      (VMK8sStackChartVersion, ''vm-k8s-stack-chart-version''),
      (VMDistributedChartVersion, ''vm-distributed-chart-version''),
      (VLSingleChartVersion, ''vl-single-chart-version''),
      (VLCollectorChartVersion, ''vl-collector-chart-version''),
      (VLVersion, ''vl-version''),
      (VLEnterpriseVersion, ''vl-enterprise-version'')]"

lemma cell_Get_set_nonblank:
  "cell_Get c' (set_nonblank (cell_Set c) v s) = (if c' = c \<and> v \<noteq> [] then v else cell_Get c' s)"
  "Getenv k (set_nonblank (cell_Set c) v s) = Getenv k s"
  by (simp_all add: set_nonblank_def cell_Get_Set)

lemmas setters = SetManifestsDir_def [abs_def]
  SetCrustGatherLocation_def [abs_def]
  SetReportLocation_def [abs_def]
  SetEnvK8SDistro_def [abs_def]
  SetOperatorImageRegistry_def [abs_def]
  SetOperatorImageRepository_def [abs_def]
  SetOperatorImageTag_def [abs_def]
  SetOperatorChartVersion_def [abs_def]
  SetArgoCDVersion_def [abs_def]
  SetConfigReloaderRegistry_def [abs_def]
  SetConfigReloaderRepository_def [abs_def]
  SetConfigReloaderTag_def [abs_def]
  SetVMSingleDefaultImage_def [abs_def]
  SetVMSingleDefaultVersion_def [abs_def]
  SetVMClusterVMSelectDefaultImage_def [abs_def]
  SetVMClusterVMSelectDefaultVersion_def [abs_def]
  SetVMClusterVMStorageDefaultImage_def [abs_def]
  SetVMClusterVMStorageDefaultVersion_def [abs_def]
  SetVMClusterVMInsertDefaultImage_def [abs_def]
  SetVMClusterVMInsertDefaultVersion_def [abs_def]
  SetVMAgentDefaultImage_def [abs_def]
  SetVMAgentDefaultVersion_def [abs_def]
  SetVMAlertDefaultImage_def [abs_def]
  SetVMAlertDefaultVersion_def [abs_def]
  SetVMAuthDefaultImage_def [abs_def]
  SetVMAuthDefaultVersion_def [abs_def]
  SetVMBackupDefaultImage_def [abs_def]
  SetVMBackupDefaultVersion_def [abs_def]
  SetVMRestoreDefaultImage_def [abs_def]
  SetVMRestoreDefaultVersion_def [abs_def]
  SetLicenseFile_def [abs_def]
  SetDistributedRegion_def [abs_def]
  SetDistributedZones_def [abs_def]
  SetVMK8sStackChart_def [abs_def]
  SetVMK8sStackChartVersion_def [abs_def]
  SetVMDistributedChartVersion_def [abs_def]
  SetVLSingleChartVersion_def [abs_def]
  SetVLCollectorChartVersion_def [abs_def]
  SetVLVersion_def [abs_def]
  SetVLEnterpriseVersion_def [abs_def]
  SetIngressHost_def [abs_def]
  SetScrambleNames_def [abs_def]

lemma Init_cells:
  assumes p: "abs_path (fl ''report'') = Inr p" and run: "Init abs_path fl c = Inr c'"
  shows
    "cell_Get ManifestsDirCell c' = (if fl ''manifests-dir'' \<noteq> [] then fl ''manifests-dir'' else cell_Get ManifestsDirCell c)"
    "cell_Get CrustGatherLocationCell c' = (if fl ''crust-gather-dir'' \<noteq> [] then fl ''crust-gather-dir'' else cell_Get CrustGatherLocationCell c)"
    "cell_Get EnvK8SDistroCell c' = fl ''env-k8s-distro''"
    "cell_Get OperatorImageRegistryCell c' = fl ''operator-registry''"
    "cell_Get OperatorImageRepositoryCell c' = fl ''operator-repository''"
    "cell_Get OperatorImageTagCell c' = fl ''operator-tag''"
    "cell_Get OperatorChartVersionCell c' = fl ''operator-chart-version''"
    "cell_Get ArgocdVersionCell c' = fl ''argocd-version''"
    "cell_Get ConfigReloaderRegistryCell c' = fl ''config-reloader-registry''"
    "cell_Get ConfigReloaderRepositoryCell c' = fl ''config-reloader-repository''"
    "cell_Get ConfigReloaderTagCell c' = fl ''config-reloader-tag''"
    "cell_Get VmSingleDefaultImageCell c' = fl ''vm-vmsingledefault-image''"
    "cell_Get VmSingleDefaultVersionCell c' = fl ''vm-vmsingledefault-version''"
    "cell_Get VmClusterVMSelectDefaultImageCell c' = fl ''vm-vmclusterdefault-vmselectdefault-image''"
    "cell_Get VmClusterVMSelectDefaultVersionCell c' = fl ''vm-vmclusterdefault-vmselectdefault-version''"
    "cell_Get VmClusterVMStorageDefaultImageCell c' = fl ''vm-vmclusterdefault-vmstoragedefault-image''"
    "cell_Get VmClusterVMStorageDefaultVersionCell c' = fl ''vm-vmclusterdefault-vmstoragedefault-version''"
    "cell_Get VmClusterVMInsertDefaultImageCell c' = fl ''vm-vmclusterdefault-vminsertdefault-image''"
    "cell_Get VmClusterVMInsertDefaultVersionCell c' = fl ''vm-vmclusterdefault-vminsertdefault-version''"
    "cell_Get VmAgentDefaultImageCell c' = fl ''vm-vmagentdefault-image''"
    "cell_Get VmAgentDefaultVersionCell c' = fl ''vm-vmagentdefault-version''"
    "cell_Get VmAlertDefaultImageCell c' = fl ''vm-vmalertdefault-image''"
    "cell_Get VmAlertDefaultVersionCell c' = fl ''vm-vmalertdefault-version''"
    "cell_Get VmAuthDefaultImageCell c' = fl ''vm-vmauthdefault-image''"
    "cell_Get VmAuthDefaultVersionCell c' = fl ''vm-vmauthdefault-version''"
    "cell_Get VmBackupDefaultImageCell c' = fl ''vm-vmbackupdefault-image''"
    "cell_Get VmBackupDefaultVersionCell c' = fl ''vm-vmbackupdefault-version''"
    "cell_Get VmRestoreDefaultImageCell c' = fl ''vm-vmrestoredefault-image''"
    "cell_Get VmRestoreDefaultVersionCell c' = fl ''vm-vmrestoredefault-version''"
    "cell_Get LicenseFileCell c' = fl ''license-file''"
    "cell_Get DistributedRegionCell c' = fl ''distributed-region''"
    "cell_Get DistributedZonesCell c' = fl ''distributed-zones''"
    "cell_Get VmK8sStackChartCell c' = (if fl ''vm-k8s-stack-chart-path'' \<noteq> [] then fl ''vm-k8s-stack-chart-path'' else cell_Get VmK8sStackChartCell c)"
    "cell_Get VmK8sStackChartVersionCell c' = fl ''vm-k8s-stack-chart-version''"
    "cell_Get VmDistributedChartVersionCell c' = fl ''vm-distributed-chart-version''"
    "cell_Get VlSingleChartVersionCell c' = fl ''vl-single-chart-version''"
    "cell_Get VlCollectorChartVersionCell c' = fl ''vl-collector-chart-version''"
    "cell_Get VlVersionCell c' = fl ''vl-version''"
    "cell_Get VlEnterpriseVersionCell c' = fl ''vl-enterprise-version''"
    "cell_Get IngressHostCell c' = (if fl ''ingress-host'' \<noteq> [] then fl ''ingress-host'' else cell_Get IngressHostCell c)"
    "cell_Get ScrambleNamesCell c' = fl ''scramble-names''"
    "cell_Get ReportLocationCell c' = p"
    "Getenv ''ALLURE_RESULTS_PATH'' c' = p"
  unfolding run [unfolded Init_def p bind_result_simps sum.inject, symmetric] setters
  by (simp_all only: fold.simps comp_apply id_apply cell_Get_Set cell_Get_set_nonblank
      cell_env_frame env.get_put cell_id.distinct simp_thms if_True if_False)

lemmas getters =
  EnvK8SDistro_def
  OperatorImageRegistry_def
  OperatorImageRepository_def
  OperatorImageTag_def
  OperatorChartVersion_def
  ArgoCDVersion_def
  ConfigReloaderRegistry_def
  ConfigReloaderRepository_def
  ConfigReloaderTag_def
  VMSingleDefaultImage_def
  VMSingleDefaultVersion_def
  VMClusterVMSelectDefaultImage_def
  VMClusterVMSelectDefaultVersion_def
  VMClusterVMStorageDefaultImage_def
  VMClusterVMStorageDefaultVersion_def
  VMClusterVMInsertDefaultImage_def
  VMClusterVMInsertDefaultVersion_def
  VMAgentDefaultImage_def
  VMAgentDefaultVersion_def
  VMAlertDefaultImage_def
  VMAlertDefaultVersion_def
  VMAuthDefaultImage_def
  VMAuthDefaultVersion_def
  VMBackupDefaultImage_def
  VMBackupDefaultVersion_def
  VMRestoreDefaultImage_def
  VMRestoreDefaultVersion_def
  LicenseFile_def
  DistributedRegion_def
  DistributedZones_def
  VMK8sStackChartVersion_def
  VMDistributedChartVersion_def
  VLSingleChartVersion_def
  VLCollectorChartVersion_def
  VLVersion_def
  VLEnterpriseVersion_def
  ReportLocation_def
  ManifestsRoot_def
  CrustGatherLocation_def
  VMK8sStackChart_def
  IngressHost_def
  ScrambleNames_def

text \<open>
  After \<open>Init\<close> every getter of the configuration gives the value of its flag; the report goes to
  the absolute form of its path, which the reporter finds in the environment; the four flags that
  keep a default when blank do so; and a path without absolute form is the only failure.
\<close>

theorem Init_configures:
  "case Init abs_path fl c of
     Inl err \<Rightarrow> abs_path (fl ''report'') = Inl err
   | Inr c' \<Rightarrow>
       list_all (\<lambda>(getter, flag). getter c' = fl flag) flag_getters \<and>
       abs_path (fl ''report'') = Inr (ReportLocation c') \<and>
       Getenv ''ALLURE_RESULTS_PATH'' c' = ReportLocation c' \<and>
       ManifestsRoot c' = (if fl ''manifests-dir'' = [] then ManifestsRoot c else fl ''manifests-dir'') \<and>
       CrustGatherLocation c' =
         (if fl ''crust-gather-dir'' = [] then CrustGatherLocation c else fl ''crust-gather-dir'') \<and>
       VMK8sStackChart c' =
         (if fl ''vm-k8s-stack-chart-path'' = [] then VMK8sStackChart c else fl ''vm-k8s-stack-chart-path'') \<and>
       IngressHost c' = (if fl ''ingress-host'' = [] then IngressHost c else fl ''ingress-host'') \<and>
       ScrambleNames c' = (fl ''scramble-names'' \<noteq> [])"
proof (cases "abs_path (fl ''report'')")
  case (Inl err)
  then show ?thesis by (simp add: Init_def)
next
  case (Inr p)
  then obtain c' where run: "Init abs_path fl c = Inr c'" by (simp add: Init_def)
  note cells = Init_cells [where abs_path = abs_path and fl = fl, OF Inr run]
  have "list_all (\<lambda>(getter, flag). getter c' = fl flag) flag_getters"
    unfolding flag_getters_def by (simp only: list.pred_inject prod.case getters cells simp_thms)
  with cells show ?thesis unfolding run sum.case getters Let_def by (simp add: Inr)
qed

end
