(* ===== verification/Metrics.thy ===== *)
theory Metrics
  imports PromQuery
begin

text \<open>
  Measured values in the tests: the range queries of \<open>pkg/promquery/main.go\<close>, the checker of
  \<open>pkg/tests/scanned_metric.go\<close> with the assertions of \<open>metric.go\<close>, the k6 queries of \<open>k6.go\<close> and the
  check of ingested metrics in \<open>ingestion.go\<close>. The formatting of times and of floating-point numbers
  are the arguments \<open>fmt_time\<close> and \<open>fmt_value\<close>. A time is \<open>None\<close> when it is the zero time.
\<close>

subsection \<open>Sample values\<close>

text \<open>A \<open>float64\<close> is an exact rational, an infinity or not a number; the code only compares them.\<close>

datatype sample = NaN | NegInf | PosInf | Finite rat

fun sample_less :: "sample \<Rightarrow> sample \<Rightarrow> bool" where
  "sample_less (Finite a) (Finite b) = (a < b)"
| "sample_less NegInf (Finite _) = True"
| "sample_less NegInf PosInf = True"
| "sample_less (Finite _) PosInf = True"
| "sample_less _ _ = False"

definition sample_eq :: "sample \<Rightarrow> sample \<Rightarrow> bool" where
  "sample_eq a b \<longleftrightarrow> a \<noteq> NaN \<and> a = b"

lemma sample_trichotomy:
  "a \<noteq> NaN \<Longrightarrow> b \<noteq> NaN \<Longrightarrow> sample_less a b \<or> sample_eq a b \<or> sample_less b a"
  by (cases a; cases b) (auto simp: sample_eq_def)

lemma sample_less_asym: "sample_less a b \<Longrightarrow> \<not> sample_less b a \<and> \<not> sample_eq a b"
  by (cases a; cases b) (auto simp: sample_eq_def)

subsection \<open>Assertions\<close>

record metric_parameter =
  mp_Name :: gostring
  mp_Value :: gostring

record scanned_metric =
  sm_value :: sample
  sm_msg :: gostring
  sm_parameters :: "metric_parameter list"

text \<open>
  An assertion adds the parameters of the metric to the report when it fails, and stops the test.
  It is given by what it added and its outcome.
\<close>

type_synonym assertion = "metric_parameter list \<times> unit result"

definition asserted :: "bool \<Rightarrow> scanned_metric \<Rightarrow> assertion" where
  "asserted ok s = (if ok then ([], Inr ()) else (sm_parameters s, Inl (sm_msg s)))"

definition and_then :: "assertion \<Rightarrow> assertion \<Rightarrow> assertion" where
  "and_then a b = (case a of (ps, Inl e) \<Rightarrow> (ps, Inl e) | (ps, Inr _) \<Rightarrow> (ps @ fst b, snd b))"

definition metric_Greater :: "scanned_metric \<Rightarrow> sample \<Rightarrow> assertion" where
  "metric_Greater s expected = asserted (sample_less expected (sm_value s)) s"

definition metric_GreaterOrEqual :: "scanned_metric \<Rightarrow> sample \<Rightarrow> assertion" where
  "metric_GreaterOrEqual s expected =
     asserted (sample_less expected (sm_value s) \<or> sample_eq (sm_value s) expected) s"

definition metric_Less :: "scanned_metric \<Rightarrow> sample \<Rightarrow> assertion" where
  "metric_Less s expected = asserted (sample_less (sm_value s) expected) s"

definition metric_EqualTo :: "scanned_metric \<Rightarrow> sample \<Rightarrow> assertion" where
  "metric_EqualTo s expected = asserted (sample_eq (sm_value s) expected) s"

lemma asserted_passes: "snd (asserted ok s) = Inr () \<longleftrightarrow> ok"
  by (simp add: asserted_def)

lemma and_then_passes: "snd (and_then a b) = Inr () \<longleftrightarrow> snd a = Inr () \<and> snd b = Inr ()"
  by (cases a; cases "snd a") (auto simp: and_then_def)

subsection \<open>Range queries\<close>

type_synonym go_time = "int option"

definition queryStep :: duration where "queryStep = 1 * Minute"

type_synonym 'm range_api = "nat \<Rightarrow> gostring \<Rightarrow> go_time \<times> go_time \<times> duration \<Rightarrow> ('m, sample) prom_value reply"

definition QueryRangeAt ::
  "go_error \<Rightarrow> 'm range_api \<Rightarrow> (nat \<Rightarrow> bool) \<Rightarrow> gostring \<Rightarrow> go_time \<Rightarrow> go_time \<Rightarrow> ('m, sample) prom_value reply" where
  "QueryRangeAt ctx_err api ended query start end =
     fst (withRetry ValNone ctx_err (\<lambda>i. api i query (start, end, queryStep)) ended)"

definition QueryRange ::
  "go_error \<Rightarrow> 'm range_api \<Rightarrow> (nat \<Rightarrow> bool) \<Rightarrow> go_time \<Rightarrow> int \<Rightarrow> gostring \<Rightarrow> ('m, sample) prom_value reply" where
  "QueryRange ctx_err api ended client_Start now query =
     QueryRangeAt ctx_err api ended query client_Start (Some now)"

text \<open>An instant query, for the time at which it is asked.\<close>

definition Query ::
  "go_error \<Rightarrow> (nat \<Rightarrow> gostring \<Rightarrow> int \<Rightarrow> ('m, sample) prom_value reply) \<Rightarrow> (nat \<Rightarrow> bool) \<Rightarrow> (nat \<Rightarrow> int) \<Rightarrow> gostring \<Rightarrow>
     ('m, sample) prom_value reply" where
  "Query ctx_err api ended now query = fst (withRetry ValNone ctx_err (\<lambda>i. api i query (now i)) ended)"

subsection \<open>The checker\<close>

definition time_parameter :: "(int \<Rightarrow> gostring) \<Rightarrow> gostring \<Rightarrow> go_time \<Rightarrow> metric_parameter list" where
  "time_parameter fmt_time name t = (case t of None \<Rightarrow> [] | Some x \<Rightarrow> [\<lparr>mp_Name = name, mp_Value = fmt_time x\<rparr>])"

definition check_reply ::
  "(int \<Rightarrow> gostring) \<Rightarrow> (sample \<Rightarrow> gostring) \<Rightarrow> int \<Rightarrow> go_time \<Rightarrow> go_time \<Rightarrow> gostring \<Rightarrow> gostring \<Rightarrow>
     ('m, sample) prom_value reply \<Rightarrow> scanned_metric result" where
  "check_reply fmt_time fmt_value now start end purpose query r =
     (if rp_err r \<noteq> None
      then Inl (''Failed to make a query '' @ Quote purpose @ '' at time '' @ fmt_time now)
      else case rp_value r of
        ValMatrix [] \<Rightarrow> Inl (''query '' @ Quote purpose @ '' returned no series'')
      | ValMatrix ((_, samples) # _) \<Rightarrow>
          (if samples = [] then Inl (''query '' @ Quote purpose @ '' returned no samples'')
           else Inr \<lparr>sm_value = last samples, sm_msg = purpose,
                  sm_parameters =
                    [\<lparr>mp_Name = ''query'', mp_Value = query\<rparr>,
                     \<lparr>mp_Name = ''timestamp'', mp_Value = fmt_time now\<rparr>] @
                    time_parameter fmt_time ''start'' start @ time_parameter fmt_time ''end'' end @
                    [\<lparr>mp_Name = ''value'', mp_Value = fmt_value (last samples)\<rparr>]\<rparr>)
      | other \<Rightarrow> Inl (''query '' @ Quote purpose @ '' returned '' @ value_type other @ '' instead of matrix''))"

definition NewMetricChecker ::
  "(int \<Rightarrow> gostring) \<Rightarrow> (sample \<Rightarrow> gostring) \<Rightarrow> go_error \<Rightarrow> 'm range_api \<Rightarrow> (nat \<Rightarrow> bool) \<Rightarrow> go_time \<Rightarrow> int \<Rightarrow>
     go_time \<Rightarrow> go_time \<Rightarrow> gostring \<Rightarrow> gostring \<Rightarrow> scanned_metric result" where
  "NewMetricChecker fmt_time fmt_value ctx_err api ended client_Start now start end purpose query =
     check_reply fmt_time fmt_value now start end purpose query
       (if start = None \<and> end = None then QueryRange ctx_err api ended client_Start now query
        else QueryRangeAt ctx_err api ended query start end)"

text \<open>A reply the checker accepts: a matrix whose first series has samples.\<close>

definition has_sample :: "('m, sample) prom_value reply \<Rightarrow> bool" where
  "has_sample r \<longleftrightarrow>
     (if rp_err r \<noteq> None then False
      else case rp_value r of
        ValMatrix matrix \<Rightarrow> \<not> (length matrix = 0 \<or> length (snd (matrix ! 0)) = 0)
      | _ \<Rightarrow> False)"

lemma has_sample_iff:
  "has_sample r \<longleftrightarrow> rp_err r = None \<and> (\<exists>m samples rest. rp_value r = ValMatrix ((m, samples) # rest) \<and> samples \<noteq> [])"
proof (cases "rp_value r")
  case (ValMatrix matrix)
  then show ?thesis by (cases matrix) (auto simp: has_sample_def)
qed (auto simp: has_sample_def)

lemma check_reply_accepts:
  "(\<exists>m. check_reply fmt_time fmt_value now start end purpose query r = Inr m) \<longleftrightarrow> has_sample r"
  unfolding has_sample_iff
  by (auto simp: check_reply_def split: prom_value.splits list.splits)

text \<open>
  The checker yields a metric exactly for a query whose last attempt answered with a matrix
  whose first series has samples; the metric is the latest of them, under the purpose of the check,
  and carries the query, the window and the value for the report.
\<close>

theorem checker_gives_last_sample:
  "(NewMetricChecker fmt_time fmt_value ctx_err api ended client_Start now start end purpose query = Inr m) =
     (\<exists>metric samples rest.
        (let window = (if start = None \<and> end = None then (client_Start, Some now) else (start, end));
             r = fst (withRetry ValNone ctx_err (\<lambda>i. api i query (fst window, snd window, queryStep)) ended)
         in rp_err r = None \<and> rp_value r = ValMatrix ((metric, samples) # rest)) \<and>
        samples \<noteq> [] \<and> sm_value m = last samples \<and> sm_msg m = purpose \<and>
        map mp_Name (sm_parameters m) =
          [''query'', ''timestamp''] @ (if start = None then [] else [''start'']) @
          (if end = None then [] else [''end'']) @ [''value''] \<and>
        sm_parameters m =
          \<lparr>mp_Name = ''query'', mp_Value = query\<rparr> # \<lparr>mp_Name = ''timestamp'', mp_Value = fmt_time now\<rparr> #
          time_parameter fmt_time ''start'' start @ time_parameter fmt_time ''end'' end @
          [\<lparr>mp_Name = ''value'', mp_Value = fmt_value (last samples)\<rparr>])"
proof -
  define r where "r = (if start = None \<and> end = None then QueryRange ctx_err api ended client_Start now query
    else QueryRangeAt ctx_err api ended query start end)"
  have r: "r = (let window = (if start = None \<and> end = None then (client_Start, Some now) else (start, end))
     in fst (withRetry ValNone ctx_err (\<lambda>i. api i query (fst window, snd window, queryStep)) ended))"
    by (simp add: r_def QueryRange_def QueryRangeAt_def)
  have names: "map mp_Name (time_parameter fmt_time name t) = (if t = None then [] else [name])" for name t
    by (cases t) (simp_all add: time_parameter_def)
  have "(check_reply fmt_time fmt_value now start end purpose query r = Inr m) =
     (\<exists>metric samples rest. rp_err r = None \<and> rp_value r = ValMatrix ((metric, samples) # rest) \<and>
        samples \<noteq> [] \<and> sm_value m = last samples \<and> sm_msg m = purpose \<and>
        sm_parameters m =
          \<lparr>mp_Name = ''query'', mp_Value = query\<rparr> # \<lparr>mp_Name = ''timestamp'', mp_Value = fmt_time now\<rparr> #
          time_parameter fmt_time ''start'' start @ time_parameter fmt_time ''end'' end @
          [\<lparr>mp_Name = ''value'', mp_Value = fmt_value (last samples)\<rparr>])"
    by (cases m) (auto simp: check_reply_def split: prom_value.splits list.splits)
  then show ?thesis
    unfolding NewMetricChecker_def r_def [symmetric] unfolding r Let_def by (auto simp: names)
qed

subsection \<open>k6 metrics\<close>

definition k6RunSelector :: "gostring \<Rightarrow> gostring" where
  "k6RunSelector scenario = ''testrun_name=~\"^'' @ scenario @ ''.*$\"''"

definition K6ReqsQuery :: "gostring \<Rightarrow> gostring \<Rightarrow> gostring \<Rightarrow> gostring" where
  "K6ReqsQuery scenario kind window =
     ''max_over_time(sum(k6_http_reqs_total{scenario='' @ Quote kind @ '', '' @ k6RunSelector scenario @
     ''})['' @ window @ ''])''"

definition K6FailureRateQuery :: "gostring \<Rightarrow> gostring \<Rightarrow> gostring \<Rightarrow> gostring" where
  "K6FailureRateQuery scenario kind window =
     ''max(max_over_time(k6_http_req_failed_rate{scenario='' @ Quote kind @ '', '' @ k6RunSelector scenario @
     ''}['' @ window @ ''])) or vector(0)''"

definition K6P95Query :: "gostring \<Rightarrow> gostring \<Rightarrow> gostring \<Rightarrow> gostring" where
  "K6P95Query scenario kind window =
     ''max(max_over_time(k6_http_req_duration_p95{scenario='' @ Quote kind @ '', '' @ k6RunSelector scenario @
     ''}['' @ window @ '']))''"

definition K6DroppedIterationsQuery :: "gostring \<Rightarrow> gostring \<Rightarrow> gostring \<Rightarrow> gostring" where
  "K6DroppedIterationsQuery scenario kind window =
     ''sum(max_over_time(k6_dropped_iterations_total{scenario='' @ Quote kind @ '', '' @ k6RunSelector scenario @
     ''}['' @ window @ ''])) or vector(0)''"

definition any_stream_sampled :: "('m, sample) prom_value reply \<Rightarrow> bool" where
  "any_stream_sampled r \<longleftrightarrow>
     (if rp_err r \<noteq> None then False
      else case rp_value r of
        ValMatrix matrix \<Rightarrow> list_ex (\<lambda>stream. 0 < length (snd stream)) matrix
      | _ \<Rightarrow> False)"

definition k6_scraped_query :: "gostring \<Rightarrow> gostring" where
  "k6_scraped_query scenario = ''sum(k6_http_reqs_total{'' @ k6RunSelector scenario @ ''})''"

text \<open>
  \<open>nows\<close> are the times of the polls made before the deadline, \<open>query_at\<close> the reply to a range query
  for a start and an end. The end of the window is the time of the poll that found a sample.
\<close>

definition WaitForK6Metrics ::
  "(gostring \<Rightarrow> int \<Rightarrow> int \<Rightarrow> ('m, sample) prom_value reply) \<Rightarrow> gostring \<Rightarrow> int \<Rightarrow> int list \<Rightarrow> int result" where
  "WaitForK6Metrics query_at scenario start nows =
     (case find (\<lambda>now. any_stream_sampled (query_at (k6_scraped_query scenario) start now)) nows of
        Some end \<Rightarrow> Inr end
      | None \<Rightarrow> Inl (''k6 metrics for '' @ scenario @ '' were not scraped''))"

subsection \<open>Ingested metrics\<close>

text \<open>The expected labels are compared with a lookup that gives the empty string for a missing label.\<close>

definition VerifyIngestedMetric ::
  "(nat \<Rightarrow> (gostring \<rightharpoonup> gostring) \<times> sample \<times> go_error) \<Rightarrow> gostring \<Rightarrow> sample \<Rightarrow> (gostring \<times> gostring) list \<Rightarrow> assertion" where
  "VerifyIngestedMetric scan metricName expectedValue expectedLabels =
     (case fst (RetryVectorScan Map.empty (Finite 0) 5 scan) of
        (labels, value, Some err) \<Rightarrow> ([], Inl ''Received unexpected error'')
      | (labels, value, None) \<Rightarrow>
          and_then (metric_EqualTo \<lparr>sm_value = value, sm_msg = metricName, sm_parameters = []\<rparr> expectedValue)
            ([], if list_all (\<lambda>(name, expected).
                      expected = (case labels name of None \<Rightarrow> [] | Some v \<Rightarrow> v)) expectedLabels
                 then Inr () else Inl ''Not equal''))"

text \<open>
  An ingested metric is accepted exactly when one of the five scans succeeded and the first
  that did shows the expected value and every expected label; a label expected to be empty is also
  accepted when it is missing.
\<close>

theorem VerifyIngestedMetric_passes_iff:
  "(snd (VerifyIngestedMetric scan name v expected) = Inr ()) =
     (case find (\<lambda>i. snd (snd (scan i)) = None) [0..<5] of
        None \<Rightarrow> False
      | Some i \<Rightarrow> sample_eq (fst (snd (scan i))) v \<and>
          list_all (\<lambda>(l, e). fst (scan i) l = Some e \<or> e = [] \<and> fst (scan i) l = None) expected)"
proof -
  have five: "nat 5 = 5" by simp
  have label: "e = (case o' of None \<Rightarrow> [] | Some v \<Rightarrow> v) \<longleftrightarrow> o' = Some e \<or> e = [] \<and> o' = None" for e :: gostring and o' :: "gostring option"
    by (cases o') auto
  show ?thesis
  proof (cases "find (\<lambda>i. snd (snd (scan i)) = None) [0..<5]")
    case None
    then have all: "\<forall>i < 5. snd (snd (scan i)) \<noteq> None" by (auto simp: find_None_iff)
    then have l: "snd (snd (scan 4)) \<noteq> None" by simp
    have "fst (RetryVectorScan Map.empty (Finite 0) 5 scan) = scan 4"
      using rescan.none_final [of 5 scan] all by (simp add: RetryVectorScan_def five)
    with None l show ?thesis by (cases "scan 4") (auto simp: VerifyIngestedMetric_def)
  next
    case (Some k)
    then obtain n where n: "n < 5" "k = n" "snd (snd (scan n)) = None" "\<forall>j < n. snd (snd (scan j)) \<noteq> None"
      by (auto simp: find_Some_iff)
    then have "fst (RetryVectorScan Map.empty (Finite 0) 5 scan) = scan n"
      using rescan.first_final [of n 5 scan] by (simp add: RetryVectorScan_def five)
    with Some n show ?thesis
      by (cases "scan n") (simp add: VerifyIngestedMetric_def and_then_passes metric_EqualTo_def asserted_passes label)
  qed
qed

lemma find_split:
  "find P xs = Some x \<longleftrightarrow> (\<exists>before after. xs = before @ x # after \<and> P x \<and> list_all (\<lambda>y. \<not> P y) before)"
proof
  assume "find P xs = Some x"
  then obtain i where i: "i < length xs" "P (xs ! i)" "x = xs ! i" "\<forall>j < i. \<not> P (xs ! j)"
    by (auto simp: find_Some_iff)
  then have "xs = take i xs @ x # drop (Suc i) xs" "list_all (\<lambda>y. \<not> P y) (take i xs)"
    by (simp_all add: id_take_nth_drop [symmetric] list_all_length)
  with i show "\<exists>before after. xs = before @ x # after \<and> P x \<and> list_all (\<lambda>y. \<not> P y) before" by blast
next
  assume "\<exists>before after. xs = before @ x # after \<and> P x \<and> list_all (\<lambda>y. \<not> P y) before"
  then obtain before after where x: "xs = before @ x # after" "P x" "list_all (\<lambda>y. \<not> P y) before" by blast
  then have "find P xs = find P (x # after)" by (induction before arbitrary: xs) auto
  with x show "find P xs = Some x" by simp
qed

text \<open>
  Waiting for k6 gives the time of the first poll that saw a sample in any series, and fails
  only if no poll did.
\<close>

theorem WaitForK6Metrics_outcome:
  "case WaitForK6Metrics query_at scenario start nows of
     Inr t \<Rightarrow> (\<exists>before after. nows = before @ t # after \<and>
        any_stream_sampled (query_at (k6_scraped_query scenario) start t) \<and>
        list_all (\<lambda>now. \<not> any_stream_sampled (query_at (k6_scraped_query scenario) start now)) before)
   | Inl msg \<Rightarrow> list_all (\<lambda>now. \<not> any_stream_sampled (query_at (k6_scraped_query scenario) start now)) nows"
proof (cases "find (\<lambda>now. any_stream_sampled (query_at (k6_scraped_query scenario) start now)) nows")
  case None
  then have "list_all (\<lambda>now. \<not> any_stream_sampled (query_at (k6_scraped_query scenario) start now)) nows"
    by (simp add: find_None_iff list_all_iff)
  then show ?thesis by (simp add: WaitForK6Metrics_def None)
next
  case (Some t)
  with Some [unfolded find_split] show ?thesis by (simp add: WaitForK6Metrics_def)
qed

end
