(* ===== verification/Sli.thy ===== *)
theory Sli
  imports Metrics
begin

text \<open>
  Service level indicators (\<open>pkg/tests/sli.go\<close>): the dashboard queries of a cluster, a single node
  and an agent, the check of their values and the wait for their samples. The queries are written
  as the code formats them, verb by verb.
\<close>

subsection \<open>Selectors\<close>

definition sliRateInterval :: gostring where "sliRateInterval = ''5m''"
definition sliPercentMax :: rat where "sliPercentMax = 200"

definition sliJobInsert :: gostring where "sliJobInsert = ''.*vminsert.*''"
definition sliJobSelect :: gostring where "sliJobSelect = ''.*vmselect.*''"
definition sliJobStorage :: gostring where "sliJobStorage = ''.*vmstorage.*''"
definition sliJobCluster :: gostring where "sliJobCluster = ''.*vm(insert|select|storage).*''"
definition sliJobSingle :: gostring where "sliJobSingle = ''.*vmsingle.*''"
definition sliJobAgent :: gostring where "sliJobAgent = ''.*vmagent.*''"

record SLI =
  sli_Name :: gostring
  sli_Query :: gostring
  sli_Max :: rat

definition sliSelector :: "gostring \<Rightarrow> gostring \<Rightarrow> gostring" where
  "sliSelector namespace job = ''job=~'' @ Quote job @ '', namespace='' @ Quote namespace"

subsection \<open>Panels\<close>

definition sliErrorRate :: "gostring \<Rightarrow> gostring" where
  "sliErrorRate selector =
     ''100 * (sum(rate(vm_http_request_errors_total{'' @ selector @ ''}['' @
          sliRateInterval @ ''])) or vector(0)) / clamp_min(sum(rate(vm_http_requests_total{'' @
          selector @ ''}['' @ sliRateInterval @ ''])), 1)''"

definition sliCPUUtilization :: "gostring \<Rightarrow> gostring" where
  "sliCPUUtilization selector =
     ''100 * max(rate(process_cpu_seconds_total{'' @ selector @ ''}['' @ sliRateInterval @
          '']) / process_cpu_cores_available{'' @ selector @ ''})''"

definition sliMemoryUtilization :: "gostring \<Rightarrow> gostring" where
  "sliMemoryUtilization selector =
     ''100 * max(max_over_time(process_resident_memory_bytes{'' @ selector @ ''}['' @
          sliRateInterval @ '']) / vm_available_memory_bytes{'' @ selector @ ''})''"

definition sliSlowInsertRatio :: "gostring \<Rightarrow> gostring" where
  "sliSlowInsertRatio selector =
     ''sum(100 * ((rate(vm_slow_row_inserts_total{'' @ selector @ ''}['' @ sliRateInterval @
          '']) or 0) / clamp_min(rate(vm_rows_added_to_storage_total{'' @ selector @ ''}['' @
          sliRateInterval @ '']), 1)))''"

definition VMClusterSLIPanels :: "gostring \<Rightarrow> SLI list" where
  "VMClusterSLIPanels namespace =
     (let ins = sliSelector namespace sliJobInsert; sel = sliSelector namespace sliJobSelect;
          storage = sliSelector namespace sliJobStorage; cluster = sliSelector namespace sliJobCluster
      in
     [\<lparr> sli_Name = ''vmcluster ingestion request rate'',
        sli_Query =
          ''sum(rate(vm_rows_inserted_total{'' @ ins @ ''}['' @ sliRateInterval @ '']))'',
        sli_Max = 0 \<rparr>,
      \<lparr> sli_Name = ''vmcluster ingestion error rate'',
        sli_Query =
          sliErrorRate ins,
        sli_Max = sliPercentMax \<rparr>,
      \<lparr> sli_Name = ''vmcluster slow insert ratio'',
        sli_Query =
          sliSlowInsertRatio cluster,
        sli_Max = 0 \<rparr>,
      \<lparr> sli_Name = ''vmcluster ingestion concurrency saturation'',
        sli_Query =
          ''100 * max(vm_concurrent_insert_current{'' @ ins @
          ''}) / clamp_min(min(vm_concurrent_insert_capacity{'' @ ins @ ''}), 1)'',
        sli_Max = sliPercentMax \<rparr>,
      \<lparr> sli_Name = ''vmcluster query request rate'',
        sli_Query =
          ''sum(rate(vm_http_requests_total{'' @ sel @ ''}['' @ sliRateInterval @ '']))'',
        sli_Max = 0 \<rparr>,
      \<lparr> sli_Name = ''vmcluster query error rate'',
        sli_Query =
          sliErrorRate sel,
        sli_Max = sliPercentMax \<rparr>,
      \<lparr> sli_Name = ''vmcluster slow query ratio'',
        sli_Query =
          ''clamp_min(100 * ((sum(rate(vm_slow_queries_total{'' @ sel @ ''}['' @ sliRateInterval @
          ''])) or vector(0)) / clamp_min(sum(rate(vm_http_requests_total{'' @ sel @ ''}['' @
          sliRateInterval @ ''])), 1)), 0)'',
        sli_Max = sliPercentMax \<rparr>,
      \<lparr> sli_Name = ''vmcluster query concurrency saturation'',
        sli_Query =
          ''100 * max(vm_concurrent_select_current{'' @ sel @
          ''}) / clamp_min(min(vm_concurrent_select_capacity{'' @ sel @ ''}), 1)'',
        sli_Max = sliPercentMax \<rparr>,
      \<lparr> sli_Name = ''vmcluster CPU utilization'',
        sli_Query =
          sliCPUUtilization cluster,
        sli_Max = sliPercentMax \<rparr>,
      \<lparr> sli_Name = ''vmcluster memory utilization'',
        sli_Query =
          sliMemoryUtilization cluster,
        sli_Max = sliPercentMax \<rparr>,
      \<lparr> sli_Name = ''vmcluster storage full ETA'',
        sli_Query =
          ''min((vm_free_disk_space_bytes{'' @ storage @ ''} - vm_free_disk_space_limit_bytes{'' @
          storage @ ''}) / ignoring(path) ( (rate(vm_rows_added_to_storage_total{'' @ storage @
          ''}[1d]) - sum(rate(vm_deduplicated_samples_total{'' @ storage @
          ''}[1d])) without(type)) * (sum(vm_data_size_bytes{'' @ storage @
          '', type!~\"indexdb.*\"}) without(type) / sum(vm_rows{'' @ storage @
          '', type!~\"indexdb.*\"}) without(type)) + rate(vm_new_timeseries_created_total{'' @
          storage @ ''}[1d]) * (sum(vm_data_size_bytes{'' @ storage @
          '', type=\"indexdb/file\"}) without(type) / sum(vm_rows{'' @ storage @
          '', type=\"indexdb/file\"}) without(type)) ) > 0) or vector(0)'',
        sli_Max = 0 \<rparr>,
      \<lparr> sli_Name = ''vmcluster storage full ETA inputs'',
        sli_Query =
          ''count(vm_free_disk_space_bytes{'' @ storage @
          ''}) + count(vm_free_disk_space_limit_bytes{'' @ storage @
          ''}) + count(vm_new_timeseries_created_total{'' @ storage @
          ''}) + count(vm_deduplicated_samples_total{'' @ storage @
          ''}) + count(vm_data_size_bytes{'' @ storage @ ''}) + count(vm_rows{'' @ storage @
          ''})'',
        sli_Max = 0 \<rparr>,
      \<lparr> sli_Name = ''vmcluster storage connection saturation'',
        sli_Query =
          ''max(rate(vm_rpc_send_duration_seconds_total{'' @ cluster @ ''}['' @ sliRateInterval @
          ''])) * 100'',
        sli_Max = 0 \<rparr>])"

definition VMSingleSLI :: "gostring \<Rightarrow> SLI list" where
  "VMSingleSLI namespace =
     (let single = sliSelector namespace sliJobSingle;
          write = single @ '', path=~\".*write\"'';
          read = single @ '', path!~\".*(/write|/metrics)\"''
      in
     [\<lparr> sli_Name = ''vmsingle ingestion request rate'',
        sli_Query =
          ''sum(rate(vm_rows_inserted_total{'' @ single @ ''}['' @ sliRateInterval @ '']))'',
        sli_Max = 0 \<rparr>,
      \<lparr> sli_Name = ''vmsingle ingestion error rate'',
        sli_Query =
          sliErrorRate write,
        sli_Max = sliPercentMax \<rparr>,
      \<lparr> sli_Name = ''vmsingle slow insert ratio'',
        sli_Query =
          sliSlowInsertRatio single,
        sli_Max = 0 \<rparr>,
      \<lparr> sli_Name = ''vmsingle query request rate'',
        sli_Query =
          ''sum(rate(vm_http_requests_total{'' @ read @ ''}['' @ sliRateInterval @ '']))'',
        sli_Max = 0 \<rparr>,
      \<lparr> sli_Name = ''vmsingle query error rate'',
        sli_Query =
          sliErrorRate read,
        sli_Max = sliPercentMax \<rparr>,
      \<lparr> sli_Name = ''vmsingle query request duration'',
        sli_Query =
          ''max(vm_request_duration_seconds{'' @ read @ '', quantile=\"0.99\"})'',
        sli_Max = 0 \<rparr>,
      \<lparr> sli_Name = ''vmsingle CPU utilization'',
        sli_Query =
          sliCPUUtilization single,
        sli_Max = sliPercentMax \<rparr>,
      \<lparr> sli_Name = ''vmsingle memory utilization'',
        sli_Query =
          sliMemoryUtilization single,
        sli_Max = sliPercentMax \<rparr>,
      \<lparr> sli_Name = ''vmsingle concurrent insert saturation'',
        sli_Query =
          ''100 * sum(vm_concurrent_insert_current{'' @ single @
          ''}) / clamp_min(sum(vm_concurrent_insert_capacity{'' @ single @ ''}), 1)'',
        sli_Max = sliPercentMax \<rparr>])"

definition VMAgentSLI :: "gostring \<Rightarrow> SLI list" where
  "VMAgentSLI namespace =
     (let agent = sliSelector namespace sliJobAgent
      in
     [\<lparr> sli_Name = ''vmagent push rate'',
        sli_Query =
          ''sum(rate(vmagent_remotewrite_requests_total{'' @ agent @ ''}['' @ sliRateInterval @
          '']))'',
        sli_Max = 0 \<rparr>,
      \<lparr> sli_Name = ''vmagent push error rate'',
        sli_Query =
          ''100 * (((sum(rate(vmagent_remotewrite_requests_total{'' @ agent @
          '', status_code!~\"2..\"}['' @ sliRateInterval @
          ''])) + sum(rate(vmagent_remotewrite_retries_count_total{'' @ agent @ ''}['' @
          sliRateInterval @
          '']))) or vector(0)) / clamp_min(sum(rate(vmagent_remotewrite_requests_total{'' @
          agent @ ''}['' @ sliRateInterval @ ''])), 1))'',
        sli_Max = sliPercentMax \<rparr>,
      \<lparr> sli_Name = ''vmagent push duration'',
        sli_Query =
          ''sum(rate(vmagent_remotewrite_send_duration_seconds_total{'' @ agent @ ''}['' @
          sliRateInterval @ ''])) / clamp_min(sum(rate(vmagent_remotewrite_requests_total{'' @
          agent @ ''}['' @ sliRateInterval @ ''])), 1)'',
        sli_Max = 0 \<rparr>,
      \<lparr> sli_Name = ''vmagent persistent queue size'',
        sli_Query =
          ''sum(vmagent_remotewrite_pending_data_bytes{'' @ agent @ ''})'',
        sli_Max = 0 \<rparr>,
      \<lparr> sli_Name = ''vmagent scrape duration p99'',
        sli_Query =
          ''histogram_quantile(0.99, sum(rate(vm_promscrape_scrape_duration_seconds_bucket{'' @
          agent @ ''}['' @ sliRateInterval @ ''])) by (vmrange)) or vector(0)'',
        sli_Max = 0 \<rparr>,
      \<lparr> sli_Name = ''vmagent CPU utilization'',
        sli_Query =
          sliCPUUtilization agent,
        sli_Max = sliPercentMax \<rparr>,
      \<lparr> sli_Name = ''vmagent memory utilization'',
        sli_Query =
          sliMemoryUtilization agent,
        sli_Max = sliPercentMax \<rparr>,
      \<lparr> sli_Name = ''vmagent rows ignored rate'',
        sli_Query =
          ''sum(rate(vm_rows_ignored_total{'' @ agent @ ''}['' @ sliRateInterval @
          ''])) or vector(0)'',
        sli_Max = 0 \<rparr>,
      \<lparr> sli_Name = ''vmagent concurrent insert saturation'',
        sli_Query =
          ''100 * max(vm_concurrent_insert_current{'' @ agent @
          ''}) / max(vm_concurrent_insert_capacity{'' @ agent @ ''})'',
        sli_Max = sliPercentMax \<rparr>,
      \<lparr> sli_Name = ''vmagent remote write connection saturation'',
        sli_Query =
          ''100 * max(rate(vmagent_remotewrite_send_duration_seconds_total{'' @ agent @ ''}['' @
          sliRateInterval @ '']) / vmagent_remotewrite_queues{'' @ agent @ ''})'',
        sli_Max = sliPercentMax \<rparr>])"

subsection \<open>Checks\<close>

text \<open>
  A failing check stops the test, so the indicators after it are not evaluated. \<open>check\<close> is the
  checker; the names of the indicators tell its calls apart.
\<close>

fun CheckSLI :: "(gostring \<Rightarrow> gostring \<Rightarrow> scanned_metric result) \<Rightarrow> SLI list \<Rightarrow> assertion" where
  "CheckSLI check [] = ([], Inr ())"
| "CheckSLI check (indicator # indicators) =
     (case check (''SLI: '' @ sli_Name indicator) (sli_Query indicator) of
        Inl e \<Rightarrow> ([], Inl e)
      | Inr metric \<Rightarrow>
          and_then (metric_GreaterOrEqual metric (Finite 0))
            (and_then (if sli_Max indicator > 0 then metric_Less metric (Finite (sli_Max indicator)) else ([], Inr ()))
              (CheckSLI check indicators)))"

text \<open>One poll of \<open>WaitForSLI\<close>, given the replies to the range queries, and the wait over its polls.\<close>

fun sli_ready :: "(gostring \<Rightarrow> ('m, sample) prom_value reply) \<Rightarrow> SLI list \<Rightarrow> bool" where
  "sli_ready query_range [] = True"
| "sli_ready query_range (indicator # indicators) =
     (if \<not> has_sample (query_range (sli_Query indicator)) then False else sli_ready query_range indicators)"

definition WaitForSLI :: "(gostring \<Rightarrow> ('m, sample) prom_value reply) list \<Rightarrow> SLI list \<Rightarrow> unit result" where
  "WaitForSLI polls indicators =
     (if list_ex (\<lambda>query_range. sli_ready query_range indicators) polls then Inr ()
      else Inl ''SLI queries returned no data'')"

text \<open>
  C30: The check passes exactly when every indicator yields a metric whose value is at least zero and,
  where the panel is bounded, below the bound; it then reports nothing, and a value that is not a
  number never passes.
\<close>

theorem CheckSLI_passes_iff:
  "(CheckSLI check indicators = ([], Inr ())) =
     list_all (\<lambda>i. case check (''SLI: '' @ sli_Name i) (sli_Query i) of
         Inl _ \<Rightarrow> False
       | Inr m \<Rightarrow> sm_value m \<noteq> NaN \<and> \<not> sample_less (sm_value m) (Finite 0) \<and>
           (if sli_Max i > 0 then sample_less (sm_value m) (Finite (sli_Max i)) else True)) indicators"
proof (induction indicators)
  case (Cons i indicators)
  have ge: "metric_GreaterOrEqual m (Finite 0) = ([], Inr ()) \<longleftrightarrow>
      sm_value m \<noteq> NaN \<and> \<not> sample_less (sm_value m) (Finite 0)" for m
    by (cases "sm_value m") (auto simp: metric_GreaterOrEqual_def asserted_def sample_eq_def)
  have lt: "metric_Less m x = ([], Inr ()) \<longleftrightarrow> sample_less (sm_value m) x" for m x
    by (simp add: metric_Less_def asserted_def)
  have seq: "and_then a b = ([], Inr ()) \<longleftrightarrow> a = ([], Inr ()) \<and> b = ([], Inr ())" for a b
    by (cases a; cases b; cases "snd a") (auto simp: and_then_def)
  show ?case
    by (cases "check (''SLI: '' @ sli_Name i) (sli_Query i)") (simp_all add: seq ge lt Cons.IH)
qed simp

lemma sli_ready_all: "sli_ready qr inds = list_all (\<lambda>i. has_sample (qr (sli_Query i))) inds"
  by (induction inds) auto

text \<open>
  A poll of \<open>WaitForSLI\<close> is satisfied exactly when the checker would get a metric from every one of
  the same replies: after a wait that succeeded, only the values can fail the check.
\<close>

theorem sli_wait_matches_check:
  "sli_ready query_range indicators =
     list_all (\<lambda>i. \<exists>m. check_reply fmt_time fmt_value now start end (''SLI: '' @ sli_Name i) (sli_Query i)
                        (query_range (sli_Query i)) = Inr m) indicators"
  by (simp add: sli_ready_all check_reply_accepts)

subsection \<open>Well-formed queries\<close>

text \<open>
  A scan of a query, token by token as far as brackets and string literals go: brackets nest, string
  literals end, and every label selector in braces starts as demanded. Brackets inside string
  literals do not count.
\<close>

fun scan_query :: "(gostring \<Rightarrow> bool) \<Rightarrow> char list \<Rightarrow> bool \<Rightarrow> gostring \<Rightarrow> bool" where
  "scan_query starts st quoted [] = (\<not> quoted \<and> st = [])"
| "scan_query starts st True (c # cs) =
     (if c = bslash then (case cs of [] \<Rightarrow> False | d # ds \<Rightarrow> scan_query starts st True ds)
      else scan_query starts st (c \<noteq> dquote) cs)"
| "scan_query starts st False (c # cs) =
     (if c = dquote then scan_query starts st True cs
      else if c = CHR ''('' then scan_query starts (CHR '')'' # st) False cs
      else if c = CHR ''['' then scan_query starts (CHR '']'' # st) False cs
      else if c = CHR ''{'' then starts cs \<and> scan_query starts (CHR ''}'' # st) False cs
      else if c = CHR '')'' \<or> c = CHR '']'' \<or> c = CHR ''}'' then
        (case st of [] \<Rightarrow> False | e # st' \<Rightarrow> e = c \<and> scan_query starts st' False cs)
      else scan_query starts st False cs)"

definition sli_jobs :: "gostring list" where
  "sli_jobs = [sliJobInsert, sliJobSelect, sliJobStorage, sliJobCluster, sliJobSingle, sliJobAgent]"

definition starts_selector :: "gostring \<Rightarrow> gostring \<Rightarrow> bool" where
  "starts_selector namespace s = list_ex (\<lambda>job. HasPrefix s (sliSelector namespace job)) sli_jobs"

definition well_formed_query :: "gostring \<Rightarrow> gostring \<Rightarrow> bool" where
  "well_formed_query namespace q = scan_query (starts_selector namespace) [] False q"

lemma lower_hex_digit_plain: "d < 16 \<Longrightarrow> lower_hex_digit d \<noteq> bslash \<and> lower_hex_digit d \<noteq> dquote"
proof -
  assume "d < 16"
  then have "(of_char (lower_hex_digit d) :: nat) = (if d < 10 then 48 + d else 87 + d)"
    by (simp add: lower_hex_digit_def)
  moreover have "(of_char bslash :: nat) = 92" "(of_char dquote :: nat) = 34"
    by (simp_all add: bslash_def dquote_def)
  ultimately show ?thesis by (cases "d < 10") (use \<open>d < 16\<close> in auto)
qed

lemma scan_quoted_char: "scan_query starts st True (quote_char c @ rest) = scan_query starts st True rest"
proof -
  have "(of_char c :: nat) < 256" by (rule nat_of_char_less_256)
  then have "(of_char c :: nat) div 16 < 16" "(of_char c :: nat) mod 16 < 16" by (simp_all add: less_mult_imp_div_less)
  then have hex: "lower_hex_digit (of_char c div 16) \<noteq> bslash" "lower_hex_digit (of_char c div 16) \<noteq> dquote"
    "lower_hex_digit (of_char c mod 16) \<noteq> bslash" "lower_hex_digit (of_char c mod 16) \<noteq> dquote"
    by (simp_all add: lower_hex_digit_plain)
  show ?thesis
    by (simp add: quote_char_def hex)
qed

lemma scan_Quote: "scan_query starts st False (Quote s @ rest) = scan_query starts st False rest"
proof -
  have "scan_query starts st True (concat (map quote_char s) @ dquote # rest) =
      scan_query starts st False rest"
  proof (induction s)
    case Nil
    show ?case by (simp add: dquote_def bslash_def)
  next
    case (Cons c s)
    then show ?case by (simp add: scan_quoted_char)
  qed
  then show ?thesis by (simp add: Quote_def)
qed

lemma scan_sliSelector:
  "scan_query starts st False (sliSelector ns job @ rest) = scan_query starts st False rest"
  by (simp add: sliSelector_def scan_Quote dquote_def)

lemma starts_sliSelector: "job \<in> set sli_jobs \<Longrightarrow> starts_selector ns (sliSelector ns job @ rest)"
  unfolding starts_selector_def list_ex_iff by (rule bexI [of _ job]) simp_all

lemma sli_jobs_members:
  "sliJobInsert \<in> set sli_jobs" "sliJobSelect \<in> set sli_jobs" "sliJobStorage \<in> set sli_jobs"
  "sliJobCluster \<in> set sli_jobs" "sliJobSingle \<in> set sli_jobs" "sliJobAgent \<in> set sli_jobs"
  by (simp_all add: sli_jobs_def)

lemmas sli_scan = well_formed_query_def scan_sliSelector starts_sliSelector sli_jobs_members dquote_def bslash_def
  sliRateInterval_def sliErrorRate_def sliCPUUtilization_def sliMemoryUtilization_def sliSlowInsertRatio_def

lemma cluster_queries: "list_all (\<lambda>i. well_formed_query ns (sli_Query i)) (VMClusterSLIPanels ns)"
  by (simp add: VMClusterSLIPanels_def Let_def sli_scan)

lemma single_queries: "list_all (\<lambda>i. well_formed_query ns (sli_Query i)) (VMSingleSLI ns)"
  by (simp add: VMSingleSLI_def Let_def sli_scan)

lemma agent_queries: "list_all (\<lambda>i. well_formed_query ns (sli_Query i)) (VMAgentSLI ns)"
  by (simp add: VMAgentSLI_def Let_def sli_scan)

text \<open>
  C18: Whatever the namespace is called, every indicator of the three dashboards is a well-formed
  query in which each label selector demands a job of VictoriaMetrics and exactly that namespace; the
  names of the indicators are distinct, so the checks of one run can be told apart.
\<close>

theorem sli_queries_well_formed:
  "list_all (\<lambda>i. well_formed_query ns (sli_Query i)) (VMClusterSLIPanels ns @ VMSingleSLI ns @ VMAgentSLI ns) \<and>
   distinct (map sli_Name (VMClusterSLIPanels ns @ VMSingleSLI ns @ VMAgentSLI ns))"
proof
  show "list_all (\<lambda>i. well_formed_query ns (sli_Query i)) (VMClusterSLIPanels ns @ VMSingleSLI ns @ VMAgentSLI ns)"
    by (simp add: cluster_queries single_queries agent_queries)
  show "distinct (map sli_Name (VMClusterSLIPanels ns @ VMSingleSLI ns @ VMAgentSLI ns))"
    by (simp add: VMClusterSLIPanels_def VMSingleSLI_def VMAgentSLI_def Let_def)
qed

end
