(* ===== verification/Logs.thy ===== *)
theory Logs
  imports Gather Builders
begin

text \<open>
  The VictoriaLogs client of the tests (\<open>pkg/tests/victorialogs.go\<close>) and the certificates of the mutual
  TLS tests (\<open>pkg/tests/mtls.go\<close>). HTTP is the argument \<open>post\<close> or \<open>get\<close>; whether a request can be built
  for a URL is \<open>url_error\<close>; \<open>status_text\<close> is the reason phrase of a status. Key generation, signing and
  the PEM encoding are the record \<open>crypto\<close>.
\<close>

subsection \<open>Requests\<close>

definition VLPost ::
  "(int \<Rightarrow> gostring) \<Rightarrow> (gostring \<Rightarrow> gostring option) \<Rightarrow> (gostring \<Rightarrow> gostring \<Rightarrow> gostring \<Rightarrow> http_reply) \<Rightarrow>
     gostring \<Rightarrow> gostring \<Rightarrow> gostring \<Rightarrow> gostring \<Rightarrow> gostring option" where
  "VLPost status_text url_error post targetURL contentType payload op =
     (case url_error targetURL of
        Some err \<Rightarrow> Some (''build '' @ op @ '': '' @ err)
      | None \<Rightarrow>
          (case post targetURL contentType payload of
             NoReply err \<Rightarrow> Some (op @ '': '' @ err)
           | Reply status body \<Rightarrow>
               if 400 \<le> status
               then Some (op @ '' returned '' @ status_text status @ '': '' @ (case body of Inl _ \<Rightarrow> [] | Inr b \<Rightarrow> b))
               else None))"

definition ingest_url :: "gostring \<Rightarrow> gostring \<Rightarrow> gostring" where
  "ingest_url insertURL streamField = insertURL @ ''/insert/jsonline?_stream_fields='' @ QueryEscape streamField"

definition ingest_payload :: "gostring list \<Rightarrow> gostring" where
  "ingest_payload lines = concat (map (\<lambda>line. line @ [nl]) lines)"

definition VLIngest ::
  "(int \<Rightarrow> gostring) \<Rightarrow> (gostring \<Rightarrow> gostring option) \<Rightarrow> (gostring \<Rightarrow> gostring \<Rightarrow> gostring \<Rightarrow> http_reply) \<Rightarrow>
     gostring \<Rightarrow> gostring \<Rightarrow> gostring \<Rightarrow> gostring list \<Rightarrow> gostring option" where
  "VLIngest status_text url_error post insertURL streamField streamValue lines =
     VLPost status_text url_error post (ingest_url insertURL streamField) ''application/stream+json''
       (ingest_payload lines) ''ingest request''"

definition VLGet ::
  "(int \<Rightarrow> gostring) \<Rightarrow> (gostring \<Rightarrow> gostring option) \<Rightarrow> (gostring \<Rightarrow> http_reply) \<Rightarrow> gostring \<Rightarrow> gostring \<Rightarrow> gostring result" where
  "VLGet status_text url_error get targetURL op =
     (case url_error targetURL of
        Some err \<Rightarrow> Inl (''build '' @ op @ '': '' @ err)
      | None \<Rightarrow>
          (case get targetURL of
             NoReply err \<Rightarrow> Inl (op @ '': '' @ err)
           | Reply status (Inl err) \<Rightarrow> Inl (''read '' @ op @ '' body: '' @ err)
           | Reply status (Inr body) \<Rightarrow>
               if 400 \<le> status then Inl (op @ '' returned '' @ status_text status @ '': '' @ body) else Inr body))"

text \<open>
  \<open>parse_url\<close> splits a URL into the part before its query and the values of the query; setting a value
  replaces an old one, and the values are encoded in the order of their keys.
\<close>

definition with_query :: "(gostring \<times> gostring) list \<Rightarrow> gostring \<times> (gostring \<times> gostring) list \<Rightarrow> gostring" where
  "with_query sets u =
     fst u @ ''?'' @ Encode (sort_key fst (fold (\<lambda>(k, v) q. AList.update k v q) sets (snd u)))"

definition VLQuery ::
  "(int \<Rightarrow> gostring) \<Rightarrow> (gostring \<Rightarrow> gostring option) \<Rightarrow> (gostring \<Rightarrow> http_reply) \<Rightarrow> (int \<Rightarrow> gostring) \<Rightarrow>
     (gostring \<Rightarrow> (gostring \<times> (gostring \<times> gostring) list) result) \<Rightarrow> gostring \<Rightarrow> gostring \<Rightarrow> int \<Rightarrow> int \<Rightarrow> gostring result" where
  "VLQuery status_text url_error get fmt_utc parse_url selectURL query start end =
     (case parse_url (selectURL @ ''/select/logsql/query'') of
        Inl err \<Rightarrow> Inl (''build query url: '' @ err)
      | Inr u \<Rightarrow> VLGet status_text url_error get
          (with_query [(''query'', query), (''start'', fmt_utc start), (''end'', fmt_utc end)] u) ''query request'')"

definition VLStatsCount ::
  "(int \<Rightarrow> gostring) \<Rightarrow> (gostring \<Rightarrow> gostring option) \<Rightarrow> (gostring \<Rightarrow> http_reply) \<Rightarrow>
     (gostring \<Rightarrow> (gostring \<times> (gostring \<times> gostring) list) result) \<Rightarrow> gostring \<Rightarrow> gostring \<Rightarrow> gostring result" where
  "VLStatsCount status_text url_error get parse_url selectURL query =
     (case parse_url (selectURL @ ''/select/logsql/stats_query'') of
        Inl err \<Rightarrow> Inl (''build stats url: '' @ err)
      | Inr u \<Rightarrow> VLGet status_text url_error get (with_query [(''query'', query)] u) ''stats request'')"

lemma VLPost_accepted:
  "VLPost st ue post url ct payload op = None \<longleftrightarrow>
     ue url = None \<and> (\<exists>status body. post url ct payload = Reply status body \<and> status < 400)"
  by (auto simp: VLPost_def split: option.splits http_reply.splits)

lemma SplitC_payload: "list_all (\<lambda>l. nl \<notin> set l) lines \<Longrightarrow> SplitC nl (ingest_payload lines) = lines @ [[]]"
  by (induction lines) (auto simp: ingest_payload_def SplitC_append_sep)

text \<open>
  Lines without line breaks are ingested exactly when the server accepts one request whose body
  gives them back one by one, in their order, when it is split at line breaks; every other answer is
  an error of the caller.
\<close>

theorem VLIngest_sends_every_line:
  assumes "list_all (\<lambda>l. nl \<notin> set l) lines"
  shows "(VLIngest status_text url_error post insertURL field val lines = None) =
    (url_error (ingest_url insertURL field) = None \<and>
     (\<exists>payload status body. post (ingest_url insertURL field) ''application/stream+json'' payload = Reply status body \<and>
        status < 400 \<and> payload = ingest_payload lines \<and> SplitC nl payload = lines @ [[]]))"
  using SplitC_payload [OF assms] by (auto simp: VLIngest_def VLPost_accepted)

theorem VLIngest_sends_every_line_witness:
  "VLIngest (\<lambda>_. []) (\<lambda>_. None) (\<lambda>_ _ p. if p = ''a'' @ [nl] @ ''b'' @ [nl] then Reply 200 (Inr []) else NoReply ''no'')
     ''http://vl'' ''app'' ''x'' [''a'', ''b''] = None"
  using VLIngest_sends_every_line [of "[''a'', ''b'']" "\<lambda>_. []" "\<lambda>_. None"
      "\<lambda>_ _ p. if p = ''a'' @ [nl] @ ''b'' @ [nl] then Reply 200 (Inr []) else NoReply ''no''" "''http://vl''" "''app''" "''x''"]
  by (simp add: ingest_payload_def)

lemma VLGet_Inr:
  "VLGet st ue get url op = Inr body \<longleftrightarrow> ue url = None \<and> (\<exists>status. get url = Reply status (Inr body) \<and> status < 400)"
  by (auto simp: VLGet_def split: option.splits http_reply.splits sum.splits)

text \<open>The query of a log search, for a base URL without a query of its own.\<close>

lemma VLQuery_url:
  "with_query [(''query'', q), (''start'', s), (''end'', e)] (base, []) =
     base @ ''?end='' @ QueryEscape e @ ''&query='' @ QueryEscape q @ ''&start='' @ QueryEscape s"
proof -
  have n: "QueryEscape ''end'' = ''end''" "QueryEscape ''query'' = ''query''" "QueryEscape ''start'' = ''start''"
    by code_simp+
  have o: "''end'' < ''query''" "''query'' < ''start''" "''end'' < ''start''" by code_simp+
  then have "sort_key fst [(''query'', q), (''start'', s), (''end'', e)] = [(''end'', e), (''query'', q), (''start'', s)]"
    by (simp add: less_imp_le leD)
  then show ?thesis by (simp add: with_query_def Encode_def n)
qed

subsection \<open>The curl pod\<close>

definition curl_pod :: "gostring \<Rightarrow> gostring \<Rightarrow> json" where
  "curl_pod podName secretName = JObj
     [(''metadata'', JObj [(''name'', JStr podName)]),
      (''spec'', JObj
        [(''restartPolicy'', JStr ''Never''),
         (''containers'', JArr [JObj
           [(''name'', JStr ''curl''), (''image'', JStr ''curlimages/curl:8.8.0''),
            (''command'', JArr [JStr ''sleep'', JStr ''3600'']),
            (''volumeMounts'', JArr [JObj [(''name'', JStr ''mtls''), (''mountPath'', JStr ''/mtls''), (''readOnly'', JBool True)]])]]),
         (''volumes'', JArr [JObj
           [(''name'', JStr ''mtls''), (''secret'', JObj [(''secretName'', JStr secretName)])]])])]"

text \<open>
  \<open>InstallVLCurlPod\<close> reports its failures without stopping the test: the errors it reported are its
  result. \<open>client\<close> and \<open>created\<close> are the outcomes of making the client and the pod.
\<close>

definition InstallVLCurlPod ::
  "unit result \<Rightarrow> (json \<Rightarrow> unit result) \<Rightarrow> KubectlOptions \<Rightarrow> gostring \<Rightarrow> gostring \<Rightarrow> gostring list prog" where
  "InstallVLCurlPod client created ko podName secretName =
     (case client of
        Inl err \<Rightarrow> ret [''failed to create Kubernetes client: '' @ err]
      | Inr _ \<Rightarrow>
          (case created (curl_pod podName secretName) of
             Inl err \<Rightarrow> ret [''failed to create mTLS curl pod: '' @ err]
           | Inr _ \<Rightarrow>
               chain (perform (TryKubectl ko [''wait'', ''--for=condition=Ready'', ''pod/'' @ podName,
                        ''--timeout='' @ duration_String ResourceWaitTimeout]))
                 (\<lambda>r. case r of
                    Inl err \<Rightarrow> ret [''mTLS curl pod did not become ready: '' @ err]
                  | Inr _ \<Rightarrow> ret [])))"

definition curl_args :: "gostring \<Rightarrow> gostring \<Rightarrow> bool \<Rightarrow> gostring list \<Rightarrow> gostring list" where
  "curl_args podName targetURL withClientCert curlArgs =
     [''exec'', ''pod/'' @ podName, ''-c'', ''curl'', ''--'', ''curl'', ''--fail'', ''--silent'', ''--show-error'',
      ''--verbose'', ''--cacert'', ''/mtls/ca.crt''] @
     (if withClientCert then [''--cert'', ''/mtls/client.crt'', ''--key'', ''/mtls/client.key''] else []) @
     curlArgs @ [targetURL]"

definition RunVLCurl :: "KubectlOptions \<Rightarrow> gostring \<Rightarrow> gostring \<Rightarrow> bool \<Rightarrow> gostring list \<Rightarrow> gostring result prog" where
  "RunVLCurl ko podName targetURL withClientCert curlArgs =
     perform (TryKubectl ko (curl_args podName targetURL withClientCert curlArgs))"

interpretation curl_pod: fail_fast "InstallVLCurlPod client created ko pod secret" for client created ko pod secret
  unfolding InstallVLCurlPod_def by (intro ff)

interpretation run_curl: fail_fast "RunVLCurl ko pod url cert args" for ko pod url cert args
  unfolding RunVLCurl_def by (intro ff)

end
