(* ===== verification/Mtls.thy ===== *)
theory Mtls
  imports Builders
begin

text \<open>
  The certificates of the mutual TLS tests (\<open>pkg/tests/mtls.go\<close>). Key generation, serial numbers, the
  clock, signing and the encodings are the record \<open>crypto\<close>, numbered by their calls; the code relies
  on a certificate to read back as its template with the issuer and key it was made from.
\<close>

subsection \<open>Certificates\<close>

definition mtlsCertValidity :: duration where "mtlsCertValidity = 24 * (60 * Minute)"
definition mtlsCertClockSkew :: duration where "mtlsCertClockSkew = 60 * Minute"

record MTLSCerts =
  mc_CACert :: gostring
  mc_ServerCert :: gostring
  mc_ServerKey :: gostring
  mc_ClientCert :: gostring
  mc_ClientKey :: gostring

datatype key_usage = KeyUsageCertSign | KeyUsageCRLSign | KeyUsageDigitalSignature
datatype ext_key_usage = ExtKeyUsageServerAuth | ExtKeyUsageClientAuth

record certificate =
  ce_SerialNumber :: int
  ce_CommonName :: gostring
  ce_NotBefore :: int
  ce_NotAfter :: int
  ce_KeyUsage :: "key_usage list"
  ce_ExtKeyUsage :: "ext_key_usage list"
  ce_DNSNames :: "gostring list"
  ce_BasicConstraintsValid :: bool
  ce_IsCA :: bool

record 'k crypto =
  cr_key :: "nat \<Rightarrow> 'k result"
  cr_serial :: "nat \<Rightarrow> int result"
  cr_now :: "nat \<Rightarrow> int"
  cr_create :: "certificate \<Rightarrow> certificate \<Rightarrow> 'k \<Rightarrow> 'k \<Rightarrow> gostring result"
  cr_marshal :: "'k \<Rightarrow> gostring result"
  cr_pem :: "gostring \<Rightarrow> gostring \<Rightarrow> gostring"

definition ServiceDNSNames :: "gostring \<Rightarrow> gostring list \<Rightarrow> gostring list" where
  "ServiceDNSNames namespace services =
     concat (map (\<lambda>service. let base = service @ ''.'' @ namespace
                            in [base @ ''.svc.cluster.local'', base @ ''.svc'', base]) services)"

definition encodePEM :: "'k crypto \<Rightarrow> gostring \<Rightarrow> gostring \<Rightarrow> gostring" where
  "encodePEM cr blockType der = cr_pem cr blockType der"

definition ca_template :: "gostring \<Rightarrow> int \<Rightarrow> certificate" where
  "ca_template caCN now =
     \<lparr>ce_SerialNumber = 1, ce_CommonName = caCN, ce_NotBefore = now - mtlsCertClockSkew,
      ce_NotAfter = now + mtlsCertValidity, ce_KeyUsage = [KeyUsageCertSign, KeyUsageCRLSign],
      ce_ExtKeyUsage = [], ce_DNSNames = [], ce_BasicConstraintsValid = True, ce_IsCA = True\<rparr>"

definition leaf_template :: "int \<Rightarrow> gostring \<Rightarrow> int \<Rightarrow> ext_key_usage list \<Rightarrow> gostring list \<Rightarrow> certificate" where
  "leaf_template serial commonName now usages dnsNames =
     \<lparr>ce_SerialNumber = serial, ce_CommonName = commonName, ce_NotBefore = now - mtlsCertClockSkew,
      ce_NotAfter = now + mtlsCertValidity, ce_KeyUsage = [KeyUsageDigitalSignature],
      ce_ExtKeyUsage = usages, ce_DNSNames = dnsNames, ce_BasicConstraintsValid = False, ce_IsCA = False\<rparr>"

definition signCert ::
  "'k crypto \<Rightarrow> nat \<Rightarrow> certificate \<Rightarrow> 'k \<Rightarrow> gostring \<Rightarrow> ext_key_usage list \<Rightarrow> gostring list \<Rightarrow> (gostring \<times> gostring) result" where
  "signCert cr i ca caKey commonName usages dnsNames =
     bind_result (cr_key cr i) (\<lambda>key.
     bind_result (cr_serial cr i) (\<lambda>serial.
     bind_result (cr_create cr (leaf_template serial commonName (cr_now cr i) usages dnsNames) ca key caKey) (\<lambda>certDER.
     bind_result (cr_marshal cr key) (\<lambda>keyDER.
       Inr (encodePEM cr ''CERTIFICATE'' certDER, encodePEM cr ''EC PRIVATE KEY'' keyDER)))))"

definition NewMTLSCerts ::
  "'k crypto \<Rightarrow> gostring \<Rightarrow> gostring \<Rightarrow> gostring \<Rightarrow> gostring list \<Rightarrow> MTLSCerts result" where
  "NewMTLSCerts cr caCN serverCN clientCN serverDNSNames =
     bind_result (cr_key cr 0) (\<lambda>caKey.
     let ca = ca_template caCN (cr_now cr 0) in
     bind_result (cr_create cr ca ca caKey caKey) (\<lambda>caDER.
     bind_result (signCert cr 1 ca caKey serverCN [ExtKeyUsageServerAuth, ExtKeyUsageClientAuth] serverDNSNames)
       (\<lambda>(serverCert, serverKey).
     bind_result (signCert cr 2 ca caKey clientCN [ExtKeyUsageClientAuth] []) (\<lambda>(clientCert, clientKey).
       Inr \<lparr>mc_CACert = encodePEM cr ''CERTIFICATE'' caDER, mc_ServerCert = serverCert, mc_ServerKey = serverKey,
            mc_ClientCert = clientCert, mc_ClientKey = clientKey\<rparr>))))"

definition mtls_ApplySecret :: "'p tools \<Rightarrow> KubectlOptions \<Rightarrow> gostring \<Rightarrow> MTLSCerts \<Rightarrow> gostring option prog" where
  "mtls_ApplySecret ts ko name c =
     secret_Apply ts ko
       (WithStringData ''client.key'' (mc_ClientKey c)
       (WithStringData ''client.crt'' (mc_ClientCert c)
       (WithStringData ''server.key'' (mc_ServerKey c)
       (WithStringData ''server.crt'' (mc_ServerCert c)
       (WithStringData ''ca.crt'' (mc_CACert c) (NewSecretBuilder name))))))"

definition TCPProbe :: "int \<Rightarrow> json" where
  "TCPProbe port = JObj [(''tcpSocket'', JObj [(''port'', JNum port)])]"

subsection \<open>What the certificates are good for\<close>

text \<open>
  Reading a PEM block back: the certificate, the name of its issuer, its public key and the key that
  signed it. A chain is verified the way a TLS peer does.
\<close>

record 'k issued =
  is_cert :: certificate
  is_issuer :: gostring
  is_key :: 'k
  is_signer :: 'k

definition crypto_contract :: "'k crypto \<Rightarrow> (gostring \<Rightarrow> 'k issued option) \<Rightarrow> (gostring \<Rightarrow> 'k option) \<Rightarrow> bool" where
  "crypto_contract cr read_cert read_key \<longleftrightarrow>
     (\<forall>c parent k signer der. cr_create cr c parent k signer = Inr der \<longrightarrow>
        read_cert (cr_pem cr ''CERTIFICATE'' der) =
          Some \<lparr>is_cert = c, is_issuer = ce_CommonName parent, is_key = k, is_signer = signer\<rparr>) \<and>
     (\<forall>k der. cr_marshal cr k = Inr der \<longrightarrow> read_key (cr_pem cr ''EC PRIVATE KEY'' der) = Some k)"

definition valid_at :: "int \<Rightarrow> certificate \<Rightarrow> bool" where
  "valid_at t c \<longleftrightarrow> ce_NotBefore c \<le> t \<and> t \<le> ce_NotAfter c"

definition verifies ::
  "(gostring \<Rightarrow> 'k issued option) \<Rightarrow> gostring \<Rightarrow> ext_key_usage \<Rightarrow> gostring option \<Rightarrow> int \<Rightarrow> gostring \<Rightarrow> bool" where
  "verifies read_cert ca usage host t pem =
     (case (read_cert ca, read_cert pem) of
        (Some c, Some l) \<Rightarrow>
          ce_IsCA (is_cert c) \<and> ce_BasicConstraintsValid (is_cert c) \<and>
          KeyUsageCertSign \<in> set (ce_KeyUsage (is_cert c)) \<and>
          is_issuer l = ce_CommonName (is_cert c) \<and> is_signer l = is_key c \<and>
          valid_at t (is_cert c) \<and> valid_at t (is_cert l) \<and> usage \<in> set (ce_ExtKeyUsage (is_cert l)) \<and>
          (case host of None \<Rightarrow> True | Some h \<Rightarrow> h \<in> set (ce_DNSNames (is_cert l)))
      | _ \<Rightarrow> False)"

lemma signCert_reads:
  assumes "crypto_contract cr read_cert read_key" and "signCert cr i ca caKey cn usages dns = Inr (c, k)"
  shows "\<exists>key serial. read_key k = Some key \<and> read_cert c =
    Some \<lparr>is_cert = leaf_template serial cn (cr_now cr i) usages dns, is_issuer = ce_CommonName ca,
          is_key = key, is_signer = caKey\<rparr>"
  using assms unfolding signCert_def bind_result_Inr crypto_contract_def encodePEM_def by fastforce

lemma NewMTLSCerts_steps:
  assumes "NewMTLSCerts cr caCN serverCN clientCN names = Inr certs"
  shows "\<exists>caKey caDER. cr_create cr (ca_template caCN (cr_now cr 0)) (ca_template caCN (cr_now cr 0)) caKey caKey = Inr caDER \<and>
    mc_CACert certs = cr_pem cr ''CERTIFICATE'' caDER \<and>
    signCert cr 1 (ca_template caCN (cr_now cr 0)) caKey serverCN [ExtKeyUsageServerAuth, ExtKeyUsageClientAuth] names =
      Inr (mc_ServerCert certs, mc_ServerKey certs) \<and>
    signCert cr 2 (ca_template caCN (cr_now cr 0)) caKey clientCN [ExtKeyUsageClientAuth] [] =
      Inr (mc_ClientCert certs, mc_ClientKey certs)"
  using assms unfolding NewMTLSCerts_def bind_result_Inr Let_def
  by (auto simp: bind_result_Inr encodePEM_def split: prod.splits) blast

lemma ServiceDNSNames_iff:
  "h \<in> set (ServiceDNSNames ns services) \<longleftrightarrow>
     (\<exists>s \<in> set services. h \<in> {s @ ''.'' @ ns, s @ ''.'' @ ns @ ''.svc'', s @ ''.'' @ ns @ ''.svc.cluster.local''})"
  by (auto simp: ServiceDNSNames_def Let_def)


text \<open>A certificate authority that writes a certificate down by numbering what it signed.\<close>


definition one_key :: "unit crypto" where
  "one_key = \<lparr>cr_key = (\<lambda>_. Inr ()), cr_serial = (\<lambda>_. Inr 7), cr_now = (\<lambda>_. 0),
     cr_create = (\<lambda>c parent _ _. if ce_CommonName parent = ''ca'' \<and> c = ca_template ''ca'' 0 then Inr ''1''
       else if ce_CommonName parent = ''ca'' \<and>
         c = leaf_template 7 ''server'' 0 [ExtKeyUsageServerAuth, ExtKeyUsageClientAuth] (ServiceDNSNames ''ns'' [''vl''])
       then Inr ''2''
       else if ce_CommonName parent = ''ca'' \<and> c = leaf_template 7 ''client'' 0 [ExtKeyUsageClientAuth] [] then Inr ''3''
       else Inl ''unsupported''),
     cr_marshal = (\<lambda>_. Inr ''k''), cr_pem = (\<lambda>_ der. der)\<rparr>"

definition one_key_read :: "gostring \<Rightarrow> unit issued option" where
  "one_key_read pem =
     (if pem = ''1'' then Some \<lparr>is_cert = ca_template ''ca'' 0, is_issuer = ''ca'', is_key = (), is_signer = ()\<rparr>
      else if pem = ''2'' then
        Some \<lparr>is_cert = leaf_template 7 ''server'' 0 [ExtKeyUsageServerAuth, ExtKeyUsageClientAuth] (ServiceDNSNames ''ns'' [''vl'']),
              is_issuer = ''ca'', is_key = (), is_signer = ()\<rparr>
      else if pem = ''3'' then
        Some \<lparr>is_cert = leaf_template 7 ''client'' 0 [ExtKeyUsageClientAuth] [], is_issuer = ''ca'', is_key = (), is_signer = ()\<rparr>
      else None)"

lemma one_key_contract: "crypto_contract one_key one_key_read (\<lambda>_. Some ())"
  unfolding crypto_contract_def one_key_def by (auto simp: one_key_read_def split: if_splits)

definition one_key_certs :: MTLSCerts where
  "one_key_certs = \<lparr>mc_CACert = ''1'', mc_ServerCert = ''2'', mc_ServerKey = ''k'', mc_ClientCert = ''3'', mc_ClientKey = ''k''\<rparr>"

lemma one_key_NewMTLSCerts:
  "NewMTLSCerts one_key ''ca'' ''server'' ''client'' (ServiceDNSNames ''ns'' [''vl'']) = Inr one_key_certs"
proof -
  have d: "leaf_template x cn n u d \<noteq> ca_template ca m" for x cn n u d ca m
    by (simp add: leaf_template_def ca_template_def)
  have e: "leaf_template 7 ''client'' 0 u d \<noteq> leaf_template 7 ''server'' 0 u' d'" for u d u' d'
    by (simp add: leaf_template_def)
  have cn: "ce_CommonName (ca_template ''ca'' 0) = ''ca''" by (simp add: ca_template_def)
  show ?thesis
    by (simp add: NewMTLSCerts_def signCert_def one_key_def one_key_certs_def encodePEM_def Let_def d e cn)
qed


text \<open>The secret holds the five files under the names the pods mount.\<close>

lemma mtls_secret_fields:
  "jpath [''stringData'', ''server.key''] (secret_build
       (WithStringData ''client.key'' (mc_ClientKey c)
       (WithStringData ''client.crt'' (mc_ClientCert c)
       (WithStringData ''server.key'' (mc_ServerKey c)
       (WithStringData ''server.crt'' (mc_ServerCert c)
       (WithStringData ''ca.crt'' (mc_CACert c) (NewSecretBuilder name))))))) = JStr (mc_ServerKey c)"
  by (simp add: secret_build_def WithStringData_def NewSecretBuilder_def string_map_json_def)

interpretation mtls_secret: fail_fast "mtls_ApplySecret ts ko name c" for ts ko name c
  unfolding mtls_ApplySecret_def secret_Apply_def apply_built_def by (intro ff)

end
