(* ===== verification/Suite.thy ===== *)
theory Suite
  imports Overwatch Gather Builders Updates Waiting JsonPatch
begin

text \<open>
  The bootstrap of the test suites (\<open>pkg/tests/bootstrap.go\<close>, \<open>helpers.go\<close>, \<open>chaos_runner.go\<close>,
  \<open>report.go\<close>) with the remaining helpers of \<open>pkg/helpers\<close> and \<open>pkg/install\<close>: stages that run installers
  in parallel, the namespaces of the scenarios, the clients, the update of a cluster's spec, the
  polls for routes and ports, the log filter and the environment file of the report.
\<close>

subsection \<open>Stages in parallel\<close>

text \<open>
  The goroutines of a stage take turns in any order, so the calls of a stage are an interleaving of
  the calls of its tasks. What the cluster answers a task may depend on the calls of the others: a
  task is run in a world of its own, of which nothing is assumed. A task that fails is recorded
  (\<open>GinkgoRecover\<close>) and the stage waits for the others; its result is the list of theirs.
\<close>

inductive interleaved :: "'a list list \<Rightarrow> 'a list \<Rightarrow> bool" where
  finished: "list_all (\<lambda>xs. xs = []) xss \<Longrightarrow> interleaved xss []"
| turn: "i < length xss \<Longrightarrow> xss ! i = x # xs \<Longrightarrow> interleaved (xss[i := xs]) ys \<Longrightarrow> interleaved xss (x # ys)"

inductive_cases interleaved_ConsE: "interleaved xss (y # ys)"

definition own_run :: "'a prog \<Rightarrow> 'a result \<Rightarrow> call list \<Rightarrow> bool" where
  "own_run p r cs \<longleftrightarrow> (\<exists>w w'. p w = (r, w') \<and> w_trace w' = w_trace w @ cs)"

definition stage_run :: "unit prog list \<Rightarrow> unit result list \<Rightarrow> call list \<Rightarrow> bool" where
  "stage_run tasks rs ys \<longleftrightarrow> length rs = length tasks \<and>
     (\<exists>css. length css = length tasks \<and> (\<forall>i < length tasks. own_run (tasks ! i) (rs ! i) (css ! i)) \<and>
        interleaved css ys)"

definition OverwatchNamespace :: gostring where "OverwatchNamespace = ''overwatch''"
definition DefaultVLReleaseName :: gostring where "DefaultVLReleaseName = ''vlks''"
definition DefaultVLCollectorReleaseName :: gostring where "DefaultVLCollectorReleaseName = ''vlogs-collector''"

definition stack_and_gather_tasks ::
  "'v semver \<Rightarrow> (gostring \<Rightarrow> (gostring \<times> gostring) list) \<Rightarrow> 'p tools \<Rightarrow> config \<Rightarrow> unit prog list" where
  "stack_and_gather_tasks sm labels_of ts cfg =
     [InstallVMGather ts cfg,
      chain (InstallVMK8StackWithHelm sm labels_of cfg (VMK8sStackChart cfg) (SmokeValuesFile cfg)
               DefaultVMNamespace DefaultReleaseName)
        (\<lambda>cfg'. InstallVictoriaLogs cfg' DefaultVMNamespace DefaultVLReleaseName DefaultVLCollectorReleaseName)]"

definition InstallVMStackAndGather ::
  "'v semver \<Rightarrow> (gostring \<Rightarrow> (gostring \<times> gostring) list) \<Rightarrow> 'p tools \<Rightarrow> config \<Rightarrow>
     unit result list \<Rightarrow> call list \<Rightarrow> bool" where
  "InstallVMStackAndGather sm labels_of ts cfg = stage_run (stack_and_gather_tasks sm labels_of ts cfg)"

record OverwatchStageOptions =
  so_DeleteVMCluster :: bool
  so_AddCustomAlertRules :: bool

definition overwatch_tasks ::
  "(gostring \<Rightarrow> json result) \<Rightarrow> 'p tools \<Rightarrow> config \<Rightarrow> OverwatchStageOptions \<Rightarrow> unit prog list" where
  "overwatch_tasks as_vmagent ts cfg opts =
     [InstallOverwatch as_vmagent cfg OverwatchNamespace DefaultVMNamespace DefaultReleaseName] @
     (if so_DeleteVMCluster opts
      then [DeleteVMCluster (NewKubectlOptions [] [] DefaultVMNamespace) DefaultReleaseName] else []) @
     (if so_AddCustomAlertRules opts then [AddCustomAlertRules ts cfg DefaultVMNamespace] else [])"

definition InstallOverwatchStage ::
  "(gostring \<Rightarrow> json result) \<Rightarrow> 'p tools \<Rightarrow> config \<Rightarrow> OverwatchStageOptions \<Rightarrow>
     unit result list \<Rightarrow> call list \<Rightarrow> bool" where
  "InstallOverwatchStage as_vmagent ts cfg opts = stage_run (overwatch_tasks as_vmagent ts cfg opts)"

lemma interleaved_subseq:
  "interleaved xss ys \<Longrightarrow> i < length xss \<Longrightarrow> subseq (xss ! i) ys"
proof (induction arbitrary: i rule: interleaved.induct)
  case (finished xss)
  then show ?case by (simp add: list_all_length)
next
  case (turn j xss x xs ys)
  show ?case
  proof (cases "i = j")
    case True
    with turn.hyps turn.IH [of j] show ?thesis by simp
  next
    case False
    with turn.prems turn.IH [of i] show ?thesis by (simp add: list_emb_Cons)
  qed
qed

lemma interleaved_length: "interleaved xss ys \<Longrightarrow> length ys = sum_list (map length xss)"
proof (induction rule: interleaved.induct)
  case (finished xss)
  then show ?case by (induction xss) simp_all
next
  case (turn i xss x xs ys)
  have "sum_list (map length xss) = Suc (sum_list (map length (xss[i := xs])))"
    using turn.hyps(1,2)
  proof (induction xss arbitrary: i)
    case (Cons zs xss)
    then show ?case by (cases i) auto
  qed simp
  with turn.IH show ?case by simp
qed

lemma run_musts_first:
  assumes "own_run (run_musts (c # cs)) r ds"
  shows "\<exists>es. ds = c # es \<and> (r = Inr () \<longrightarrow> es = cs)"
proof -
  from assms obtain w w' where run: "run_musts (c # cs) w = (r, w')" and tr: "w_trace w' = w_trace w @ ds"
    by (auto simp: own_run_def)
  show ?thesis
  proof (cases "w_answer w (w_trace w) c")
    case (Inl e)
    with run tr show ?thesis by (auto simp: chain_def must_def perform_def lift_result_def)
  next
    case (Inr a)
    with run have rest: "run_musts cs (w\<lparr>w_trace := w_trace w @ [c]\<rparr>) = (r, w')"
      by (auto simp: chain_def must_def perform_def lift_result_def)
    from fail_fast.steps [OF ff_run_musts rest] obtain es where es: "w_trace w' = (w_trace w @ [c]) @ es"
      by (auto simp: grows_def)
    moreover have "es = cs" if "r = Inr ()"
      using run_musts_trace [OF rest [unfolded that]] es by simp
    ultimately show ?thesis using tr by simp
  qed
qed

lemma stage_runE:
  assumes "stage_run tasks rs ys" and "i < length tasks"
  obtains cs where "own_run (tasks ! i) (rs ! i) cs" and "subseq cs ys"
  using assms interleaved_subseq unfolding stage_run_def by metis

text \<open>
  C26: In every interleaving of the last bootstrap stage, a task that succeeded has made all its
  calls in its order, and the failure of another task stops none of it: with the deletion of the
  stock cluster asked for, the cluster is deleted even when the forwarding could not be installed,
  and if the deletion succeeded its four calls were made in order.
\<close>

theorem overwatch_stage_deletes_cluster:
  assumes "InstallOverwatchStage as_vmagent ts cfg opts rs ys" and "so_DeleteVMCluster opts"
  shows "length rs = length (overwatch_tasks as_vmagent ts cfg opts) \<and>
    kubectl_delete (NewKubectlOptions [] [] DefaultVMNamespace) ''vmcluster'' DefaultReleaseName \<in> set ys \<and>
    (rs ! 1 = Inr () \<longrightarrow>
       (let ko = NewKubectlOptions [] [] DefaultVMNamespace in
        subseq [kubectl_delete ko ''vmcluster'' DefaultReleaseName,
                kubectl_wait_delete ko ''deployment'' (''vminsert-'' @ DefaultReleaseName),
                kubectl_wait_delete ko ''statefulset'' (''vmstorage-'' @ DefaultReleaseName),
                kubectl_wait_delete ko ''statefulset'' (''vmselect-'' @ DefaultReleaseName)] ys))"
proof -
  let ?tasks = "overwatch_tasks as_vmagent ts cfg opts" and ?ko = "NewKubectlOptions [] [] DefaultVMNamespace"
  have run: "stage_run ?tasks rs ys" using assms(1) by (simp add: InstallOverwatchStage_def)
  have t: "1 < length ?tasks" "?tasks ! 1 = DeleteVMCluster ?ko DefaultReleaseName"
    using assms(2) by (simp_all add: overwatch_tasks_def)
  from stage_runE [OF run t(1)] t(2) obtain cs where
    cs: "own_run (DeleteVMCluster ?ko DefaultReleaseName) (rs ! 1) cs" "subseq cs ys" by auto
  from run_musts_first [OF cs(1) [unfolded DeleteVMCluster_def]] obtain es where
    es: "cs = kubectl_delete ?ko ''vmcluster'' DefaultReleaseName # es"
      "rs ! 1 = Inr () \<longrightarrow> es = [kubectl_wait_delete ?ko ''deployment'' (''vminsert-'' @ DefaultReleaseName),
        kubectl_wait_delete ?ko ''statefulset'' (''vmstorage-'' @ DefaultReleaseName),
        kubectl_wait_delete ?ko ''statefulset'' (''vmselect-'' @ DefaultReleaseName)]" by blast
  have mem: "kubectl_delete ?ko ''vmcluster'' DefaultReleaseName \<in> set ys"
    by (rule list_emb_set [OF cs(2), of "kubectl_delete ?ko ''vmcluster'' DefaultReleaseName"]) (simp_all add: es(1))
  have l: "length rs = length ?tasks" using run by (simp add: stage_run_def)
  from l mem es cs(2) show ?thesis by (auto simp: Let_def)
qed

definition down :: world where "down = \<lparr>w_trace = [], w_answer = (\<lambda>_ _. Inl ''down'')\<rparr>"

theorem overwatch_stage_deletes_cluster_witness:
  "let d = kubectl_delete (NewKubectlOptions [] [] DefaultVMNamespace) ''vmcluster'' DefaultReleaseName;
       calls = [d, ReadFile (OverwatchVMAgentYaml (init_config (\<lambda>_. [])))]
   in InstallOverwatchStage (\<lambda>_. Inl []) rfc_tools (init_config (\<lambda>_. []))
        \<lparr>so_DeleteVMCluster = True, so_AddCustomAlertRules = False\<rparr> [Inl ''down'', Inl ''down''] calls \<and> d \<in> set calls"
proof -
  let ?cfg = "init_config (\<lambda>_. [])" and ?opts = "\<lparr>so_DeleteVMCluster = True, so_AddCustomAlertRules = False\<rparr>"
  let ?ts = "rfc_tools :: PatchOp list tools"
  let ?ko = "NewKubectlOptions [] [] DefaultVMNamespace"
  let ?d = "kubectl_delete ?ko ''vmcluster'' DefaultReleaseName" and ?r = "ReadFile (OverwatchVMAgentYaml ?cfg)"
  have a: "own_run (InstallOverwatch (\<lambda>_. Inl []) ?cfg OverwatchNamespace DefaultVMNamespace DefaultReleaseName) (Inl ''down'') [?r]"
    unfolding own_run_def InstallOverwatch_def Let_def
    by (intro exI [of _ down] exI [of _ "down\<lparr>w_trace := [?r]\<rparr>"])
      (simp add: down_def chain_def must_def perform_def lift_result_def)
  have b: "own_run (DeleteVMCluster ?ko DefaultReleaseName) (Inl ''down'') [?d]"
    unfolding own_run_def DeleteVMCluster_def
    by (intro exI [of _ down] exI [of _ "down\<lparr>w_trace := [?d]\<rparr>"])
      (simp add: down_def chain_def must_def perform_def lift_result_def)
  have "interleaved [[?r], [?d]] [?d, ?r]"
    by (rule turn [of 1 _ _ "[]"], simp, simp, rule turn [of 0 _ _ "[]"]) (simp_all add: interleaved.finished)
  moreover have "overwatch_tasks (\<lambda>_. Inl []) ?ts ?cfg ?opts =
      [InstallOverwatch (\<lambda>_. Inl []) ?cfg OverwatchNamespace DefaultVMNamespace DefaultReleaseName,
       DeleteVMCluster ?ko DefaultReleaseName]"
    by (simp add: overwatch_tasks_def)
  ultimately have run: "InstallOverwatchStage (\<lambda>_. Inl []) ?ts ?cfg ?opts [Inl ''down'', Inl ''down''] [?d, ?r]"
    unfolding InstallOverwatchStage_def stage_run_def using a b
    by (intro conjI exI [of _ "[[?r], [?d]]"]) (simp_all add: less_Suc_eq)
  have "?d \<in> set [?d, ?r]"
    using overwatch_stage_deletes_cluster [OF run] by simp
  with run show ?thesis unfolding Let_def by blast
qed

end
