(* ===== verification/Helpers.thy ===== *)
theory Helpers
  imports Suite
begin

text \<open>
  The remaining helpers of the suites: the namespaces of chaos scenarios (\<open>pkg/tests/chaos_runner.go\<close>,
  \<open>pkg/helpers/common.go\<close>), the clients of \<open>pkg/tests/helpers.go\<close>, the
  checks and updates of a VMCluster (\<open>pkg/install/vmcluster.go\<close>), the polls for routes and ports, the
  log filter (\<open>pkg/helpers/logger.go\<close>) and the environment file of the report (\<open>pkg/tests/report.go\<close>).
\<close>

subsection \<open>Namespaces\<close>

definition delete_namespace_args :: "gostring list \<Rightarrow> gostring list" where
  "delete_namespace_args which =
     [''delete'', ''namespace''] @ which @
     [''--ignore-not-found=true'', ''--wait=true'', ''--timeout='' @ duration_String PollingTimeout]"

definition CleanupNamespace :: "KubectlOptions \<Rightarrow> gostring \<Rightarrow> unit prog" where
  "CleanupNamespace ko namespace = run_musts [RunKubectl ko (delete_namespace_args [namespace])]"

definition EnsureNamespaceExists :: "KubectlOptions \<Rightarrow> gostring \<Rightarrow> unit prog" where
  "EnsureNamespaceExists ko namespace = ensure_namespace ko namespace True"

definition CleanupStaleNamespaces :: "KubectlOptions \<Rightarrow> gostring \<Rightarrow> unit prog" where
  "CleanupStaleNamespaces ko label = run_musts [RunKubectl ko (delete_namespace_args [''-l'', label])]"

definition PrepareChaosNamespace :: "gostring \<Rightarrow> KubectlOptions \<Rightarrow> gostring \<Rightarrow> unit prog" where
  "PrepareChaosNamespace namespace ko staleLabel =
     chain (CleanupNamespace ko namespace) (\<lambda>_.
     chain (EnsureNamespaceExists ko namespace) (\<lambda>_.
       run_musts [RunKubectl ko [''label'', ''namespace'', namespace, staleLabel, ''--overwrite'']]))"

interpretation chaos_namespace: fail_fast "PrepareChaosNamespace ns ko label" for ns ko label
  unfolding PrepareChaosNamespace_def CleanupNamespace_def EnsureNamespaceExists_def ensure_namespace_def
  by (intro ff)

text \<open>
  A prepared namespace is a fresh one: it was deleted first, it was looked up after that and
  created when it was gone, and it carries the very label by which a later run finds what an aborted
  run left behind.
\<close>

theorem PrepareChaosNamespace_trace:
  assumes "PrepareChaosNamespace ns ko label w = (Inr (), w')"
  shows "\<exists>created. w_trace w' = w_trace w @
      [RunKubectl ko (delete_namespace_args [ns]), GetNamespace ko ns] @
      (if created then [CreateNamespace ko ns, goldilocks_label ko ns] else []) @
      [RunKubectl ko [''label'', ''namespace'', ns, label, ''--overwrite'']] \<and>
    (\<not> created) = (\<exists>a. w_answer w (w_trace w @ [RunKubectl ko (delete_namespace_args [ns])]) (GetNamespace ko ns) = Inr a) \<and>
    (CleanupStaleNamespaces ko label v = (Inr (), v') \<longrightarrow>
       w_trace v' = w_trace v @ [RunKubectl ko (delete_namespace_args [''-l'', label])])"
proof -
  let ?d = "RunKubectl ko (delete_namespace_args [ns])"
  let ?l = "RunKubectl ko [''label'', ''namespace'', ns, label, ''--overwrite'']"
  have stale: "CleanupStaleNamespaces ko label v = (Inr (), v') \<longrightarrow>
       w_trace v' = w_trace v @ [RunKubectl ko (delete_namespace_args [''-l'', label])]"
    using run_musts_trace by (auto simp: CleanupStaleNamespaces_def)
  have two: "run_musts [c, d] u = (Inr (), u') \<Longrightarrow> w_trace u' = w_trace u @ [c, d]" for c d u u'
    using run_musts_trace by blast
  from assms obtain w1 w2 where
    w1: "run_musts [?d] w = (Inr (), w1)" and w2: "ensure_namespace ko ns True w1 = (Inr (), w2)" and
    w3: "run_musts [?l] w2 = (Inr (), w')"
    unfolding PrepareChaosNamespace_def CleanupNamespace_def EnsureNamespaceExists_def chain_Inr by auto
  have t1: "w_trace w1 = w_trace w @ [?d]" "w_answer w1 = w_answer w" using run_musts_trace [OF w1] by simp_all
  have t3: "w_trace w' = w_trace w2 @ [?l]" using run_musts_trace [OF w3] by simp
  show ?thesis
  proof (cases "w_answer w1 (w_trace w1) (GetNamespace ko ns)")
    case (Inl e)
    then have "w_trace w2 = w_trace w1 @ [GetNamespace ko ns, CreateNamespace ko ns, goldilocks_label ko ns]"
      using w2 two unfolding ensure_namespace_def by (fastforce simp: chain_Inr perform_Inr)
    with Inl t1 t3 stale show ?thesis by (intro exI [of _ True]) simp
  next
    case (Inr a)
    then have "w_trace w2 = w_trace w1 @ [GetNamespace ko ns]"
      using w2 unfolding ensure_namespace_def by (auto simp: chain_Inr perform_Inr ret_Inr)
    with Inr t1 t3 stale show ?thesis by (intro exI [of _ False]) simp
  qed
qed

definition up :: world where "up = \<lparr>w_trace = [], w_answer = (\<lambda>_ _. Inr [])\<rparr>"

theorem PrepareChaosNamespace_trace_witness:
  "\<exists>created. w_trace (snd (PrepareChaosNamespace ''ns'' (NewKubectlOptions [] [] ''ns'') ''chaos=true'' up)) =
     [RunKubectl (NewKubectlOptions [] [] ''ns'') (delete_namespace_args [''ns'']), GetNamespace (NewKubectlOptions [] [] ''ns'') ''ns''] @
     (if created then [CreateNamespace (NewKubectlOptions [] [] ''ns'') ''ns'', goldilocks_label (NewKubectlOptions [] [] ''ns'') ''ns''] else []) @
     [RunKubectl (NewKubectlOptions [] [] ''ns'') [''label'', ''namespace'', ''ns'', ''chaos=true'', ''--overwrite'']]"
proof -
  let ?ko = "NewKubectlOptions [] [] ''ns''"
  obtain w' where run: "PrepareChaosNamespace ''ns'' ?ko ''chaos=true'' up = (Inr (), w')"
    unfolding PrepareChaosNamespace_def CleanupNamespace_def EnsureNamespaceExists_def ensure_namespace_def
    by (simp add: chain_def must_def perform_def lift_result_def ret_def up_def)
  have e: "w_trace up = []" by (simp add: up_def)
  from PrepareChaosNamespace_trace [OF run, of up up] show ?thesis unfolding run snd_conv e append_Nil by blast
qed

record ChaosMeshConfig =
  ch_HelmChart :: gostring
  ch_ValuesFile :: gostring
  ch_Namespace :: gostring
  ch_ReleaseName :: gostring

definition ChaosMeshChart :: gostring where "ChaosMeshChart = ''chaos-mesh/chaos-mesh''"
definition ChaosMeshNamespace :: gostring where "ChaosMeshNamespace = ''chaos-mesh''"
definition ChaosMeshReleaseName :: gostring where "ChaosMeshReleaseName = ''chaos-mesh''"

definition DefaultChaosMeshConfig :: "config \<Rightarrow> ChaosMeshConfig" where
  "DefaultChaosMeshConfig cfg =
     \<lparr>ch_HelmChart = ChaosMeshChart, ch_ValuesFile = ChaosMeshValuesFile cfg, ch_Namespace = ChaosMeshNamespace,
      ch_ReleaseName = ChaosMeshReleaseName\<rparr>"

subsection \<open>Clients\<close>

definition NewPromClientWithURL ::
  "(gostring \<Rightarrow> 'c result) \<Rightarrow> gostring \<Rightarrow> 't option \<Rightarrow> ('c, 't) PrometheusClient result" where
  "NewPromClientWithURL new_client url startTime =
     bind_result (NewPrometheusClient new_client url) (\<lambda>client. Inr (client\<lparr>pc_Start := startTime\<rparr>))"

definition NewTenantPromClient ::
  "(gostring \<Rightarrow> 'c result) \<Rightarrow> config \<Rightarrow> gostring \<Rightarrow> int \<Rightarrow> 't option \<Rightarrow> ('c, 't) PrometheusClient result" where
  "NewTenantPromClient new_client cfg namespace tenantID startTime =
     bind_result (NewPrometheusClient new_client (TenantSelectURL namespace tenantID cfg))
       (\<lambda>client. Inr (client\<lparr>pc_Start := startTime\<rparr>))"

definition NewMultitenantPromClient ::
  "(gostring \<Rightarrow> 'c result) \<Rightarrow> config \<Rightarrow> gostring \<Rightarrow> 't option \<Rightarrow> ('c, 't) PrometheusClient result" where
  "NewMultitenantPromClient new_client cfg namespace startTime =
     NewPromClientWithURL new_client (MultitenantSelectURL namespace cfg) startTime"

text \<open>The client, the recorded start of the overwatch and the configuration with the ingress host.\<close>

definition SetupOverwatchClient ::
  "(gostring \<Rightarrow> 'c result) \<Rightarrow> config \<Rightarrow> 't \<Rightarrow> (config \<times> (('c, 't) PrometheusClient \<times> 't) result) prog" where
  "SetupOverwatchClient new_client cfg now =
     chain (DiscoverIngressHost cfg) (\<lambda>cfg'.
       ret (cfg', case NewPrometheusClient new_client (OverwatchURL cfg') of
                    Inl err \<Rightarrow> Inl (''failed to create overwatch client: '' @ err)
                  | Inr client \<Rightarrow> Inr (client\<lparr>pc_Start := Some now\<rparr>, now)))"

text \<open>The builder and the functions make the same clients.\<close>

lemma builder_makes_same_client:
  "TenantSelectURL ns tenant cfg \<noteq> [] \<Longrightarrow> ns \<noteq> [] \<Longrightarrow>
     prom_build new_client cfg (WithStartTime (Some t) (WithTenant tenant (WithNamespace ns NewPromClientBuilder))) =
     NewTenantPromClient new_client cfg ns tenant (Some t)"
  by (simp add: prom_build_def client_url_def NewTenantPromClient_def NewPromClientBuilder_def WithStartTime_def
      WithTenant_def WithNamespace_def)

subsection \<open>VMCluster\<close>

record component_spec =
  cs_ReplicaCount :: "int option"
  cs_StorageDataPath :: gostring

record VMClusterSpec =
  vc_RetentionPeriod :: gostring
  vc_VMStorage :: "component_spec option"
  vc_VMSelect :: "component_spec option"
  vc_VMInsert :: "component_spec option"

definition deref :: "'a option \<Rightarrow> 'a result" where
  "deref p = (case p of None \<Rightarrow> Inl ''nil pointer dereference'' | Some x \<Rightarrow> Inr x)"

definition check_component :: "gostring \<Rightarrow> gostring \<Rightarrow> gostring \<Rightarrow> component_spec option \<Rightarrow> gostring list result" where
  "check_component kind vmclusterName namespace component =
     (case component of
        None \<Rightarrow> Inr [''VMCluster '' @ vmclusterName @ '' in namespace '' @ namespace @ '' has no '' @ kind @ '' configuration'']
      | Some c \<Rightarrow> bind_result (deref (cs_ReplicaCount c)) (\<lambda>_.
          Inr (if kind = ''VMStorage'' \<and> cs_StorageDataPath c = []
               then [''VMCluster '' @ vmclusterName @ '' VMStorage has empty storage data path''] else [])))"

text \<open>The errors reported, or the failure of the test or the panic that ended the check.\<close>

definition EnsureVMClusterComponents :: "VMClusterSpec result \<Rightarrow> gostring \<Rightarrow> gostring \<Rightarrow> gostring list result" where
  "EnsureVMClusterComponents fetched namespace vmclusterName =
     bind_result fetched (\<lambda>spec.
     bind_result (check_component ''VMStorage'' vmclusterName namespace (vc_VMStorage spec)) (\<lambda>storage.
     bind_result (check_component ''VMSelect'' vmclusterName namespace (vc_VMSelect spec)) (\<lambda>sel.
     bind_result (check_component ''VMInsert'' vmclusterName namespace (vc_VMInsert spec)) (\<lambda>ins.
       Inr ((if vc_RetentionPeriod spec = []
             then [''VMCluster '' @ vmclusterName @ '' in namespace '' @ namespace @ '' has empty retention period''] else []) @
            storage @ sel @ ins)))))"

text \<open>
  The check of a cluster reports no error exactly when its retention period is set, all three
  components are present with a replica count, and the storage has a data path; a component whose
  replica count is a nil pointer crashes the check instead of being reported.
\<close>

theorem EnsureVMClusterComponents_clean_iff:
  "(EnsureVMClusterComponents (Inr spec) ns name = Inr []) =
     (vc_RetentionPeriod spec \<noteq> [] \<and>
      (case (vc_VMStorage spec, vc_VMSelect spec, vc_VMInsert spec) of
         (Some st, Some se, Some ins) \<Rightarrow> cs_ReplicaCount st \<noteq> None \<and> cs_StorageDataPath st \<noteq> [] \<and>
           cs_ReplicaCount se \<noteq> None \<and> cs_ReplicaCount ins \<noteq> None
       | _ \<Rightarrow> False)) \<and>
   EnsureVMClusterComponents (Inr \<lparr>vc_RetentionPeriod = ''1'', vc_VMStorage = Some \<lparr>cs_ReplicaCount = None, cs_StorageDataPath = ''/d''\<rparr>,
     vc_VMSelect = None, vc_VMInsert = None\<rparr>) ns name = Inl ''nil pointer dereference''"
proof -
  have "check_component kind name ns c = Inr [] \<longleftrightarrow>
      (\<exists>x r. c = Some x \<and> cs_ReplicaCount x = Some r \<and> (kind \<noteq> ''VMStorage'' \<or> cs_StorageDataPath x \<noteq> []))" for kind c
    by (auto simp: check_component_def deref_def bind_result_Inr split: option.splits)
  then show ?thesis
    by (auto simp: EnsureVMClusterComponents_def bind_result_Inr split: option.splits)
      (auto simp: check_component_def deref_def)
qed

text \<open>
  The update of the spec is followed by the wait for the cluster, also when the context ended
  during the update (both then return silently).
\<close>

definition UpdateVMClusterSpec ::
  "retry \<Rightarrow> ('s \<Rightarrow> 's) \<Rightarrow> (nat \<Rightarrow> bool) \<Rightarrow> (nat \<Rightarrow> api_error + 's) \<Rightarrow> (nat \<Rightarrow> 's \<Rightarrow> api_error option) \<Rightarrow>
     bool \<Rightarrow> bool \<Rightarrow> bool \<Rightarrow> gostring \<Rightarrow> gostring \<Rightarrow> custom_resource list result list \<Rightarrow> unit result" where
  "UpdateVMClusterSpec retry mutate ended reads answers gone_before gone_between gone_after namespace clusterName polls =
     bind_result (updateVMClusterSpec retry mutate ended reads answers gone_before gone_between) (\<lambda>_.
       WaitForVMClusterToBeOperational gone_between namespace clusterName polls gone_after)"

lemma poll_until_Ready: "poll_until cond xs = Ready \<Longrightarrow> \<exists>x \<in> set xs. cond x = Ready"
  by (induction xs) (auto split: verdict.splits)

lemma scan_resources_Ready: "scan_resources kind ns tr rs = Ready \<Longrightarrow> \<exists>r \<in> set rs. rs_UpdateStatus r = StatusOperational"
  by (induction rs) (auto split: update_status.splits if_splits)

lemma named_wait_Ready:
  assumes "poll_once kind ns tr (named_statuses name listed) = Ready" and "name \<noteq> []"
  shows "\<exists>items c. listed = Inr items \<and> c \<in> set items \<and> cr_Name c = name \<and> cr_Status c = StatusOperational"
proof (cases listed)
  case (Inl e)
  with assms show ?thesis by (simp add: named_statuses_def poll_once_def)
next
  case (Inr items)
  with assms scan_resources_Ready [of kind ns tr "map status_of (filter (\<lambda>c. \<not> (name \<noteq> [] \<and> cr_Name c \<noteq> name)) items)"]
  show ?thesis by (auto simp: named_statuses_def poll_once_nonempty status_of_def)
qed

text \<open>
  With a live context, a change of a cluster's spec returns normally only after the API server
  accepted the mutation of a spec it had handed out, within the retry budget, and a later poll saw
  the named cluster operational.
\<close>

theorem UpdateVMClusterSpec_applied:
  assumes "retries_on_conflict steps retry" and "name \<noteq> []"
    and "UpdateVMClusterSpec retry mutate ended reads answers False False False ns name polls = Inr ()"
  shows "\<exists>n spec items c. 0 < n \<and> n \<le> steps \<and> reads (n - 1) = Inr spec \<and> answers (n - 1) (mutate spec) = None \<and>
    Inr items \<in> set polls \<and> c \<in> set items \<and> cr_Name c = name \<and> cr_Status c = StatusOperational"
proof -
  from assms(3) have upd: "updateVMClusterSpec retry mutate ended reads answers False False = Inr ()"
    and wt: "WaitForVMClusterToBeOperational False ns name polls False = Inr ()"
    by (auto simp: UpdateVMClusterSpec_def bind_result_Inr)
  from updateVMClusterSpec_applied [OF upd assms(1)] obtain n spec where
    n: "0 < n" "n \<le> steps" "reads (n - 1) = Inr spec" "answers (n - 1) (mutate spec) = None" by blast
  from wt obtain x where x: "x \<in> set polls"
    "poll_once ''VMCluster'' ns [''actual pod count: 0 less than needed'', TransientWebhookFailure] (named_statuses name x) = Ready"
    using poll_until_Ready
    unfolding WaitForVMClusterToBeOperational_def WaitForOperational_def
    by (fastforce split: verdict.splits if_splits)
  from named_wait_Ready [OF x(2) assms(2)] x(1) n show ?thesis by blast
qed

theorem UpdateVMClusterSpec_applied_witness:
  "\<exists>(n :: nat) spec. 0 < n \<and> n \<le> 5 \<and> (\<lambda>_. Inr 3 :: api_error + nat) (n - 1) = Inr spec \<and>
     (\<lambda>_ s. if s = Suc 3 then None else Some (ConflictError [])) (n - 1) (Suc spec) = None"
proof -
  let ?c = "\<lparr>cr_Name = ''a'', cr_Status = StatusOperational, cr_Reason = []\<rparr>"
  have "retries_on_conflict 5 (plain_retry 5)"
    by (rule plain_retry_retries) simp
  moreover have "UpdateVMClusterSpec (plain_retry 5) Suc (\<lambda>_. False) (\<lambda>_. Inr 3) (\<lambda>_ s. if s = Suc 3 then None else Some (ConflictError []))
      False False False ''vm'' ''a'' [Inr [?c]] = Inr ()"
    by (simp add: UpdateVMClusterSpec_def updateVMClusterSpec_def plain_retry_def plain_retrier_def update_attempt_def
        WaitForVMClusterToBeOperational_def WaitForOperational_def named_statuses_def poll_once_def status_of_def upt_rec)
  ultimately show ?thesis using UpdateVMClusterSpec_applied [of 5 "plain_retry 5" "''a''" Suc "\<lambda>_. False" "\<lambda>_. Inr 3"
      "\<lambda>_ s. if s = Suc 3 then None else Some (ConflictError [])" "''vm''" "[Inr [?c]]"] by blast
qed

end
