(* ===== verification/Spec_Hooks.thy ===== *)
theory Spec_Hooks
  imports Helpers Naming PromQuery Clients Endpoints
begin

text \<open>
  What the specs run after themselves: \<open>GatherOnFailure\<close> and \<open>GatherOnFailureFrom\<close> of
  \<open>pkg/tests/helpers.go\<close>, composed of the three gatherers of \<open>pkg/gather\<close>; and the names under which
  that package forwards the functions of \<open>pkg/helpers\<close>.
\<close>

subsection \<open>Gathering after a failure\<close>

text \<open>
  The world that the gatherers meet: the retry function, the export API as each attempt finds it, the
  clock, the logs database, the list of namespaces, the secrets, the temporary directory and the archives.
\<close>

record 'w gather_world =
  gw_retry :: "gather_error retrier"
  gw_parse :: "gostring \<Rightarrow> json result"
  gw_gatherer :: "nat \<Rightarrow> gatherer"
  gw_fmt_time :: "int \<Rightarrow> gostring"
  gw_export_time :: "nat \<Rightarrow> int"
  gw_logs_time :: int
  gw_get :: "gostring \<Rightarrow> http_reply"
  gw_archiver :: "'w archive_writer"
  gw_tar_time :: int
  gw_namespaces :: "gostring list result"
  gw_secret :: "SecretRef \<Rightarrow> secret_lookup"
  gw_temp :: temp_dir
  gw_hash :: gostring
  gw_archive :: "gostring \<Rightarrow> gostring result"

text \<open>
  The result: what failed the hook itself, if anything (only listing the namespaces can), the temporary
  files left, and what was attached. \<open>startTime\<close> is \<open>None\<close> for the zero time.
\<close>

definition GatherOnFailureFrom ::
  "bool \<Rightarrow> config \<Rightarrow> 'w gather_world \<Rightarrow> gostring \<Rightarrow> int option \<Rightarrow> files \<Rightarrow> gostring option \<times> files \<times> attachments" where
  "GatherOnFailureFrom spec_failed cfg w namespace startTime fs =
     (if spec_failed \<or> Getenv ''ALWAYS_GATHER'' cfg \<noteq> [] then
        (let (err, n, vm) = VMAfterAll (gw_retry w) (gw_parse w) cfg
               (\<lambda>i. export_request (gw_fmt_time w) startTime (gw_export_time w i) [namespace]) (gw_gatherer w);
             vl = VLAfterAll (gw_fmt_time w) (buildTarGz (gw_archiver w) (gw_tar_time w)) cfg (gw_get w) startTime (gw_logs_time w)
         in case gw_namespaces w of
              Inl e \<Rightarrow> (Some e, fs, vm @ vl)
            | Inr nss \<Rightarrow>
                (let (actions, fs', res) = K8sAfterAll cfg (gw_hash w) nss (gw_secret w) (gw_temp w) (gw_archive w) fs
                 in (None, fs', vm @ vl @ res)))
      else (None, fs, []))"

text \<open>\<open>overwatchStart\<close> is the variable \<open>OverwatchStart\<close>, the zero time until the client is set up.\<close>

definition GatherOnFailure ::
  "bool \<Rightarrow> config \<Rightarrow> 'w gather_world \<Rightarrow> gostring \<Rightarrow> int option \<Rightarrow> files \<Rightarrow> gostring option \<times> files \<times> attachments" where
  "GatherOnFailure spec_failed cfg w namespace overwatchStart fs =
     GatherOnFailureFrom spec_failed cfg w namespace overwatchStart fs"

subsection \<open>Each source is gathered on its own\<close>

definition export_succeeds :: "config \<Rightarrow> 'w gather_world \<Rightarrow> gostring \<Rightarrow> int option \<Rightarrow> nat \<Rightarrow> bool" where
  "export_succeeds cfg w namespace startTime i \<longleftrightarrow>
     fst (vmAfterAll (gw_parse w) cfg (export_request (gw_fmt_time w) startTime (gw_export_time w i) [namespace])
        (gw_gatherer w i)) = None"

definition logs_available :: "config \<Rightarrow> 'w gather_world \<Rightarrow> int option \<Rightarrow> bool" where
  "logs_available cfg w startTime \<longleftrightarrow>
     (case gw_get w (logs_url (gw_fmt_time w) cfg startTime (gw_logs_time w)) of
        Reply status (Inr body) \<Rightarrow> status = 200 \<and>
          (\<exists>bytes. buildTarGz (gw_archiver w) (gw_tar_time w) ''victoria-logs.jsonl'' body = Inr bytes)
      | _ \<Rightarrow> False)"

definition resources_available :: "config \<Rightarrow> 'w gather_world \<Rightarrow> bool" where
  "resources_available cfg w \<longleftrightarrow> (\<exists>nss. gw_namespaces w = Inr nss) \<and>
     (\<exists>bytes. gw_archive w (CrustGatherLocation cfg @ ''/'' @ gw_hash w @ ''.tar.gz'') = Inr bytes)"

lemma logs_attached:
  "map fst (VLAfterAll (gw_fmt_time w) (buildTarGz (gw_archiver w) (gw_tar_time w)) cfg (gw_get w) startTime (gw_logs_time w)) =
     (if logs_available cfg w startTime then [''victoria-logs.tar.gz''] else [])"
  by (auto simp: VLAfterAll_def logs_available_def split: http_reply.splits sum.splits)

lemma resources_attached:
  "K8sAfterAll cfg hash nss lookup os archive fs = (actions, fs', res) \<Longrightarrow>
     map fst res = (if \<exists>bytes. archive (CrustGatherLocation cfg @ ''/'' @ hash @ ''.tar.gz'') = Inr bytes
       then [''crust-gather.tar.gz''] else [])"
  by (auto simp: K8sAfterAll_def Let_def split: prod.splits sum.splits)

lemma resources_leave_no_file:
  assumes "temp_contract os" and "K8sAfterAll cfg hash nss lookup os archive fs = (actions, fs', res)"
  shows "fs' = fs"
proof (cases "os_create os fs")
  case (Inl e)
  with assms(2) show ?thesis by (simp add: K8sAfterAll_def collectSecretsFile_def Let_def split: if_splits)
next
  case (Inr name)
  note c = temp_contractD(1) [OF assms(1) this]
  have "os_remove os name (fs(name \<mapsto> x)) = fs" for x
    using temp_contractD(3) [OF assms(1), of "fs(name \<mapsto> x)" name] c by (simp add: fun_upd_idem)
  with assms(2) Inr c show ?thesis by (auto simp: K8sAfterAll_def collectSecretsFile_def Let_def split: if_splits)
qed


definition demo_gather_world :: "(gostring \<times> gostring) gather_world" where
  "demo_gather_world = \<lparr>gw_retry = plain_retrier isRetriableVMGatherExportError 3, gw_parse = demo_parse,
     gw_gatherer = demo_gatherer, gw_fmt_time = (\<lambda>_. ''t''), gw_export_time = int, gw_logs_time = 9,
     gw_get = (\<lambda>_. NoReply ''refused''), gw_archiver = plain_archiver, gw_tar_time = 0, gw_namespaces = Inr [''vm''],
     gw_secret = (\<lambda>_. SecretMissing), gw_temp = plain_dir, gw_hash = ''h'', gw_archive = (\<lambda>_. Inr ''gz'')\<rparr>"


text \<open>A spec that passed gathers nothing and contacts nobody, unless gathering is forced.\<close>

lemma passed_gathers_nothing:
  "Getenv ''ALWAYS_GATHER'' cfg = [] \<Longrightarrow> GatherOnFailure False cfg w namespace startTime fs = (None, fs, [])"
  by (simp add: GatherOnFailure_def GatherOnFailureFrom_def)

subsection \<open>Names for the specs\<close>

text \<open>
  The package gives the specs the functions of \<open>pkg/helpers\<close> under its own name; each forwards its
  arguments unchanged. The prefix \<open>tests_\<close> stands for the package.
\<close>

definition tests_NewHTTPClient where "tests_NewHTTPClient = NewHTTPClient"
definition tests_NewHTTPClientWithTimeout where "tests_NewHTTPClientWithTimeout = NewHTTPClientWithTimeout"
definition tests_RandomNamespace where "tests_RandomNamespace = RandomNamespace"
definition tests_ClusterName where "tests_ClusterName = ClusterName"
definition tests_ResourceIdentifier where "tests_ResourceIdentifier = ResourceIdentifier"
definition tests_VMClusterAffinity where "tests_VMClusterAffinity = VMClusterAffinity"
definition tests_VLClusterAffinity where "tests_VLClusterAffinity = VLClusterAffinity"
definition tests_CleanupNamespace where "tests_CleanupNamespace = CleanupNamespace"
definition tests_EnsureNamespaceExists where "tests_EnsureNamespaceExists = EnsureNamespaceExists"
definition tests_OverwatchURL where "tests_OverwatchURL = OverwatchURL"
definition tests_TenantInsertURL where "tests_TenantInsertURL = TenantInsertURL"
definition tests_TenantSelectURL where "tests_TenantSelectURL = TenantSelectURL"
definition tests_MultitenantInsertURL where "tests_MultitenantInsertURL = MultitenantInsertURL"
definition tests_MultitenantSelectURL where "tests_MultitenantSelectURL = MultitenantSelectURL"
definition tests_VMSingleRemoteWriteURL where "tests_VMSingleRemoteWriteURL = VMSingleRemoteWriteURL"
definition tests_VMSinglePrometheusURL where "tests_VMSinglePrometheusURL = VMSinglePrometheusURL"
definition tests_VMAgentRemoteWriteURL where "tests_VMAgentRemoteWriteURL = VMAgentRemoteWriteURL"
definition tests_VMAgentNamedRemoteWriteURL where "tests_VMAgentNamedRemoteWriteURL = VMAgentNamedRemoteWriteURL"
definition tests_VMAgentNamedImportURL where "tests_VMAgentNamedImportURL = VMAgentNamedImportURL"
definition tests_GlobalInsertURL where "tests_GlobalInsertURL = GlobalInsertURL"
definition tests_GlobalSelectURL where "tests_GlobalSelectURL = GlobalSelectURL"
definition tests_ZoneSelectURL where "tests_ZoneSelectURL = ZoneSelectURL"
definition tests_WaitForDataPropagation where "tests_WaitForDataPropagation = WaitForDataPropagation"
definition tests_WaitForAggregation where "tests_WaitForAggregation = WaitForAggregation"
definition tests_DefaultChaosMeshConfig where "tests_DefaultChaosMeshConfig = DefaultChaosMeshConfig"
definition tests_RetryVectorScan where "tests_RetryVectorScan = RetryVectorScan"

type_synonym tests_ChaosMeshConfig = ChaosMeshConfig

end
