(* ===== verification/Reporting.thy ===== *)
theory Reporting
  imports Gather
begin

text \<open>
  What the suites print and wait for: the log filter (\<open>pkg/helpers/logger.go\<close>, \<open>log.go\<close>), the polls for
  routes and ports (\<open>pkg/helpers/kubernetes.go\<close>, \<open>pkg/install/ingress.go\<close>), and the environment file of
  the report (\<open>pkg/tests/report.go\<close>).
\<close>

subsection \<open>Log lines\<close>

text \<open>Output is the lines printed and the entries added to the report.\<close>

type_synonym log_output = "gostring list \<times> gostring list"

definition AddAllureLog :: "bool \<Rightarrow> gostring \<Rightarrow> gostring list" where
  "AddAllureLog in_spec msg = (if \<not> in_spec then [] else [msg])"

definition Logf :: "bool \<Rightarrow> gostring \<Rightarrow> log_output" where
  "Logf in_spec msg = ([msg], AddAllureLog in_spec msg)"

definition filteredSubstrings :: "gostring list" where
  "filteredSubstrings =
     [''Configuring Kubernetes client using config file'', ''is not available. Sleeping for'',
      ''Warning: deleting cluster-scoped resources'', ''Waiting for traefik service to have LoadBalancer'',
      ''Wait for ingress '']"

definition FilterLogger_Logf :: "bool \<Rightarrow> gostring \<Rightarrow> log_output" where
  "FilterLogger_Logf in_spec msg =
     (if list_ex (\<lambda>substring. Contains msg substring) filteredSubstrings then ([], [])
      else ([msg], AddAllureLog in_spec msg))"

lemma FilterLogger_keeps_iff:
  "FilterLogger_Logf in_spec msg = ([], []) \<longleftrightarrow> (\<exists>s \<in> set filteredSubstrings. \<exists>a b. msg = a @ s @ b)"
  by (auto simp: FilterLogger_Logf_def list_ex_iff Contains_iff)

subsection \<open>Polls\<close>

text \<open>A condition of \<open>require.Eventually\<close> is checked at every tick until it holds or time is over.\<close>

definition Eventually :: "('a \<Rightarrow> bool) \<Rightarrow> 'a list \<Rightarrow> gostring \<Rightarrow> unit result" where
  "Eventually condition polls msg = (if list_ex condition polls then Inr () else Inl msg)"

fun any_route_ready :: "(gostring \<Rightarrow> gostring option) \<Rightarrow> gostring list \<Rightarrow> (gostring \<Rightarrow> http_reply) \<Rightarrow> bool" where
  "any_route_ready url_error [] get = False"
| "any_route_ready url_error (readyURL # readyURLs) get =
     (case url_error readyURL of
        Some err \<Rightarrow> any_route_ready url_error readyURLs get
      | None \<Rightarrow>
          (case get readyURL of
             NoReply err \<Rightarrow> any_route_ready url_error readyURLs get
           | Reply status body \<Rightarrow> if status = 200 then True else any_route_ready url_error readyURLs get))"

definition WaitForHTTPRoutes ::
  "(gostring \<Rightarrow> gostring option) \<Rightarrow> gostring list \<Rightarrow> (gostring \<Rightarrow> http_reply) list \<Rightarrow> unit result" where
  "WaitForHTTPRoutes url_error readyURLs polls =
     Eventually (any_route_ready url_error readyURLs) polls
       (''ingress routes '' @ Join '', '' readyURLs @ '' did not become ready'')"

definition WaitForHTTPRoute ::
  "(gostring \<Rightarrow> gostring option) \<Rightarrow> gostring \<Rightarrow> (gostring \<Rightarrow> http_reply) list \<Rightarrow> unit result" where
  "WaitForHTTPRoute url_error readyURL polls = WaitForHTTPRoutes url_error [readyURL] polls"

definition waitForTCPPort :: "gostring \<Rightarrow> int \<Rightarrow> (gostring \<Rightarrow> unit result) list \<Rightarrow> unit result" where
  "waitForTCPPort host port dials =
     (let addr = host @ '':'' @ int_str port
      in Eventually (\<lambda>dial. case dial addr of Inl _ \<Rightarrow> False | Inr _ \<Rightarrow> True) dials
           (''TCP port '' @ addr @ '' did not become reachable within timeout''))"

lemma any_route_ready_iff:
  "any_route_ready url_error urls get \<longleftrightarrow>
     (\<exists>u \<in> set urls. url_error u = None \<and> (\<exists>body. get u = Reply 200 body))"
  by (induction urls) (auto split: option.splits http_reply.splits)

text \<open>
  A wait for routes is over exactly when some poll got status 200 from one of them, whichever the
  others answer; a URL that cannot be requested and an answer other than 200 never end it.
\<close>

theorem WaitForHTTPRoutes_outcome:
  "(WaitForHTTPRoutes url_error urls polls = Inr ()) =
     (\<exists>get \<in> set polls. \<exists>u \<in> set urls. url_error u = None \<and> (\<exists>body. get u = Reply 200 body)) \<and>
   (WaitForHTTPRoute url_error url polls = Inr ()) =
     (url_error url = None \<and> (\<exists>get \<in> set polls. \<exists>body. get url = Reply 200 body))"
  by (auto simp: WaitForHTTPRoutes_def WaitForHTTPRoute_def Eventually_def list_ex_iff any_route_ready_iff)

subsection \<open>The environment file\<close>

definition environmentPropertiesContent :: "(gostring \<times> gostring) list \<Rightarrow> gostring" where
  "environmentPropertiesContent props =
     concat (map (\<lambda>k. k @ ''='' @ (case map_of props k of None \<Rightarrow> [] | Some v \<Rightarrow> v) @ [nl]) (sort (map fst props)))"

definition environment_properties :: "config \<Rightarrow> (gostring \<times> gostring) list" where
  "environment_properties cfg =
     [(''kube-distro'', EnvK8SDistro cfg), (''helm-chart'', HelmChartVersion cfg),
      (''operator-version'', OperatorVersion cfg), (''vl-version'', VLVersion cfg), (''vm-version'', VMVersion cfg)]"

text \<open>\<open>mkdir\<close> and \<open>write\<close> are the file system; the file is written only when its directory is there.\<close>

definition writeEnvironmentProperties ::
  "(gostring \<Rightarrow> gostring option) \<Rightarrow> (gostring \<Rightarrow> gostring \<Rightarrow> gostring option) \<Rightarrow> config \<Rightarrow> gostring \<Rightarrow> gostring option" where
  "writeEnvironmentProperties mkdir write cfg reportPath =
     (case mkdir reportPath of
        Some err \<Rightarrow> Some err
      | None \<Rightarrow> write (reportPath @ ''/environment.properties'') (environmentPropertiesContent (environment_properties cfg)))"

text \<open>
  The end of a suite: the report goes to the absolute report path, which is also exported to the
  reporter; \<open>generate\<close> is \<open>FromGinkgoReport\<close>. Every failure panics.
\<close>

definition allure_report ::
  "(gostring \<Rightarrow> gostring result) \<Rightarrow> (config \<Rightarrow> gostring option) \<Rightarrow> (config \<Rightarrow> gostring \<Rightarrow> gostring option) \<Rightarrow> config \<Rightarrow> config result" where
  "allure_report abs_path generate write_env cfg =
     bind_result (abs_path (ReportLocation cfg)) (\<lambda>reportPath.
       let cfg' = Setenv ''ALLURE_RESULTS_PATH'' reportPath cfg
       in case generate cfg' of
            Some err \<Rightarrow> Inl err
          | None \<Rightarrow> (case write_env cfg' reportPath of Some err \<Rightarrow> Inl err | None \<Rightarrow> Inr cfg'))"

text \<open>A reader of the file: one property a line, the key up to the first equals sign.\<close>

definition read_property :: "gostring \<Rightarrow> gostring \<times> gostring" where
  "read_property l = (takeWhile (\<lambda>c. c \<noteq> CHR ''='') l, drop 1 (dropWhile (\<lambda>c. c \<noteq> CHR ''='') l))"

definition read_properties :: "gostring \<Rightarrow> (gostring \<times> gostring) list" where
  "read_properties s = map read_property (butlast (SplitC nl s))"

lemma SplitC_unlines: "list_all (\<lambda>l. nl \<notin> set l) ls \<Longrightarrow> SplitC nl (concat (map (\<lambda>l. l @ [nl]) ls)) = ls @ [[]]"
  by (induction ls) (auto simp: SplitC_append_sep)

lemma read_property_line: "CHR ''='' \<notin> set k \<Longrightarrow> read_property (k @ ''='' @ v) = (k, v)"
  by (induction k) (auto simp: read_property_def)

text \<open>
  The environment file of the report can be read back: it has the properties one a line, sorted
  by key and with their values, as long as no key holds an equals sign and nothing a line break.
\<close>

theorem environment_properties_roundtrip:
  assumes "list_all (\<lambda>(k, v). CHR ''='' \<notin> set k \<and> nl \<notin> set k \<and> nl \<notin> set v) props"
  shows "map fst (read_properties (environmentPropertiesContent props)) = sort (map fst props) \<and>
    map_of (read_properties (environmentPropertiesContent props)) = map_of props"
proof -
  let ?val = "\<lambda>k. case map_of props k of None \<Rightarrow> [] | Some v \<Rightarrow> v"
  let ?keys = "sort (map fst props)"
  have val: "nl \<notin> set (?val k)" for k
  proof (cases "map_of props k")
    case (Some v)
    then have "(k, v) \<in> set props" by (rule map_of_SomeD)
    with assms Some show ?thesis by (auto simp: list_all_iff)
  qed simp
  have keys: "CHR ''='' \<notin> set k \<and> nl \<notin> set k" if "k \<in> set ?keys" for k
    using that assms by (auto simp: list_all_iff)
  have content: "environmentPropertiesContent props = concat (map (\<lambda>l. l @ [nl]) (map (\<lambda>k. k @ ''='' @ ?val k) ?keys))"
    by (simp add: environmentPropertiesContent_def comp_def)
  have lines: "list_all (\<lambda>l. nl \<notin> set l) (map (\<lambda>k. k @ ''='' @ ?val k) ?keys)"
    using val keys by (simp add: list_all_iff)
  have each: "read_property (k @ ''='' @ ?val k) = (k, ?val k)" if "k \<in> set ?keys" for k
    using keys [OF that] by (intro read_property_line) simp
  have rd: "read_properties (environmentPropertiesContent props) = map (\<lambda>k. (k, ?val k)) ?keys"
    unfolding read_properties_def content SplitC_unlines [OF lines] using each by (simp add: comp_def)
  moreover have "map_of (map (\<lambda>k. (k, ?val k)) ?keys) x = map_of props x" for x
  proof -
    have f: "map_of (map (\<lambda>k. (k, ?val k)) ?keys) x = (if x \<in> fst ` set props then Some (?val x) else None)"
      by (simp add: map_of_map_restrict restrict_map_def)
    show ?thesis
    proof (cases "map_of props x")
      case None
      then have "x \<notin> fst ` set props" by (simp add: map_of_eq_None_iff)
      with None show ?thesis unfolding f by simp
    next
      case (Some v)
      then have "x \<in> fst ` set props" by (metis map_of_eq_None_iff option.distinct(1))
      with Some show ?thesis unfolding f by simp
    qed
  qed
  ultimately show ?thesis by (simp add: comp_def fun_eq_iff)
qed

theorem environment_properties_roundtrip_witness:
  "map_of (read_properties (environmentPropertiesContent [(''vm-version'', ''v1=2''), (''helm-chart'', [])])) ''vm-version'' =
     Some ''v1=2''"
proof -
  have "list_all (\<lambda>(k, v). CHR ''='' \<notin> set k \<and> nl \<notin> set k \<and> nl \<notin> set v) [(''vm-version'', ''v1=2''), (''helm-chart'', [])]"
    by simp
  from environment_properties_roundtrip [OF this] show ?thesis by simp
qed

end
