(* ===== verification/Concurrent_Updates.thy ===== *)
theory Concurrent_Updates
  imports Updates
begin

text \<open>
  \<open>EnsureVMAgentRemoteWriteURL\<close> run by several goroutines at once (\<open>pkg/install/vmagent.go\<close>): the mutex
  of the process, the API server that accepts an update only for the resource version it was made
  from, and other actors that change the agent at any time. Client \<open>i\<close> wants the URL \<open>want i\<close> in the
  list; its phases are the positions between its calls.
\<close>

subsection \<open>States and steps\<close>

datatype outcome = EnsuredURL | CallFailed | NothingConfigured

datatype phase =
    Waiting                                \<comment> \<open>before the mutex is taken\<close>
  | Checking                               \<comment> \<open>about to read the agent for the first time\<close>
  | Attempting nat                         \<comment> \<open>about to read it afresh, attempt \<open>n\<close> of the retries\<close>
  | Submitting nat nat "gostring list"     \<comment> \<open>about to submit the list made from the given version\<close>
  | Settling                               \<comment> \<open>waiting for the agent to become operational\<close>
  | Returned outcome                       \<comment> \<open>the mutex is released\<close>

record shared =
  sh_version :: nat
  sh_urls :: "gostring list"
  sh_mutex :: "nat option"
  sh_phase :: "nat \<Rightarrow> phase"

definition goes :: "nat \<Rightarrow> phase \<Rightarrow> shared \<Rightarrow> shared" where
  "goes i p s = s\<lparr>sh_phase := (sh_phase s)(i := p)\<rparr>"

text \<open>Returning, by \<open>return\<close> or by a failed assertion, runs the deferred unlock.\<close>

definition returns :: "nat \<Rightarrow> outcome \<Rightarrow> shared \<Rightarrow> shared" where
  "returns i out s = goes i (Returned out) (s\<lparr>sh_mutex := None\<rparr>)"

definition changes :: "gostring list \<Rightarrow> shared \<Rightarrow> shared" where
  "changes urls s = s\<lparr>sh_version := Suc (sh_version s), sh_urls := urls\<rparr>"

datatype actor = Client nat | Other

inductive ensure_step :: "(nat \<Rightarrow> gostring) \<Rightarrow> nat \<Rightarrow> shared \<Rightarrow> actor \<Rightarrow> shared \<Rightarrow> bool"
  for want :: "nat \<Rightarrow> gostring" and steps :: nat where
  acquire: "sh_phase s i = Waiting \<Longrightarrow> sh_mutex s = None \<Longrightarrow>
     ensure_step want steps s (Client i) (goes i Checking (s\<lparr>sh_mutex := Some i\<rparr>))"
| check_fails: "sh_phase s i = Checking \<Longrightarrow> ensure_step want steps s (Client i) (returns i CallFailed s)"
| check_empty: "sh_phase s i = Checking \<Longrightarrow> length (sh_urls s) = 0 \<Longrightarrow>
     ensure_step want steps s (Client i) (returns i NothingConfigured s)"
| check_found: "sh_phase s i = Checking \<Longrightarrow> length (sh_urls s) \<noteq> 0 \<Longrightarrow> want i \<in> set (sh_urls s) \<Longrightarrow>
     ensure_step want steps s (Client i) (returns i EnsuredURL s)"
| check_missing: "sh_phase s i = Checking \<Longrightarrow> length (sh_urls s) \<noteq> 0 \<Longrightarrow> want i \<notin> set (sh_urls s) \<Longrightarrow>
     ensure_step want steps s (Client i) (goes i (Attempting 0) s)"
| read_fails: "sh_phase s i = Attempting n \<Longrightarrow> ensure_step want steps s (Client i) (returns i CallFailed s)"
| read_found: "sh_phase s i = Attempting n \<Longrightarrow> snd (ensure_attempt (want i) (Inr (sh_urls s)) None) = None \<Longrightarrow>
     ensure_step want steps s (Client i) (goes i Settling s)"
| read: "sh_phase s i = Attempting n \<Longrightarrow> snd (ensure_attempt (want i) (Inr (sh_urls s)) None) = Some urls \<Longrightarrow>
     ensure_step want steps s (Client i) (goes i (Submitting n (sh_version s) urls) s)"
| accepted: "sh_phase s i = Submitting n v urls \<Longrightarrow> v = sh_version s \<Longrightarrow>
     ensure_step want steps s (Client i) (goes i Settling (changes urls s))"
| reply_lost: "sh_phase s i = Submitting n v urls \<Longrightarrow> v = sh_version s \<Longrightarrow>
     ensure_step want steps s (Client i) (returns i CallFailed (changes urls s))"
| conflict: "sh_phase s i = Submitting n v urls \<Longrightarrow> v \<noteq> sh_version s \<Longrightarrow> Suc n < steps \<Longrightarrow>
     ensure_step want steps s (Client i) (goes i (Attempting (Suc n)) s)"
| exhausted: "sh_phase s i = Submitting n v urls \<Longrightarrow> v \<noteq> sh_version s \<Longrightarrow> \<not> Suc n < steps \<Longrightarrow>
     ensure_step want steps s (Client i) (returns i CallFailed s)"
| update_fails: "sh_phase s i = Submitting n v urls \<Longrightarrow> ensure_step want steps s (Client i) (returns i CallFailed s)"
| settled: "sh_phase s i = Settling \<Longrightarrow> ensure_step want steps s (Client i) (returns i EnsuredURL s)"
| unsettled: "sh_phase s i = Settling \<Longrightarrow> ensure_step want steps s (Client i) (returns i CallFailed s)"
| other: "ensure_step want steps s Other (changes urls s)"

inductive_cases client_stepE: "ensure_step want steps s (Client i) s'"
inductive_cases other_stepE: "ensure_step want steps s Other s'"

definition start :: "nat \<Rightarrow> gostring list \<Rightarrow> shared" where
  "start v urls = \<lparr>sh_version = v, sh_urls = urls, sh_mutex = None, sh_phase = (\<lambda>_. Waiting)\<rparr>"

text \<open>
  The runs, with the actors of their steps and an assumption on the other actors: \<open>fair us us'\<close> holds of
  the lists around each of their changes.
\<close>

inductive ensure_run ::
  "(gostring list \<Rightarrow> gostring list \<Rightarrow> bool) \<Rightarrow> (nat \<Rightarrow> gostring) \<Rightarrow> nat \<Rightarrow> shared \<Rightarrow> actor list \<Rightarrow> shared \<Rightarrow> bool"
  for fair :: "gostring list \<Rightarrow> gostring list \<Rightarrow> bool" and want :: "nat \<Rightarrow> gostring" and steps :: nat and s0 :: shared where
  here: "ensure_run fair want steps s0 [] s0"
| there: "ensure_run fair want steps s0 as s \<Longrightarrow> ensure_step want steps s a s' \<Longrightarrow>
     (a = Other \<Longrightarrow> fair (sh_urls s) (sh_urls s')) \<Longrightarrow> ensure_run fair want steps s0 (as @ [a]) s'"

definition only_adds :: "gostring list \<Rightarrow> gostring list \<Rightarrow> bool" where
  "only_adds us us' \<longleftrightarrow> set us \<subseteq> set us' \<and> (distinct us \<longrightarrow> distinct us')"

lemma shared_updates [simp]:
  "sh_urls (goes i p s) = sh_urls s" "sh_version (goes i p s) = sh_version s" "sh_mutex (goes i p s) = sh_mutex s"
  "sh_phase (goes i p s) = (sh_phase s)(i := p)"
  "sh_urls (returns i out s) = sh_urls s" "sh_version (returns i out s) = sh_version s" "sh_mutex (returns i out s) = None"
  "sh_phase (returns i out s) = (sh_phase s)(i := Returned out)"
  "sh_urls (changes us s) = us" "sh_version (changes us s) = Suc (sh_version s)" "sh_mutex (changes us s) = sh_mutex s"
  "sh_phase (changes us s) = sh_phase s"
  by (simp_all add: goes_def returns_def changes_def)

subsection \<open>The invariant\<close>

text \<open>
  The mutex is held by the one client between its calls. A list about to be submitted is the list of
  its version with the wanted URL added, and versions never repeat.
\<close>

fun busy :: "phase \<Rightarrow> bool" where
  "busy Waiting = False"
| "busy (Returned _) = False"
| "busy _ = True"

definition fresh_submission :: "gostring \<Rightarrow> shared \<Rightarrow> phase \<Rightarrow> bool" where
  "fresh_submission url s p \<longleftrightarrow>
     (case p of Submitting n v urls \<Rightarrow> v \<le> sh_version s \<and>
        (v = sh_version s \<longrightarrow> url \<notin> set (sh_urls s) \<and> urls = sh_urls s @ [url])
      | _ \<Rightarrow> True)"

definition ensure_inv :: "(nat \<Rightarrow> gostring) \<Rightarrow> shared \<Rightarrow> bool" where
  "ensure_inv want s \<longleftrightarrow> (\<forall>i. busy (sh_phase s i) \<longleftrightarrow> sh_mutex s = Some i) \<and>
     (\<forall>i. fresh_submission (want i) s (sh_phase s i))"

lemma ensure_inv_start: "ensure_inv want (start v urls)"
  by (simp add: ensure_inv_def start_def fresh_submission_def)

lemma submitted_list:
  "snd (ensure_attempt url (Inr urls) answer) = Some urls' \<longleftrightarrow> url \<notin> set urls \<and> urls' = urls @ [url]"
  "snd (ensure_attempt url (Inr urls) answer) = None \<longleftrightarrow> url \<in> set urls"
  by (auto simp: ensure_attempt_def)

lemma stale_submission:
  "fresh_submission url s p \<Longrightarrow> fresh_submission url (changes us s) p"
  by (cases p) (auto simp: fresh_submission_def)

lemma fresh_submission_frame [simp]:
  "fresh_submission url (goes i q s) p \<longleftrightarrow> fresh_submission url s p"
  "fresh_submission url (returns i out s) p \<longleftrightarrow> fresh_submission url s p"
  "fresh_submission url (s\<lparr>sh_mutex := m\<rparr>) p \<longleftrightarrow> fresh_submission url s p"
  by (cases p; simp add: fresh_submission_def)+

lemma fresh_submission_simps [simp]:
  "fresh_submission url s Waiting" "fresh_submission url s Checking" "fresh_submission url s (Attempting n)"
  "fresh_submission url s Settling" "fresh_submission url s (Returned out)"
  by (simp_all add: fresh_submission_def)

lemma inv_holder: "ensure_inv want s \<Longrightarrow> busy (sh_phase s i) \<longleftrightarrow> sh_mutex s = Some i"
  by (simp add: ensure_inv_def)

lemma inv_acquire:
  "ensure_inv want s \<Longrightarrow> sh_mutex s = None \<Longrightarrow> ensure_inv want (goes i Checking (s\<lparr>sh_mutex := Some i\<rparr>))"
  by (auto simp: ensure_inv_def)

lemma inv_goes:
  "ensure_inv want s \<Longrightarrow> sh_mutex s = Some i \<Longrightarrow> busy p \<Longrightarrow> fresh_submission (want i) s p \<Longrightarrow>
   ensure_inv want (goes i p s)"
  by (simp add: ensure_inv_def)

lemma inv_returns: "ensure_inv want s \<Longrightarrow> sh_mutex s = Some i \<Longrightarrow> ensure_inv want (returns i out s)"
  by (auto simp: ensure_inv_def)

lemma inv_changes: "ensure_inv want s \<Longrightarrow> ensure_inv want (changes us s)"
  by (simp add: ensure_inv_def stale_submission)

lemma ensure_inv_step:
  assumes "ensure_step want steps s a s'" and inv: "ensure_inv want s"
  shows "ensure_inv want s'"
  using assms(1)
proof cases
  case acquire then show ?thesis using inv by (simp add: inv_acquire)
next
  case (read i n urls)
  then show ?thesis using inv inv_holder [OF inv, of i]
    by (auto intro!: inv_goes simp: fresh_submission_def submitted_list)
qed (use inv inv_holder [OF inv] in \<open>auto intro!: inv_goes inv_returns inv_changes intro: inv_holder [THEN iffD1]\<close>)

lemma ensure_inv_run: "ensure_run fair want steps s0 as s \<Longrightarrow> ensure_inv want s0 \<Longrightarrow> ensure_inv want s"
  by (induction rule: ensure_run.induct) (auto intro: ensure_inv_step)

subsection \<open>Adding is atomic\<close>

lemma client_step_adds_or_keeps:
  assumes "ensure_step want steps s (Client i) s'" "ensure_inv want s"
  shows "sh_urls s' = sh_urls s \<or> want i \<notin> set (sh_urls s) \<and> sh_urls s' = sh_urls s @ [want i]"
proof -
  have "fresh_submission (want i) s (sh_phase s i)"
    using assms(2) by (simp add: ensure_inv_def)
  then show ?thesis
    using assms(1) by (auto elim!: client_stepE simp: fresh_submission_def)
qed

lemma client_step_others:
  "ensure_step want steps s (Client i) s' \<Longrightarrow> j \<noteq> i \<Longrightarrow> sh_phase s' j = sh_phase s j"
  by (auto elim!: client_stepE)

lemma other_step_phases: "ensure_step want steps s Other s' \<Longrightarrow> sh_phase s' = sh_phase s"
  by (auto elim!: other_stepE)

text \<open>A client that waits for the agent, or has returned successfully, has its URL in the list.\<close>

definition assured :: "(nat \<Rightarrow> gostring) \<Rightarrow> shared \<Rightarrow> bool" where
  "assured want s \<longleftrightarrow>
     (\<forall>i. sh_phase s i = Settling \<or> sh_phase s i = Returned EnsuredURL \<longrightarrow> want i \<in> set (sh_urls s))"

lemma client_step_assured:
  assumes "ensure_step want steps s (Client i) s'" "ensure_inv want s"
    and "sh_phase s i = Settling \<or> sh_phase s i = Returned EnsuredURL \<Longrightarrow> want i \<in> set (sh_urls s)"
    and "sh_phase s' i = Settling \<or> sh_phase s' i = Returned EnsuredURL"
  shows "want i \<in> set (sh_urls s')"
proof -
  have "fresh_submission (want i) s (sh_phase s i)"
    using assms(2) by (simp add: ensure_inv_def)
  then show ?thesis
    using assms(1,3,4) by (auto elim!: client_stepE simp: fresh_submission_def submitted_list)
qed

lemma assured_step:
  assumes step: "ensure_step want steps s a s'" and inv: "ensure_inv want s" and was: "assured want s"
    and others: "a = Other \<Longrightarrow> only_adds (sh_urls s) (sh_urls s')"
  shows "assured want s' \<and> only_adds (sh_urls s) (sh_urls s')"
proof (cases a)
  case Other
  then show ?thesis
    using step was others other_step_phases [of want steps s s'] by (auto simp: assured_def only_adds_def)
next
  case (Client i)
  have kept: "only_adds (sh_urls s) (sh_urls s')"
    using client_step_adds_or_keeps [OF step [unfolded Client] inv] by (auto simp: only_adds_def)
  have "want j \<in> set (sh_urls s')" if "sh_phase s' j = Settling \<or> sh_phase s' j = Returned EnsuredURL" for j
  proof (cases "j = i")
    case True
    then show ?thesis
      using client_step_assured [OF step [unfolded Client] inv] was that by (auto simp: assured_def)
  next
    case False
    then have "want j \<in> set (sh_urls s)"
      using client_step_others [OF step [unfolded Client]] that was by (auto simp: assured_def)
    then show ?thesis using kept by (auto simp: only_adds_def)
  qed
  then show ?thesis using kept by (simp add: assured_def)
qed

lemma assured_run:
  assumes "ensure_run only_adds want steps (start v urls) as s"
  shows "assured want s \<and> only_adds urls (sh_urls s)"
  using assms
proof (induction rule: ensure_run.induct)
  case here
  then show ?case by (simp add: assured_def start_def only_adds_def)
next
  case (there as s a s')
  then show ?case
    using assured_step [of want steps s a s'] ensure_inv_run [OF there(1) ensure_inv_start]
    by (auto simp: only_adds_def)
qed

subsection \<open>Termination\<close>

fun patience :: "nat \<Rightarrow> phase \<Rightarrow> nat" where
  "patience steps Waiting = 2 * steps + 5"
| "patience steps Checking = 2 * steps + 4"
| "patience steps (Attempting n) = 2 * (steps - n) + 3"
| "patience steps (Submitting n v urls) = 2 * (steps - n) + 2"
| "patience steps Settling = 1"
| "patience steps (Returned out) = 0"

lemma patience_decreases:
  "ensure_step want steps s (Client i) s' \<Longrightarrow> patience steps (sh_phase s' i) < patience steps (sh_phase s i)"
  by (auto elim!: client_stepE)

lemma patience_run:
  "ensure_run fair want steps s0 as s \<Longrightarrow>
   count_list as (Client i) + patience steps (sh_phase s i) \<le> patience steps (sh_phase s0 i)"
proof (induction rule: ensure_run.induct)
  case here
  then show ?case by simp
next
  case (there as s a s')
  show ?case
  proof (cases a)
    case Other
    then show ?thesis using there other_step_phases [of want steps s s'] by simp
  next
    case (Client j)
    then show ?thesis
      using there patience_decreases [of want steps s j s'] client_step_others [of want steps s j s' i]
      by (cases "j = i") auto
  qed
qed

lemma busy_client_steps:
  "busy (sh_phase s i) \<Longrightarrow> \<exists>s'. ensure_step want steps s (Client i) s'"
  by (cases "sh_phase s i") (auto intro: check_fails read_fails update_fails unsettled)

lemma some_client_steps:
  assumes "ensure_inv want s" "\<And>out. sh_phase s i \<noteq> Returned out"
  shows "\<exists>j s'. ensure_step want steps s (Client j) s'"
proof (cases "sh_mutex s")
  case None
  then have "sh_phase s i = Waiting"
    using inv_holder [OF assms(1), of i] assms(2) by (cases "sh_phase s i") auto
  then show ?thesis using None acquire by blast
next
  case (Some j)
  then show ?thesis
    using inv_holder [OF assms(1), of j] busy_client_steps by blast
qed

subsection \<open>Properties\<close>

text \<open>
  C5: Each step of a client, whatever the other clients and actors do, refines the atomic operation
  "add the URL if it is missing": it leaves the list as it is, or appends the client's own URL to the
  list of that moment, which does not contain it. No update overwrites a change it has not seen.
\<close>

theorem ensure_step_refines_atomic_add:
  assumes "ensure_run fair want steps (start v urls) as s" "ensure_step want steps s (Client i) s'"
  shows "sh_urls s' = sh_urls s \<or> want i \<notin> set (sh_urls s) \<and> sh_urls s' = sh_urls s @ [want i]"
  using client_step_adds_or_keeps [OF assms(2) ensure_inv_run [OF assms(1) ensure_inv_start]] .

text \<open>
  The run of the witnesses: the client finds its URL missing and reads the agent, another actor adds a
  URL, the submission conflicts and the second attempt reads the longer list.
\<close>

definition demo_start :: shared where "demo_start = start 0 [''a'']"
definition demo_changed :: shared where
  "demo_changed = changes [''a'', ''c''] (goes 0 (Submitting 0 0 [''a'', ''b'']) (goes 0 (Attempting 0)
     (goes 0 Checking (demo_start\<lparr>sh_mutex := Some 0\<rparr>))))"
definition demo_ready :: shared where
  "demo_ready = goes 0 (Submitting 1 1 [''a'', ''c'', ''b'']) (goes 0 (Attempting 1) demo_changed)"
definition demo_added :: shared where
  "demo_added = goes 0 Settling (changes [''a'', ''c'', ''b''] demo_ready)"

lemma demo_ensure_run:
  "ensure_run only_adds (\<lambda>_. ''b'') 5 demo_start
     [Client 0, Client 0, Client 0, Other, Client 0, Client 0] demo_ready"
proof -
  let ?run = "ensure_run only_adds (\<lambda>_. ''b'') 5 demo_start" and ?step = "ensure_step (\<lambda>_. ''b'') 5"
  let ?s1 = "goes 0 Checking (demo_start\<lparr>sh_mutex := Some 0\<rparr>)"
  let ?s2 = "goes 0 (Attempting 0) ?s1"
  let ?s3 = "goes 0 (Submitting 0 0 [''a'', ''b'']) ?s2"
  let ?s5 = "goes 0 (Attempting 1) demo_changed"
  have u: "sh_urls demo_start = [''a'']" "sh_version demo_start = 0" "sh_mutex demo_start = None"
    "sh_phase demo_start = (\<lambda>_. Waiting)"
    by (simp_all add: demo_start_def start_def)
  have s1: "?step demo_start (Client 0) ?s1" by (rule acquire) (simp_all add: u)
  have s2: "?step ?s1 (Client 0) ?s2" by (rule check_missing) (simp_all add: u)
  have s3: "?step ?s2 (Client 0) ?s3"
    using read [of ?s2 0 0 "\<lambda>_. ''b''" "[''a'', ''b'']" 5] by (simp add: u submitted_list)
  have s4: "?step ?s3 Other demo_changed" unfolding demo_changed_def by (rule other)
  have s5: "?step demo_changed (Client 0) ?s5"
    using conflict [of demo_changed 0 0 0 "[''a'', ''b'']" 5] by (simp add: demo_changed_def u)
  have s6: "?step ?s5 (Client 0) demo_ready"
    using read [of ?s5 0 1 "\<lambda>_. ''b''" "[''a'', ''c'', ''b'']" 5]
    by (simp add: demo_ready_def demo_changed_def u submitted_list)
  have "?run ([] @ [Client 0]) ?s1" by (rule there [OF here s1]) simp
  from there [OF this s2] have "?run (([] @ [Client 0]) @ [Client 0]) ?s2" by simp
  from there [OF this s3] have "?run ((([] @ [Client 0]) @ [Client 0]) @ [Client 0]) ?s3" by simp
  from there [OF this s4] have "?run (((([] @ [Client 0]) @ [Client 0]) @ [Client 0]) @ [Other]) demo_changed"
    by (simp add: only_adds_def demo_changed_def u)
  from there [OF this s5] have "?run ((((([] @ [Client 0]) @ [Client 0]) @ [Client 0]) @ [Other]) @ [Client 0]) ?s5"
    by simp
  from there [OF this s6] show ?thesis by simp
qed

lemma demo_submit: "ensure_step (\<lambda>_. ''b'') 5 demo_ready (Client 0) demo_added"
  using accepted [of demo_ready 0 1 1 "[''a'', ''c'', ''b'']" "\<lambda>_. ''b''" 5]
  by (simp add: demo_ready_def demo_added_def demo_changed_def demo_start_def start_def)

theorem ensure_step_refines_atomic_add_witness:
  "sh_urls demo_ready = [''a'', ''c''] \<and> sh_urls demo_added = sh_urls demo_ready @ [''b'']"
  using ensure_step_refines_atomic_add [OF demo_ensure_run [unfolded demo_start_def] demo_submit]
  by (simp add: demo_ready_def demo_added_def demo_changed_def)

text \<open>
  C6: While the other actors only add URLs, the concurrent calls keep every URL of the list, never put
  one in twice, and each call that has returned successfully, by finding its URL or by adding it, has
  its URL in the list from then on.
\<close>

theorem ensured_urls_stay:
  assumes "ensure_run only_adds want steps (start v urls) as s"
  shows "set urls \<subseteq> set (sh_urls s) \<and> (distinct urls \<longrightarrow> distinct (sh_urls s)) \<and>
    (\<forall>i. sh_phase s i = Returned EnsuredURL \<longrightarrow> want i \<in> set (sh_urls s))"
  using assured_run [OF assms] by (auto simp: assured_def only_adds_def)

theorem ensured_urls_stay_witness:
  "\<exists>as s. ensure_run only_adds (\<lambda>_. ''b'') 5 (start 0 [''a'']) as s \<and> sh_phase s 0 = Returned EnsuredURL \<and>
     ''b'' \<in> set (sh_urls s) \<and> distinct (sh_urls s)"
proof -
  let ?s = "returns 0 EnsuredURL demo_added"
  have "ensure_step (\<lambda>_. ''b'') 5 demo_added (Client 0) ?s" by (rule settled) (simp add: demo_added_def)
  from there [OF there [OF demo_ensure_run demo_submit] this] obtain as
    where run: "ensure_run only_adds (\<lambda>_. ''b'') 5 (start 0 [''a'']) as ?s" by (auto simp: demo_start_def)
  note stay = ensured_urls_stay [OF run]
  then have "sh_phase ?s 0 = Returned EnsuredURL \<longrightarrow> ''b'' \<in> set (sh_urls ?s)" by blast
  then have "''b'' \<in> set (sh_urls ?s)" by simp
  moreover have "distinct (sh_urls ?s)" using stay by simp
  ultimately show ?thesis using run by (intro exI [of _ as] exI [of _ ?s]) simp
qed

text \<open>
  C13: The calls end: each client makes at most \<open>2 * steps + 5\<close> steps, however often its submissions
  conflict, and as long as a client has not returned some client can make its next step - the mutex is
  never left locked by a client that has returned.
\<close>

theorem ensure_calls_end:
  assumes "ensure_run fair want steps (start v urls) as s"
  shows "count_list as (Client i) \<le> 2 * steps + 5 \<and>
    ((\<exists>out. sh_phase s i = Returned out) \<or> (\<exists>j s'. ensure_step want steps s (Client j) s'))"
proof -
  have "count_list as (Client i) \<le> 2 * steps + 5"
    using patience_run [OF assms, of i] by (simp add: start_def)
  then show ?thesis
    using some_client_steps [OF ensure_inv_run [OF assms ensure_inv_start], of i] by blast
qed

theorem ensure_calls_end_witness:
  "count_list [Client 0, Client 0, Client 0, Other, Client 0, Client 0] (Client 0) \<le> 15"
  using ensure_calls_end [OF demo_ensure_run [unfolded demo_start_def], of 0] by simp

end
