(* ===== verification/Concurrent_Specs.thy ===== *)
theory Concurrent_Specs
  imports Updates
begin

text \<open>
  \<open>updateVMClusterSpec\<close> (\<open>pkg/install/vmcluster.go\<close>) run by several goroutines and beside other actors, without
  a mutex: client \<open>i\<close> applies \<open>mutate i\<close> to the spec. A step is labelled with the write it makes, if any, so
  that a run can be replayed on an abstract machine on which every update is atomic.
\<close>

subsection \<open>States and steps\<close>

text \<open>\<open>Contended\<close>: all attempts ended in conflicts; \<open>Interrupted\<close>: the context ended, and the call returns silently.\<close>

datatype update_end = Updated | Contended | UpdateFailed | Interrupted

datatype 's update_phase =
    Starting
  | Fetching nat            \<comment> \<open>attempt \<open>n\<close> of the retries begins\<close>
  | Sending nat nat 's      \<comment> \<open>about to submit the spec made from the given version\<close>
  | Over update_end

record 's specs =
  sp_version :: nat
  sp_spec :: 's
  sp_phase :: "nat \<Rightarrow> 's update_phase"

datatype 's act = Quiet nat | Wrote nat | Foreign 's

definition turns :: "nat \<Rightarrow> 's update_phase \<Rightarrow> 's specs \<Rightarrow> 's specs" where
  "turns i p s = s\<lparr>sp_phase := (sp_phase s)(i := p)\<rparr>"

definition writes :: "'s \<Rightarrow> 's specs \<Rightarrow> 's specs" where
  "writes x s = s\<lparr>sp_version := Suc (sp_version s), sp_spec := x\<rparr>"

inductive update_step :: "(nat \<Rightarrow> 's \<Rightarrow> 's) \<Rightarrow> nat \<Rightarrow> 's specs \<Rightarrow> 's act \<Rightarrow> 's specs \<Rightarrow> bool"
  for mutate :: "nat \<Rightarrow> 's \<Rightarrow> 's" and steps :: nat where
  begin_ended: "sp_phase s i = Starting \<Longrightarrow> update_step mutate steps s (Quiet i) (turns i (Over Interrupted) s)"
| begin_live: "sp_phase s i = Starting \<Longrightarrow> update_step mutate steps s (Quiet i) (turns i (Fetching 0) s)"
| attempt_ended: "sp_phase s i = Fetching n \<Longrightarrow> update_step mutate steps s (Quiet i) (turns i (Over Interrupted) s)"
| fetch_fails: "sp_phase s i = Fetching n \<Longrightarrow> update_step mutate steps s (Quiet i) (turns i (Over UpdateFailed) s)"
| fetched: "sp_phase s i = Fetching n \<Longrightarrow>
    update_step mutate steps s (Quiet i) (turns i (Sending n (sp_version s) (mutate i (sp_spec s))) s)"
| send_fails: "sp_phase s i = Sending n v x \<Longrightarrow> e = UpdateFailed \<or> e = Interrupted \<Longrightarrow>
    update_step mutate steps s (Quiet i) (turns i (Over e) s)"
| accepted: "sp_phase s i = Sending n v x \<Longrightarrow> v = sp_version s \<Longrightarrow>
    update_step mutate steps s (Wrote i) (turns i (Over Updated) (writes x s))"
| reply_lost: "sp_phase s i = Sending n v x \<Longrightarrow> v = sp_version s \<Longrightarrow> e = UpdateFailed \<or> e = Interrupted \<Longrightarrow>
    update_step mutate steps s (Wrote i) (turns i (Over e) (writes x s))"
| conflict: "sp_phase s i = Sending n v x \<Longrightarrow> v \<noteq> sp_version s \<Longrightarrow> Suc n < steps \<Longrightarrow>
    update_step mutate steps s (Quiet i) (turns i (Fetching (Suc n)) s)"
| exhausted: "sp_phase s i = Sending n v x \<Longrightarrow> v \<noteq> sp_version s \<Longrightarrow> \<not> Suc n < steps \<Longrightarrow>
    e = Contended \<or> e = Interrupted \<Longrightarrow> update_step mutate steps s (Quiet i) (turns i (Over e) s)"
| foreign: "update_step mutate steps s (Foreign x) (writes x s)"


inductive update_run :: "(nat \<Rightarrow> 's \<Rightarrow> 's) \<Rightarrow> nat \<Rightarrow> 's specs \<Rightarrow> 's act list \<Rightarrow> 's specs \<Rightarrow> bool"
  for mutate :: "nat \<Rightarrow> 's \<Rightarrow> 's" and steps :: nat and s0 :: "'s specs" where
  begun: "update_run mutate steps s0 [] s0"
| goes_on: "update_run mutate steps s0 as s \<Longrightarrow> update_step mutate steps s a s' \<Longrightarrow> update_run mutate steps s0 (as @ [a]) s'"

definition fresh_specs :: "nat \<Rightarrow> 's \<Rightarrow> 's specs" where
  "fresh_specs v x = \<lparr>sp_version = v, sp_spec = x, sp_phase = (\<lambda>_. Starting)\<rparr>"

lemma specs_updates [simp]:
  "sp_version (turns i p s) = sp_version s" "sp_spec (turns i p s) = sp_spec s" "sp_phase (turns i p s) = (sp_phase s)(i := p)"
  "sp_version (writes x s) = Suc (sp_version s)" "sp_spec (writes x s) = x" "sp_phase (writes x s) = sp_phase s"
  by (simp_all add: turns_def writes_def)

subsection \<open>The abstract machine\<close>

text \<open>Each write applies its client's mutation to the spec of that moment, atomically.\<close>

fun abstract_step :: "(nat \<Rightarrow> 's \<Rightarrow> 's) \<Rightarrow> 's act \<Rightarrow> 's \<Rightarrow> 's" where
  "abstract_step mutate (Quiet i) x = x"
| "abstract_step mutate (Wrote i) x = mutate i x"
| "abstract_step mutate (Foreign y) x = y"

definition replay :: "(nat \<Rightarrow> 's \<Rightarrow> 's) \<Rightarrow> 's act list \<Rightarrow> 's \<Rightarrow> 's" where
  "replay mutate as x = fold (abstract_step mutate) as x"

fun others_write :: "nat \<Rightarrow> 's act \<Rightarrow> bool" where
  "others_write i (Quiet j) \<longleftrightarrow> False"
| "others_write i (Wrote j) \<longleftrightarrow> j \<noteq> i"
| "others_write i (Foreign x) \<longleftrightarrow> True"

definition interference :: "nat \<Rightarrow> 's act list \<Rightarrow> nat" where
  "interference i as = length (filter (others_write i) as)"

subsection \<open>The invariant\<close>

text \<open>
  What a client is about to submit is its mutation of the current spec, unless its version is old; each
  of its conflicts, past or pending, was caused by a write of another actor; it writes once, at its end.
\<close>

fun phase_ok :: "(nat \<Rightarrow> 's \<Rightarrow> 's) \<Rightarrow> nat \<Rightarrow> nat \<Rightarrow> 's act list \<Rightarrow> nat \<Rightarrow> 's \<Rightarrow> 's update_phase \<Rightarrow> bool" where
  "phase_ok mutate steps i as ver cur Starting \<longleftrightarrow> Wrote i \<notin> set as"
| "phase_ok mutate steps i as ver cur (Fetching n) \<longleftrightarrow> Wrote i \<notin> set as \<and> n \<le> interference i as"
| "phase_ok mutate steps i as ver cur (Sending n v x) \<longleftrightarrow> Wrote i \<notin> set as \<and> v \<le> ver \<and>
     n + (ver - v) \<le> interference i as \<and> (v = ver \<longrightarrow> x = mutate i cur)"
| "phase_ok mutate steps i as ver cur (Over e) \<longleftrightarrow> count_list as (Wrote i) \<le> 1 \<and>
     (e = Updated \<longrightarrow> count_list as (Wrote i) = 1) \<and>
     (e = Contended \<longrightarrow> Wrote i \<notin> set as \<and> steps \<le> interference i as)"

definition update_inv :: "(nat \<Rightarrow> 's \<Rightarrow> 's) \<Rightarrow> nat \<Rightarrow> 's act list \<Rightarrow> 's specs \<Rightarrow> bool" where
  "update_inv mutate steps as s \<longleftrightarrow> (\<forall>i. phase_ok mutate steps i as (sp_version s) (sp_spec s) (sp_phase s i))"

lemma interference_snoc [simp]:
  "interference i [] = 0" "interference i (as @ [a]) = interference i as + (if others_write i a then 1 else 0)"
  by (simp_all add: interference_def)

text \<open>A step of another actor, quiet or a write, keeps what is known of a client.\<close>

lemma phase_ok_quiet: "phase_ok mutate steps i as ver cur p \<Longrightarrow> phase_ok mutate steps i (as @ [Quiet j]) ver cur p"
  by (cases p) auto

lemma phase_ok_other_write:
  "phase_ok mutate steps i as ver cur p \<Longrightarrow> others_write i a \<Longrightarrow> phase_ok mutate steps i (as @ [a]) (Suc ver) cur' p"
  by (cases p; cases a) (auto simp: le_diff_conv Suc_diff_le)

lemma update_inv_step:
  assumes "update_step mutate steps s a s'" and inv: "update_inv mutate steps as s"
  shows "update_inv mutate steps (as @ [a]) s'"
proof -
  have ok: "phase_ok mutate steps j as (sp_version s) (sp_spec s) (sp_phase s j)" for j
    using inv by (simp add: update_inv_def)
  have others: "phase_ok mutate steps j (as @ [Quiet i]) (sp_version s) (sp_spec s) (sp_phase s j)" for i j
    by (rule phase_ok_quiet [OF ok])
  have written: "phase_ok mutate steps j (as @ [a]) (Suc (sp_version s)) x (sp_phase s j)" if "others_write j a" for j x
    by (rule phase_ok_other_write [OF ok that])
  show ?thesis
    unfolding update_inv_def
  proof
    fix j
    show "phase_ok mutate steps j (as @ [a]) (sp_version s') (sp_spec s') (sp_phase s' j)"
      using assms(1)
    proof cases
      case (conflict i n v x)
      then show ?thesis using others [of j i] ok [of i] by (cases "j = i") auto
    next
      case (exhausted i n v x e)
      then show ?thesis using others [of j i] ok [of i] by (cases "j = i") auto
    next
      case (accepted i n v x)
      then show ?thesis using written [of j] ok [of i] by (cases "j = i") (auto simp: count_list_0_iff)
    next
      case (reply_lost i n v x e)
      then show ?thesis using written [of j] ok [of i] by (cases "j = i") (auto simp: count_list_0_iff)
    next
      case (foreign x)
      then show ?thesis using written [of j] by simp
    qed (use others [of j] ok [of j] in \<open>auto simp: count_list_0_iff\<close>)
  qed
qed

lemma update_inv_run: "update_run mutate steps (fresh_specs v x) as s \<Longrightarrow> update_inv mutate steps as s"
proof (induction rule: update_run.induct)
  case begun
  then show ?case by (simp add: update_inv_def fresh_specs_def)
next
  case (goes_on as s a s')
  then show ?case by (blast intro: update_inv_step)
qed

lemma step_replays:
  assumes "update_step mutate steps s a s'" "update_inv mutate steps as s"
  shows "sp_spec s' = abstract_step mutate a (sp_spec s)"
  using assms(1)
proof cases
  case (accepted i n v x)
  then show ?thesis using assms(2) [unfolded update_inv_def, rule_format, of i] by simp
next
  case (reply_lost i n v x e)
  then show ?thesis using assms(2) [unfolded update_inv_def, rule_format, of i] by simp
qed simp_all

lemma run_replays: "update_run mutate steps (fresh_specs v x) as s \<Longrightarrow> sp_spec s = replay mutate as x"
proof (induction rule: update_run.induct)
  case begun
  then show ?case by (simp add: replay_def fresh_specs_def)
next
  case (goes_on as s a s')
  then show ?case using step_replays update_inv_run by (fastforce simp: replay_def)
qed

subsection \<open>Properties\<close>

text \<open>
  C7: Concurrent updates of a spec are serializable and applied exactly once: whatever the interleaving,
  the spec is the result of running the writes one after the other as atomic updates; a call that
  returned with its update done has written exactly once, a call that failed at most once, and one that
  ran out of attempts not at all.
\<close>

theorem concurrent_updates_serializable:
  assumes "update_run mutate steps (fresh_specs v x) as s"
  shows "sp_spec s = replay mutate as x \<and>
    (\<forall>i. count_list as (Wrote i) \<le> 1 \<and> (sp_phase s i = Over Updated \<longrightarrow> count_list as (Wrote i) = 1) \<and>
      (sp_phase s i = Over Contended \<longrightarrow> count_list as (Wrote i) = 0))"
proof -
  have "count_list as (Wrote i) \<le> 1 \<and> (sp_phase s i = Over Updated \<longrightarrow> count_list as (Wrote i) = 1) \<and>
      (sp_phase s i = Over Contended \<longrightarrow> count_list as (Wrote i) = 0)" for i
    using update_inv_run [OF assms, unfolded update_inv_def, rule_format, of i]
    by (cases "sp_phase s i") (auto simp: count_list_0_iff)
  then show ?thesis using run_replays [OF assms] by blast
qed

text \<open>
  C14: An update gives up only under real contention: before a call fails because all its attempts ended
  in conflicts, other actors have written the resource at least once for every attempt, five times with
  the policy of the code.
\<close>

theorem gives_up_only_under_contention:
  assumes "update_run mutate steps (fresh_specs v x) as s" and "sp_phase s i = Over Contended"
  shows "steps \<le> interference i as"
  using update_inv_run [OF assms(1), unfolded update_inv_def, rule_format, of i] assms(2) by simp

text \<open>
  The run of the witnesses: client 0 adds one to the spec, client 1 doubles it. Both read 3, client 0 is
  first, client 1 conflicts; with two attempts it reads 4 and writes 8, with one it gives up.
\<close>

definition demo_mutate :: "nat \<Rightarrow> nat \<Rightarrow> nat" where
  "demo_mutate i x = (if i = 0 then x + 1 else 2 * x)"

definition both_read :: "nat specs" where
  "both_read = turns 0 (Sending 0 0 4) (turns 0 (Fetching 0) (turns 1 (Sending 0 0 6) (turns 1 (Fetching 0) (fresh_specs 0 3))))"
definition first_wrote :: "nat specs" where "first_wrote = turns 0 (Over Updated) (writes 4 both_read)"

lemma both_run: "update_run demo_mutate steps (fresh_specs 0 3) ([] @ [Quiet 1] @ [Quiet 1] @ [Quiet 0] @ [Quiet 0] @ [Wrote 0]) first_wrote"
proof -
  let ?s0 = "fresh_specs 0 3 :: nat specs"
  let ?s1 = "turns 1 (Fetching 0) ?s0"
  let ?s2 = "turns 1 (Sending 0 0 6) ?s1"
  let ?s3 = "turns 0 (Fetching 0) ?s2"
  have 1: "update_step demo_mutate steps ?s0 (Quiet 1) ?s1" by (rule begin_live) (simp add: fresh_specs_def)
  have 2: "update_step demo_mutate steps ?s1 (Quiet 1) ?s2"
    using fetched [of ?s1 1 0 demo_mutate steps] by (simp add: fresh_specs_def demo_mutate_def)
  have 3: "update_step demo_mutate steps ?s2 (Quiet 0) ?s3" by (rule begin_live) (simp add: fresh_specs_def)
  have 4: "update_step demo_mutate steps ?s3 (Quiet 0) both_read"
    using fetched [of ?s3 0 0 demo_mutate steps] by (simp add: fresh_specs_def demo_mutate_def both_read_def)
  have 5: "update_step demo_mutate steps both_read (Wrote 0) first_wrote"
    unfolding first_wrote_def by (rule accepted) (simp_all add: both_read_def fresh_specs_def)
  from goes_on [OF goes_on [OF goes_on [OF goes_on [OF goes_on [OF begun 1] 2] 3] 4] 5] show ?thesis by simp
qed

theorem concurrent_updates_serializable_witness:
  "\<exists>s. update_run demo_mutate 2 (fresh_specs 0 3)
      [Quiet 1, Quiet 1, Quiet 0, Quiet 0, Wrote 0, Quiet 1, Quiet 1, Wrote 1] s \<and> sp_spec s = 8"
proof -
  let ?s6 = "turns 1 (Fetching 1) first_wrote"
  let ?s7 = "turns 1 (Sending 1 1 8) ?s6"
  let ?s8 = "turns 1 (Over Updated) (writes 8 ?s7)"
  have 6: "update_step demo_mutate 2 first_wrote (Quiet 1) ?s6"
    using conflict [of first_wrote 1 0 0 6 2 demo_mutate] by (simp add: first_wrote_def both_read_def fresh_specs_def)
  have 7: "update_step demo_mutate 2 ?s6 (Quiet 1) ?s7"
    using fetched [of ?s6 1 1 demo_mutate 2] by (simp add: first_wrote_def both_read_def fresh_specs_def demo_mutate_def)
  have 8: "update_step demo_mutate 2 ?s7 (Wrote 1) ?s8"
    by (rule accepted) (simp_all add: first_wrote_def both_read_def fresh_specs_def)
  from goes_on [OF goes_on [OF goes_on [OF both_run 6] 7] 8] have run: "update_run demo_mutate 2 (fresh_specs 0 3)
      [Quiet 1, Quiet 1, Quiet 0, Quiet 0, Wrote 0, Quiet 1, Quiet 1, Wrote 1] ?s8" by simp
  from concurrent_updates_serializable [OF run] have "sp_spec ?s8 = 8" by (simp add: replay_def demo_mutate_def)
  with run show ?thesis by blast
qed

theorem gives_up_only_under_contention_witness:
  "\<exists>s. update_run demo_mutate 1 (fresh_specs 0 3) [Quiet 1, Quiet 1, Quiet 0, Quiet 0, Wrote 0, Quiet 1] s \<and>
     sp_phase s 1 = Over Contended \<and> 1 \<le> interference 1 [Quiet 1, Quiet 1, Quiet 0, Quiet 0, Wrote 0, Quiet 1 :: nat act]"
proof -
  let ?s6 = "turns 1 (Over Contended) first_wrote"
  have 6: "update_step demo_mutate 1 first_wrote (Quiet 1) ?s6"
    by (rule exhausted [of _ _ 0 0 6]) (simp_all add: first_wrote_def both_read_def fresh_specs_def)
  from goes_on [OF both_run 6] have run: "update_run demo_mutate 1 (fresh_specs 0 3)
      [Quiet 1, Quiet 1, Quiet 0, Quiet 0, Wrote 0, Quiet 1] ?s6" by simp
  have "sp_phase ?s6 1 = Over Contended" by simp
  with gives_up_only_under_contention [OF run this] run show ?thesis by blast
qed

end
