(* ===== verification/Bootstrap.thy ===== *)
theory Bootstrap
  imports Suite
begin

text \<open>
  The first bootstrap stage across components (\<open>InstallVMStackAndGather\<close> of \<open>pkg/tests/bootstrap.go\<close> with
  the Helm installers of \<open>pkg/install/helm.go\<close>): the calls of a successful installation of the stack and
  the logs database, whatever the goroutine of the gathering service does in between.
\<close>

text \<open>Reading the trace of a successful program one call after the other.\<close>

lemma chain_musts:
  "chain (run_musts cs) f w = (Inr y, w') \<Longrightarrow> \<exists>w1. f () w1 = (Inr y, w') \<and> w_trace w1 = w_trace w @ cs"
  by (auto simp: chain_Inr dest: run_musts_trace)

lemma chain_must:
  "chain (must c) f w = (Inr y, w') \<Longrightarrow> \<exists>a w1. f a w1 = (Inr y, w') \<and> w_trace w1 = w_trace w @ [c]"
  unfolding chain_Inr must_Inr by (elim exE conjE, intro exI conjI, assumption) simp

definition version_query :: "KubectlOptions \<Rightarrow> gostring \<Rightarrow> call" where
  "version_query ko rel = TryKubectl ko [''get'', ''vmsingle'', rel, ''-o'',
     ''jsonpath={.metadata.labels.app'' @ [CHR 0x5C] @ ''.kubernetes'' @ [CHR 0x5C] @ ''.io/version}'']"

lemma chain_VMVersionFromCR:
  "chain (VMVersionFromCR ko rel) f w = (Inr y, w') \<Longrightarrow>
   \<exists>v w1. f v w1 = (Inr y, w') \<and> w_trace w1 = w_trace w @ [version_query ko rel]"
  unfolding VMVersionFromCR_def version_query_def [symmetric] chain_Inr perform_Inr
  by (elim exE conjE, intro exI conjI, assumption) (auto simp: ret_Inr split: sum.splits)

definition stack_calls :: "'v semver \<Rightarrow> config \<Rightarrow> gostring \<Rightarrow> gostring \<Rightarrow> gostring \<Rightarrow> gostring \<Rightarrow> call list" where
  "stack_calls sm cfg chart vals ns rel =
     (let ko = NewKubectlOptions [] [] ns
      in [HelmUpgrade ko chart rel [] (buildVMK8StackValues sm cfg ns)
            (if LicenseFile cfg \<noteq> [] then [(''global.license.key'', LicenseFile cfg)] else []) [vals]
            (helm_upgrade_args (if isLocalChartPath chart then [] else VMK8sStackChartVersion cfg)),
          WaitDeployment ko ''vmks-victoria-metrics-operator'' Retries PollingInterval,
          GetDeployment ko ''vmks-victoria-metrics-operator'',
          WaitDeployment ko ''vmagent-vmks'' Retries PollingInterval,
          WaitDeployment ko ''vmalert-vmks'' Retries PollingInterval,
          WaitDeployment ko ''vmsingle-vmks'' Retries PollingInterval,
          WaitReady ko (ready_pods_args ''app.kubernetes.io/name=vmalertmanager'') ResourceWaitTimeout PollingInterval,
          version_query ko rel,
          ApplyFile ko (ManifestsRoot cfg @ ''/components/node-scrape.yaml'')])"

lemma InstallVMK8StackWithHelm_trace:
  assumes "InstallVMK8StackWithHelm sm labels_of cfg chart vals ns rel w = (Inr cfg', w')"
  shows "w_trace w' = w_trace w @ stack_calls sm cfg chart vals ns rel" (is "_ = _ @ ?calls")
proof -
  note w1 = chain_musts [OF assms [unfolded InstallVMK8StackWithHelm_def Let_def]]
  then show ?thesis
    by (elim exE conjE, elim chain_must [elim_format] exE conjE, elim chain_musts [elim_format] exE conjE,
        elim chain_VMVersionFromCR [elim_format] exE conjE, elim chain_musts [elim_format] exE conjE)
      (simp add: ret_Inr stack_calls_def Let_def)
qed

definition victorialogs_calls :: "config \<Rightarrow> gostring \<Rightarrow> gostring \<Rightarrow> gostring \<Rightarrow> call list" where
  "victorialogs_calls cfg ns rel col =
     (let ko = NewKubectlOptions [] [] ns
      in [HelmUpgrade ko VictoriaLogsSingleChart rel [] (vl_single_values cfg) (VLSingleLicenseFiles cfg)
            [VictoriaLogsSingleValuesFile cfg] (helm_upgrade_args (VLSingleChartVersion cfg)),
          WaitReady ko (ready_pods_args (''app.kubernetes.io/instance='' @ rel)) ResourceWaitTimeout PollingInterval,
          HelmUpgrade ko VictoriaLogsCollectorChart col [] [(''remoteWrite[0].url'', ''http://'' @ GetVLSingleSvc rel ns)] []
            [VictoriaLogsCollectorValuesFile cfg] (helm_upgrade_args (VLCollectorChartVersion cfg))])"

lemma InstallVictoriaLogs_trace:
  "InstallVictoriaLogs cfg ns rel col w = (Inr (), w') \<Longrightarrow> w_trace w' = w_trace w @ victorialogs_calls cfg ns rel col"
  unfolding InstallVictoriaLogs_def victorialogs_calls_def Let_def by (simp only: run_musts_trace)

text \<open>The versions the stack installation records are not among the settings of the logs database.\<close>

lemma victorialogs_calls_frame:
  "victorialogs_calls (SetHelmChartVersion h (SetVMVersion v (SetOperatorVersion x cfg))) = victorialogs_calls cfg"
  by (simp add: fun_eq_iff victorialogs_calls_def Let_def SetHelmChartVersion_def SetVMVersion_def
    SetOperatorVersion_def cell_Get_Set vl_single_values_def VLSingleLicenseFiles_def LicenseFile_def
    VictoriaLogsSingleValuesFile_def VictoriaLogsCollectorValuesFile_def VLSingleChartVersion_def
    VLCollectorChartVersion_def VLVersion_def ManifestsRoot_def VLHost_def VLNamespacedHost_def on_ingress_def
    IngressHost_def)

text \<open>
  The two goroutines share the configuration, to which the stack installation writes the versions it
  found. The gathering service does not read them: whenever the writes come, its calls are those for the
  configuration of the start, so that each task can be run on its own copy.
\<close>

lemma gather_ignores_recorded_versions:
  "InstallVMGather ts (SetHelmChartVersion h (SetVMVersion v (SetOperatorVersion x cfg))) = InstallVMGather ts cfg"
  by (simp add: InstallVMGather_def SetHelmChartVersion_def SetVMVersion_def SetOperatorVersion_def cell_Get_Set
    ManifestsRoot_def VMGatherHost_def IngressHost_def on_ingress_def)

text \<open>
  C11: In every interleaving of the first bootstrap stage in which the second task succeeded, its calls
  were made in this order, each after the one before had succeeded: the chart of the stack, the waits
  for the operator and then for the components it manages, the version query, the node scrape, and only
  then the logs database and, when that is ready, the collector that writes to it. The gathering
  service, installed meanwhile, takes none of them away and reorders none.
\<close>

theorem stack_before_logs:
  assumes "InstallVMStackAndGather sm labels_of ts cfg rs ys" and "rs ! 1 = Inr ()"
  shows "length rs = 2 \<and>
    subseq (stack_calls sm cfg (VMK8sStackChart cfg) (SmokeValuesFile cfg) DefaultVMNamespace DefaultReleaseName @
      victorialogs_calls cfg DefaultVMNamespace DefaultVLReleaseName DefaultVLCollectorReleaseName) ys"
proof -
  let ?tasks = "stack_and_gather_tasks sm labels_of ts cfg"
  have run: "stage_run ?tasks rs ys" using assms(1) by (simp add: InstallVMStackAndGather_def)
  have "1 < length ?tasks" by (simp add: stack_and_gather_tasks_def)
  from stage_runE [OF run this] assms(2) obtain cs where own: "own_run (?tasks ! 1) (Inr ()) cs" and sub: "subseq cs ys"
    by metis
  from own obtain w w' where w: "(?tasks ! 1) w = (Inr (), w')" and cs: "w_trace w' = w_trace w @ cs"
    by (auto simp: own_run_def)
  from w obtain cfg' w1 where
    stack: "InstallVMK8StackWithHelm sm labels_of cfg (VMK8sStackChart cfg) (SmokeValuesFile cfg)
      DefaultVMNamespace DefaultReleaseName w = (Inr cfg', w1)" and
    logs: "InstallVictoriaLogs cfg' DefaultVMNamespace DefaultVLReleaseName DefaultVLCollectorReleaseName w1 = (Inr (), w')"
    by (auto simp: stack_and_gather_tasks_def chain_Inr)
  have "victorialogs_calls cfg' = victorialogs_calls cfg"
    using stack_run_config [OF stack] victorialogs_calls_frame by auto
  then have "cs = stack_calls sm cfg (VMK8sStackChart cfg) (SmokeValuesFile cfg) DefaultVMNamespace DefaultReleaseName @
      victorialogs_calls cfg DefaultVMNamespace DefaultVLReleaseName DefaultVLCollectorReleaseName"
    using InstallVMK8StackWithHelm_trace [OF stack] InstallVictoriaLogs_trace [OF logs] cs by simp
  with sub run show ?thesis by (simp add: stage_run_def stack_and_gather_tasks_def)
qed

lemma interleaved_in_turn: "interleaved [xs, ys] (xs @ ys)"
proof (induction xs)
  case Nil
  show ?case
  proof (induction ys)
    case (Cons y ys)
    then show ?case using turn [of 1 "[[], y # ys]" y ys ys] by simp
  qed (simp add: interleaved.finished)
next
  case (Cons x xs)
  then show ?case using turn [of 0 "[x # xs, ys]" x xs "xs @ ys"] by simp
qed

lemma some_own_run: "fail_fast p \<Longrightarrow> \<exists>r cs. own_run p r cs"
  using fail_fast.steps [of p demo_world] by (cases "p demo_world") (force simp: own_run_def grows_def)

theorem stack_before_logs_witness:
  "\<exists>rs ys. InstallVMStackAndGather demo_semver (\<lambda>_. []) demo_tools demo_config rs ys \<and> rs ! 1 = Inr () \<and>
     subseq (victorialogs_calls demo_config DefaultVMNamespace DefaultVLReleaseName DefaultVLCollectorReleaseName) ys"
proof -
  let ?tasks = "stack_and_gather_tasks demo_semver (\<lambda>_. []) demo_tools demo_config"
  have "\<exists>w'. (?tasks ! 1) demo_world = (Inr (), w')"
    unfolding stack_and_gather_tasks_def InstallVMK8StackWithHelm_def VMVersionFromCR_def InstallVictoriaLogs_def
      demo_world_def Let_def
    by (simp add: ret_def must_def chain_def perform_def lift_result_def)
  then obtain w' where ok: "(?tasks ! 1) demo_world = (Inr (), w')" by blast
  then have own1: "own_run (?tasks ! 1) (Inr ()) (w_trace w')"
    unfolding own_run_def by (intro exI conjI, assumption) (simp add: demo_world_def)
  from some_own_run [OF vmgather.fail_fast_axioms] obtain r cs where
    own0: "own_run (InstallVMGather demo_tools demo_config) r cs" by blast
  have "stage_run ?tasks [r, Inr ()] (cs @ w_trace w')"
    unfolding stage_run_def using own0 own1 interleaved_in_turn
    by (intro conjI exI [of _ "[cs, w_trace w']"]) (simp_all add: stack_and_gather_tasks_def less_Suc_eq)
  then have run: "InstallVMStackAndGather demo_semver (\<lambda>_. []) demo_tools demo_config [r, Inr ()] (cs @ w_trace w')"
    by (simp add: InstallVMStackAndGather_def)
  have "subseq (victorialogs_calls demo_config DefaultVMNamespace DefaultVLReleaseName DefaultVLCollectorReleaseName)
      (cs @ w_trace w')"
    using stack_before_logs [OF run] subseq_order.trans [OF subseq_rev_drop_many] by (metis nth_Cons_Suc nth_Cons_0 One_nat_def append_Nil list_emb_appendD list_emb_append2)
  with run show ?thesis by (intro exI [of _ "[r, Inr ()]"] exI [of _ "cs @ w_trace w'"]) simp
qed

end
