(* ===== verification/Spec2Isabelle.thy ===== *)
theory Spec2Isabelle
  imports Allure_Api Allure_Calls Allure_Folder Naming Alerts K6_Run K6_Wait Overwatch ArgoCD Chaos Nfs Gather Builder_Patch
    Flags Sli Logs Mtls Spec_Hooks Reporting Concurrent_Updates Concurrent_Specs Bootstrap
begin

text \<open>
  Verification library for the VictoriaMetrics end-to-end test framework (the Go packages under
  \<open>src/pkg\<close>): the code that installs VictoriaMetrics on a Kubernetes cluster, drives load and chaos
  scenarios against it, measures it through Prometheus and Alertmanager, and reports the run to
  Allure. The Ginkgo specs under \<open>src/tests\<close> are scripts over these packages.

  \<^bold>\<open>Conventions.\<close> A Go string is a byte list (\<open>gostring\<close>). A function that can fail or panic has a
  result of type \<open>'a result\<close>, the error on the left. Durations are integers of nanoseconds. Package
  variables and the environment are the record \<open>config\<close>, passed and returned. Code outside the
  repository (the YAML and JSON-patch libraries, client-go, terratest, the Alertmanager and Prometheus
  clients, retry and backoff functions, the cryptographic and archive libraries, the text forms of
  times) is an argument of the definitions that use it; what the code relies on is a named predicate
  (\<open>backoff_contract\<close>, \<open>retries_while\<close>, \<open>follows_rfc\<close>, \<open>crypto_contract\<close>, \<dots>), and every property under
  such a hypothesis has a witness that instantiates it. Replies of the cluster and of servers are
  arbitrary functions of the history, of the attempt or of the poll. Waits are recursions over the
  list of what the polls before the deadline return, so they end by construction and a timeout is the
  value they give at the end of the list. Every loop of the model is structurally recursive or comes
  with its termination proof; no fuel is used.

  \<^bold>\<open>Foundations.\<close>
  \<^item> \<open>Prelude\<close>: the functions of \<open>strings\<close>, \<open>strconv\<close> and \<open>net/url\<close> in use, integer division, JSON values, results.
  \<^item> \<open>Retry\<close>: the interfaces of bounded and cancellable loops as locales with their contracts, and the
    contract of the libraries' retry functions. \<open>PromQuery\<close>, \<open>RemoteWrite\<close> interpret the locales.
  \<^item> \<open>Effects\<close>: programs that act on the cluster. A call is recorded in the trace of the world, whose
    answers may depend on all earlier calls. The locale \<open>fail_fast\<close> states that nothing happens after a
    failure; every installer interprets it.
  \<^item> \<open>GoTime\<close>: the printed form of durations. \<open>Temp_Files\<close>: the file system with the operations of package
    \<open>os\<close> on temporary files. \<open>Clients\<close>: the clients of the cluster and of HTTP.

  \<^bold>\<open>Configuration and names.\<close>
  \<^item> \<open>Config\<close> (\<open>pkg/consts/main.go\<close>): the cells behind setters and getters, defaults, manifest paths,
    timeouts, the license secret. The locale \<open>keyed_store\<close> is interpreted for cells and environment.
  \<^item> \<open>Flags\<close> (\<open>pkg/tests/flags.go\<close>): flags with defaults, and that every flag reaches its getter.
  \<^item> \<open>Endpoints\<close> (\<open>consts\<close>, \<open>pkg/helpers/common.go\<close>): hosts, services and URLs, and that they do not clash.
  \<^item> \<open>Naming\<close> (\<open>pkg/helpers/common.go\<close>): random names within the limits of Kubernetes, affinities that
    keep the clusters of scenarios apart.

  \<^bold>\<open>Installing\<close> (\<open>pkg/install\<close>).
  \<^item> \<open>Manifests\<close>, \<open>JsonPatch\<close>: the documents and patches, a reference semantics of JSON patch.
  \<^item> \<open>Kubectl\<close>: the logged command line, apply with retries, the temporary file behind a manifest string, CRDs.
  \<^item> \<open>Install\<close>, \<open>Install_Props\<close>: clusters, agents, single nodes, VMAuth, Kafka, ingress; their traces, that
    they stop at a failure and that the license comes before the resources that need it.
  \<^item> \<open>Updates\<close>: read-modify-write under optimistic concurrency; a URL is added once.
    \<open>Concurrent_Updates\<close>: any number of goroutines doing so at once, with the mutex of the process, as a
    step relation: its invariant, the refinement of an atomic addition, and that every call ends.
    \<open>Concurrent_Specs\<close>: concurrent updates of a cluster's spec without a mutex; that they can be replayed
    as atomic updates, each applied exactly once.
  \<^item> \<open>Waiting\<close> (with \<open>pkg/helpers/wait.go\<close>): the exact outcome of waiting for the operator.
  \<^item> \<open>Helm\<close>, \<open>Overwatch\<close>, \<open>ArgoCD\<close>, \<open>Chaos\<close>, \<open>Nfs\<close>: chart values and installations, the forwarding of
    metrics, Applications and their state, chaos scenarios and their waits, NFS volumes.
  \<^item> \<open>K6_Bundle\<close>, \<open>K6_Run\<close>, \<open>K6_Wait\<close> (\<open>k6.go\<close>): the operator bundle retargeted per namespace, the runs
    with their deferred cleanup, and the watch of a test run as a state machine (a step relation with
    its reachable states) and its deadline.

  \<^bold>\<open>Measuring.\<close>
  \<^item> \<open>PromQuery\<close>, \<open>Metrics\<close> (\<open>pkg/promquery/main.go\<close>, \<open>pkg/tests/scanned_metric.go\<close>, \<open>metric.go\<close>, \<open>k6.go\<close>,
    \<open>ingestion.go\<close>): transient errors, retried queries, the checker with its assertions.
  \<^item> \<open>Alerts\<close> (\<open>checks.go\<close>), \<open>RemoteWrite\<close> (\<open>pkg/remotewrite\<close>).
  \<^item> \<open>Sli\<close> (\<open>pkg/tests/sli.go\<close>): all dashboard queries, that each is well formed and limited to its
    namespace for every name, and that waiting and checking agree.
  \<^item> \<open>Logs\<close>, \<open>Mtls\<close> (\<open>victorialogs.go\<close>, \<open>mtls.go\<close>): the VictoriaLogs client, the certificates.

  \<^bold>\<open>Running and reporting.\<close>
  \<^item> \<open>Suite\<close>, \<open>Helpers\<close> (\<open>bootstrap.go\<close>, \<open>helpers.go\<close>, \<open>chaos_runner.go\<close>): parallel stages as interleavings of
    their tasks' calls, scenario namespaces, clients, checks and updates of a cluster. \<open>Bootstrap\<close>: the
    order of all calls of the first stage, whatever the interleaving.
  \<^item> \<open>Builders\<close>, \<open>Builder_Patch\<close> (\<open>builders.go\<close>): the builders, and that a built patch refines the
    specification of the fields it sets.
  \<^item> \<open>Gather\<close> (\<open>pkg/gather\<close>, \<open>pkg/exporter\<close>): diagnostics after a failure: the export job, the archived logs,
    the cluster's resources with the secrets file from its creation to its removal. \<open>Spec_Hooks\<close>
    (\<open>pkg/tests/helpers.go\<close>): the three together, as the specs run them, and the forwarded names.
  \<^item> \<open>Allure_Steps\<close>, \<open>Allure_Tree\<close>, \<open>Allure_Order\<close>, \<open>Allure_Text\<close>, \<open>Allure_Result\<close> (\<open>pkg/tests/allure\<close>): the
    tree of steps rebuilt from a flat list of events, attachments, statuses, results and containers.
    \<open>Allure_Calls\<close>: on the events of nested calls the loop over indices is the recursion over the calls.
    \<open>Allure_Api\<close>: recording attachments during a spec, and their way into the report. \<open>Allure_Folder\<close>: the
    results folder as a state machine over \<open>resultsPath\<close> and its \<open>sync.Once\<close>.
  \<^item> \<open>Reporting\<close> (\<open>logger.go\<close>, \<open>log.go\<close>, \<open>report.go\<close>): the log filter, polls, the environment file.

  \<^bold>\<open>Bounds.\<close> Integers that the code keeps in machine words are durations, retry counts, replica counts
  and ports, all far from their limits and never multiplied by input, so they are modelled as
  integers. \<open>TrimSpace\<close>, \<open>ToLower\<close> and \<open>Quote\<close> are modelled on ASCII. Floating-point sample values are
  exact rationals with infinities and NaN; the code only compares them.

  \<^bold>\<open>Not modelled.\<close> The contents of most log lines hold no logic of their own; the third-party
  libraries named above, kubeconfig loading and the archive writers included, are parameters, and
  external commands are calls whose outcome is arbitrary. The specs under \<open>src/tests\<close>, the Python and
  YAML of the build are not part of the library.

  This theory holds what spans components: from the command line to the report.
\<close>



end
